(* ===== verification/Prelude.thy ===== *)
theory Prelude
  imports Main "HOL-Library.Word" "HOL-Library.AList"
begin

text \<open>
  Shared vocabulary of the development.

  \<^item> Exceptions are values: a Python exception is a \<open>pyexc\<close> (its class and what
    \<^verbatim>\<open>str(exc)\<close> prints, cut short where the text quotes run-time data), a function that may raise returns \<open>pyexc + 'a\<close>.
  \<^item> A method that mutates objects and may raise is an \<open>('s, 'a) sx\<close>: the state
    reached so far survives the exception, as it does in Python.
  \<^item> Python's slices, string methods and dictionaries, as far as the sources use them.
    A Python \<^verbatim>\<open>str\<close> is its UTF-8 text; a \<^verbatim>\<open>dict\<close> is the
    association list of its items in insertion order (\<open>AList.update\<close> is item assignment,
    \<open>AList.delete\<close> is \<^verbatim>\<open>del\<close>, \<open>map_of\<close> is \<^verbatim>\<open>get\<close>).
  \<^item> The interface of the string-valued enumerations, as a locale.
\<close>

named_theorems sx_simps \<open>unfolding the state-and-exception combinators\<close>
named_theorems py_simps \<open>unfolding Python's string and slice operations\<close>

type_synonym byte = "8 word"
type_synonym bytes = "byte list"

subsection \<open>Exceptions\<close>

datatype exc_kind =
    ValueError | KeyError | TypeError | AttributeError | IndexError | RuntimeError
  | OverflowError | ZeroDivisionError | FileNotFoundError | AssertionError | ValidationError | TransportError
  | ConnectError | TimeoutException | HTTPStatusError

datatype pyexc = PyExc (exc_kind: exc_kind) (exc_str: string)

type_synonym 'a res = "pyexc + 'a"
type_synonym ('s, 'a) sx = "'s \<Rightarrow> (pyexc + 'a) \<times> 's"

definition sx_return :: "'a \<Rightarrow> ('s, 'a) sx" where
  [sx_simps]: "sx_return x = (\<lambda>s. (Inr x, s))"

definition sx_raise :: "pyexc \<Rightarrow> ('s, 'a) sx" where
  [sx_simps]: "sx_raise e = (\<lambda>s. (Inl e, s))"

definition sx_bind :: "('s, 'a) sx \<Rightarrow> ('a \<Rightarrow> ('s, 'b) sx) \<Rightarrow> ('s, 'b) sx" where
  "sx_bind m f = (\<lambda>s. case m s of (Inl e, s') \<Rightarrow> (Inl e, s') | (Inr x, s') \<Rightarrow> f x s')"

text \<open>\<^verbatim>\<open>try: m except Exception as e: h(e)\<close>.\<close>

definition sx_try :: "('s, 'a) sx \<Rightarrow> (pyexc \<Rightarrow> ('s, 'a) sx) \<Rightarrow> ('s, 'a) sx" where
  "sx_try m h = (\<lambda>s. case m s of (Inl e, s') \<Rightarrow> h e s' | (Inr x, s') \<Rightarrow> (Inr x, s'))"

definition sx_lift :: "'a res \<Rightarrow> ('s, 'a) sx" where
  "sx_lift r = (\<lambda>s. (r, s))"

definition sx_get :: "('s, 's) sx" where
  [sx_simps]: "sx_get = (\<lambda>s. (Inr s, s))"

definition sx_modify :: "('s \<Rightarrow> 's) \<Rightarrow> ('s, unit) sx" where
  [sx_simps]: "sx_modify f = (\<lambda>s. (Inr (), f s))"

definition res_bind :: "'a res \<Rightarrow> ('a \<Rightarrow> 'b res) \<Rightarrow> 'b res" where
  "res_bind r f = (case r of Inl e \<Rightarrow> Inl e | Inr x \<Rightarrow> f x)"

text \<open>Running an operation of a component on the part of a larger state that holds it.\<close>

definition sx_zoom :: "('t \<Rightarrow> 's) \<Rightarrow> ('s \<Rightarrow> 't \<Rightarrow> 't) \<Rightarrow> ('s, 'a) sx \<Rightarrow> ('t, 'a) sx" where
  [sx_simps]: "sx_zoom get put m = (\<lambda>t. case m (get t) of (r, s') \<Rightarrow> (r, put s' t))"

text \<open>Running an operation on each item of a list in order, collecting the results.\<close>

fun sx_map :: "('a \<Rightarrow> ('s, 'b) sx) \<Rightarrow> 'a list \<Rightarrow> ('s, 'b list) sx" where
  "sx_map f [] = sx_return []"
| "sx_map f (x # xs) = sx_bind (f x) (\<lambda>y. sx_bind (sx_map f xs) (\<lambda>ys. sx_return (y # ys)))"

lemma sx_bind_simps [simp]:
  "m s = (Inl e, s') \<Longrightarrow> sx_bind m f s = (Inl e, s')"
  "m s = (Inr x, s') \<Longrightarrow> sx_bind m f s = f x s'"
  by (simp_all add: sx_bind_def)

lemma sx_try_simps [simp]:
  "m s = (Inl e, s') \<Longrightarrow> sx_try m h s = h e s'"
  "m s = (Inr x, s') \<Longrightarrow> sx_try m h s = (Inr x, s')"
  by (simp_all add: sx_try_def)

lemma sx_lift_simps [simp]:
  "sx_lift (Inr x) s = (Inr x, s)"
  "sx_lift (Inl e) s = (Inl e, s)"
  by (simp_all add: sx_lift_def)

lemma res_bind_simps [simp]:
  "res_bind (Inl e) f = Inl e"
  "res_bind (Inr x) f = f x"
  by (simp_all add: res_bind_def)

lemma res_bind_Inr_iff: "res_bind r f = Inr y \<longleftrightarrow> (\<exists>x. r = Inr x \<and> f x = Inr y)"
  by (cases r) simp_all

lemma sx_bind_Inr_iff:
  "sx_bind m f s = (Inr y, s'') \<longleftrightarrow> (\<exists>x s'. m s = (Inr x, s') \<and> f x s' = (Inr y, s''))"
  by (cases "m s"; cases "fst (m s)") auto

lemma sx_bind_assoc: "sx_bind (sx_bind m f) g = sx_bind m (\<lambda>x. sx_bind (f x) g)"
  by (rule ext) (simp add: sx_bind_def split: prod.split sum.split)

text \<open>Two continuations agree when they agree on what the first step returns.\<close>

lemma sx_bind_agree:
  "(\<And>x s s'. m s = (Inr x, s') \<Longrightarrow> f x s' = g x s') \<Longrightarrow> sx_bind m f = sx_bind m g"
  by (rule ext) (auto simp: sx_bind_def split: prod.split sum.split)

lemma sx_lift_Inr_iff [simp]: "sx_lift r s = (Inr x, s') \<longleftrightarrow> r = Inr x \<and> s' = s"
  by (auto simp: sx_lift_def)

lemma sx_try_never_raises:
  assumes "\<And>e s. \<exists>y s'. h e s = (Inr y, s')"
  shows "\<exists>y s'. sx_try m h s = (Inr y, s')"
  using assms by (cases "m s"; cases "fst (m s)") auto

text \<open>An operation that leaves the observation \<open>g\<close> of the state as it is, also when it raises.\<close>

definition keeps :: "('s \<Rightarrow> 'v) \<Rightarrow> ('s, 'a) sx \<Rightarrow> bool" where
  "keeps g m \<longleftrightarrow> (\<forall>s. g (snd (m s)) = g s)"

lemma keepsD: "keeps g m \<Longrightarrow> m s = (r, s') \<Longrightarrow> g s' = g s"
  unfolding keeps_def by (metis snd_conv)

lemma keeps_bind:
  assumes "keeps g m" and "\<And>x. keeps g (f x)"
  shows "keeps g (sx_bind m f)"
  unfolding keeps_def
proof
  fix s
  obtain r s1 where r: "m s = (r, s1)" by (rule prod.exhaust)
  with assms show "g (snd (sx_bind m f s)) = g s"
    by (cases r) (auto simp: keeps_def dest!: spec [of _ s])
qed

lemma keeps_try:
  assumes "keeps g m" and "\<And>e. keeps g (h e)"
  shows "keeps g (sx_try m h)"
  unfolding keeps_def
proof
  fix s
  obtain r s1 where r: "m s = (r, s1)" by (rule prod.exhaust)
  with assms show "g (snd (sx_try m h s)) = g s"
    by (cases r) (auto simp: keeps_def dest!: spec [of _ s])
qed

lemma keeps_basic [intro, simp]:
  "keeps g (sx_return x)" "keeps g (sx_lift y)" "keeps g (sx_raise e)" "keeps g sx_get"
  by (simp_all add: keeps_def sx_return_def sx_lift_def sx_raise_def sx_get_def)

lemma keeps_map: "(\<And>x. keeps g (f x)) \<Longrightarrow> keeps g (sx_map f xs)"
  by (induction xs) (auto intro!: keeps_bind)

lemma sx_try_returns: "\<exists>x s'. sx_try m (\<lambda>e. sx_return (h e)) s = (Inr x, s')"
proof -
  obtain r s1 where "m s = (r, s1)" by (rule prod.exhaust)
  then show ?thesis by (cases r) (simp_all add: sx_try_def sx_return_def)
qed

text \<open>\<open>maintains I m\<close>: a run from a state in \<open>I\<close> ends in \<open>I\<close>, also when it raises.\<close>

definition maintains :: "('s \<Rightarrow> bool) \<Rightarrow> ('s, 'a) sx \<Rightarrow> bool" where
  "maintains I m \<longleftrightarrow> (\<forall>s. I s \<longrightarrow> I (snd (m s)))"

lemma maintainsI: "(\<And>s r s'. I s \<Longrightarrow> m s = (r, s') \<Longrightarrow> I s') \<Longrightarrow> maintains I m"
  unfolding maintains_def by (metis prod.collapse)

lemma maintainsD: "maintains I m \<Longrightarrow> m s = (r, s') \<Longrightarrow> I s \<Longrightarrow> I s'"
  unfolding maintains_def by (metis snd_conv)

lemma maintains_bind:
  assumes "maintains I m" and "\<And>x s s'. m s = (Inr x, s') \<Longrightarrow> maintains I (f x)"
  shows "maintains I (sx_bind m f)"
proof (rule maintainsI)
  fix s r s'
  assume "I s" and run: "sx_bind m f s = (r, s')"
  obtain x s1 where x: "m s = (x, s1)" by (rule prod.exhaust)
  have "I s1" using maintainsD [OF assms(1) x \<open>I s\<close>] .
  with x run assms(2) show "I s'" by (cases x) (auto dest: maintainsD)
qed

lemma maintains_try:
  assumes "maintains I m" and "\<And>e. maintains I (h e)"
  shows "maintains I (sx_try m h)"
proof (rule maintainsI)
  fix s r s'
  assume "I s" and run: "sx_try m h s = (r, s')"
  obtain x s1 where x: "m s = (x, s1)" by (rule prod.exhaust)
  have "I s1" using maintainsD [OF assms(1) x \<open>I s\<close>] .
  with x run assms(2) show "I s'" by (cases x) (auto dest: maintainsD)
qed

lemma maintains_basic [intro, simp]:
  "maintains I (sx_return x)" "maintains I (sx_lift y)" "maintains I (sx_raise e)" "maintains I sx_get"
  by (simp_all add: maintains_def sx_return_def sx_lift_def sx_raise_def sx_get_def)

lemma maintains_modify: "(\<And>s. I s \<Longrightarrow> I (f s)) \<Longrightarrow> maintains I (sx_modify f)"
  by (simp add: maintains_def sx_modify_def)

lemma maintains_zoom:
  assumes "maintains J m" and "\<And>t. I t \<Longrightarrow> J (get t)" and "\<And>a t. J a \<Longrightarrow> I t \<Longrightarrow> I (put a t)"
  shows "maintains I (sx_zoom get put m)"
  using assms by (auto simp: maintains_def sx_zoom_def case_prod_unfold)

text \<open>\<open>delivers P m Q\<close>: from any state in \<open>P\<close> the run returns, with a result in \<open>Q\<close>, in \<open>P\<close> again.\<close>

definition delivers :: "('s \<Rightarrow> bool) \<Rightarrow> ('s, 'a) sx \<Rightarrow> ('a \<Rightarrow> bool) \<Rightarrow> bool" where
  "delivers P m Q \<longleftrightarrow> (\<forall>s. P s \<longrightarrow> (\<exists>x s'. m s = (Inr x, s') \<and> P s' \<and> Q x))"

lemma delivers_bind:
  assumes "delivers P m Q" and "\<And>x. Q x \<Longrightarrow> delivers P (f x) R"
  shows "delivers P (sx_bind m f) R"
  using assms unfolding delivers_def sx_bind_def by fastforce

lemmas delivers_seq = delivers_bind [where Q = "\<lambda>_. True", simplified]

lemma delivers_return: "Q x \<Longrightarrow> delivers P (sx_return x) Q"
  by (simp add: delivers_def sx_return_def)

lemma delivers_lift: "r = Inr x \<Longrightarrow> Q x \<Longrightarrow> delivers P (sx_lift r) Q"
  by (simp add: delivers_def sx_lift_def)

lemma delivers_modify: "(\<And>s. P s \<Longrightarrow> P (g s)) \<Longrightarrow> delivers P (sx_modify g) (\<lambda>_. True)"
  by (simp add: delivers_def sx_modify_def)

text \<open>
  \<open>alike g m n\<close>: two runs, from states with the same observation \<open>g\<close>, have the same outcome and
  reach states with the same observation; what \<open>g\<close> does not show has no influence on what it shows.
\<close>

definition alike :: "('s \<Rightarrow> 'v) \<Rightarrow> ('s, 'a) sx \<Rightarrow> ('s, 'a) sx \<Rightarrow> bool" where
  "alike g m n \<longleftrightarrow> (\<forall>s t. g s = g t \<longrightarrow> fst (m s) = fst (n t) \<and> g (snd (m s)) = g (snd (n t)))"

lemma alikeI:
  assumes "\<And>s t r s' r' t'. g s = g t \<Longrightarrow> m s = (r, s') \<Longrightarrow> n t = (r', t') \<Longrightarrow> r = r' \<and> g s' = g t'"
  shows "alike g m n"
  unfolding alike_def using assms by (metis prod.collapse)

lemma alikeD: "alike g m n \<Longrightarrow> g s = g t \<Longrightarrow> m s = (r, s') \<Longrightarrow> n t = (r', t') \<Longrightarrow> r = r' \<and> g s' = g t'"
  unfolding alike_def by (metis fst_conv snd_conv)

lemma alike_bind:
  assumes "alike g m n" and "\<And>x. alike g (f x) (f' x)"
  shows "alike g (sx_bind m f) (sx_bind n f')"
  unfolding alike_def
proof (intro allI impI)
  fix s t
  assume "g s = g t"
  obtain r s1 where r: "m s = (r, s1)" by (rule prod.exhaust)
  obtain r' t1 where r': "n t = (r', t1)" by (rule prod.exhaust)
  have eq: "r' = r" "g s1 = g t1" using alikeD [OF assms(1) \<open>g s = g t\<close> r r'] by simp_all
  show "fst (sx_bind m f s) = fst (sx_bind n f' t) \<and> g (snd (sx_bind m f s)) = g (snd (sx_bind n f' t))"
    using r r' eq assms(2) by (cases r) (auto simp: alike_def)
qed

lemma alike_try:
  assumes "alike g m n" and "\<And>e. alike g (h e) (h' e)"
  shows "alike g (sx_try m h) (sx_try n h')"
  unfolding alike_def
proof (intro allI impI)
  fix s t
  assume "g s = g t"
  obtain r s1 where r: "m s = (r, s1)" by (rule prod.exhaust)
  obtain r' t1 where r': "n t = (r', t1)" by (rule prod.exhaust)
  have eq: "r' = r" "g s1 = g t1" using alikeD [OF assms(1) \<open>g s = g t\<close> r r'] by simp_all
  show "fst (sx_try m h s) = fst (sx_try n h' t) \<and> g (snd (sx_try m h s)) = g (snd (sx_try n h' t))"
    using r r' eq assms(2) by (cases r) (auto simp: alike_def)
qed

lemma alike_basic [intro, simp]:
  "alike g (sx_return x) (sx_return x)" "alike g (sx_lift y) (sx_lift y)"
  by (simp_all add: alike_def sx_return_def sx_lift_def)

lemma alike_modify:
  "(\<And>s t. g s = g t \<Longrightarrow> g (f s) = g (f' t)) \<Longrightarrow> alike g (sx_modify f) (sx_modify f')"
  unfolding alike_def sx_modify_def fst_conv snd_conv by blast

text \<open>An operation on a part of the state of which \<open>g\<close> shows the observation \<open>h\<close>.\<close>

lemma alike_zoom:
  assumes "alike h m n" and "\<And>s t. g s = g t \<Longrightarrow> h (get s) = h (get t)"
    and "\<And>a b s t. h a = h b \<Longrightarrow> g s = g t \<Longrightarrow> g (put a s) = g (put b t)"
  shows "alike g (sx_zoom get put m) (sx_zoom get put n)"
proof (rule alikeI)
  fix s t r s' r' t'
  assume st: "g s = g t" and s': "sx_zoom get put m s = (r, s')" and t': "sx_zoom get put n t = (r', t')"
  obtain a where a: "m (get s) = (r, a)" "s' = put a s" using s' by (auto simp: sx_zoom_def split: prod.splits)
  obtain b where b: "n (get t) = (r', b)" "t' = put b t" using t' by (auto simp: sx_zoom_def split: prod.splits)
  have "r = r'" "h a = h b" using alikeD [OF assms(1) assms(2) [OF st] a(1) b(1)] by simp_all
  then show "r = r' \<and> g s' = g t'" unfolding a(2) b(2) using assms(3) st by blast
qed

lemma alike_same: "alike (\<lambda>s. s) m m"
  by (simp add: alike_def)

lemmas alike_zoom_same = alike_zoom [OF alike_same]

subsection \<open>Slices\<close>

text \<open>\<^verbatim>\<open>xs[i:]\<close> and \<^verbatim>\<open>xs[:j]\<close>: a negative bound counts from the end and is clamped.\<close>

definition py_from :: "int \<Rightarrow> 'a list \<Rightarrow> 'a list" where
  [py_simps]: "py_from i xs = drop (nat (if i < 0 then max 0 (int (length xs) + i) else i)) xs"

definition py_upto :: "int \<Rightarrow> 'a list \<Rightarrow> 'a list" where
  [py_simps]: "py_upto j xs = take (nat (if j < 0 then max 0 (int (length xs) + j) else j)) xs"

lemma py_from_neg: "0 < n \<Longrightarrow> py_from (- int n) xs = drop (length xs - n) xs"
  by (simp add: py_from_def max_def nat_diff_distrib' split: if_splits)

lemma py_from_zero [simp]: "py_from 0 xs = xs"
  by (simp add: py_from_def)

lemma set_py_from: "set (py_from i xs) \<subseteq> set xs"
  by (simp add: py_from_def set_drop_subset)

lemma set_py_upto: "set (py_upto j xs) \<subseteq> set xs"
  by (simp add: py_upto_def set_take_subset)

lemma length_py_from_neg: "0 < n \<Longrightarrow> length (py_from (- int n) xs) = min n (length xs)"
  by (simp add: py_from_neg)

lemma py_from_neg_all: "length xs \<le> n \<Longrightarrow> 0 < n \<Longrightarrow> py_from (- int n) xs = xs"
  by (simp add: py_from_neg)

text \<open>Keeping the last \<open>n\<close> items after each append keeps the last \<open>n\<close> of everything.\<close>

lemma py_from_snoc:
  assumes "0 < n"
  shows "py_from (- int n) (py_from (- int n) xs @ [x]) = py_from (- int n) (xs @ [x])"
proof (cases "length xs \<le> n")
  case True
  then show ?thesis using assms by (simp add: py_from_neg)
next
  case False
  then have "length (drop (length xs - n) xs) = n" by simp
  with False assms show ?thesis
    by (simp add: py_from_neg Suc_diff_le)
qed

subsection \<open>Strings\<close>

definition startswith :: "string \<Rightarrow> string \<Rightarrow> bool" where
  [py_simps]: "startswith p s \<longleftrightarrow> take (length p) s = p"

definition removeprefix :: "string \<Rightarrow> string \<Rightarrow> string" where
  [py_simps]: "removeprefix p s = (if startswith p s then drop (length p) s else s)"

fun str_contains :: "string \<Rightarrow> string \<Rightarrow> bool" where
  "str_contains p [] \<longleftrightarrow> p = []"
| "str_contains p (c # s) \<longleftrightarrow> startswith p (c # s) \<or> str_contains p s"

text \<open>Blanks and letter case are those of ASCII; Python's \<^verbatim>\<open>strip\<close> and \<^verbatim>\<open>lower\<close> also know the other Unicode characters.\<close>

definition is_space :: "char \<Rightarrow> bool" where
  [py_simps]: "is_space c \<longleftrightarrow> (let k = of_char c :: nat in k = 32 \<or> (9 \<le> k \<and> k \<le> 13) \<or> (28 \<le> k \<and> k \<le> 31))"

definition str_strip :: "string \<Rightarrow> string" where
  [py_simps]: "str_strip s = rev (dropWhile is_space (rev (dropWhile is_space s)))"

definition char_lower :: "char \<Rightarrow> char" where
  [py_simps]: "char_lower c = (let k = of_char c :: nat in if 65 \<le> k \<and> k \<le> 90 then char_of (k + 32) else c)"

definition str_lower :: "string \<Rightarrow> string" where
  [py_simps]: "str_lower s = map char_lower s"

lemma str_lower_Nil [simp]: "str_lower [] = []"
  by (simp add: str_lower_def)

lemma length_str_lower [simp]: "length (str_lower s) = length s"
  by (simp add: str_lower_def)

lemma char_lower_idem [simp]: "char_lower (char_lower c) = char_lower c"
  by (simp add: char_lower_def Let_def)

lemma str_lower_idem [simp]: "str_lower (str_lower s) = str_lower s"
  by (simp add: str_lower_def)

lemma str_contains_append: "str_contains p (s @ p @ t)"
proof (induction s)
  case Nil
  have "startswith p (p @ t)" by (simp add: startswith_def)
  then show ?case by (cases "p @ t") auto
next
  case (Cons c s)
  then show ?case by simp
qed

text \<open>\<^verbatim>\<open>sep.join(ss)\<close>; a string constant of several lines is its lines joined.\<close>

definition join :: "string \<Rightarrow> string list \<Rightarrow> string" where
  "join sep ss = (case ss of [] \<Rightarrow> [] | s # r \<Rightarrow> s @ concat (map (\<lambda>t. sep @ t) r))"

definition text_lines :: "string list \<Rightarrow> string" where
  "text_lines = join [CHR 0x0A]"

definition QT :: string where
  "QT = [CHR 0x22]"

text \<open>\<^verbatim>\<open>str(n)\<close> of an integer.\<close>

definition digit_char :: "nat \<Rightarrow> char" where
  "digit_char d = char_of (48 + d)"

fun str_nat :: "nat \<Rightarrow> string" where
  "str_nat n = (if n < 10 then [digit_char n] else str_nat (n div 10) @ [digit_char (n mod 10)])"

declare str_nat.simps [simp del]

definition str_int :: "int \<Rightarrow> string" where
  "str_int i = (if i < 0 then CHR ''-'' # str_nat (nat (- i)) else str_nat (nat i))"

lemma str_nat_not_Nil [simp]: "str_nat n \<noteq> []"
  by (subst str_nat.simps) simp

lemma str_int_not_Nil [simp]: "str_int i \<noteq> []"
  by (simp add: str_int_def)

text \<open>\<^verbatim>\<open>bytes.hex()\<close>: two lower-case digits per byte.\<close>

definition hex_char :: "nat \<Rightarrow> char" where
  "hex_char d = (if d < 10 then char_of (48 + d) else char_of (87 + d))"

definition hex_byte :: "byte \<Rightarrow> string" where
  "hex_byte b = [hex_char (unat b div 16), hex_char (unat b mod 16)]"

definition bytes_hex :: "bytes \<Rightarrow> string" where
  "bytes_hex bs = concat (map hex_byte bs)"

lemma bytes_hex_simps [simp]:
  "bytes_hex [] = []"
  "bytes_hex (b # bs) = hex_char (unat b div 16) # hex_char (unat b mod 16) # bytes_hex bs"
  by (simp_all add: bytes_hex_def hex_byte_def)

lemma hex_char_not_x:
  assumes "d < 16"
  shows "hex_char d \<noteq> CHR ''x''"
proof
  assume "hex_char d = CHR ''x''"
  then have "(of_char (hex_char d) :: nat) = of_char (CHR ''x'')" by simp
  with assms show False by (simp add: hex_char_def split: if_splits)
qed

lemma unat_byte_less: "unat (b :: byte) < 256"
  using unsigned_less [of b, where 'a = nat] by simp

text \<open>A hexadecimal digest never carries the \<^verbatim>\<open>0x\<close> prefix that addresses carry.\<close>

lemma bytes_hex_no_0x: "\<not> startswith ''0x'' (bytes_hex bs)"
proof (cases bs)
  case Nil
  then show ?thesis by (simp add: startswith_def)
next
  case (Cons b bs')
  have "unat b mod 16 < 16" by simp
  then have "hex_char (unat b mod 16) \<noteq> CHR ''x''" by (rule hex_char_not_x)
  with Cons show ?thesis by (simp add: startswith_def)
qed

lemma removeprefix_bytes_hex [simp]: "removeprefix ''0x'' (bytes_hex bs) = bytes_hex bs"
  by (simp add: removeprefix_def bytes_hex_no_0x)

lemma hex_char_inj:
  assumes "a < 16" and "b < 16" and "hex_char a = hex_char b"
  shows "a = b"
proof -
  from assms(3) have "(of_char (hex_char a) :: nat) = of_char (hex_char b)" by simp
  with assms(1,2) show ?thesis by (simp add: hex_char_def split: if_splits)
qed

lemma bytes_hex_inj: "bytes_hex xs = bytes_hex ys \<Longrightarrow> xs = ys"
proof (induction xs arbitrary: ys)
  case Nil
  then show ?case by (cases ys) simp_all
next
  case (Cons x xs)
  then obtain y ys' where ys: "ys = y # ys'" by (cases ys) auto
  with Cons.prems have hi: "hex_char (unat x div 16) = hex_char (unat y div 16)"
    and lo: "hex_char (unat x mod 16) = hex_char (unat y mod 16)"
    and tl: "bytes_hex xs = bytes_hex ys'" by auto
  have "unat x div 16 = unat y div 16"
    by (rule hex_char_inj [OF _ _ hi]) (use unat_byte_less [of x] unat_byte_less [of y] in auto)
  moreover have "unat x mod 16 = unat y mod 16"
    by (rule hex_char_inj [OF _ _ lo]) auto
  ultimately have "unat x = unat y" by (metis div_mult_mod_eq)
  then have "x = y" by (simp add: word_unat_eq_iff)
  with ys Cons.IH [OF tl] show ?case by simp
qed

subsection \<open>String-valued enumerations\<close>

text \<open>
  Every enumeration of the sources is a \<^verbatim>\<open>class X(str, Enum)\<close>: \<^verbatim>\<open>x.value\<close> is a
  string and \<^verbatim>\<open>X(s)\<close> finds the member with that value or raises
  \<^verbatim>\<open>ValueError\<close> (here \<open>None\<close>).
\<close>

locale str_enum =
  fixes val :: "'a \<Rightarrow> string"
    and parse :: "string \<Rightarrow> 'a option"
  assumes parse_val: "parse (val x) = Some x"
    and parse_sound: "parse s = Some x \<Longrightarrow> val x = s"
begin

lemma val_inj: "val x = val y \<longleftrightarrow> x = y"
  by (metis parse_val option.inject)

lemma parse_eq_iff: "parse s = Some x \<longleftrightarrow> s = val x"
  using parse_sound parse_val by blast

lemma parse_None_iff: "parse s = None \<longleftrightarrow> s \<notin> range val"
  by (cases "parse s") (auto simp: parse_val dest: parse_sound)

end

text \<open>Looking a member up by its value, in definition order.\<close>

definition enum_of :: "'a list \<Rightarrow> ('a \<Rightarrow> string) \<Rightarrow> string \<Rightarrow> 'a option" where
  "enum_of members val s = find (\<lambda>x. val x = s) members"

lemma find_SomeD: "find P xs = Some x \<Longrightarrow> P x \<and> x \<in> set xs"
  by (auto simp: find_Some_iff)

lemma str_enum_of:
  assumes "\<And>x. x \<in> set members" and "\<And>x y. val x = val y \<Longrightarrow> x = y"
  shows "str_enum val (enum_of members val)"
proof
  fix x
  have "find (\<lambda>y. val y = val x) members \<noteq> None"
    using assms(1) by (auto simp: find_None_iff)
  then obtain y where y: "find (\<lambda>y. val y = val x) members = Some y" by blast
  then have "val y = val x" by (auto dest: find_SomeD)
  with y show "enum_of members val (val x) = Some x"
    by (auto simp: enum_of_def dest: assms(2))
next
  fix s x
  assume "enum_of members val s = Some x"
  then show "val x = s" by (auto simp: enum_of_def dest: find_SomeD)
qed

subsection \<open>Refinement of an operation by a step of an abstract state\<close>

text \<open>
  \<open>run op\<close> is the operation of a component, \<open>view\<close> the abstract content of its state,
  \<open>step op\<close> what the operation does to the content. An operation whose precondition
  \<open>fits\<close> holds returns, keeps the invariant \<open>ok\<close> and commutes with \<open>view\<close>; then so does
  every series of operations each of which fits where it starts.
\<close>

fun ops_fit :: "('op \<Rightarrow> 's \<Rightarrow> bool) \<Rightarrow> ('op \<Rightarrow> ('s, 'b) sx) \<Rightarrow> 'op list \<Rightarrow> 's \<Rightarrow> bool" where
  "ops_fit fits run [] s \<longleftrightarrow> True"
| "ops_fit fits run (a # as) s \<longleftrightarrow> fits a s \<and> ops_fit fits run as (snd (run a s))"

locale op_refinement =
  fixes run :: "'op \<Rightarrow> ('s, 'b) sx"
    and step :: "'op \<Rightarrow> 'a \<Rightarrow> 'a"
    and view :: "'s \<Rightarrow> 'a"
    and ok :: "'s \<Rightarrow> bool"
    and fits :: "'op \<Rightarrow> 's \<Rightarrow> bool"
  assumes run_ok: "ok s \<Longrightarrow> fits a s \<Longrightarrow>
      \<exists>b s'. run a s = (Inr b, s') \<and> ok s' \<and> view s' = step a (view s)"
begin

lemma run_series:
  assumes "ok s" and "ops_fit fits run as s"
  shows "\<exists>bs s'. sx_map run as s = (Inr bs, s') \<and> ok s' \<and> view s' = fold step as (view s)"
  using assms
proof (induction as arbitrary: s)
  case Nil
  then show ?case by (simp add: sx_simps)
next
  case (Cons a as)
  then obtain b s1 where b: "run a s = (Inr b, s1)" "ok s1" "view s1 = step a (view s)"
    using run_ok [of s a] by auto
  with Cons.prems have "ops_fit fits run as s1" by simp
  from Cons.IH [OF b(2) this] obtain bs s2 where
    "sx_map run as s1 = (Inr bs, s2)" "ok s2" "view s2 = fold step as (view s1)" by blast
  with b show ?case by (simp add: sx_simps)
qed

end

subsection \<open>Dictionaries\<close>

lemma map_of_update [simp]: "map_of (AList.update k v d) = (map_of d)(k \<mapsto> v)"
  by (rule update_conv')

lemma map_of_delete [simp]: "map_of (AList.delete k d) = (map_of d)(k := None)"
  by (rule delete_conv')

end
