(* ===== verification/PyValue.thy ===== *)
theory PyValue
  imports Prelude Complex_Main "HOL-Library.Log_Nat"
begin

text \<open>
  Python's dynamic values, as far as the sources handle them: IEEE binary64 numbers and the
  JSON-shaped values (\<^verbatim>\<open>dict[str, Any]\<close>) that signals, model replies and message
  payloads are made of, with truthiness and the conversions \<^verbatim>\<open>float()\<close>, \<^verbatim>\<open>int()\<close>
  and their exceptions.
\<close>

subsection \<open>Binary64 numbers\<close>

text \<open>
  A finite double is the rational number it denotes (the two zeros are one value).
  \<open>fl\<close> rounds a rational to the nearest double, ties to even, with gradual underflow
  and overflow to infinity.
\<close>

datatype pyfloat = Fin rat | PInf | NInf | NaN

definition round_half_even :: "rat \<Rightarrow> int" where
  "round_half_even x =
     (let n = \<lfloor>x\<rfloor>; d = x - of_int n
      in if d < 1 / 2 then n else if 1 / 2 < d then n + 1 else if even n then n else n + 1)"

definition pow2 :: "int \<Rightarrow> rat" where
  "pow2 k = (if 0 \<le> k then 2 ^ nat k else 1 / 2 ^ nat (- k))"

definition floor_log2 :: "rat \<Rightarrow> int" where
  "floor_log2 x =
     (case quotient_of x of (p, q) \<Rightarrow>
        let l = bitlen p - bitlen q in if pow2 l \<le> x then l else l - 1)"

definition fl :: "rat \<Rightarrow> pyfloat" where
  "fl x =
     (if x = 0 then Fin 0
      else let k = max (floor_log2 \<bar>x\<bar> - 52) (- 1074);
               y = of_int (round_half_even (x / pow2 k)) * pow2 k
           in if 2 ^ 1024 \<le> y then PInf else if y \<le> - (2 ^ 1024) then NInf else Fin y)"

text \<open>Comparisons: every comparison with NaN is false.\<close>

fun f_le :: "pyfloat \<Rightarrow> pyfloat \<Rightarrow> bool" where
  "f_le (Fin a) (Fin b) \<longleftrightarrow> a \<le> b"
| "f_le NaN _ \<longleftrightarrow> False"
| "f_le _ NaN \<longleftrightarrow> False"
| "f_le NInf _ \<longleftrightarrow> True"
| "f_le _ PInf \<longleftrightarrow> True"
| "f_le _ _ \<longleftrightarrow> False"

definition f_ge :: "pyfloat \<Rightarrow> pyfloat \<Rightarrow> bool" where
  "f_ge a b \<longleftrightarrow> f_le b a"

lemma f_ge_Fin [simp]: "f_ge (Fin a) (Fin b) \<longleftrightarrow> b \<le> a"
  by (simp add: f_ge_def)

lemma f_ge_NaN [simp]: "\<not> f_ge NaN b"
  by (cases b) (simp_all add: f_ge_def)

definition f_less :: "pyfloat \<Rightarrow> pyfloat \<Rightarrow> bool" where
  "f_less a b \<longleftrightarrow> f_le a b \<and> a \<noteq> b"

fun f_add :: "pyfloat \<Rightarrow> pyfloat \<Rightarrow> pyfloat" where
  "f_add (Fin a) (Fin b) = fl (a + b)"
| "f_add NaN _ = NaN"
| "f_add _ NaN = NaN"
| "f_add PInf NInf = NaN"
| "f_add NInf PInf = NaN"
| "f_add PInf _ = PInf"
| "f_add _ PInf = PInf"
| "f_add NInf _ = NInf"
| "f_add _ NInf = NInf"

text \<open>\<^verbatim>\<open>f"{x:.1f}"\<close>.\<close>

definition fmt_1f :: "pyfloat \<Rightarrow> string" where
  "fmt_1f x =
     (case x of
        Fin q \<Rightarrow>
          (let n = nat (round_half_even (\<bar>q\<bar> * 10))
           in (if q < 0 then ''-'' else []) @ str_nat (n div 10) @ ''.'' @ str_nat (n mod 10))
      | PInf \<Rightarrow> ''inf'' | NInf \<Rightarrow> ''-inf'' | NaN \<Rightarrow> ''nan'')"

text \<open>Every integer below \<open>2 ^ 53\<close> is a double.\<close>

lemma round_half_even_int [simp]: "round_half_even (of_int n) = n"
  by (simp add: round_half_even_def)

lemma pow2_neg: "0 \<le> k \<Longrightarrow> x / pow2 (- k) = x * 2 ^ nat k"
  by (auto simp: pow2_def)

lemma floor_log2_int:
  assumes "0 < n"
  shows "floor_log2 (of_int n) = bitlen n - 1"
proof -
  have b1: "bitlen 1 = 1" by (simp add: bitlen_alt_def)
  have "0 < bitlen n" using assms bitlen_eq_zero_iff [of n] bitlen_nonneg [of n] by linarith
  then have "0 \<le> bitlen n - 1" by simp
  moreover have "(2::int) ^ nat (bitlen n - 1) \<le> n" using bitlen_bounds [OF assms] by simp
  then have "(2::rat) ^ nat (bitlen n - 1) \<le> of_int n"
    by (metis of_int_le_iff of_int_numeral of_int_power)
  ultimately show ?thesis by (simp add: floor_log2_def quotient_of_int b1 pow2_def)
qed

lemma fl_of_int:
  assumes "\<bar>n\<bar> < 2 ^ 53"
  shows "fl (of_int n) = Fin (of_int n)"
proof (cases "n = 0")
  case True
  then show ?thesis by (simp add: fl_def)
next
  case False
  then have pos: "0 < \<bar>n\<bar>" by simp
  have "bitlen \<bar>n\<bar> \<le> 53" using assms by (simp add: bitlen_le_iff_power)
  moreover have "0 < bitlen \<bar>n\<bar>" using bitlen_eq_zero_iff [of "\<bar>n\<bar>"] bitlen_nonneg [of "\<bar>n\<bar>"] pos by linarith
  ultimately have "max (bitlen \<bar>n\<bar> - 1 - 52) (- 1074) = - int (nat (53 - bitlen \<bar>n\<bar>))" by simp
  then obtain j where j: "max (bitlen \<bar>n\<bar> - 1 - 52) (- 1074) = - int j" by blast
  have x: "(of_int n :: rat) / pow2 (- int j) = of_int (n * 2 ^ j)" by (simp add: pow2_neg)
  have y: "(of_int (n * 2 ^ j) :: rat) * pow2 (- int j) = of_int n" by (auto simp: pow2_def)
  have fl2: "floor_log2 \<bar>of_int n :: rat\<bar> = bitlen \<bar>n\<bar> - 1"
    using floor_log2_int [OF pos] by simp
  have "\<bar>n\<bar> < 2 ^ 1024" using assms by simp
  then have "(of_int \<bar>n\<bar> :: rat) < of_int (2 ^ 1024)" by (simp only: of_int_less_iff)
  then have big: "\<bar>of_int n :: rat\<bar> < 2 ^ 1024" by simp
  have b1: "\<not> 2 ^ 1024 \<le> (of_int n :: rat)" and b2: "\<not> (of_int n :: rat) \<le> - (2 ^ 1024)"
    using big unfolding abs_less_iff by linarith+
  have k: "max (floor_log2 \<bar>of_int n :: rat\<bar> - 52) (- 1074) = - int j" unfolding fl2 by (rule j)
  have v: "of_int (round_half_even (of_int n / pow2 (- int j))) * pow2 (- int j) = (of_int n :: rat)"
    unfolding x round_half_even_int by (rule y)
  have nz: "(of_int n :: rat) \<noteq> 0" using False by simp
  show ?thesis unfolding fl_def Let_def k v by (simp only: nz b1 b2 if_False)
qed

subsection \<open>Numbers in strings\<close>

definition digit_val :: "char \<Rightarrow> nat option" where
  "digit_val c =
     (let k = of_char c :: nat
      in if 48 \<le> k \<and> k \<le> 57 then Some (k - 48)
         else if 97 \<le> k \<and> k \<le> 122 then Some (k - 87)
         else if 65 \<le> k \<and> k \<le> 90 then Some (k - 55) else None)"

definition is_digit :: "nat \<Rightarrow> char \<Rightarrow> bool" where
  "is_digit base c \<longleftrightarrow> (case digit_val c of Some d \<Rightarrow> d < base | None \<Rightarrow> False)"

text \<open>Digit groups: non-empty, underscores only singly between digits.\<close>

fun digit_group :: "nat \<Rightarrow> string \<Rightarrow> bool" where
  "digit_group base [] \<longleftrightarrow> False"
| "digit_group base [c] \<longleftrightarrow> is_digit base c"
| "digit_group base (c # d # s) \<longleftrightarrow>
     is_digit base c \<and> (if d = CHR ''_'' then digit_group base s else digit_group base (d # s))"

definition digits_nat :: "nat \<Rightarrow> string \<Rightarrow> nat" where
  "digits_nat base s =
     foldl (\<lambda>n c. base * n + (case digit_val c of Some d \<Rightarrow> d | None \<Rightarrow> 0)) 0
       (filter (\<lambda>c. c \<noteq> CHR ''_'') s)"

definition split_sign :: "string \<Rightarrow> int \<times> string" where
  "split_sign s =
     (case s of
        c # t \<Rightarrow> if c = CHR ''-'' then (- 1, t) else if c = CHR ''+'' then (1, t) else (1, s)
      | [] \<Rightarrow> (1, s))"

text \<open>\<^verbatim>\<open>int(s, base)\<close> for base 10 and 16; \<open>None\<close> is the \<^verbatim>\<open>ValueError\<close>.\<close>

definition str_to_int :: "nat \<Rightarrow> string \<Rightarrow> int option" where
  "str_to_int base s =
     (case split_sign (str_strip s) of (sg, t) \<Rightarrow>
        let u = (if base = 16 \<and> (startswith ''0x'' t \<or> startswith ''0X'' t)
                 then removeprefix ''_'' (drop 2 t) else t)
        in if digit_group base u then Some (sg * int (digits_nat base u)) else None)"

definition split_at :: "char \<Rightarrow> string \<Rightarrow> string \<times> string option" where
  "split_at c s =
     (case dropWhile (\<lambda>d. d \<noteq> c) s of
        [] \<Rightarrow> (s, None) | _ # t \<Rightarrow> (takeWhile (\<lambda>d. d \<noteq> c) s, Some t))"

definition pow10 :: "int \<Rightarrow> rat" where
  "pow10 k = (if 0 \<le> k then 10 ^ nat k else 1 / 10 ^ nat (- k))"

text \<open>The decimal literal \<^verbatim>\<open>i.f\<close> with exponent \<^verbatim>\<open>e\<close>; an absent part is \<open>None\<close> or empty.\<close>

definition decimal_rat :: "string \<Rightarrow> string option \<Rightarrow> string option \<Rightarrow> rat option" where
  "decimal_rat i f e =
     (let fs = (case f of Some t \<Rightarrow> t | None \<Rightarrow> []);
          fd = filter (\<lambda>c. c \<noteq> CHR ''_'') fs;
          ok = (i \<noteq> [] \<or> fs \<noteq> []) \<and> (i = [] \<or> digit_group 10 i) \<and> (fs = [] \<or> digit_group 10 fs);
          m = of_nat (digits_nat 10 (i @ fs)) / 10 ^ length fd
      in if \<not> ok then None
         else case e of
           None \<Rightarrow> Some m
         | Some t \<Rightarrow>
             (case split_sign t of (sg, ds) \<Rightarrow>
                if digit_group 10 ds then Some (m * pow10 (sg * int (digits_nat 10 ds))) else None))"

text \<open>
  \<^verbatim>\<open>float(s)\<close>; \<open>None\<close> is the \<^verbatim>\<open>ValueError\<close>. Digits and blanks are those of ASCII; the
  digits and blanks of other scripts, which Python accepts too, are not followed.
\<close>

definition str_to_float :: "string \<Rightarrow> pyfloat option" where
  "str_to_float s =
     (case split_sign (str_lower (str_strip s)) of (sg, t) \<Rightarrow>
        if t = ''inf'' \<or> t = ''infinity'' then Some (if sg < 0 then NInf else PInf)
        else if t = ''nan'' then Some NaN
        else case split_at (CHR ''e'') t of (m, e) \<Rightarrow>
          (case split_at (CHR ''.'') m of (i, f) \<Rightarrow>
             map_option (\<lambda>q. fl (of_int sg * q)) (decimal_rat i f e)))"

subsection \<open>Values\<close>

datatype pyval =
    VNone
  | VBool bool
  | VInt int
  | VFloat pyfloat
  | VStr string
  | VList "pyval list"
  | VDict "(string \<times> pyval) list"

type_synonym pydict = "(string \<times> pyval) list"

fun truthy :: "pyval \<Rightarrow> bool" where
  "truthy VNone \<longleftrightarrow> False"
| "truthy (VBool b) \<longleftrightarrow> b"
| "truthy (VInt i) \<longleftrightarrow> i \<noteq> 0"
| "truthy (VFloat f) \<longleftrightarrow> f \<noteq> Fin 0"
| "truthy (VStr s) \<longleftrightarrow> s \<noteq> []"
| "truthy (VList xs) \<longleftrightarrow> xs \<noteq> []"
| "truthy (VDict d) \<longleftrightarrow> d \<noteq> []"

text \<open>\<^verbatim>\<open>d.get(k, dflt)\<close> and \<^verbatim>\<open>a or b\<close>.\<close>

definition dget :: "pydict \<Rightarrow> string \<Rightarrow> pyval \<Rightarrow> pyval" where
  "dget d k dflt = (case map_of d k of Some v \<Rightarrow> v | None \<Rightarrow> dflt)"

definition py_or :: "pyval \<Rightarrow> pyval \<Rightarrow> pyval" where
  "py_or a b = (if truthy a then a else b)"

text \<open>\<^verbatim>\<open>s or None\<close> on an optional string: the empty string counts as absent.\<close>

definition str_truthy :: "string option \<Rightarrow> bool" where
  "str_truthy s \<longleftrightarrow> (case s of Some t \<Rightarrow> t \<noteq> [] | None \<Rightarrow> False)"

fun py_float :: "pyval \<Rightarrow> pyfloat res" where
  "py_float (VFloat f) = Inr f"
| "py_float (VBool b) = Inr (Fin (if b then 1 else 0))"
| "py_float (VInt i) =
     (case fl (of_int i) of
        Fin q \<Rightarrow> Inr (Fin q)
      | _ \<Rightarrow> Inl (PyExc OverflowError ''int too large to convert to float''))"
| "py_float (VStr s) =
     (case str_to_float s of
        Some f \<Rightarrow> Inr f | None \<Rightarrow> Inl (PyExc ValueError ''could not convert string to float''))"
| "py_float _ = Inl (PyExc TypeError ''float() argument must be a string or a real number'')"

fun py_int :: "pyval \<Rightarrow> int res" where
  "py_int (VInt i) = Inr i"
| "py_int (VBool b) = Inr (if b then 1 else 0)"
| "py_int (VFloat (Fin q)) = Inr (if 0 \<le> q then \<lfloor>q\<rfloor> else \<lceil>q\<rceil>)"
| "py_int (VFloat NaN) = Inl (PyExc ValueError ''cannot convert float NaN to integer'')"
| "py_int (VFloat _) = Inl (PyExc OverflowError ''cannot convert float infinity to integer'')"
| "py_int (VStr s) =
     (case str_to_int 10 s of
        Some i \<Rightarrow> Inr i | None \<Rightarrow> Inl (PyExc ValueError ''invalid literal for int() with base 10''))"
| "py_int _ = Inl (PyExc TypeError ''int() argument must be a string or a real number'')"

fun py_lower :: "pyval \<Rightarrow> string res" where
  "py_lower (VStr s) = Inr (str_lower s)"
| "py_lower _ = Inl (PyExc AttributeError ''object has no attribute lower'')"

text \<open>
  \<^verbatim>\<open>str(v)\<close>; the text of floats, lists and dictionaries is the argument \<open>repr\<close>.
\<close>

definition py_str :: "(pyval \<Rightarrow> string) \<Rightarrow> pyval \<Rightarrow> string" where
  "py_str repr v =
     (case v of
        VStr s \<Rightarrow> s
      | VInt i \<Rightarrow> str_int i
      | VBool b \<Rightarrow> (if b then ''True'' else ''False'')
      | VNone \<Rightarrow> ''None''
      | _ \<Rightarrow> repr v)"

text \<open>\<^verbatim>\<open>v.get(k, dflt)\<close> on a value that may not be a dictionary.\<close>

definition vget :: "pyval \<Rightarrow> string \<Rightarrow> pyval \<Rightarrow> pyval res" where
  "vget v k dflt =
     (case v of VDict d \<Rightarrow> Inr (dget d k dflt)
      | _ \<Rightarrow> Inl (PyExc AttributeError ''object has no attribute get''))"

text \<open>A value given for a model field of type \<^verbatim>\<open>str\<close>.\<close>

definition str_field :: "pyval \<Rightarrow> string res" where
  "str_field v = (case v of VStr s \<Rightarrow> Inr s | _ \<Rightarrow> Inl (PyExc ValidationError ''str''))"

text \<open>Optional entries of a dictionary: \<^verbatim>\<open>exclude_none=True\<close>.\<close>

definition opt_item :: "string \<Rightarrow> ('a \<Rightarrow> pyval) \<Rightarrow> 'a option \<Rightarrow> pydict" where
  "opt_item k f x = (case x of Some v \<Rightarrow> [(k, f v)] | None \<Rightarrow> [])"

text \<open>\<^verbatim>\<open>f"{x:,.2f}"\<close>: two decimals, the integer part grouped in threes.\<close>

fun group3 :: "string \<Rightarrow> string" where
  "group3 (a # b # c # d # rest) = a # b # c # CHR '','' # group3 (d # rest)"
| "group3 s = s"

definition fmt_2f_comma :: "pyfloat \<Rightarrow> string" where
  "fmt_2f_comma x =
     (case x of
        Fin q \<Rightarrow>
          (let n = nat (round_half_even (\<bar>q\<bar> * 100))
           in (if q < 0 then ''-'' else []) @ rev (group3 (rev (str_nat (n div 100)))) @ ''.'' @
              str_nat (n div 10 mod 10) @ str_nat (n mod 10))
      | PInf \<Rightarrow> ''inf'' | NInf \<Rightarrow> ''-inf'' | NaN \<Rightarrow> ''nan'')"

text \<open>UTF-8 texts of the signs used in messages, and \<^verbatim>\<open>str.upper()\<close>.\<close>

definition ELLIPSIS :: string where
  "ELLIPSIS = [CHR 0xE2, CHR 0x80, CHR 0xA6]"

definition ARROW :: string where
  "ARROW = [CHR 0xE2, CHR 0x86, CHR 0x92]"

definition DOT :: string where
  "DOT = [CHR 0xC2, CHR 0xB7]"

definition char_upper :: "char \<Rightarrow> char" where
  "char_upper c = (let k = of_char c :: nat in if 97 \<le> k \<and> k \<le> 122 then char_of (k - 32) else c)"

subsection \<open>Lower-casing keeps what a string denotes as a number\<close>

lemma of_char_lower:
  "(of_char (char_lower c) :: nat) =
     (let k = of_char c in if 65 \<le> k \<and> k \<le> 90 then k + 32 else k)"
  by (simp add: char_lower_def Let_def)

lemma char_eq_nat: "c = d \<longleftrightarrow> (of_char c :: nat) = of_char d"
  by simp

lemma char_lower_eq_nonletter:
  assumes "(of_char d :: nat) < 65 \<or> 90 < (of_char d :: nat)" "(of_char d :: nat) < 97 \<or> 122 < (of_char d :: nat)"
  shows "char_lower c = d \<longleftrightarrow> c = d"
  unfolding char_eq_nat [of "char_lower c"] char_eq_nat [of c] of_char_lower Let_def
  using assms by auto

lemma digit_val_lower [simp]: "digit_val (char_lower c) = digit_val c"
  unfolding digit_val_def of_char_lower Let_def by auto

lemma is_space_lower [simp]: "is_space (char_lower c) \<longleftrightarrow> is_space c"
  unfolding is_space_def of_char_lower Let_def by auto

lemma is_digit_lower [simp]: "is_digit base (char_lower c) \<longleftrightarrow> is_digit base c"
  by (simp add: is_digit_def)

lemma lower_sep [simp]:
  "char_lower c = CHR ''_'' \<longleftrightarrow> c = CHR ''_''"
  "char_lower c = CHR ''-'' \<longleftrightarrow> c = CHR ''-''"
  "char_lower c = CHR ''+'' \<longleftrightarrow> c = CHR ''+''"
  "char_lower c = CHR ''0'' \<longleftrightarrow> c = CHR ''0''"
  by (simp_all add: char_lower_eq_nonletter)

lemma lower_x: "char_lower c = CHR ''x'' \<longleftrightarrow> c = CHR ''x'' \<or> c = CHR ''X''" "char_lower c \<noteq> CHR ''X''"
  unfolding char_eq_nat [of "char_lower c"] char_eq_nat [of c] of_char_lower Let_def
  by auto

lemma str_strip_lower: "str_strip (str_lower s) = str_lower (str_strip s)"
  by (simp add: str_strip_def str_lower_def dropWhile_map comp_def rev_map)

lemma split_sign_lower: "split_sign (str_lower s) = map_prod id str_lower (split_sign s)"
  by (cases s) (simp_all add: split_sign_def str_lower_def)

lemma digit_group_lower: "digit_group base (str_lower s) \<longleftrightarrow> digit_group base s"
  by (induction base s rule: digit_group.induct) (simp_all add: str_lower_def)

lemma digits_nat_lower: "digits_nat base (str_lower s) = digits_nat base s"
proof -
  have "filter (\<lambda>c. c \<noteq> CHR ''_'') (str_lower s) = map char_lower (filter (\<lambda>c. c \<noteq> CHR ''_'') s)"
    by (simp add: str_lower_def filter_map comp_def)
  then show ?thesis by (simp add: digits_nat_def foldl_map)
qed

lemma hex_prefix_lower:
  "startswith ''0x'' (str_lower s) \<or> startswith ''0X'' (str_lower s) \<longleftrightarrow>
   startswith ''0x'' s \<or> startswith ''0X'' s"
  by (cases s; cases "tl s") (auto simp: startswith_def str_lower_def lower_x)

lemma drop_lower: "drop n (str_lower s) = str_lower (drop n s)"
  by (simp add: str_lower_def drop_map)

lemma removeprefix_us_lower: "removeprefix ''_'' (str_lower s) = str_lower (removeprefix ''_'' s)"
  by (cases s) (simp_all add: removeprefix_def startswith_def str_lower_def)

lemma str_to_int_lower: "str_to_int base (str_lower s) = str_to_int base s"
  unfolding str_to_int_def str_strip_lower split_sign_lower
  by (cases "split_sign (str_strip s)")
    (auto simp: Let_def hex_prefix_lower drop_lower removeprefix_us_lower digit_group_lower
      digits_nat_lower)

end
