(* ===== verification/Schema.thy ===== *)
theory Schema
  imports PyValue
begin

text \<open>
  The message schema of the swarm (\<^verbatim>\<open>core/schema.py\<close>): the enumerations, the envelope
  every message travels in, the typed payloads with their validators, and the constructors
  of pings and pongs.

  The validators the source declares (\<^verbatim>\<open>Field\<close> constraints, \<^verbatim>\<open>field_validator\<close>,
  \<^verbatim>\<open>model_validator\<close>) are modelled. How pydantic turns a model into JSON text and JSON
  text into typed field values is a parameter (\<open>dump\<close>, \<open>load\<close>); so is its answer to
  NaN in a range constraint (\<open>nan_ok\<close>). Fresh identifiers and the clock are arguments.
\<close>

subsection \<open>Enumerations\<close>

datatype agent_role = RESEARCHER | RISK | EXECUTOR

fun role_value :: "agent_role \<Rightarrow> string" where
  "role_value RESEARCHER = ''researcher''"
| "role_value RISK = ''risk''"
| "role_value EXECUTOR = ''executor''"

definition role_of :: "string \<Rightarrow> agent_role option" where
  "role_of = enum_of [RESEARCHER, RISK, EXECUTOR] role_value"

datatype message_type =
  MT_PING | MT_PONG | MT_MARKET_SIGNAL | MT_TRADE_DECISION | MT_EXECUTION_RESULT | MT_ERROR

fun message_type_value :: "message_type \<Rightarrow> string" where
  "message_type_value MT_PING = ''ping''"
| "message_type_value MT_PONG = ''pong''"
| "message_type_value MT_MARKET_SIGNAL = ''market_signal''"
| "message_type_value MT_TRADE_DECISION = ''trade_decision''"
| "message_type_value MT_EXECUTION_RESULT = ''execution_result''"
| "message_type_value MT_ERROR = ''error''"

definition message_type_of :: "string \<Rightarrow> message_type option" where
  "message_type_of =
     enum_of [MT_PING, MT_PONG, MT_MARKET_SIGNAL, MT_TRADE_DECISION, MT_EXECUTION_RESULT, MT_ERROR]
       message_type_value"

datatype signal_strength = WEAK | MEDIUM | STRONG

fun strength_value :: "signal_strength \<Rightarrow> string" where
  "strength_value WEAK = ''weak''"
| "strength_value MEDIUM = ''medium''"
| "strength_value STRONG = ''strong''"

definition strength_of :: "string \<Rightarrow> signal_strength option" where
  "strength_of = enum_of [WEAK, MEDIUM, STRONG] strength_value"

datatype trade_action = BUY | SELL | HOLD

fun action_value :: "trade_action \<Rightarrow> string" where
  "action_value BUY = ''buy''"
| "action_value SELL = ''sell''"
| "action_value HOLD = ''hold''"

definition action_of :: "string \<Rightarrow> trade_action option" where
  "action_of = enum_of [BUY, SELL, HOLD] action_value"

text \<open>
  \<^verbatim>\<open>str(action)\<close> for the action of a decision that the program made itself: a dumped model keeps
  the member of the enumeration, whose text is its qualified name and not its value, as in
  \<^verbatim>\<open>TradeAction.BUY\<close>.
\<close>

definition action_text :: "(pyval \<Rightarrow> string) \<Rightarrow> pyval \<Rightarrow> string" where
  "action_text repr v =
     (case v of
        VStr s \<Rightarrow> (case action_of s of Some a \<Rightarrow> ''TradeAction.'' @ map char_upper s | None \<Rightarrow> s)
      | _ \<Rightarrow> py_str repr v)"

subsection \<open>The envelope\<close>

record swarm_message =
  message_id :: string
  message_type :: message_type
  sender_role :: agent_role
  sender_pubkey :: string
  timestamp :: string
  payload :: pydict

definition pubkey_must_be_hex :: "string \<Rightarrow> string res" where
  "pubkey_must_be_hex v =
     (case str_to_int 16 v of
        None \<Rightarrow> Inl (PyExc ValueError ''sender_pubkey must be a 64-char hex string'')
      | Some _ \<Rightarrow> Inr (str_lower v))"

text \<open>Constructing (or validating) a message: the length constraint, then the field validator.\<close>

definition validate_message :: "swarm_message \<Rightarrow> swarm_message res" where
  "validate_message m =
     (if length (sender_pubkey m) \<noteq> 64 then Inl (PyExc ValidationError ''sender_pubkey'')
      else case pubkey_must_be_hex (sender_pubkey m) of
        Inl e \<Rightarrow> Inl (PyExc ValidationError (exc_str e))
      | Inr v \<Rightarrow> Inr (m\<lparr>sender_pubkey := v\<rparr>))"

definition make_message ::
  "string \<Rightarrow> string \<Rightarrow> message_type \<Rightarrow> agent_role \<Rightarrow> string \<Rightarrow> pydict \<Rightarrow> swarm_message res" where
  "make_message mid now mt role pk pl =
     validate_message \<lparr>message_id = mid, message_type = mt, sender_role = role,
       sender_pubkey = pk, timestamp = now, payload = pl\<rparr>"

definition encode_message :: "(swarm_message \<Rightarrow> bytes) \<Rightarrow> swarm_message \<Rightarrow> bytes" where
  "encode_message dump m = dump m"

definition decode_message :: "(bytes \<Rightarrow> swarm_message res) \<Rightarrow> bytes \<Rightarrow> swarm_message res" where
  "decode_message load raw = res_bind (load raw) validate_message"

subsection \<open>Payloads\<close>

text \<open>A range constraint \<^verbatim>\<open>ge=lo, le=hi\<close> on a float field.\<close>

definition in_range :: "bool \<Rightarrow> rat \<Rightarrow> rat \<Rightarrow> pyfloat \<Rightarrow> bool" where
  "in_range nan_ok lo hi f \<longleftrightarrow>
     (case f of NaN \<Rightarrow> nan_ok | _ \<Rightarrow> f_ge f (Fin lo) \<and> f_le f (Fin hi))"

record market_signal =
  ms_token_in :: string
  ms_token_out :: string
  ms_chain_id :: int
  ms_price_usd :: pyfloat
  ms_signal :: signal_strength
  ms_reason :: string
  ms_source_url :: "string option"

definition validate_market_signal :: "bool \<Rightarrow> market_signal \<Rightarrow> market_signal res" where
  "validate_market_signal nan_ok p =
     (if (case ms_price_usd p of NaN \<Rightarrow> \<not> nan_ok | f \<Rightarrow> f_le f (Fin 0))
      then Inl (PyExc ValidationError ''price_usd'')
      else if 500 < length (ms_reason p) then Inl (PyExc ValidationError ''reason'')
      else Inr p)"

record trade_decision =
  td_action :: trade_action
  td_token_in :: string
  td_token_out :: string
  td_chain_id :: int
  td_amount_in_wei :: int
  td_risk_score :: pyfloat
  td_confidence :: pyfloat
  td_rejection_reason :: "string option"

definition hold_needs_reason :: "trade_decision \<Rightarrow> trade_decision res" where
  "hold_needs_reason d =
     (if td_action d = HOLD \<and> \<not> str_truthy (td_rejection_reason d)
      then Inl (PyExc ValueError ''HOLD decisions must include a rejection_reason'')
      else Inr d)"

definition validate_trade_decision :: "bool \<Rightarrow> trade_decision \<Rightarrow> trade_decision res" where
  "validate_trade_decision nan_ok d =
     (if \<not> 0 < td_amount_in_wei d then Inl (PyExc ValidationError ''amount_in_wei'')
      else if \<not> in_range nan_ok 0 10 (td_risk_score d) then Inl (PyExc ValidationError ''risk_score'')
      else if \<not> in_range nan_ok 0 1 (td_confidence d) then Inl (PyExc ValidationError ''confidence'')
      else case hold_needs_reason d of
        Inl e \<Rightarrow> Inl (PyExc ValidationError (exc_str e))
      | Inr d' \<Rightarrow> Inr d')"

definition opt_str :: "string option \<Rightarrow> pyval" where
  "opt_str s = (case s of Some t \<Rightarrow> VStr t | None \<Rightarrow> VNone)"

definition opt_int :: "int option \<Rightarrow> pyval" where
  "opt_int i = (case i of Some n \<Rightarrow> VInt n | None \<Rightarrow> VNone)"

text \<open>\<^verbatim>\<open>model_dump()\<close>: the fields in order; a string enumeration equals its value.\<close>

definition trade_decision_dump :: "trade_decision \<Rightarrow> pydict" where
  "trade_decision_dump d =
     [(''action'', VStr (action_value (td_action d))),
      (''token_in'', VStr (td_token_in d)),
      (''token_out'', VStr (td_token_out d)),
      (''chain_id'', VInt (td_chain_id d)),
      (''amount_in_wei'', VInt (td_amount_in_wei d)),
      (''risk_score'', VFloat (td_risk_score d)),
      (''confidence'', VFloat (td_confidence d)),
      (''rejection_reason'', opt_str (td_rejection_reason d))]"

record execution_result =
  er_success :: bool
  er_tx_hash :: "string option"
  er_error :: "string option"
  er_gas_used :: "int option"
  er_block_number :: "int option"

definition result_must_have_detail :: "execution_result \<Rightarrow> execution_result res" where
  "result_must_have_detail r =
     (if er_success r \<and> \<not> str_truthy (er_tx_hash r)
      then Inl (PyExc ValidationError ''Successful execution must include tx_hash'')
      else if \<not> er_success r \<and> \<not> str_truthy (er_error r)
      then Inl (PyExc ValidationError ''Failed execution must include error'')
      else Inr r)"

definition execution_result_dump :: "execution_result \<Rightarrow> pydict" where
  "execution_result_dump r =
     [(''success'', VBool (er_success r)),
      (''tx_hash'', opt_str (er_tx_hash r)),
      (''error'', opt_str (er_error r)),
      (''gas_used'', opt_int (er_gas_used r)),
      (''block_number'', opt_int (er_block_number r))]"

subsection \<open>Pings and pongs\<close>

definition make_ping :: "string \<Rightarrow> string \<Rightarrow> string \<Rightarrow> agent_role \<Rightarrow> string \<Rightarrow> swarm_message res" where
  "make_ping nonce mid now role pk =
     make_message mid now MT_PING role pk [(''nonce'', VStr nonce)]"

definition make_pong ::
  "string \<Rightarrow> string \<Rightarrow> swarm_message \<Rightarrow> agent_role \<Rightarrow> string \<Rightarrow> pyfloat option \<Rightarrow> swarm_message res" where
  "make_pong mid now ping role pk latency =
     (case dget (payload ping) ''nonce'' (VStr []) of
        VStr nonce \<Rightarrow>
          make_message mid now MT_PONG role pk
            [(''nonce'', VStr nonce),
             (''latency_ms'', (case latency of Some f \<Rightarrow> VFloat f | None \<Rightarrow> VNone))]
      | _ \<Rightarrow> Inl (PyExc ValidationError ''nonce''))"

subsection \<open>The enumerations are string enumerations\<close>

interpretation role_enum: str_enum role_value role_of
  unfolding role_of_def
proof (rule str_enum_of)
  show "x \<in> set [RESEARCHER, RISK, EXECUTOR]" for x by (cases x) simp_all
  show "role_value x = role_value y \<Longrightarrow> x = y" for x y by (cases x; cases y) simp_all
qed

interpretation message_type_enum: str_enum message_type_value message_type_of
  unfolding message_type_of_def
proof (rule str_enum_of)
  show "x \<in> set [MT_PING, MT_PONG, MT_MARKET_SIGNAL, MT_TRADE_DECISION, MT_EXECUTION_RESULT, MT_ERROR]"
    for x by (cases x) simp_all
  show "message_type_value x = message_type_value y \<Longrightarrow> x = y" for x y
    by (cases x; cases y) simp_all
qed

interpretation strength_enum: str_enum strength_value strength_of
  unfolding strength_of_def
proof (rule str_enum_of)
  show "x \<in> set [WEAK, MEDIUM, STRONG]" for x by (cases x) simp_all
  show "strength_value x = strength_value y \<Longrightarrow> x = y" for x y by (cases x; cases y) simp_all
qed

interpretation action_enum: str_enum action_value action_of
  unfolding action_of_def
proof (rule str_enum_of)
  show "x \<in> set [BUY, SELL, HOLD]" for x by (cases x) simp_all
  show "action_value x = action_value y \<Longrightarrow> x = y" for x y by (cases x; cases y) simp_all
qed

subsection \<open>What validation establishes\<close>

definition valid_message :: "swarm_message \<Rightarrow> bool" where
  "valid_message m \<longleftrightarrow> validate_message m = Inr m"

lemma validate_message_idem:
  assumes "validate_message m = Inr m'"
  shows "validate_message m' = Inr m'"
  using assms
  by (auto simp: validate_message_def pubkey_must_be_hex_def str_to_int_lower
      split: if_splits option.splits)

lemma make_message_SomeD:
  assumes "make_message mid now mt role pk pl = Inr m"
  shows "valid_message m" and "message_type m = mt" and "sender_role m = role"
    and "payload m = pl" and "length (sender_pubkey m) = 64" and "sender_pubkey m = str_lower pk"
proof -
  from assms have v: "validate_message \<lparr>message_id = mid, message_type = mt, sender_role = role,
       sender_pubkey = pk, timestamp = now, payload = pl\<rparr> = Inr m"
    by (simp add: make_message_def)
  from validate_message_idem [OF v] show "valid_message m" by (simp add: valid_message_def)
  from v show "message_type m = mt" and "sender_role m = role" and "payload m = pl"
    and "length (sender_pubkey m) = 64" and "sender_pubkey m = str_lower pk"
    by (auto simp: validate_message_def pubkey_must_be_hex_def split: if_splits option.splits)
qed

lemma make_message_total:
  assumes "length pk = 64" and "str_to_int 16 pk = Some i"
  shows "make_message mid now mt role pk pl =
    Inr \<lparr>message_id = mid, message_type = mt, sender_role = role,
      sender_pubkey = str_lower pk, timestamp = now, payload = pl\<rparr>"
  using assms by (simp add: make_message_def validate_message_def pubkey_must_be_hex_def)

lemma validate_trade_decision_iff:
  "validate_trade_decision nan_ok d = Inr d' \<longleftrightarrow>
     d' = d \<and> 0 < td_amount_in_wei d \<and> in_range nan_ok 0 10 (td_risk_score d) \<and>
     in_range nan_ok 0 1 (td_confidence d) \<and>
     (td_action d = HOLD \<longrightarrow> str_truthy (td_rejection_reason d))"
  by (auto simp: validate_trade_decision_def hold_needs_reason_def)

lemma result_must_have_detail_iff:
  "result_must_have_detail r = Inr r' \<longleftrightarrow>
     r' = r \<and> (if er_success r then str_truthy (er_tx_hash r) else str_truthy (er_error r))"
  by (auto simp: result_must_have_detail_def)

lemma in_range_Fin [simp]: "in_range nan_ok lo hi (Fin q) \<longleftrightarrow> lo \<le> q \<and> q \<le> hi"
  by (simp add: in_range_def)

subsection \<open>Properties\<close>

text \<open>
  A message built by the constructor survives the wire: decoding its encoding gives back
  exactly the message, whose key is the 64-character lower-cased key, whenever the JSON layer
  restores the field values it wrote.
\<close>

theorem message_roundtrip:
  assumes "make_message mid now mt role pk pl = Inr m"
    and "load (dump m) = Inr m"
  shows "decode_message load (encode_message dump m) = Inr m \<and>
         length (sender_pubkey m) = 64 \<and> sender_pubkey m = str_lower pk \<and>
         message_type m = mt \<and> sender_role m = role \<and> payload m = pl"
  using make_message_SomeD [OF assms(1)] assms(2)
  by (simp add: decode_message_def encode_message_def valid_message_def)

definition sample_pk :: string where
  "sample_pk = replicate 64 (CHR ''A'')"

lemma digit_group_replicate:
  "is_digit base c \<Longrightarrow> c \<noteq> CHR ''_'' \<Longrightarrow> digit_group base (replicate (Suc n) c)"
  by (induction n) simp_all

lemma hex_key:
  assumes "c \<in> {CHR ''A'', CHR ''0''}"
  shows "\<exists>i. str_to_int 16 (replicate 64 c) = Some i"
proof -
  have s: "str_strip (replicate 64 c) = replicate 64 c"
    using assms by (auto simp: str_strip_def is_space_def dropWhile_replicate)
  have r: "replicate 64 c = c # c # replicate (Suc 61) c" by (simp flip: replicate_Suc)
  have "digit_group 16 (replicate (Suc 63) c)"
    using assms by (intro digit_group_replicate) (auto simp: is_digit_def digit_val_def)
  then have "digit_group 16 (replicate 64 c)" by simp
  moreover have "split_sign (replicate 64 c) = (1, replicate 64 c)"
    using assms unfolding r by (auto simp: split_sign_def)
  moreover have "\<not> startswith ''0x'' (replicate 64 c)" "\<not> startswith ''0X'' (replicate 64 c)"
    using assms unfolding r by (auto simp: startswith_def)
  ultimately show ?thesis by (simp add: str_to_int_def s)
qed

lemma sample_pk_hex: "\<exists>i. str_to_int 16 sample_pk = Some i"
  unfolding sample_pk_def by (rule hex_key) simp

theorem message_roundtrip_witness:
  "\<exists>m. make_message ''id'' ''now'' MT_PING RESEARCHER sample_pk [] = Inr m \<and>
     decode_message (\<lambda>_. Inr m) (encode_message (\<lambda>_. []) m) = Inr m \<and>
     length (sender_pubkey m) = 64 \<and> sender_pubkey m = str_lower sample_pk"
proof -
  from sample_pk_hex obtain i where "str_to_int 16 sample_pk = Some i" ..
  moreover have "length sample_pk = 64" by (simp add: sample_pk_def)
  ultimately obtain m where m: "make_message ''id'' ''now'' MT_PING RESEARCHER sample_pk [] = Inr m"
    using make_message_total by blast
  from m message_roundtrip [OF m, of "\<lambda>_. Inr m" "\<lambda>_. []"] show ?thesis by auto
qed

end
