(* ===== verification/Blob_Store.thy ===== *)
theory Blob_Store
  imports PyValue
begin

text \<open>
  The 0G storage client (\<^verbatim>\<open>core/storage/client.py\<close>): length framing, the in-memory and
  the buffered (write-back) backends, the live backend that runs the Node.js sidecar, and the
  facade \<^verbatim>\<open>ZeroGClient\<close> that picks one.

  Parameters (a \<open>zg_env\<close>): the SHA-256 digest, the sidecar process (\<open>spawn\<close>, acting on a
  network state of an arbitrary type) and the JSON text functions. All theorems hold for
  every choice of them; where blobs must stay apart the digest is assumed injective on the
  set \<open>B\<close> of blobs in play, never on all byte strings.
\<close>

subsection \<open>Framing\<close>

definition ZG_MIN_UPLOAD_BYTES :: nat where
  "ZG_MIN_UPLOAD_BYTES = 256"

text \<open>\<^verbatim>\<open>n.to_bytes(4, "big")\<close> and \<^verbatim>\<open>int.from_bytes(b, "big")\<close>.\<close>

definition to_bytes4 :: "nat \<Rightarrow> bytes" where
  "to_bytes4 n =
     [of_nat (n div 16777216), of_nat (n div 65536), of_nat (n div 256), of_nat n]"

definition from_bytes :: "bytes \<Rightarrow> nat" where
  "from_bytes bs = foldl (\<lambda>n b. 256 * n + unat b) 0 bs"

definition frame :: "bytes \<Rightarrow> bytes res" where
  "frame d =
     (if 2 ^ 32 \<le> length d then Inl (PyExc OverflowError ''int too big to convert'')
      else let framed = to_bytes4 (length d) @ d
           in Inr (if length framed < ZG_MIN_UPLOAD_BYTES
                   then framed @ replicate (ZG_MIN_UPLOAD_BYTES - length framed) 0 else framed))"

definition unframe :: "bytes \<Rightarrow> bytes" where
  "unframe d =
     (if length d < 4 then d
      else let n = from_bytes (take 4 d); p = take n (drop 4 d)
           in if length p \<noteq> n then d else p)"

subsection \<open>Environment and state\<close>

record upload_result =
  root_hash :: string
  tx_hash :: "string option"
  size_bytes :: nat

record 'n zg_env =
  sha256 :: "bytes \<Rightarrow> bytes"
  spawn :: "string list \<Rightarrow> bytes option \<Rightarrow> ('n, int \<times> bytes \<times> bytes) sx"
  json_dumps :: "pyval \<Rightarrow> bytes"
  json_dumps_sorted :: "pyval \<Rightarrow> bytes"
  json_loads :: "bytes \<Rightarrow> pyval res"

record live_client =
  private_key :: string
  evm_rpc :: string
  indexer_rpc :: string

type_synonym blob_map = "(string \<times> bytes) list"

record buffered_store =
  bf_live :: live_client
  bf_mem :: blob_map
  bf_snapshot_root :: "string option"
  bf_snapshot_tx :: "string option"

datatype backend = InMemory blob_map | Buffered buffered_store | Live live_client

record 'n zg =
  zg_backend :: backend
  zg_net :: 'n

definition hexdigest :: "('n, 'x) zg_env_scheme \<Rightarrow> bytes \<Rightarrow> string" where
  "hexdigest env d = bytes_hex (sha256 env d)"

subsection \<open>In-memory store\<close>

definition inmem_upload :: "('n, 'x) zg_env_scheme \<Rightarrow> bytes \<Rightarrow> (blob_map, upload_result) sx" where
  "inmem_upload env d m =
     (let rt = hexdigest env d
      in (Inr \<lparr>root_hash = rt, tx_hash = None, size_bytes = length d\<rparr>, AList.update rt d m))"

text \<open>\<^verbatim>\<open>get(key) or get(root_hash)\<close>: an empty value at \<^verbatim>\<open>key\<close> is passed over.\<close>

definition inmem_download :: "string \<Rightarrow> (blob_map, bytes) sx" where
  "inmem_download r m =
     (let key = removeprefix ''0x'' r;
          data = (case map_of m key of
                    Some d \<Rightarrow> if d \<noteq> [] then Some d else map_of m r
                  | None \<Rightarrow> map_of m r)
      in case data of
           None \<Rightarrow> (Inl (PyExc KeyError (''Root hash not found in memory store: '' @ r)), m)
         | Some d \<Rightarrow> (Inr d, m))"

definition inmem_reset :: "blob_map \<Rightarrow> blob_map" where
  "inmem_reset m = []"

subsection \<open>Live backend: one sidecar process per operation\<close>

definition text_of :: "bytes \<Rightarrow> string" where
  "text_of bs = map (\<lambda>b. char_of (unat b)) bs"

definition bytes_of :: "string \<Rightarrow> bytes" where
  "bytes_of s = map (\<lambda>c. of_nat (of_char c)) s"

definition is_linebreak :: "char \<Rightarrow> bool" where
  "is_linebreak c \<longleftrightarrow> (let k = of_char c :: nat in (10 \<le> k \<and> k \<le> 13) \<or> (28 \<le> k \<and> k \<le> 30))"

fun split_lines :: "string \<Rightarrow> string list" where
  "split_lines [] = [[]]"
| "split_lines (c # s) =
     (case split_lines s of
        l # ls \<Rightarrow> if is_linebreak c then [] # l # ls else (c # l) # ls
      | [] \<Rightarrow> [[c]])"

text \<open>\<^verbatim>\<open>[l for l in text.splitlines() if l.strip()]\<close>\<close>

definition nonblank_lines :: "string \<Rightarrow> string list" where
  "nonblank_lines s = filter (\<lambda>l. str_strip l \<noteq> []) (split_lines s)"

definition sidecar_run ::
  "('n, 'x) zg_env_scheme \<Rightarrow> string list \<Rightarrow> bytes option \<Rightarrow> ('n, bytes) sx" where
  "sidecar_run env args stdin =
     sx_bind (spawn env args stdin) (\<lambda>(code, out, err).
       if code \<noteq> 0 then sx_raise (PyExc RuntimeError (''zg-sidecar failed (code '' @ str_int code @ '')''))
       else sx_return out)"

definition live_upload ::
  "('n, 'x) zg_env_scheme \<Rightarrow> live_client \<Rightarrow> bytes \<Rightarrow> ('n, upload_result) sx" where
  "live_upload env c d =
     sx_bind (sidecar_run env
         [''upload'', ''--key'', private_key c, ''--evm'', evm_rpc c, ''--indexer'', indexer_rpc c]
         (Some d)) (\<lambda>raw.
       case nonblank_lines (text_of raw) of
         [] \<Rightarrow> sx_raise (PyExc IndexError ''list index out of range'')
       | l # ls \<Rightarrow>
           (case json_loads env (bytes_of (last (l # ls))) of
              Inl e \<Rightarrow> sx_raise e
            | Inr (VDict result) \<Rightarrow>
                (case dget result ''rootHash'' (VStr []) of
                   VStr rt \<Rightarrow>
                     if rt = [] then sx_raise (PyExc RuntimeError ''Upload returned no rootHash'')
                     else sx_return \<lparr>root_hash = rt,
                       tx_hash = (case py_or (dget result ''txHash'' VNone) VNone of
                                    VStr t \<Rightarrow> Some t | _ \<Rightarrow> None),
                       size_bytes = length d\<rparr>
                 | v \<Rightarrow> if truthy v then sx_raise (PyExc TypeError ''rootHash'')
                        else sx_raise (PyExc RuntimeError ''Upload returned no rootHash''))
            | Inr _ \<Rightarrow> sx_raise (PyExc AttributeError ''object has no attribute get'')))"

definition live_download ::
  "('n, 'x) zg_env_scheme \<Rightarrow> live_client \<Rightarrow> string \<Rightarrow> ('n, bytes) sx" where
  "live_download env c r =
     (let rt = (if startswith ''0x'' r then r else ''0x'' @ r)
      in sidecar_run env [''download'', ''--root'', rt, ''--indexer'', indexer_rpc c] None)"

subsection \<open>Buffered store: uploads stay in memory until one flush\<close>

definition on_net :: "('n, 'a) sx \<Rightarrow> ('n zg, 'a) sx" where
  [sx_simps]: "on_net m = sx_zoom zg_net (\<lambda>n s. s\<lparr>zg_net := n\<rparr>) m"

definition buffered_upload ::
  "('n, 'x) zg_env_scheme \<Rightarrow> buffered_store \<Rightarrow> bytes \<Rightarrow> ('n zg, upload_result) sx" where
  "buffered_upload env b d s =
     (let rt = hexdigest env d
      in (Inr \<lparr>root_hash = rt, tx_hash = None, size_bytes = length d\<rparr>,
          s\<lparr>zg_backend := Buffered (b\<lparr>bf_mem := AList.update rt d (bf_mem b)\<rparr>)\<rparr>))"

definition buffered_download ::
  "('n, 'x) zg_env_scheme \<Rightarrow> buffered_store \<Rightarrow> string \<Rightarrow> ('n zg, bytes) sx" where
  "buffered_download env b r =
     (let key = removeprefix ''0x'' r
      in case map_of (bf_mem b) key of
           Some d \<Rightarrow> sx_return d
         | None \<Rightarrow>
             (case map_of (bf_mem b) r of
                Some d \<Rightarrow> sx_return d
              | None \<Rightarrow> on_net (live_download env (bf_live b) r)))"

definition snapshot_value :: "string \<Rightarrow> blob_map \<Rightarrow> pyval" where
  "snapshot_value now m =
     VDict [(''version'', VInt 1), (''ts'', VStr now), (''entry_count'', VInt (int (length m))),
            (''data'', VDict (map (\<lambda>(r, d). (r, VStr (bytes_hex d))) m))]"

definition buffered_flush ::
  "('n, 'x) zg_env_scheme \<Rightarrow> string \<Rightarrow> buffered_store \<Rightarrow> ('n zg, string option) sx" where
  "buffered_flush env now b =
     (if bf_mem b = [] then sx_return None
      else sx_bind (on_net (live_upload env (bf_live b) (json_dumps_sorted env (snapshot_value now (bf_mem b)))))
        (\<lambda>result s.
           (Inr (Some (root_hash result)),
            s\<lparr>zg_backend := Buffered (b\<lparr>bf_snapshot_root := Some (root_hash result),
                                        bf_snapshot_tx := tx_hash result\<rparr>)\<rparr>)))"

subsection \<open>The facade\<close>

definition backend_upload :: "('n, 'x) zg_env_scheme \<Rightarrow> bytes \<Rightarrow> ('n zg, upload_result) sx" where
  "backend_upload env d s =
     (case zg_backend s of
        InMemory m \<Rightarrow> (case inmem_upload env d m of (r, m') \<Rightarrow> (r, s\<lparr>zg_backend := InMemory m'\<rparr>))
      | Buffered b \<Rightarrow> buffered_upload env b d s
      | Live c \<Rightarrow> on_net (live_upload env c d) s)"

definition backend_download :: "('n, 'x) zg_env_scheme \<Rightarrow> string \<Rightarrow> ('n zg, bytes) sx" where
  "backend_download env r s =
     (case zg_backend s of
        InMemory m \<Rightarrow> (case inmem_download r m of (x, m') \<Rightarrow> (x, s\<lparr>zg_backend := InMemory m'\<rparr>))
      | Buffered b \<Rightarrow> buffered_download env b r s
      | Live c \<Rightarrow> on_net (live_download env c r) s)"

definition zg_upload :: "('n, 'x) zg_env_scheme \<Rightarrow> bytes \<Rightarrow> ('n zg, upload_result) sx" where
  "zg_upload env d = sx_bind (sx_lift (frame d)) (backend_upload env)"

definition zg_download :: "('n, 'x) zg_env_scheme \<Rightarrow> string \<Rightarrow> ('n zg, bytes) sx" where
  "zg_download env r = sx_bind (backend_download env r) (\<lambda>raw. sx_return (unframe raw))"

definition zg_flush :: "('n, 'x) zg_env_scheme \<Rightarrow> string \<Rightarrow> ('n zg, string option) sx" where
  "zg_flush env now s =
     (case zg_backend s of Buffered b \<Rightarrow> buffered_flush env now b s | _ \<Rightarrow> (Inr None, s))"

definition is_live :: "'n zg \<Rightarrow> bool" where
  "is_live s \<longleftrightarrow> (case zg_backend s of InMemory _ \<Rightarrow> False | _ \<Rightarrow> True)"

definition is_buffered :: "'n zg \<Rightarrow> bool" where
  "is_buffered s \<longleftrightarrow> (case zg_backend s of Buffered _ \<Rightarrow> True | _ \<Rightarrow> False)"

definition snapshot_root :: "'n zg \<Rightarrow> string option" where
  "snapshot_root s = (case zg_backend s of Buffered b \<Rightarrow> bf_snapshot_root b | _ \<Rightarrow> None)"

definition snapshot_tx :: "'n zg \<Rightarrow> string option" where
  "snapshot_tx s = (case zg_backend s of Buffered b \<Rightarrow> bf_snapshot_tx b | _ \<Rightarrow> None)"

definition buffered_entry_count :: "'n zg \<Rightarrow> nat" where
  "buffered_entry_count s = (case zg_backend s of Buffered b \<Rightarrow> length (bf_mem b) | _ \<Rightarrow> 0)"

definition reset_memory_store :: "'n zg \<Rightarrow> 'n zg" where
  "reset_memory_store s =
     (case zg_backend s of InMemory m \<Rightarrow> s\<lparr>zg_backend := InMemory (inmem_reset m)\<rparr> | _ \<Rightarrow> s)"

definition upload_json :: "('n, 'x) zg_env_scheme \<Rightarrow> pyval \<Rightarrow> ('n zg, upload_result) sx" where
  "upload_json env v = zg_upload env (json_dumps env v)"

definition download_json :: "('n, 'x) zg_env_scheme \<Rightarrow> string \<Rightarrow> ('n zg, pyval) sx" where
  "download_json env r = sx_bind (zg_download env r) (\<lambda>raw. sx_lift (json_loads env raw))"

text \<open>
  Making the live client: the key must be one that \<^verbatim>\<open>eth_account\<close> accepts (\<open>hv_account\<close>), and
  the sidecar and its modules must be there (\<open>hv_exists\<close>, by the path in the repository).
\<close>

record host_env =
  hv_account :: "string \<Rightarrow> unit res"
  hv_exists :: "string \<Rightarrow> bool"

definition validate_sidecar :: "host_env \<Rightarrow> unit res" where
  "validate_sidecar host =
     (if \<not> hv_exists host ''zg-sidecar/sidecar.mjs''
      then Inl (PyExc FileNotFoundError ''0G sidecar not found'')
      else if \<not> hv_exists host ''zg-sidecar/node_modules/@0gfoundation''
      then Inl (PyExc FileNotFoundError ''Node modules missing'')
      else Inr ())"

definition new_live_client :: "host_env \<Rightarrow> string \<Rightarrow> string \<Rightarrow> string \<Rightarrow> live_client res" where
  "new_live_client host key evm indexer =
     res_bind (hv_account host (if startswith ''0x'' key then key else ''0x'' @ key)) (\<lambda>_.
     res_bind (validate_sidecar host) (\<lambda>_.
     Inr \<lparr>private_key = removeprefix ''0x'' key, evm_rpc = evm, indexer_rpc = indexer\<rparr>))"

text \<open>
  \<^verbatim>\<open>ZeroGClient.from_env\<close>: \<open>getenv\<close> is the environment, \<open>buffered\<close> the optional argument.
\<close>

definition getenv_or :: "(string \<Rightarrow> string option) \<Rightarrow> string \<Rightarrow> string \<Rightarrow> string" where
  "getenv_or getenv k dflt = (case getenv k of Some v \<Rightarrow> v | None \<Rightarrow> dflt)"

definition zg_from_env ::
  "(string \<Rightarrow> string option) \<Rightarrow> host_env \<Rightarrow> bool option \<Rightarrow> 'n \<Rightarrow>
   'n zg res" where
  "zg_from_env getenv host buffered net =
     (let pk = str_strip (getenv_or getenv ''ZG_PRIVATE_KEY'' [])
      in if pk = [] then Inr \<lparr>zg_backend = InMemory [], zg_net = net\<rparr>
         else let buf = (case buffered of
                           Some b \<Rightarrow> b
                         | None \<Rightarrow> str_strip (getenv_or getenv ''SWARMFI_BUFFERED'' ''1'')
                                     \<notin> {''0'', ''false'', ''False'', []})
              in res_bind (new_live_client host pk
                   (getenv_or getenv ''ZG_EVM_RPC'' ''https://evmrpc-testnet.0g.ai'')
                   (getenv_or getenv ''ZG_INDEXER_RPC'' ''https://indexer-storage-testnet-turbo.0g.ai''))
                (\<lambda>live. Inr \<lparr>zg_backend = (if buf then Buffered \<lparr>bf_live = live, bf_mem = [],
                     bf_snapshot_root = None, bf_snapshot_tx = None\<rparr> else Live live), zg_net = net\<rparr>))"

subsection \<open>Frames\<close>

lemma from_to_bytes4: "n < 2 ^ 32 \<Longrightarrow> from_bytes (to_bytes4 n) = n"
proof -
  assume n: "n < 2 ^ 32"
  have "from_bytes (to_bytes4 n) =
      16777216 * (n div 16777216 mod 256) + 65536 * (n div 65536 mod 256) +
      256 * (n div 256 mod 256) + n mod 256"
    by (simp add: from_bytes_def to_bytes4_def unsigned_of_nat take_bit_eq_mod)
  moreover from n have "n div 16777216 mod 256 = n div 16777216" by simp
  moreover have "n div 256 div 256 = n div 65536" and "n div 65536 div 256 = n div 16777216"
    by (simp_all add: div_mult2_eq [symmetric])
  ultimately show ?thesis
    using div_mult_mod_eq [of n 256] div_mult_mod_eq [of "n div 256" 256]
      div_mult_mod_eq [of "n div 65536" 256]
    by linarith
qed

lemma length_to_bytes4 [simp]: "length (to_bytes4 n) = 4"
  by (simp add: to_bytes4_def)

lemma frame_Inr_iff:
  "frame d = Inr x \<longleftrightarrow> length d < 2 ^ 32 \<and>
     x = to_bytes4 (length d) @ d @ replicate (252 - length d) 0"
  by (auto simp: frame_def Let_def ZG_MIN_UPLOAD_BYTES_def)

lemma length_frame: "frame d = Inr x \<Longrightarrow> length x = max 256 (length d + 4)"
  by (auto simp: frame_Inr_iff max_def)

lemma frame_not_Nil: "frame d = Inr x \<Longrightarrow> x \<noteq> []"
  by (auto dest: length_frame)

lemma unframe_frame:
  assumes "frame d = Inr x"
  shows "unframe x = d"
proof -
  from assms have len: "length d < 2 ^ 32"
    and x: "x = to_bytes4 (length d) @ d @ replicate (252 - length d) 0"
    by (simp_all add: frame_Inr_iff)
  have "from_bytes (take 4 x) = length d" using len by (simp add: x from_to_bytes4)
  then show ?thesis by (simp add: unframe_def x)
qed

subsection \<open>The contract of a content-addressed store\<close>

locale blob_store =
  fixes put :: "bytes \<Rightarrow> ('s, upload_result) sx"
    and fetch :: "string \<Rightarrow> ('s, bytes) sx"
    and blob :: "'s \<Rightarrow> string \<Rightarrow> bytes option"
    and ok :: "'s \<Rightarrow> bool"
    and fits :: "bytes \<Rightarrow> bool"
    and root_for :: "bytes \<Rightarrow> string"
  assumes put_ok: "ok s \<Longrightarrow> fits d \<Longrightarrow>
      \<exists>u s'. put d s = (Inr u, s') \<and> ok s' \<and> blob s' (root_hash u) = Some d"
    and put_keeps: "ok s \<Longrightarrow> fits d \<Longrightarrow> put d s = (Inr u, s') \<Longrightarrow> blob s r = Some d' \<Longrightarrow>
      blob s' r = Some d'"
    and fetch_blob: "ok s \<Longrightarrow> blob s r = Some d \<Longrightarrow> fetch r s = (Inr d, s)"
    and put_root: "ok s \<Longrightarrow> put d s = (Inr u, s') \<Longrightarrow> root_hash u = root_for d"
begin

lemma putE:
  assumes "ok s" and "fits d"
  obtains u s' where "put d s = (Inr u, s')" and "ok s'" and "root_hash u = root_for d"
    and "blob s' (root_for d) = Some d"
    and "\<forall>r d'. blob s r = Some d' \<longrightarrow> blob s' r = Some d'"
  using put_ok [OF assms] put_keeps [OF assms] put_root [OF assms(1)] by metis

lemma put_fetch:
  assumes "ok s" and "fits d" and "put d s = (Inr u, s')"
  shows "fetch (root_hash u) s' = (Inr d, s')"
proof -
  from put_ok [OF assms(1,2)] assms(3) have "ok s'" and "blob s' (root_hash u) = Some d" by auto
  then show ?thesis by (rule fetch_blob)
qed

text \<open>A whole series of uploads succeeds and loses nothing.\<close>

lemma put_all:
  assumes "ok s" and "\<And>d. d \<in> set ds \<Longrightarrow> fits d"
  shows "\<exists>us s'. sx_map put ds s = (Inr us, s') \<and> ok s' \<and>
    list_all2 (\<lambda>u d. blob s' (root_hash u) = Some d) us ds \<and>
    (\<forall>r d'. blob s r = Some d' \<longrightarrow> blob s' r = Some d')"
  using assms
proof (induction ds arbitrary: s)
  case Nil
  then show ?case by (simp add: sx_simps)
next
  case (Cons d ds)
  have "fits d" by (rule Cons.prems(2)) simp
  with Cons.prems(1) obtain u s1 where
    u: "put d s = (Inr u, s1)" "ok s1" "root_hash u = root_for d" "blob s1 (root_for d) = Some d"
    and keep: "\<forall>r d'. blob s r = Some d' \<longrightarrow> blob s1 r = Some d'"
    by (rule putE)
  have "\<And>d. d \<in> set ds \<Longrightarrow> fits d" by (rule Cons.prems(2)) simp
  from Cons.IH [OF u(2) this] obtain us s2 where
    us: "sx_map put ds s1 = (Inr us, s2)" "ok s2"
    "list_all2 (\<lambda>u d. blob s2 (root_hash u) = Some d) us ds"
    "\<forall>r d'. blob s1 r = Some d' \<longrightarrow> blob s2 r = Some d'"
    by blast
  have "sx_map put (d # ds) s = (Inr (u # us), s2)"
    using u(1) us(1) by (simp add: sx_simps)
  with u(3,4) us keep show ?case by fastforce
qed

end

subsection \<open>The client implements the contract\<close>

definition zg_mem :: "'n zg \<Rightarrow> blob_map option" where
  "zg_mem s = (case zg_backend s of InMemory m \<Rightarrow> Some m | Buffered b \<Rightarrow> Some (bf_mem b) | Live _ \<Rightarrow> None)"

text \<open>Every blob held is a frame, stored under its own digest; the digest separates \<open>B\<close>.\<close>

definition blobs_ok :: "('n, 'x) zg_env_scheme \<Rightarrow> bytes set \<Rightarrow> blob_map \<Rightarrow> bool" where
  "blobs_ok env B m \<longleftrightarrow>
     (\<forall>r x. map_of m r = Some x \<longrightarrow> r = hexdigest env x \<and> x \<in> B \<and> (\<exists>d. frame d = Inr x))"

definition zg_ok :: "('n, 'x) zg_env_scheme \<Rightarrow> bytes set \<Rightarrow> 'n zg \<Rightarrow> bool" where
  "zg_ok env B s \<longleftrightarrow> inj_on (sha256 env) B \<and> (\<exists>m. zg_mem s = Some m \<and> blobs_ok env B m)"

definition zg_fits :: "bytes set \<Rightarrow> bytes \<Rightarrow> bool" where
  "zg_fits B d \<longleftrightarrow> (\<exists>x \<in> B. frame d = Inr x)"

definition root_of :: "('n, 'x) zg_env_scheme \<Rightarrow> bytes \<Rightarrow> string" where
  "root_of env d = (case frame d of Inr x \<Rightarrow> hexdigest env x | Inl _ \<Rightarrow> [])"

definition mem_find :: "blob_map \<Rightarrow> string \<Rightarrow> bytes option" where
  "mem_find m r =
     (case map_of m (removeprefix ''0x'' r) of Some d \<Rightarrow> Some d | None \<Rightarrow> map_of m r)"

definition zg_blob :: "'n zg \<Rightarrow> string \<Rightarrow> bytes option" where
  "zg_blob s r = Option.bind (zg_mem s) (\<lambda>m. map_option unframe (mem_find m r))"

lemma removeprefix_hexdigest [simp]: "removeprefix ''0x'' (hexdigest env d) = hexdigest env d"
  by (simp add: hexdigest_def)

lemma hexdigest_eq: "hexdigest env d = hexdigest env d' \<longleftrightarrow> sha256 env d = sha256 env d'"
  by (auto simp: hexdigest_def dest: bytes_hex_inj)

lemma mem_find_hexdigest [simp]: "mem_find m (hexdigest env d) = map_of m (hexdigest env d)"
  by (simp add: mem_find_def split: option.split)

text \<open>What an upload does to the memory of either buffering backend.\<close>

lemma zg_upload_mem:
  assumes "zg_mem s = Some m" and "frame d = Inr x"
  obtains s' where "zg_upload env d s =
      (Inr \<lparr>root_hash = hexdigest env x, tx_hash = None, size_bytes = length x\<rparr>, s')"
    and "zg_mem s' = Some (AList.update (hexdigest env x) x m)"
    and "zg_net s' = zg_net s"
  using assms
  by (cases "zg_backend s")
    (auto simp: zg_upload_def backend_upload_def inmem_upload_def buffered_upload_def zg_mem_def
      Let_def)

lemma blobs_ok_update:
  assumes "blobs_ok env B m" and "frame d = Inr x" and "x \<in> B"
  shows "blobs_ok env B (AList.update (hexdigest env x) x m)"
  using assms by (auto simp: blobs_ok_def)

lemma mem_find_update:
  assumes "inj_on (sha256 env) B" and "blobs_ok env B m" and "x \<in> B" and "mem_find m r = Some y"
  shows "mem_find (AList.update (hexdigest env x) x m) r = Some y"
proof -
  let ?k = "removeprefix ''0x'' r"
  have same: "z = x" if "map_of m (hexdigest env x) = Some z" for z
  proof -
    from that assms(2) have "hexdigest env x = hexdigest env z" and "z \<in> B"
      by (auto simp: blobs_ok_def)
    with assms(1,3) show ?thesis by (auto simp: hexdigest_eq dest: inj_onD)
  qed
  show ?thesis
  proof (cases "map_of m ?k")
    case (Some z)
    with assms(4) same show ?thesis by (auto simp: mem_find_def)
  next
    case None
    with assms(4) have y: "map_of m r = Some y" by (simp add: mem_find_def)
    then have "r = hexdigest env y" using assms(2) by (auto simp: blobs_ok_def)
    with None y show ?thesis by simp
  qed
qed

lemma zg_download_blob:
  assumes "zg_ok env B s" and "zg_blob s r = Some d"
  shows "zg_download env r s = (Inr d, s)"
proof -
  from assms obtain m x where m: "zg_mem s = Some m" "blobs_ok env B m"
    and x: "mem_find m r = Some x" "d = unframe x"
    by (auto simp: zg_ok_def zg_blob_def)
  have ne: "z \<noteq> []" if "map_of m k = Some z" for k z
    using m(2) that by (auto simp: blobs_ok_def dest: frame_not_Nil)
  have "backend_download env r s = (Inr x, s)"
    using m(1) x(1) ne
    by (cases "zg_backend s")
      (auto simp: backend_download_def inmem_download_def buffered_download_def zg_mem_def
        mem_find_def sx_simps split: option.splits)
  then show ?thesis by (simp add: zg_download_def x(2) sx_simps)
qed

interpretation zgs: blob_store "zg_upload env" "zg_download env" zg_blob "zg_ok env B" "zg_fits B"
    "root_of env"
  for env :: "('n, 'x) zg_env_scheme" and B
proof
  fix s :: "'n zg" and d
  assume ok: "zg_ok env B s" and "zg_fits B d"
  then obtain m x where m: "zg_mem s = Some m" "blobs_ok env B m" "inj_on (sha256 env) B"
    and x: "frame d = Inr x" "x \<in> B"
    by (auto simp: zg_ok_def zg_fits_def)
  from m(1) x(1) obtain s' where up: "zg_upload env d s =
      (Inr \<lparr>root_hash = hexdigest env x, tx_hash = None, size_bytes = length x\<rparr>, s')"
    and m': "zg_mem s' = Some (AList.update (hexdigest env x) x m)"
    by (rule zg_upload_mem)
  from m x m' have "zg_ok env B s'" by (auto simp: zg_ok_def intro: blobs_ok_update)
  moreover have "zg_blob s' (hexdigest env x) = Some d"
    by (simp add: zg_blob_def m' unframe_frame [OF x(1)])
  ultimately show "\<exists>u s'. zg_upload env d s = (Inr u, s') \<and> zg_ok env B s' \<and>
      zg_blob s' (root_hash u) = Some d"
    using up by auto
  fix u r d' t
  assume "zg_upload env d s = (Inr u, t)" and b: "zg_blob s r = Some d'"
  with up have "t = s'" by simp
  with b m m' x show "zg_blob t r = Some d'"
    by (auto simp: zg_blob_def dest!: mem_find_update [of env B m x r])
next
  fix s :: "'n zg" and r d
  assume "zg_ok env B s" and "zg_blob s r = Some d"
  then show "zg_download env r s = (Inr d, s)" by (rule zg_download_blob)
next
  fix s s' :: "'n zg" and d u
  assume "zg_ok env B s"
  then obtain m where m: "zg_mem s = Some m" by (auto simp: zg_ok_def)
  assume u: "zg_upload env d s = (Inr u, s')"
  then obtain x where x: "frame d = Inr x"
    by (cases "frame d") (auto simp: zg_upload_def)
  obtain s2 where "zg_upload env d s =
      (Inr \<lparr>root_hash = hexdigest env x, tx_hash = None, size_bytes = length x\<rparr>, s2)"
    by (rule zg_upload_mem [OF m x])
  with u x show "root_hash u = root_of env d" by (auto simp: root_of_def)
qed

lemma frame_total: "length d < 2 ^ 32 \<Longrightarrow> \<exists>x. frame d = Inr x"
  by (simp add: frame_Inr_iff)

lemma zg_ok_inmemory_empty:
  "inj_on (sha256 env) B \<Longrightarrow> zg_ok env B \<lparr>zg_backend = InMemory [], zg_net = n\<rparr>"
  by (simp add: zg_ok_def zg_mem_def blobs_ok_def)

lemma from_bytes_json:
  "from_bytes [0x7b, 0x22, a, b] = 2065825792 + 256 * unat a + unat b"
  by (simp add: from_bytes_def)

lemma on_net_backend: "on_net m s = (r, s') \<Longrightarrow> zg_backend s' = zg_backend s"
  by (auto simp: sx_simps split: prod.splits)

subsection \<open>Properties\<close>

text \<open>
  C39. Framing round trip, all cases: every payload shorter than \<open>2 ^ 32\<close> bytes is framed to
  at least the 256 bytes the storage nodes need and comes back unchanged (also when it ends in
  zero bytes); a longer one raises \<^verbatim>\<open>OverflowError\<close>.
\<close>

theorem frame_unframe:
  "if length d < 2 ^ 32
   then \<exists>x. frame d = Inr x \<and> unframe x = d \<and> length x = max ZG_MIN_UPLOAD_BYTES (length d + 4)
   else frame d = Inl (PyExc OverflowError ''int too big to convert'')"
proof (cases "length d < 2 ^ 32")
  case True
  then obtain x where "frame d = Inr x" using frame_total by blast
  with True show ?thesis
    by (auto simp: unframe_frame length_frame ZG_MIN_UPLOAD_BYTES_def)
next
  case False
  then show ?thesis by (simp add: frame_def)
qed

text \<open>
  Unframed JSON text survives \<^verbatim>\<open>download\<close>: a snapshot is uploaded without a frame, and
  reading its first four bytes as a length asks for more bytes than any text below 2 GB has,
  so the text is returned as it is.
\<close>

theorem unframe_plain_json:
  assumes "length raw < 2 ^ 30"
  shows "unframe (0x7b # 0x22 # raw) = 0x7b # 0x22 # raw"
proof (cases "2 \<le> length raw")
  case True
  then obtain a b t where "raw = a # b # t"
    by (cases raw; cases "tl raw") auto
  with assms show ?thesis by (simp add: unframe_def from_bytes_json)
next
  case False
  then show ?thesis by (simp add: unframe_def)
qed

theorem unframe_plain_json_witness:
  "length ([1, 2, 3] :: bytes) < 2 ^ 30 \<and> unframe [0x7b, 0x22, 1, 2, 3] = [0x7b, 0x22, 1, 2, 3]"
  using unframe_plain_json [of "[1, 2, 3]"] by simp

text \<open>
  C24. No blob is ever lost: on the in-memory and on the buffered backend every series of
  uploads succeeds, each root hash returned downloads exactly the bytes uploaded under it, and
  everything retrievable before is retrievable after, as long as the digest separates the
  frames in play.
\<close>

theorem uploads_survive:
  assumes "zg_ok env B s" and "\<And>d. d \<in> set ds \<Longrightarrow> zg_fits B d"
  shows "\<exists>us s'. sx_map (zg_upload env) ds s = (Inr us, s') \<and> zg_ok env B s' \<and>
    list_all2 (\<lambda>u d. zg_download env (root_hash u) s' = (Inr d, s')) us ds \<and>
    (\<forall>r d. zg_blob s r = Some d \<longrightarrow> zg_download env r s' = (Inr d, s'))"
proof -
  obtain us s' where "sx_map (zg_upload env) ds s = (Inr us, s')" and ok: "zg_ok env B s'"
    and "list_all2 (\<lambda>u d. zg_blob s' (root_hash u) = Some d) us ds"
    and "\<forall>r d. zg_blob s r = Some d \<longrightarrow> zg_blob s' r = Some d"
    using zgs.put_all [OF assms] by blast
  then show ?thesis
    by (auto intro: zgs.fetch_blob elim!: list_all2_mono)
qed

text \<open>An environment for the worked instances: the identity digest, a sidecar that reports one root.\<close>

definition sample_env :: "unit zg_env" where
  "sample_env = \<lparr>sha256 = (\<lambda>d. d),
     spawn = (\<lambda>_ _ n. (Inr (0, bytes_of ''{}'', []), n)),
     json_dumps = (\<lambda>_. bytes_of ''{}''),
     json_dumps_sorted = (\<lambda>_. bytes_of ''{}''),
     json_loads = (\<lambda>_. Inr (VDict [(''rootHash'', VStr ''0xab''), (''txHash'', VStr ''0xcd'')]))\<rparr>"

lemma sample_env_inj: "inj_on (sha256 sample_env) B"
  by (simp add: sample_env_def inj_on_def)

lemma zg_fits_UNIV: "length d < 2 ^ 32 \<Longrightarrow> zg_fits UNIV d"
  by (simp add: zg_fits_def frame_total)

theorem uploads_survive_witness:
  "\<exists>us s'. sx_map (zg_upload sample_env) [[1], [2, 0]] \<lparr>zg_backend = InMemory [], zg_net = ()\<rparr> = (Inr us, s') \<and>
     list_all2 (\<lambda>u d. zg_download sample_env (root_hash u) s' = (Inr d, s')) us [[1], [2, 0]]"
proof -
  have "zg_ok sample_env UNIV \<lparr>zg_backend = InMemory [], zg_net = ()\<rparr>"
    by (rule zg_ok_inmemory_empty [OF sample_env_inj])
  moreover have "zg_fits UNIV d" if "d \<in> set [[1], [2, 0]]" for d
    using that by (auto intro: zg_fits_UNIV)
  ultimately show ?thesis using uploads_survive [of sample_env UNIV _ "[[1], [2, 0]]"] by blast
qed

text \<open>
  Flushing the buffered backend: an empty buffer uploads nothing; otherwise one upload
  either records its root and transaction hash or raises; in every case the buffer itself is
  kept, so what was readable stays readable.
\<close>

theorem flush_buffered:
  assumes "zg_backend s = Buffered b"
  shows "case zg_flush env now s of
      (Inr None, s') \<Rightarrow> bf_mem b = [] \<and> s' = s
    | (Inr (Some r), s') \<Rightarrow> bf_mem b \<noteq> [] \<and> snapshot_root s' = Some r \<and> zg_mem s' = zg_mem s \<and>
        (\<exists>u n. live_upload env (bf_live b) (json_dumps_sorted env (snapshot_value now (bf_mem b))) (zg_net s)
               = (Inr u, n) \<and> root_hash u = r \<and> tx_hash u = snapshot_tx s' \<and> zg_net s' = n)
    | (Inl e, s') \<Rightarrow> bf_mem b \<noteq> [] \<and> zg_backend s' = zg_backend s"
proof (cases "bf_mem b = []")
  case True
  with assms show ?thesis by (simp add: zg_flush_def buffered_flush_def sx_simps)
next
  case False
  obtain r n where r: "live_upload env (bf_live b) (json_dumps_sorted env (snapshot_value now (bf_mem b)))
      (zg_net s) = (r, n)" by fastforce
  with False assms show ?thesis
    by (cases r) (auto simp: zg_flush_def buffered_flush_def sx_bind_def sx_simps
        snapshot_root_def snapshot_tx_def zg_mem_def)
qed

definition sample_buffer :: buffered_store where
  "sample_buffer = \<lparr>bf_live = \<lparr>private_key = ''k'', evm_rpc = ''e'', indexer_rpc = ''i''\<rparr>,
     bf_mem = [(''aa'', [1, 2])], bf_snapshot_root = None, bf_snapshot_tx = None\<rparr>"

theorem flush_buffered_witness:
  "let s = \<lparr>zg_backend = Buffered sample_buffer, zg_net = ()\<rparr>; s' = snd (zg_flush sample_env ''now'' s)
   in zg_flush sample_env ''now'' s = (Inr (Some ''0xab''), s') \<and>
      snapshot_root s' = Some ''0xab'' \<and> snapshot_tx s' = Some ''0xcd'' \<and> zg_mem s' = zg_mem s"
proof -
  let ?s = "\<lparr>zg_backend = Buffered sample_buffer, zg_net = ()\<rparr>"
  have up: "live_upload sample_env (bf_live sample_buffer)
      (json_dumps_sorted sample_env (snapshot_value ''now'' (bf_mem sample_buffer))) () =
    (Inr \<lparr>root_hash = ''0xab'', tx_hash = Some ''0xcd'', size_bytes = 2\<rparr>, ())"
    by code_simp
  then have "\<exists>s'. zg_flush sample_env ''now'' ?s = (Inr (Some ''0xab''), s')"
    by (simp add: zg_flush_def buffered_flush_def sx_bind_def sx_simps sample_buffer_def)
  then obtain s' where s': "zg_flush sample_env ''now'' ?s = (Inr (Some ''0xab''), s')" ..
  from flush_buffered [of ?s sample_buffer sample_env "''now''"] show ?thesis
    by (auto simp: s' up)
qed

end
