(* ===== verification/Storage_Models.thy ===== *)
theory Storage_Models
  imports Schema Blob_Store
begin

text \<open>
  The data kept on 0G storage (\<^verbatim>\<open>core/storage/models.py\<close>): agent states, the aggregate
  swarm state, log entries, the log index and the key names. \<open>encode\<close>/\<open>decode\<close> of each
  model are pydantic's JSON functions: parameters, fields of \<open>st_env\<close>.
\<close>

datatype agent_status = AS_IDLE | AS_SCANNING | AS_DECIDING | AS_EXECUTING | AS_ERROR

fun status_value :: "agent_status \<Rightarrow> string" where
  "status_value AS_IDLE = ''idle''"
| "status_value AS_SCANNING = ''scanning''"
| "status_value AS_DECIDING = ''deciding''"
| "status_value AS_EXECUTING = ''executing''"
| "status_value AS_ERROR = ''error''"

definition status_of :: "string \<Rightarrow> agent_status option" where
  "status_of = enum_of [AS_IDLE, AS_SCANNING, AS_DECIDING, AS_EXECUTING, AS_ERROR] status_value"

datatype log_event_type =
    LE_AGENT_STARTED | LE_AGENT_STOPPED | LE_MARKET_SIGNAL | LE_RISK_DECISION
  | LE_TRADE_EXECUTED | LE_TRADE_FAILED | LE_STATE_UPDATED | LE_ERROR

fun event_value :: "log_event_type \<Rightarrow> string" where
  "event_value LE_AGENT_STARTED = ''agent_started''"
| "event_value LE_AGENT_STOPPED = ''agent_stopped''"
| "event_value LE_MARKET_SIGNAL = ''market_signal''"
| "event_value LE_RISK_DECISION = ''risk_decision''"
| "event_value LE_TRADE_EXECUTED = ''trade_executed''"
| "event_value LE_TRADE_FAILED = ''trade_failed''"
| "event_value LE_STATE_UPDATED = ''state_updated''"
| "event_value LE_ERROR = ''error''"

definition event_of :: "string \<Rightarrow> log_event_type option" where
  "event_of = enum_of [LE_AGENT_STARTED, LE_AGENT_STOPPED, LE_MARKET_SIGNAL, LE_RISK_DECISION,
     LE_TRADE_EXECUTED, LE_TRADE_FAILED, LE_STATE_UPDATED, LE_ERROR] event_value"

record agent_state =
  as_role :: string
  as_status :: agent_status
  as_last_seen :: string
  as_last_signal :: pydict
  as_last_risk_score :: "pyfloat option"
  as_last_tx_hash :: "string option"
  as_error_message :: "string option"
  as_metadata :: pydict

record swarm_state =
  ss_version :: int
  ss_updated_at :: string
  ss_agents :: "(string \<times> agent_state) list"
  ss_active_opportunity :: "pydict option"
  ss_swarm_metadata :: pydict

definition new_swarm_state :: "string \<Rightarrow> swarm_state" where
  "new_swarm_state now = \<lparr>ss_version = 0, ss_updated_at = now, ss_agents = [],
     ss_active_opportunity = None, ss_swarm_metadata = []\<rparr>"

definition update_agent :: "string \<Rightarrow> string \<Rightarrow> agent_state \<Rightarrow> swarm_state \<Rightarrow> swarm_state" where
  "update_agent now role st sw =
     sw\<lparr>ss_agents := AList.update role st (ss_agents sw),
        ss_version := ss_version sw + 1, ss_updated_at := now\<rparr>"

record log_entry =
  le_entry_id :: string
  le_event_type :: log_event_type
  le_agent_role :: string
  le_timestamp :: string
  le_data :: pydict
  le_root_hash :: "string option"

record log_index =
  li_entries :: "string list"
  li_entry_count :: int
  li_last_updated :: string

definition new_log_index :: "string \<Rightarrow> log_index" where
  "new_log_index now = \<lparr>li_entries = [], li_entry_count = 0, li_last_updated = now\<rparr>"

definition log_index_append :: "string \<Rightarrow> string \<Rightarrow> log_index \<Rightarrow> log_index" where
  "log_index_append now r i =
     i\<lparr>li_entries := li_entries i @ [r], li_entry_count := li_entry_count i + 1, li_last_updated := now\<rparr>"

definition KV_SWARM_STATE :: string where
  "KV_SWARM_STATE = ''swarmfi:state:v1''"

definition KV_LOG_INDEX :: string where
  "KV_LOG_INDEX = ''swarmfi:log:index:v1''"

definition kv_agent_state :: "string \<Rightarrow> string" where
  "kv_agent_state role = ''swarmfi:agent:'' @ role @ '':v1''"

record 'n st_env = "'n zg_env" +
  enc_agent :: "agent_state \<Rightarrow> bytes"
  dec_agent :: "bytes \<Rightarrow> agent_state res"
  enc_swarm :: "swarm_state \<Rightarrow> bytes"
  dec_swarm :: "bytes \<Rightarrow> swarm_state res"
  enc_entry :: "log_entry \<Rightarrow> bytes"
  dec_entry :: "bytes \<Rightarrow> log_entry res"
  enc_index :: "log_index \<Rightarrow> bytes"
  dec_index :: "bytes \<Rightarrow> log_index res"

subsection \<open>Enumerations and keys\<close>

interpretation status_enum: str_enum status_value status_of
  unfolding status_of_def
proof (rule str_enum_of)
  show "x \<in> set [AS_IDLE, AS_SCANNING, AS_DECIDING, AS_EXECUTING, AS_ERROR]" for x
    by (cases x) simp_all
  show "status_value x = status_value y \<Longrightarrow> x = y" for x y by (cases x; cases y) simp_all
qed

interpretation event_enum: str_enum event_value event_of
  unfolding event_of_def
proof (rule str_enum_of)
  show "x \<in> set [LE_AGENT_STARTED, LE_AGENT_STOPPED, LE_MARKET_SIGNAL, LE_RISK_DECISION,
     LE_TRADE_EXECUTED, LE_TRADE_FAILED, LE_STATE_UPDATED, LE_ERROR]" for x
    by (cases x) simp_all
  show "event_value x = event_value y \<Longrightarrow> x = y" for x y by (cases x; cases y) simp_all
qed

text \<open>No two uses of the store share a key.\<close>

lemma kv_keys_distinct [simp]:
  "KV_SWARM_STATE \<noteq> KV_LOG_INDEX" "KV_LOG_INDEX \<noteq> KV_SWARM_STATE"
  "kv_agent_state r \<noteq> KV_SWARM_STATE" "KV_SWARM_STATE \<noteq> kv_agent_state r"
  "kv_agent_state r \<noteq> KV_LOG_INDEX" "KV_LOG_INDEX \<noteq> kv_agent_state r"
  by (simp_all add: KV_SWARM_STATE_def KV_LOG_INDEX_def kv_agent_state_def)

lemma kv_agent_state_inj [simp]: "kv_agent_state r = kv_agent_state r' \<longleftrightarrow> r = r'"
  by (simp add: kv_agent_state_def)

subsection \<open>Models\<close>

definition index_ok :: "log_index \<Rightarrow> bool" where
  "index_ok i \<longleftrightarrow> li_entry_count i = int (length (li_entries i))"

lemma index_ok_new [simp]: "index_ok (new_log_index now)"
  by (simp add: index_ok_def new_log_index_def)

lemma index_ok_append [simp]: "index_ok i \<Longrightarrow> index_ok (log_index_append now r i)"
  by (simp add: index_ok_def log_index_append_def)

lemma entries_append [simp]: "li_entries (log_index_append now r i) = li_entries i @ [r]"
  by (simp add: log_index_append_def)

lemma entries_new [simp]: "li_entries (new_log_index now) = []"
  by (simp add: new_log_index_def)

lemma agents_update_agent [simp]:
  "map_of (ss_agents (update_agent now role st sw)) = (map_of (ss_agents sw))(role \<mapsto> st)"
  "ss_version (update_agent now role st sw) = ss_version sw + 1"
  by (simp_all add: update_agent_def)

end
