(* ===== verification/Swarm_KV.thy ===== *)
theory Swarm_KV
  imports Storage_Models
begin

text \<open>
  The key-value store \<^verbatim>\<open>SwarmKV\<close> (\<^verbatim>\<open>core/storage/kv.py\<close>): values are uploaded as
  blobs, a manifest maps keys to root hashes and is itself uploaded after every write. An
  operation runs on the pair of the \<^verbatim>\<open>SwarmKV\<close> object and the storage client it shares
  with others. \<open>now\<close> is the clock reading written into the manifest.
\<close>

text \<open>
  The manifest is a dictionary, except that loading accepts any JSON value with a length:
  \<open>kv_odd\<close> is a list or text that was loaded in its place, on which most operations raise.
\<close>

record swarm_kv =
  kv_manifest :: pydict
  kv_manifest_root :: "string option"
  kv_odd :: "pyval option"

type_synonym 'n kvs = "swarm_kv \<times> 'n zg"

definition new_kv :: swarm_kv where
  "new_kv = \<lparr>kv_manifest = [], kv_manifest_root = None, kv_odd = None\<rparr>"

definition on_zg :: "('n zg, 'a) sx \<Rightarrow> ('n kvs, 'a) sx" where
  [sx_simps]: "on_zg m = sx_zoom snd (\<lambda>z (k, _). (k, z)) m"

definition on_kv :: "(swarm_kv \<Rightarrow> swarm_kv) \<Rightarrow> ('n kvs, unit) sx" where
  [sx_simps]: "on_kv f = sx_modify (map_prod f id)"

definition dict_only :: "pyexc \<Rightarrow> ('n kvs, 'a) sx \<Rightarrow> ('n kvs, 'a) sx" where
  "dict_only e m s = (if kv_odd (fst s) = None then m s else (Inl e, s))"

lemma dict_only_dict [simp]: "kv_odd k = None \<Longrightarrow> dict_only e m (k, z) = m (k, z)"
  by (simp add: dict_only_def)

definition manifest_bytes :: "('n, 'x) zg_env_scheme \<Rightarrow> string \<Rightarrow> pydict \<Rightarrow> bytes" where
  "manifest_bytes env now man =
     json_dumps_sorted env (VDict [(''_ts'', VStr now), (''_keys'', VDict man)])"

definition persist_manifest :: "('n, 'x) zg_env_scheme \<Rightarrow> string \<Rightarrow> ('n kvs, string) sx" where
  "persist_manifest env now =
     sx_bind sx_get (\<lambda>(k, _).
     sx_bind (on_zg (zg_upload env (manifest_bytes env now (kv_manifest k)))) (\<lambda>u.
     sx_bind (on_kv (kv_manifest_root_update (\<lambda>_. Some (root_hash u)))) (\<lambda>_.
     sx_return (root_hash u))))"

text \<open>
  The decoded manifest is the \<^verbatim>\<open>_keys\<close> member when there is one, else the whole value. A
  value without a length makes \<^verbatim>\<open>len\<close> raise after the root was recorded. Every exception
  leaves an empty manifest.
\<close>

definition manifest_of :: "pyval \<Rightarrow> pyval" where
  "manifest_of v = (case v of VDict d \<Rightarrow> dget d ''_keys'' v | _ \<Rightarrow> v)"

definition set_manifest :: "pyval \<Rightarrow> ('n kvs, unit) sx" where
  "set_manifest v =
     (case v of
        VDict m \<Rightarrow> on_kv (\<lambda>k. k\<lparr>kv_manifest := m, kv_odd := None\<rparr>)
      | VList _ \<Rightarrow> on_kv (\<lambda>k. k\<lparr>kv_manifest := [], kv_odd := Some v\<rparr>)
      | VStr _ \<Rightarrow> on_kv (\<lambda>k. k\<lparr>kv_manifest := [], kv_odd := Some v\<rparr>)
      | _ \<Rightarrow> sx_raise (PyExc TypeError ''object has no len()''))"

definition load_manifest :: "('n, 'x) zg_env_scheme \<Rightarrow> string option \<Rightarrow> ('n kvs, unit) sx" where
  "load_manifest env root_opt =
     (case root_opt of
        None \<Rightarrow> sx_return ()
      | Some r \<Rightarrow>
          sx_try
            (sx_bind (on_zg (zg_download env r)) (\<lambda>raw.
             sx_bind (sx_lift (json_loads env raw)) (\<lambda>decoded.
             sx_bind (on_kv (kv_manifest_root_update (\<lambda>_. Some r))) (\<lambda>_.
             set_manifest (manifest_of decoded)))))
            (\<lambda>e. set_manifest (VDict [])))"

definition kv_set :: "('n, 'x) zg_env_scheme \<Rightarrow> string \<Rightarrow> string \<Rightarrow> bytes \<Rightarrow> ('n kvs, upload_result) sx" where
  "kv_set env now key v =
     sx_bind (on_zg (zg_upload env v)) (\<lambda>u.
     sx_bind (dict_only (PyExc TypeError ''object does not support item assignment'')
       (on_kv (kv_manifest_update (AList.update key (VStr (root_hash u)))))) (\<lambda>_.
     sx_bind (persist_manifest env now) (\<lambda>_.
     sx_return u)))"

definition kv_get :: "('n, 'x) zg_env_scheme \<Rightarrow> string \<Rightarrow> ('n kvs, bytes option) sx" where
  "kv_get env key =
     dict_only (PyExc AttributeError ''object has no attribute get'') (sx_bind sx_get (\<lambda>(k, _).
       case dget (kv_manifest k) key VNone of
         VNone \<Rightarrow> sx_return None
       | VStr r \<Rightarrow> sx_bind (on_zg (zg_download env r)) (\<lambda>d. sx_return (Some d))
       | _ \<Rightarrow> sx_raise (PyExc AttributeError ''object has no attribute removeprefix'')))"

definition kv_get_or_default :: "('n, 'x) zg_env_scheme \<Rightarrow> string \<Rightarrow> bytes \<Rightarrow> ('n kvs, bytes) sx" where
  "kv_get_or_default env key dflt =
     sx_bind (kv_get env key) (\<lambda>v. sx_return (case v of Some d \<Rightarrow> d | None \<Rightarrow> dflt))"

definition kv_exists :: "string \<Rightarrow> swarm_kv \<Rightarrow> bool" where
  "kv_exists key k \<longleftrightarrow>
     (case kv_odd k of
        None \<Rightarrow> map_of (kv_manifest k) key \<noteq> None
      | Some (VList vs) \<Rightarrow> VStr key \<in> set vs
      | Some (VStr t) \<Rightarrow> str_contains key t
      | Some _ \<Rightarrow> False)"

definition kv_delete :: "('n, 'x) zg_env_scheme \<Rightarrow> string \<Rightarrow> string \<Rightarrow> ('n kvs, unit) sx" where
  "kv_delete env now key =
     sx_bind sx_get (\<lambda>(k, _).
       if \<not> kv_exists key k then sx_return ()
       else sx_bind (dict_only (PyExc TypeError ''object does not support item deletion'')
              (on_kv (kv_manifest_update (AList.delete key)))) (\<lambda>_.
            sx_bind (persist_manifest env now) (\<lambda>_. sx_return ())))"

definition kv_keys :: "swarm_kv \<Rightarrow> string list res" where
  "kv_keys k =
     (if kv_odd k = None then Inr (map fst (kv_manifest k))
      else Inl (PyExc AttributeError ''object has no attribute keys''))"

definition kv_set_json :: "('n, 'x) zg_env_scheme \<Rightarrow> string \<Rightarrow> string \<Rightarrow> pyval \<Rightarrow> ('n kvs, upload_result) sx" where
  "kv_set_json env now key v = kv_set env now key (json_dumps env v)"

definition kv_get_json :: "('n, 'x) zg_env_scheme \<Rightarrow> string \<Rightarrow> ('n kvs, pyval) sx" where
  "kv_get_json env key =
     sx_bind (kv_get env key) (\<lambda>v.
       case v of None \<Rightarrow> sx_return VNone | Some raw \<Rightarrow> sx_lift (json_loads env raw))"

subsection \<open>The contract of a key-value store\<close>

text \<open>The abstract store is a map; a write (clock reading, key, value) updates it.\<close>

type_synonym kv_write = "string \<times> string \<times> bytes"

fun map_write :: "kv_write \<Rightarrow> (string \<rightharpoonup> bytes) \<Rightarrow> (string \<rightharpoonup> bytes)" where
  "map_write (now, k, v) m = m(k \<mapsto> v)"

locale kv_api =
  fixes kset :: "string \<Rightarrow> string \<Rightarrow> bytes \<Rightarrow> ('s, upload_result) sx"
    and kget :: "string \<Rightarrow> ('s, bytes option) sx"
    and kdelete :: "string \<Rightarrow> string \<Rightarrow> ('s, unit) sx"
    and kmap :: "'s \<Rightarrow> string \<Rightarrow> bytes option"
    and kok :: "'s \<Rightarrow> bool"
    and kset_fits :: "string \<Rightarrow> string \<Rightarrow> bytes \<Rightarrow> 's \<Rightarrow> bool"
    and kdel_fits :: "string \<Rightarrow> string \<Rightarrow> 's \<Rightarrow> bool"
  assumes kset_ok: "kok s \<Longrightarrow> kset_fits now k v s \<Longrightarrow>
      \<exists>u s'. kset now k v s = (Inr u, s') \<and> kok s' \<and> kmap s' = (kmap s)(k \<mapsto> v)"
    and kget_ok: "kok s \<Longrightarrow> kget k s = (Inr (kmap s k), s)"
    and kdelete_ok: "kok s \<Longrightarrow> kdel_fits now k s \<Longrightarrow>
      \<exists>s'. kdelete now k s = (Inr (), s') \<and> kok s' \<and> kmap s' = (kmap s)(k := None)"
begin

lemma get_after_set:
  assumes "kok s" and "kset_fits now k v s" and "kset now k v s = (Inr u, s')"
  shows "kget k' s' = (Inr (if k' = k then Some v else kmap s k'), s')"
proof -
  from kset_ok [OF assms(1,2)] assms(3) have "kok s'" and m: "kmap s' = (kmap s)(k \<mapsto> v)" by auto
  from kget_ok [OF this(1)] m show ?thesis by simp
qed

lemma get_after_delete:
  assumes "kok s" and "kdel_fits now k s"
  shows "\<exists>s'. kdelete now k s = (Inr (), s') \<and>
    kget k' s' = (Inr (if k' = k then None else kmap s k'), s')"
proof -
  from kdelete_ok [OF assms] obtain s' where s': "kdelete now k s = (Inr (), s')" "kok s'"
    and m: "kmap s' = (kmap s)(k := None)" by blast
  from kget_ok [OF s'(2)] m s'(1) show ?thesis by simp
qed

end

text \<open>A series of writes is the corresponding series of map updates.\<close>

sublocale kv_api \<subseteq> writes: op_refinement "\<lambda>(now, k, v). kset now k v" map_write kmap kok
    "\<lambda>(now, k, v). kset_fits now k v"
  using kset_ok by unfold_locales auto

subsection \<open>SwarmKV implements it\<close>

definition manifest_ok :: "pydict \<Rightarrow> 'n zg \<Rightarrow> bool" where
  "manifest_ok m z \<longleftrightarrow>
     (\<forall>k v. map_of m k = Some v \<longrightarrow> (\<exists>r d. v = VStr r \<and> zg_blob z r = Some d))"

fun kv_ok :: "('n, 'x) zg_env_scheme \<Rightarrow> bytes set \<Rightarrow> 'n kvs \<Rightarrow> bool" where
  "kv_ok env B (k, z) \<longleftrightarrow> zg_ok env B z \<and> manifest_ok (kv_manifest k) z \<and> kv_odd k = None"

definition manifest_map :: "pydict \<Rightarrow> 'n zg \<Rightarrow> string \<Rightarrow> bytes option" where
  "manifest_map m z key = (case map_of m key of Some (VStr r) \<Rightarrow> zg_blob z r | _ \<Rightarrow> None)"

fun kv_map :: "'n kvs \<Rightarrow> string \<Rightarrow> bytes option" where
  "kv_map (k, z) = manifest_map (kv_manifest k) z"

fun kv_set_fits :: "('n, 'x) zg_env_scheme \<Rightarrow> bytes set \<Rightarrow> string \<Rightarrow> string \<Rightarrow> bytes \<Rightarrow> 'n kvs \<Rightarrow> bool" where
  "kv_set_fits env B now key v (k, z) \<longleftrightarrow> zg_fits B v \<and>
     zg_fits B (manifest_bytes env now (AList.update key (VStr (root_of env v)) (kv_manifest k)))"

fun kv_del_fits :: "('n, 'x) zg_env_scheme \<Rightarrow> bytes set \<Rightarrow> string \<Rightarrow> string \<Rightarrow> 'n kvs \<Rightarrow> bool" where
  "kv_del_fits env B now key (k, z) \<longleftrightarrow>
     zg_fits B (manifest_bytes env now (AList.delete key (kv_manifest k)))"

definition blobs_kept :: "'n zg \<Rightarrow> 'n zg \<Rightarrow> bool" where
  "blobs_kept z z' \<longleftrightarrow> (\<forall>r d. zg_blob z r = Some d \<longrightarrow> zg_blob z' r = Some d)"

lemma blobs_kept_refl [simp]: "blobs_kept z z"
  by (simp add: blobs_kept_def)

lemma blobs_kept_trans: "blobs_kept a b \<Longrightarrow> blobs_kept b c \<Longrightarrow> blobs_kept a c"
  by (simp add: blobs_kept_def)

lemma blobs_keptD: "blobs_kept z z' \<Longrightarrow> zg_blob z r = Some d \<Longrightarrow> zg_blob z' r = Some d"
  by (simp add: blobs_kept_def)

lemma manifest_ok_kept: "manifest_ok m z \<Longrightarrow> blobs_kept z z' \<Longrightarrow> manifest_ok m z'"
  unfolding manifest_ok_def blobs_kept_def by meson

lemma manifest_map_kept:
  assumes "manifest_ok m z" and "blobs_kept z z'"
  shows "manifest_map m z' = manifest_map m z"
proof
  fix key
  show "manifest_map m z' key = manifest_map m z key"
  proof (cases "map_of m key")
    case None
    then show ?thesis by (simp add: manifest_map_def)
  next
    case (Some v)
    with assms(1) obtain r d where "v = VStr r" "zg_blob z r = Some d"
      unfolding manifest_ok_def by blast
    with Some assms(2) show ?thesis by (simp add: manifest_map_def blobs_keptD)
  qed
qed

lemma manifest_ok_update:
  "manifest_ok m z \<Longrightarrow> zg_blob z r = Some d \<Longrightarrow> manifest_ok (AList.update key (VStr r) m) z"
  by (auto simp: manifest_ok_def)

lemma manifest_ok_delete: "manifest_ok m z \<Longrightarrow> manifest_ok (AList.delete key m) z"
  by (auto simp: manifest_ok_def)

lemma manifest_map_update:
  "zg_blob z r = Some d \<Longrightarrow>
   manifest_map (AList.update key (VStr r) m) z = (manifest_map m z)(key \<mapsto> d)"
  by (rule ext) (simp add: manifest_map_def)

lemma manifest_map_delete:
  "manifest_map (AList.delete key m) z = (manifest_map m z)(key := None)"
  by (rule ext) (simp add: manifest_map_def)

lemma on_zg_upload:
  assumes "zg_ok env B z" and "zg_fits B d"
  obtains u z' where "on_zg (zg_upload env d) (k, z) = (Inr u, (k, z'))"
    and "root_hash u = root_of env d" and "zg_ok env B z'"
    and "zg_blob z' (root_of env d) = Some d" and "blobs_kept z z'"
proof -
  from assms obtain u z' where "zg_upload env d z = (Inr u, z')" "zg_ok env B z'"
    "root_hash u = root_of env d" "zg_blob z' (root_of env d) = Some d"
    "\<forall>r d'. zg_blob z r = Some d' \<longrightarrow> zg_blob z' r = Some d'"
    by (rule zgs.putE)
  then show thesis by (intro that [of u z']) (simp_all add: sx_simps blobs_kept_def)
qed

lemma persist_manifest_ok:
  assumes "zg_ok env B z" and "zg_fits B (manifest_bytes env now (kv_manifest k))"
  obtains z' where "persist_manifest env now (k, z) =
      (Inr (root_of env (manifest_bytes env now (kv_manifest k))),
       (k\<lparr>kv_manifest_root := Some (root_of env (manifest_bytes env now (kv_manifest k)))\<rparr>, z'))"
    and "zg_ok env B z'" and "blobs_kept z z'"
    and "zg_blob z' (root_of env (manifest_bytes env now (kv_manifest k))) =
         Some (manifest_bytes env now (kv_manifest k))"
proof -
  from assms obtain u z' where "on_zg (zg_upload env (manifest_bytes env now (kv_manifest k))) (k, z)
      = (Inr u, (k, z'))" "root_hash u = root_of env (manifest_bytes env now (kv_manifest k))"
    "zg_ok env B z'" "zg_blob z' (root_of env (manifest_bytes env now (kv_manifest k))) =
         Some (manifest_bytes env now (kv_manifest k))" "blobs_kept z z'"
    by (rule on_zg_upload)
  then show thesis
    by (intro that [of z']) (simp_all add: persist_manifest_def on_kv_def sx_get_def sx_modify_def sx_return_def)
qed


lemma kv_set_ok:
  assumes "kv_ok env B (k, z)" and "kv_set_fits env B now key v (k, z)"
  obtains u k' z' where "kv_set env now key v (k, z) = (Inr u, (k', z'))"
    and "kv_ok env B (k', z')" and "kv_map (k', z') = (kv_map (k, z))(key \<mapsto> v)"
    and "blobs_kept z z'" and "root_hash u = root_of env v"
    and "kv_manifest k' = AList.update key (VStr (root_of env v)) (kv_manifest k)"
    and "zg_blob z' (the (kv_manifest_root k')) = Some (manifest_bytes env now (kv_manifest k'))"
    and "kv_manifest_root k' \<noteq> None"
proof -
  let ?man = "AList.update key (VStr (root_of env v)) (kv_manifest k)"
  from assms have z: "zg_ok env B z" "manifest_ok (kv_manifest k) z"
    and v: "zg_fits B v" "zg_fits B (manifest_bytes env now ?man)" and dict: "kv_odd k = None" by auto
  from z(1) v(1) obtain u z1 where u: "on_zg (zg_upload env v) (k, z) = (Inr u, (k, z1))"
    "root_hash u = root_of env v" "zg_ok env B z1" "zg_blob z1 (root_of env v) = Some v"
    "blobs_kept z z1"
    by (rule on_zg_upload)
  let ?k = "k\<lparr>kv_manifest := ?man\<rparr>"
  have "zg_fits B (manifest_bytes env now (kv_manifest ?k))" using v(2) by simp
  with u(3) obtain z2 where p: "persist_manifest env now (?k, z1) =
      (Inr (root_of env (manifest_bytes env now (kv_manifest ?k))),
       (?k\<lparr>kv_manifest_root := Some (root_of env (manifest_bytes env now (kv_manifest ?k)))\<rparr>, z2))"
    "zg_ok env B z2" "blobs_kept z1 z2"
    "zg_blob z2 (root_of env (manifest_bytes env now (kv_manifest ?k))) =
       Some (manifest_bytes env now (kv_manifest ?k))"
    by (rule persist_manifest_ok)
  let ?k' = "?k\<lparr>kv_manifest_root := Some (root_of env (manifest_bytes env now (kv_manifest ?k)))\<rparr>"
  have kept: "blobs_kept z z2" using u(5) p(3) by (rule blobs_kept_trans)
  have vb: "zg_blob z2 (root_of env v) = Some v" using p(3) u(4) by (rule blobs_keptD)
  have step: "on_kv (kv_manifest_update (AList.update key (VStr (root_hash u)))) (k, z1) = (Inr (), (?k, z1))"
    by (simp add: sx_simps u(2))
  have "kv_set env now key v (k, z) = (Inr u, (?k', z2))"
    unfolding kv_set_def by (simp add: u(1) dict step p(1) sx_return_def)
  moreover have "kv_ok env B (?k', z2)"
    using p(2) vb dict manifest_ok_kept [OF z(2) kept] by (simp add: manifest_ok_update)
  moreover have "kv_map (?k', z2) = (kv_map (k, z))(key \<mapsto> v)"
    using vb manifest_map_kept [OF z(2) kept] by (simp add: manifest_map_update)
  ultimately show thesis using kept u(2) p(4) by (intro that [of u ?k' z2]) simp_all
qed

lemma kv_get_ok:
  assumes "kv_ok env B s"
  shows "kv_get env key s = (Inr (kv_map s key), s)"
proof -
  obtain k z where s: "s = (k, z)" by (cases s)
  with assms have ok: "zg_ok env B z" "manifest_ok (kv_manifest k) z" and dict: "kv_odd k = None" by auto
  show ?thesis
  proof (cases "map_of (kv_manifest k) key")
    case None
    then show ?thesis by (simp add: kv_get_def s dict sx_simps dget_def manifest_map_def)
  next
    case (Some v)
    with ok(2) obtain r d where v: "v = VStr r" and d: "zg_blob z r = Some d"
      unfolding manifest_ok_def by blast
    have "zg_download env r z = (Inr d, z)" using ok(1) d by (rule zgs.fetch_blob)
    with Some v d show ?thesis
      by (simp add: kv_get_def s dict sx_simps dget_def manifest_map_def)
  qed
qed

lemma kv_delete_ok:
  assumes "kv_ok env B (k, z)" and "kv_del_fits env B now key (k, z)"
  obtains k' z' where "kv_delete env now key (k, z) = (Inr (), (k', z'))"
    and "kv_ok env B (k', z')" and "kv_map (k', z') = (kv_map (k, z))(key := None)"
    and "blobs_kept z z'" and "kv_manifest k' = AList.delete key (kv_manifest k)"
proof (cases "map_of (kv_manifest k) key")
  case None
  then have "AList.delete key (kv_manifest k) = kv_manifest k"
    by (metis delete_id map_of_eq_None_iff)
  moreover have "(kv_map (k, z))(key := None) = kv_map (k, z)"
    using None by (auto simp: manifest_map_def)
  ultimately show ?thesis
    using None assms by (intro that [of k z]) (simp_all add: kv_delete_def kv_exists_def sx_simps)
next
  case (Some v)
  let ?k = "k\<lparr>kv_manifest := AList.delete key (kv_manifest k)\<rparr>"
  from assms have z: "zg_ok env B z" "manifest_ok (kv_manifest k) z"
    and fits: "zg_fits B (manifest_bytes env now (kv_manifest ?k))" and dict: "kv_odd k = None" by auto
  from z(1) fits obtain z2 where p: "persist_manifest env now (?k, z) =
      (Inr (root_of env (manifest_bytes env now (kv_manifest ?k))),
       (?k\<lparr>kv_manifest_root := Some (root_of env (manifest_bytes env now (kv_manifest ?k)))\<rparr>, z2))"
    "zg_ok env B z2" "blobs_kept z z2"
    by (rule persist_manifest_ok)
  let ?k' = "?k\<lparr>kv_manifest_root := Some (root_of env (manifest_bytes env now (kv_manifest ?k)))\<rparr>"
  have step: "on_kv (kv_manifest_update (AList.delete key)) (k, z) = (Inr (), (?k, z))"
    by (simp add: sx_simps)
  have "kv_delete env now key (k, z) = (Inr (), (?k', z2))"
    unfolding kv_delete_def by (simp add: Some dict kv_exists_def sx_get_def step p(1) sx_return_def)
  moreover have "kv_ok env B (?k', z2)"
    using p(2) dict manifest_ok_kept [OF z(2) p(3)] by (simp add: manifest_ok_delete)
  moreover have "kv_map (?k', z2) = (kv_map (k, z))(key := None)"
    using manifest_map_kept [OF z(2) p(3)] by (simp add: manifest_map_delete)
  ultimately show thesis using p(3) by (intro that [of ?k' z2]) simp_all
qed

interpretation skv: kv_api "kv_set env" "kv_get env" "kv_delete env" kv_map "kv_ok env B"
    "kv_set_fits env B" "kv_del_fits env B"
  for env :: "('n, 'x) zg_env_scheme" and B
proof
  fix s :: "'n kvs" and now k v
  assume "kv_ok env B s" and "kv_set_fits env B now k v s"
  then show "\<exists>u s'. kv_set env now k v s = (Inr u, s') \<and> kv_ok env B s' \<and> kv_map s' = (kv_map s)(k \<mapsto> v)"
    by (cases s) (metis kv_set_ok)
next
  fix s :: "'n kvs" and k
  assume "kv_ok env B s"
  then show "kv_get env k s = (Inr (kv_map s k), s)" by (rule kv_get_ok)
next
  fix s :: "'n kvs" and now k
  assume "kv_ok env B s" and "kv_del_fits env B now k s"
  then show "\<exists>s'. kv_delete env now k s = (Inr (), s') \<and> kv_ok env B s' \<and> kv_map s' = (kv_map s)(k := None)"
    by (cases s) (metis kv_delete_ok)
qed

lemma load_manifest_ok:
  assumes "zg_ok env B z" and "zg_blob z r = Some raw" and "json_loads env raw = Inr v"
    and "manifest_of v = VDict m"
  shows "load_manifest env (Some r) (k, z) =
    (Inr (), (k\<lparr>kv_manifest := m, kv_manifest_root := Some r, kv_odd := None\<rparr>, z))"
proof -
  have "zg_download env r z = (Inr raw, z)" using assms(1,2) by (rule zgs.fetch_blob)
  with assms(3,4) show ?thesis
    by (cases k) (simp add: load_manifest_def set_manifest_def sx_simps)
qed

lemma kv_ok_new: "zg_ok env B z \<Longrightarrow> kv_ok env B (new_kv, z)"
  by (simp add: new_kv_def manifest_ok_def)

lemma manifest_map_new [simp]: "manifest_map (kv_manifest new_kv) z = Map.empty"
  by (rule ext) (simp add: new_kv_def manifest_map_def)

lemma kv_map_new [simp]: "kv_map (new_kv, z) = Map.empty"
  by simp

subsection \<open>Properties\<close>

text \<open>
  C22. The store refines a map: any series of \<^verbatim>\<open>set\<close> calls succeeds, keeps the invariant and
  acts on the abstract map as the same series of updates; a later \<^verbatim>\<open>get\<close> of any key returns
  the value the map holds (\<^verbatim>\<open>None\<close> for an absent key) and changes nothing.
\<close>

theorem kv_refines_map:
  assumes "kv_ok env B s"
    and "ops_fit (\<lambda>(now, k, v). kv_set_fits env B now k v) (\<lambda>(now, k, v). kv_set env now k v) ws s"
  shows "\<exists>us s'. sx_map (\<lambda>(now, k, v). kv_set env now k v) ws s = (Inr us, s') \<and> kv_ok env B s' \<and>
    kv_map s' = fold map_write ws (kv_map s) \<and>
    (\<forall>key. kv_get env key s' = (Inr (fold map_write ws (kv_map s) key), s'))"
proof -
  obtain us s' where "sx_map (\<lambda>(now, k, v). kv_set env now k v) ws s = (Inr us, s')"
    and ok: "kv_ok env B s'" and m: "kv_map s' = fold map_write ws (kv_map s)"
    using skv.writes.run_series [OF assms] by blast
  then show ?thesis using skv.kget_ok [OF ok] by auto
qed

definition sample_kvs :: "unit kvs" where
  "sample_kvs = (new_kv, \<lparr>zg_backend = InMemory [], zg_net = ()\<rparr>)"

lemma sample_kvs_ok: "sha256 env = (\<lambda>d. d) \<Longrightarrow> kv_ok env UNIV sample_kvs"
  unfolding sample_kvs_def by (intro kv_ok_new zg_ok_inmemory_empty) simp

lemma sample_manifest_fits: "zg_fits UNIV (manifest_bytes sample_env now m)"
  by (rule zg_fits_UNIV) (simp add: manifest_bytes_def sample_env_def bytes_of_def)

theorem kv_refines_map_witness:
  "\<exists>us s'. sx_map (\<lambda>(now, k, v). kv_set sample_env now k v)
        [(''t0'', ''a'', [1]), (''t1'', ''b'', [2])] sample_kvs = (Inr us, s') \<and>
     kv_get sample_env ''a'' s' = (Inr (Some [1]), s') \<and>
     kv_get sample_env ''c'' s' = (Inr None, s')"
proof -
  have ok: "kv_ok sample_env UNIV sample_kvs" by (simp add: sample_kvs_ok sample_env_def)
  have fits: "kv_set_fits sample_env UNIV now key v s" if "length v < 2 ^ 32" for now key v and s :: "unit kvs"
    using that by (cases s) (simp add: zg_fits_UNIV sample_manifest_fits)
  have "ops_fit (\<lambda>(now, k, v). kv_set_fits sample_env UNIV now k v) (\<lambda>(now, k, v). kv_set sample_env now k v)
      [(''t0'', ''a'', [1]), (''t1'', ''b'', [2])] sample_kvs"
    by (simp add: fits)
  from kv_refines_map [OF ok this] obtain us s' where
    "sx_map (\<lambda>(now, k, v). kv_set sample_env now k v)
        [(''t0'', ''a'', [1]), (''t1'', ''b'', [2])] sample_kvs = (Inr us, s')"
    and get: "\<forall>key. kv_get sample_env key s' =
      (Inr (fold map_write [(''t0'', ''a'', [1]), (''t1'', ''b'', [2])] (kv_map sample_kvs) key), s')"
    by blast
  moreover have "kv_map sample_kvs = Map.empty" unfolding sample_kvs_def by (rule kv_map_new)
  ultimately show ?thesis using get [rule_format, of "''a''"] get [rule_format, of "''c''"] by simp
qed

text \<open>
  Deleting a key removes exactly that key: afterwards it reads as absent, every other key
  reads as before, and the blobs themselves, the deleted value's included, stay downloadable.
\<close>

theorem kv_delete_removes_reference_only:
  assumes "kv_ok env B (k, z)" and "kv_del_fits env B now key (k, z)"
  shows "\<exists>k' z'. kv_delete env now key (k, z) = (Inr (), (k', z')) \<and>
    kv_exists key k' = False \<and>
    (\<forall>key'. kv_get env key' (k', z') =
       (Inr (if key' = key then None else kv_map (k, z) key'), (k', z'))) \<and>
    (\<forall>r d. zg_blob z r = Some d \<longrightarrow> zg_download env r z' = (Inr d, z'))"
proof -
  from assms obtain k' z' where d: "kv_delete env now key (k, z) = (Inr (), (k', z'))"
    and ok: "kv_ok env B (k', z')" and m: "kv_map (k', z') = (kv_map (k, z))(key := None)"
    and kept: "blobs_kept z z'" and man: "kv_manifest k' = AList.delete key (kv_manifest k)"
    by (rule kv_delete_ok)
  have "kv_get env key' (k', z') = (Inr (if key' = key then None else kv_map (k, z) key'), (k', z'))"
    for key' using skv.kget_ok [OF ok, of key'] m by simp
  moreover have "zg_download env r z' = (Inr e, z')" if "zg_blob z r = Some e" for r e
    using ok blobs_keptD [OF kept that] by (auto intro: zgs.fetch_blob)
  moreover have "kv_odd k' = None" using ok by simp
  ultimately show ?thesis using d man by (auto simp: kv_exists_def)
qed

theorem kv_delete_removes_reference_only_witness:
  "\<exists>k' z'. kv_delete sample_env ''t'' ''a'' sample_kvs = (Inr (), (k', z')) \<and> kv_exists ''a'' k' = False"
proof -
  obtain k z where s: "sample_kvs = (k, z)" by (cases sample_kvs)
  have "kv_ok sample_env UNIV (k, z)" using sample_kvs_ok [of sample_env] s by (simp add: sample_env_def)
  moreover have "kv_del_fits sample_env UNIV ''t'' ''a'' (k, z)" by (simp add: sample_manifest_fits)
  ultimately show ?thesis
    unfolding s using kv_delete_removes_reference_only [of sample_env UNIV k z "''t''" "''a''"] by blast
qed

text \<open>
  C38. The manifest root restores the store: after a \<^verbatim>\<open>set\<close>, a fresh \<^verbatim>\<open>SwarmKV\<close> on the
  same storage that loads the recorded manifest root holds the same keys and values, provided
  the JSON functions restore the dictionary that was written (up to the order of its items).
\<close>

theorem manifest_restores:
  assumes "kv_ok env B (k, z)" and "kv_set_fits env B now key v (k, z)"
    and "kv_set env now key v (k, z) = (Inr u, (k', z'))"
    and "json_loads env (manifest_bytes env now (kv_manifest k')) = Inr (VDict d)"
    and "map_of d ''_keys'' = Some (VDict m)" and "map_of m = map_of (kv_manifest k')"
  shows "\<exists>k2. load_manifest env (kv_manifest_root k') (new_kv, z') = (Inr (), (k2, z')) \<and>
    kv_ok env B (k2, z') \<and> kv_map (k2, z') = (kv_map (k, z))(key \<mapsto> v)"
proof -
  from assms(1,2) obtain u2 k2 z2 where "kv_set env now key v (k, z) = (Inr u2, (k2, z2))"
    and "kv_ok env B (k2, z2)" and "kv_map (k2, z2) = (kv_map (k, z))(key \<mapsto> v)"
    and "zg_blob z2 (the (kv_manifest_root k2)) = Some (manifest_bytes env now (kv_manifest k2))"
    and "kv_manifest_root k2 \<noteq> None"
    by (rule kv_set_ok)
  with assms(3) obtain r where ok: "kv_ok env B (k', z')" and r: "kv_manifest_root k' = Some r"
    and map: "kv_map (k', z') = (kv_map (k, z))(key \<mapsto> v)"
    and blob: "zg_blob z' r = Some (manifest_bytes env now (kv_manifest k'))"
    by auto
  let ?k2 = "new_kv\<lparr>kv_manifest := m, kv_manifest_root := Some r, kv_odd := None\<rparr>"
  have "load_manifest env (Some r) (new_kv, z') = (Inr (), (?k2, z'))"
    using ok blob r assms(4,5) by (intro load_manifest_ok) (auto simp: manifest_of_def dget_def)
  moreover have "kv_ok env B (?k2, z')" and "kv_map (?k2, z') = kv_map (k', z')"
    using ok assms(6) by (simp_all add: manifest_ok_def manifest_map_def fun_eq_iff)
  ultimately show ?thesis using map r by auto
qed

definition restore_env :: "unit zg_env" where
  "restore_env = sample_env\<lparr>json_loads :=
     (\<lambda>_. Inr (VDict [(''_keys'', VDict [(''a'', VStr (root_of sample_env [7]))])]))\<rparr>"

theorem manifest_restores_witness:
  "\<exists>u k' z' k2. kv_set restore_env ''t'' ''a'' [7] sample_kvs = (Inr u, (k', z')) \<and>
     load_manifest restore_env (kv_manifest_root k') (new_kv, z') = (Inr (), (k2, z')) \<and>
     kv_map (k2, z') ''a'' = Some [7]"
proof -
  obtain k z where s: "sample_kvs = (k, z)" and k: "kv_manifest k = []"
    by (simp add: sample_kvs_def new_kv_def)
  have ok: "kv_ok restore_env UNIV (k, z)"
    using sample_kvs_ok [of restore_env] s by (simp add: restore_env_def sample_env_def)
  have fits: "kv_set_fits restore_env UNIV ''t'' ''a'' [7] (k, z)"
    by (simp add: zg_fits_UNIV manifest_bytes_def restore_env_def sample_env_def bytes_of_def)
  from ok fits obtain u k' z' where set: "kv_set restore_env ''t'' ''a'' [7] (k, z) = (Inr u, (k', z'))"
    and man: "kv_manifest k' = AList.update ''a'' (VStr (root_of restore_env [7])) (kv_manifest k)"
    by (rule kv_set_ok)
  have root: "root_of restore_env [7] = root_of sample_env [7]"
    by (simp add: root_of_def hexdigest_def restore_env_def split: sum.split)
  have "json_loads restore_env (manifest_bytes restore_env ''t'' (kv_manifest k')) =
      Inr (VDict [(''_keys'', VDict [(''a'', VStr (root_of sample_env [7]))])])"
    by (simp add: restore_env_def)
  from manifest_restores [OF ok fits set this] man k root set s show ?thesis by auto
qed

text \<open>
  Loading a manifest never raises: a missing blob, a transport failure, malformed JSON or a value
  without a length leaves the store empty, and no prior root means nothing is done.
\<close>

theorem load_manifest_never_raises:
  "\<exists>k' z'. load_manifest env root_opt (k, z) = (Inr (), (k', z')) \<and>
     (root_opt = None \<and> k' = k \<and> z' = z \<or>
      kv_manifest k' = [] \<and> kv_odd k' = None \<or>
      (\<exists>r raw v. root_opt = Some r \<and> zg_download env r z = (Inr raw, z') \<and>
         json_loads env raw = Inr v \<and> kv_manifest_root k' = Some r \<and>
         manifest_of v = (case kv_odd k' of Some w \<Rightarrow> w | None \<Rightarrow> VDict (kv_manifest k'))))"
proof (cases root_opt)
  case None
  then show ?thesis by (simp add: load_manifest_def sx_simps)
next
  case (Some r)
  obtain x z1 where x: "zg_download env r z = (x, z1)" by fastforce
  show ?thesis
  proof (cases x)
    case (Inl e)
    with x Some show ?thesis by (simp add: load_manifest_def set_manifest_def sx_simps sx_try_def sx_bind_def)
  next
    case (Inr raw)
    with x Some show ?thesis
      by (cases "json_loads env raw"; cases "manifest_of (projr (json_loads env raw))")
        (auto simp: load_manifest_def set_manifest_def sx_simps sx_try_def sx_bind_def)
  qed
qed

end
