(* ===== verification/Swarm_Log.thy ===== *)
theory Swarm_Log
  imports Swarm_KV
begin

text \<open>
  The append-only history (\<^verbatim>\<open>core/storage/log.py\<close>): every entry is a blob of its own, the
  list of their root hashes (the log index) is a value of the key-value store. \<open>ts i\<close> is the
  \<open>i\<close>-th clock reading inside an operation, \<open>eid\<close> the fresh entry id.
\<close>

definition load_index :: "('n, 'x) st_env_scheme \<Rightarrow> string \<Rightarrow> ('n kvs, log_index) sx" where
  "load_index env now =
     sx_bind (kv_get env KV_LOG_INDEX) (\<lambda>raw.
       case raw of
         None \<Rightarrow> sx_return (new_log_index now)
       | Some b \<Rightarrow> sx_try (sx_lift (dec_index env b)) (\<lambda>e. sx_return (new_log_index now)))"

definition new_entry ::
  "string \<Rightarrow> string \<Rightarrow> log_event_type \<Rightarrow> string \<Rightarrow> pydict \<Rightarrow> log_entry" where
  "new_entry now eid ev role data =
     \<lparr>le_entry_id = eid, le_event_type = ev, le_agent_role = role, le_timestamp = now,
      le_data = data, le_root_hash = None\<rparr>"

definition log_append ::
  "('n, 'x) st_env_scheme \<Rightarrow> (nat \<Rightarrow> string) \<Rightarrow> string \<Rightarrow> log_event_type \<Rightarrow> string \<Rightarrow> pydict \<Rightarrow>
   ('n kvs, log_entry) sx" where
  "log_append env ts eid ev role data =
     (let entry = new_entry (ts 0) eid ev role data
      in sx_bind (on_zg (zg_upload env (enc_entry env entry))) (\<lambda>u.
         sx_bind (load_index env (ts 1)) (\<lambda>index.
         sx_bind (kv_set env (ts 3) KV_LOG_INDEX
                    (enc_index env (log_index_append (ts 2) (root_hash u) index))) (\<lambda>_.
         sx_return (entry\<lparr>le_root_hash := Some (root_hash u)\<rparr>)))))"

definition get_entry :: "('n, 'x) st_env_scheme \<Rightarrow> string \<Rightarrow> ('n kvs, log_entry) sx" where
  "get_entry env r = sx_bind (on_zg (zg_download env r)) (\<lambda>raw. sx_lift (dec_entry env raw))"

text \<open>The loop of \<^verbatim>\<open>recent\<close>: an entry that cannot be fetched or decoded is skipped.\<close>

fun fetch_entries :: "('n, 'x) st_env_scheme \<Rightarrow> string list \<Rightarrow> ('n kvs, log_entry list) sx" where
  "fetch_entries env [] = sx_return []"
| "fetch_entries env (r # rs) =
     sx_bind (sx_try (sx_bind (get_entry env r) (\<lambda>e. sx_return [e])) (\<lambda>_. sx_return [])) (\<lambda>e.
     sx_bind (fetch_entries env rs) (\<lambda>es. sx_return (e @ es)))"

definition log_recent :: "('n, 'x) st_env_scheme \<Rightarrow> string \<Rightarrow> int \<Rightarrow> ('n kvs, log_entry list) sx" where
  "log_recent env now limit =
     sx_bind (load_index env now) (\<lambda>index. fetch_entries env (py_from (- limit) (li_entries index)))"

definition entry_count :: "('n, 'x) st_env_scheme \<Rightarrow> string \<Rightarrow> ('n kvs, int) sx" where
  "entry_count env now = sx_bind (load_index env now) (\<lambda>index. sx_return (li_entry_count index))"

definition by_agent :: "('n, 'x) st_env_scheme \<Rightarrow> string \<Rightarrow> string \<Rightarrow> int \<Rightarrow> ('n kvs, log_entry list) sx" where
  "by_agent env now role limit =
     sx_bind (log_recent env now (limit * 3)) (\<lambda>all_recent.
       sx_return (py_upto limit (filter (\<lambda>e. le_agent_role e = role) all_recent)))"

definition by_event_type ::
  "('n, 'x) st_env_scheme \<Rightarrow> string \<Rightarrow> log_event_type \<Rightarrow> int \<Rightarrow> ('n kvs, log_entry list) sx" where
  "by_event_type env now ev limit =
     sx_bind (log_recent env now (limit * 3)) (\<lambda>all_recent.
       sx_return (py_upto limit (filter (\<lambda>e. le_event_type e = ev) all_recent)))"

subsection \<open>The contract of an append-only log\<close>

locale append_log =
  fixes app :: "'a \<Rightarrow> ('s, 'b) sx"
    and item :: "'a \<Rightarrow> 'e"
    and hist :: "'s \<Rightarrow> 'e list"
    and lok :: "'s \<Rightarrow> bool"
    and lfits :: "'a \<Rightarrow> 's \<Rightarrow> bool"
  assumes app_ok: "lok s \<Longrightarrow> lfits a s \<Longrightarrow>
      \<exists>b s'. app a s = (Inr b, s') \<and> lok s' \<and> hist s' = hist s @ [item a]"

sublocale append_log \<subseteq> appends: op_refinement app "\<lambda>a h. h @ [item a]" hist lok lfits
  using app_ok by unfold_locales

context append_log
begin

lemma app_series:
  assumes "lok s" and "ops_fit lfits app as s"
  shows "\<exists>bs s'. sx_map app as s = (Inr bs, s') \<and> lok s' \<and> hist s' = hist s @ map item as"
proof -
  have "fold (\<lambda>a h. h @ [item a]) as h = h @ map item as" for h
    by (induction as arbitrary: h) simp_all
  with appends.run_series [OF assms] show ?thesis by simp
qed

end

subsection \<open>SwarmLog implements it\<close>

definition entry_at :: "('n, 'x) st_env_scheme \<Rightarrow> 'n zg \<Rightarrow> string \<Rightarrow> log_entry option" where
  "entry_at env z r =
     (case zg_blob z r of
        Some d \<Rightarrow> (case dec_entry env d of Inr e \<Rightarrow> Some e | Inl _ \<Rightarrow> None)
      | None \<Rightarrow> None)"

definition cur_index :: "('n, 'x) st_env_scheme \<Rightarrow> string \<Rightarrow> 'n kvs \<Rightarrow> log_index" where
  "cur_index env now s =
     (case kv_map s KV_LOG_INDEX of
        None \<Rightarrow> new_log_index now
      | Some b \<Rightarrow> (case dec_index env b of Inr i \<Rightarrow> i | Inl _ \<Rightarrow> new_log_index now))"

definition index_roots :: "('n, 'x) st_env_scheme \<Rightarrow> 'n kvs \<Rightarrow> string list" where
  "index_roots env s = li_entries (cur_index env [] s)"

definition log_hist :: "('n, 'x) st_env_scheme \<Rightarrow> 'n kvs \<Rightarrow> log_entry list" where
  "log_hist env s = map (\<lambda>r. the (entry_at env (snd s) r)) (index_roots env s)"

definition log_ok :: "('n, 'x) st_env_scheme \<Rightarrow> bytes set \<Rightarrow> 'n kvs \<Rightarrow> bool" where
  "log_ok env B s \<longleftrightarrow> kv_ok env B s \<and> index_ok (cur_index env [] s) \<and>
     (\<forall>r \<in> set (index_roots env s). entry_at env (snd s) r \<noteq> None)"

text \<open>The arguments of one append: clock readings, entry id, event type, role and data.\<close>

type_synonym append_args = "(nat \<Rightarrow> string) \<times> string \<times> log_event_type \<times> string \<times> pydict"

fun append_with :: "('n, 'x) st_env_scheme \<Rightarrow> append_args \<Rightarrow> ('n kvs, log_entry) sx" where
  "append_with env (ts, eid, ev, role, data) = log_append env ts eid ev role data"

fun args_entry :: "append_args \<Rightarrow> log_entry" where
  "args_entry (ts, eid, ev, role, data) = new_entry (ts 0) eid ev role data"

text \<open>
  What an append needs: the JSON of the entry and of the new index decode to what was encoded,
  and the blobs written are among those the digest separates.
\<close>

fun log_fits :: "('n, 'x) st_env_scheme \<Rightarrow> bytes set \<Rightarrow> append_args \<Rightarrow> 'n kvs \<Rightarrow> bool" where
  "log_fits env B (ts, eid, ev, role, data) s \<longleftrightarrow>
     (let e = new_entry (ts 0) eid ev role data;
          i = log_index_append (ts 2) (root_of env (enc_entry env e)) (cur_index env (ts 1) s)
      in zg_fits B (enc_entry env e) \<and> dec_entry env (enc_entry env e) = Inr e \<and>
         dec_index env (enc_index env i) = Inr i \<and>
         kv_set_fits env B (ts 3) KV_LOG_INDEX (enc_index env i) s)"

lemma cur_index_entries [simp]: "li_entries (cur_index env now s) = index_roots env s"
  by (simp add: index_roots_def cur_index_def split: option.split sum.split)

lemma index_ok_cur: "index_ok (cur_index env now s) \<longleftrightarrow> index_ok (cur_index env now' s)"
  by (simp add: cur_index_def split: option.split sum.split)

lemma load_index_ok:
  assumes "kv_ok env B s"
  shows "load_index env now s = (Inr (cur_index env now s), s)"
  using kv_get_ok [OF assms, of KV_LOG_INDEX]
  by (cases "kv_map s KV_LOG_INDEX"; cases "dec_index env (the (kv_map s KV_LOG_INDEX))")
    (simp_all add: load_index_def cur_index_def sx_simps)

lemma entry_at_kept:
  "entry_at env z r = Some e \<Longrightarrow> blobs_kept z z' \<Longrightarrow> entry_at env z' r = Some e"
  by (auto simp: entry_at_def blobs_keptD split: option.splits)

lemma entry_at_same:
  assumes "entry_at env z r \<noteq> None" and "blobs_kept z z'"
  shows "entry_at env z' r = entry_at env z r"
proof -
  from assms(1) obtain e where "entry_at env z r = Some e" by blast
  with entry_at_kept [OF this assms(2)] show ?thesis by simp
qed

text \<open>A write that keeps the blobs and the log index keeps the history.\<close>

lemma log_kept:
  assumes "log_ok env B (k, z)" and "kv_ok env B (k', z')" and "blobs_kept z z'"
    and "kv_map (k', z') KV_LOG_INDEX = kv_map (k, z) KV_LOG_INDEX"
  shows "log_ok env B (k', z')" and "log_hist env (k', z') = log_hist env (k, z)"
proof -
  have i: "cur_index env [] (k', z') = cur_index env [] (k, z)"
    using assms(4) by (simp add: cur_index_def)
  then have i': "index_roots env (k', z') = index_roots env (k, z)" by (simp only: index_roots_def)
  have "entry_at env z' r = entry_at env z r" if "r \<in> set (index_roots env (k, z))" for r
    using assms(1,3) that by (intro entry_at_same) (simp_all add: log_ok_def)
  with i i' assms(1,2) show "log_ok env B (k', z')" "log_hist env (k', z') = log_hist env (k, z)"
    by (auto simp: log_ok_def log_hist_def)
qed

lemma log_append_ok:
  assumes "log_ok env B (k, z)" and "log_fits env B (ts, eid, ev, role, data) (k, z)"
  obtains r k' z' where "log_append env ts eid ev role data (k, z) =
      (Inr ((new_entry (ts 0) eid ev role data)\<lparr>le_root_hash := Some r\<rparr>), (k', z'))"
    and "log_ok env B (k', z')"
    and "log_hist env (k', z') = log_hist env (k, z) @ [new_entry (ts 0) eid ev role data]"
    and "index_roots env (k', z') = index_roots env (k, z) @ [r]"
    and "entry_at env z' r = Some (new_entry (ts 0) eid ev role data)"
    and "blobs_kept z z'"
    and "\<forall>key. key \<noteq> KV_LOG_INDEX \<longrightarrow> kv_map (k', z') key = kv_map (k, z) key"
    and "kv_manifest k' = AList.update KV_LOG_INDEX (VStr (root_of env (enc_index env
           (log_index_append (ts 2) r (cur_index env (ts 1) (k, z)))))) (kv_manifest k)"
proof -
  let ?e = "new_entry (ts 0) eid ev role data"
  let ?r = "root_of env (enc_entry env ?e)"
  let ?i = "log_index_append (ts 2) ?r (cur_index env (ts 1) (k, z))"
  from assms have ok: "kv_ok env B (k, z)" and idx: "index_ok (cur_index env (ts 1) (k, z))"
    and held: "\<forall>r \<in> set (index_roots env (k, z)). entry_at env z r \<noteq> None"
    and ef: "zg_fits B (enc_entry env ?e)" and ed: "dec_entry env (enc_entry env ?e) = Inr ?e"
    and di: "dec_index env (enc_index env ?i) = Inr ?i"
    and kf: "kv_set_fits env B (ts 3) KV_LOG_INDEX (enc_index env ?i) (k, z)"
    using index_ok_cur [of env "ts 1" "(k, z)" "[]"] by (auto simp: log_ok_def Let_def)
  from ok have z: "zg_ok env B z" "manifest_ok (kv_manifest k) z" and dict: "kv_odd k = None" by auto
  from z(1) ef obtain u z1 where u: "on_zg (zg_upload env (enc_entry env ?e)) (k, z) = (Inr u, (k, z1))"
    "root_hash u = ?r" "zg_ok env B z1" "zg_blob z1 ?r = Some (enc_entry env ?e)" "blobs_kept z z1"
    by (rule on_zg_upload)
  have m1: "kv_map (k, z1) = kv_map (k, z)" and ok1: "kv_ok env B (k, z1)"
    using u(3) dict manifest_map_kept [OF z(2) u(5)] manifest_ok_kept [OF z(2) u(5)] by simp_all
  have i1: "load_index env (ts 1) (k, z1) = (Inr (cur_index env (ts 1) (k, z)), (k, z1))"
    using load_index_ok [OF ok1] m1 by (simp add: cur_index_def)
  have "kv_set_fits env B (ts 3) KV_LOG_INDEX (enc_index env ?i) (k, z1)" using kf by simp
  with ok1 obtain v k2 z2 where v: "kv_set env (ts 3) KV_LOG_INDEX (enc_index env ?i) (k, z1) = (Inr v, (k2, z2))"
    "kv_ok env B (k2, z2)" "kv_map (k2, z2) = (kv_map (k, z1))(KV_LOG_INDEX \<mapsto> enc_index env ?i)"
    "blobs_kept z1 z2" "root_hash v = root_of env (enc_index env ?i)"
    "kv_manifest k2 = AList.update KV_LOG_INDEX (VStr (root_of env (enc_index env ?i))) (kv_manifest k)"
    by (rule kv_set_ok)
  have kept: "blobs_kept z z2" using u(5) v(4) by (rule blobs_kept_trans)
  have e2: "entry_at env z2 ?r = Some ?e"
    using blobs_keptD [OF v(4) u(4)] ed by (simp add: entry_at_def)
  have ci: "cur_index env [] (k2, z2) = ?i" using v(3) di by (simp add: cur_index_def)
  then have ri: "index_roots env (k2, z2) = index_roots env (k, z) @ [?r]"
    unfolding index_roots_def [of env "(k2, z2)"] by simp
  have same: "entry_at env z2 r = entry_at env z r" if "r \<in> set (index_roots env (k, z))" for r
    using held that kept by (intro entry_at_same) simp_all
  have "log_append env ts eid ev role data (k, z) =
      (Inr (?e\<lparr>le_root_hash := Some ?r\<rparr>), (k2, z2))"
    by (simp add: log_append_def Let_def u(1,2) i1 v(1) sx_return_def del: One_nat_def)
  moreover have "log_ok env B (k2, z2)"
    using v(2) ci ri idx held same e2 by (auto simp: log_ok_def)
  moreover have "log_hist env (k2, z2) = log_hist env (k, z) @ [?e]"
    using ri same e2 by (simp add: log_hist_def)
  moreover have "\<forall>key. key \<noteq> KV_LOG_INDEX \<longrightarrow> kv_map (k2, z2) key = kv_map (k, z) key"
    using v(3) m1 by simp
  ultimately show thesis using ri e2 kept v(6) by (intro that [of ?r k2 z2])
qed

interpretation slog: append_log "append_with env" args_entry "log_hist env" "log_ok env B"
    "log_fits env B"
  for env :: "('n, 'x) st_env_scheme" and B
proof
  fix s :: "'n kvs" and a :: append_args
  obtain k z where s: "s = (k, z)" by (cases s)
  obtain ts eid ev role data where a: "a = (ts, eid, ev, role, data)" by (cases a)
  assume "log_ok env B s" and "log_fits env B a s"
  then have "log_ok env B (k, z)" and "log_fits env B (ts, eid, ev, role, data) (k, z)"
    by (simp_all only: s a)
  then obtain r k' z' where "log_append env ts eid ev role data (k, z) =
      (Inr ((new_entry (ts 0) eid ev role data)\<lparr>le_root_hash := Some r\<rparr>), (k', z'))"
    "log_ok env B (k', z')"
    "log_hist env (k', z') = log_hist env (k, z) @ [new_entry (ts 0) eid ev role data]"
    by (rule log_append_ok)
  then show "\<exists>b s'. append_with env a s = (Inr b, s') \<and> log_ok env B s' \<and>
      log_hist env s' = log_hist env s @ [args_entry a]"
    by (auto simp: s a)
qed

lemma get_entry_ok:
  assumes "kv_ok env B (k, z)" and "entry_at env z r = Some e"
  shows "get_entry env r (k, z) = (Inr e, (k, z))"
proof -
  from assms(2) obtain d where d: "zg_blob z r = Some d" "dec_entry env d = Inr e"
    by (auto simp: entry_at_def split: option.splits sum.splits)
  have "zg_download env r z = (Inr d, z)" using assms(1) d(1) by (auto intro: zgs.fetch_blob)
  with d(2) show ?thesis by (simp add: get_entry_def sx_simps)
qed

lemma fetch_entries_ok:
  assumes "kv_ok env B (k, z)" and "\<forall>r \<in> set rs. entry_at env z r \<noteq> None"
  shows "fetch_entries env rs (k, z) = (Inr (map (\<lambda>r. the (entry_at env z r)) rs), (k, z))"
  using assms(2)
proof (induction rs)
  case Nil
  then show ?case by (simp add: sx_simps)
next
  case (Cons r rs)
  then obtain e where e: "entry_at env z r = Some e" by auto
  from get_entry_ok [OF assms(1) this] have "get_entry env r (k, z) = (Inr e, (k, z))" .
  with Cons e show ?case by (simp add: sx_simps)
qed

lemma py_from_map: "py_from i (map f xs) = map f (py_from i xs)"
  by (simp add: py_from_def drop_map)

lemma log_recent_ok:
  assumes "log_ok env B s"
  shows "log_recent env now limit s = (Inr (py_from (- limit) (log_hist env s)), s)"
proof -
  obtain k z where s: "s = (k, z)" by (cases s)
  with assms have ok: "kv_ok env B (k, z)"
    and held: "\<forall>r \<in> set (py_from (- limit) (index_roots env (k, z))). entry_at env z r \<noteq> None"
    using set_py_from [of "- limit" "index_roots env (k, z)"] by (auto simp: log_ok_def)
  show ?thesis
    using load_index_ok [OF ok, of now] fetch_entries_ok [OF ok held]
    by (simp add: log_recent_def s log_hist_def py_from_map)
qed

lemma entry_count_ok:
  assumes "log_ok env B s"
  shows "entry_count env now s = (Inr (int (length (log_hist env s))), s)"
proof -
  have "index_ok (cur_index env now s)"
    using assms index_ok_cur [of env now s "[]"] by (auto simp: log_ok_def)
  then show ?thesis
    using assms load_index_ok [of env B s now]
    by (simp add: entry_count_def log_ok_def index_ok_def log_hist_def sx_simps)
qed

lemma log_ok_new:
  assumes "zg_ok env B z"
  shows "log_ok env B (new_kv, z)" and "log_hist env (new_kv, z) = []"
  using kv_ok_new [OF assms] by (simp_all add: log_ok_def log_hist_def index_roots_def cur_index_def)

subsection \<open>Properties\<close>

text \<open>
  C23. The history is append-only and complete: a series of \<^verbatim>\<open>append\<close> calls succeeds and adds
  exactly its entries, in order, behind the entries already there; \<^verbatim>\<open>recent(limit)\<close> then
  returns the last \<open>limit\<close> of all of them in chronological order, and \<^verbatim>\<open>entry_count\<close>
  their number.
\<close>

theorem log_append_recent:
  assumes "log_ok env B s" and "ops_fit (log_fits env B) (append_with env) as s"
  shows "\<exists>es s'. sx_map (append_with env) as s = (Inr es, s') \<and> log_ok env B s' \<and>
    log_recent env now limit s' = (Inr (py_from (- limit) (log_hist env s @ map args_entry as)), s') \<and>
    entry_count env now s' = (Inr (int (length (log_hist env s) + length as)), s')"
proof -
  obtain es s' where "sx_map (append_with env) as s = (Inr es, s')" and ok: "log_ok env B s'"
    and "log_hist env s' = log_hist env s @ map args_entry as"
    using slog.app_series [OF assms] by blast
  then show ?thesis using log_recent_ok [OF ok] entry_count_ok [OF ok] by simp
qed

text \<open>An environment whose storage codecs are those of two fixed log entries.\<close>

definition sample_args :: append_args where
  "sample_args = ((\<lambda>_. ''t''), ''id'', LE_MARKET_SIGNAL, ''researcher'', [])"

definition sample_index :: "('n, 'x) zg_env_scheme \<Rightarrow> log_index" where
  "sample_index env = log_index_append ''t'' (root_of env [1]) (new_log_index ''t'')"

definition log_env :: "unit st_env" where
  "log_env = zg_env.extend sample_env
     \<lparr>enc_agent = (\<lambda>_. []), dec_agent = (\<lambda>_. Inl (PyExc ValueError [])),
      enc_swarm = (\<lambda>_. []), dec_swarm = (\<lambda>_. Inl (PyExc ValueError [])),
      enc_entry = (\<lambda>_. [1]), dec_entry = (\<lambda>_. Inr (args_entry sample_args)),
      enc_index = (\<lambda>_. [2]), dec_index = (\<lambda>_. Inr (sample_index sample_env))\<rparr>"

lemma log_env_simps [simp]:
  "sha256 log_env = (\<lambda>d. d)" "json_dumps_sorted log_env = (\<lambda>_. bytes_of ''{}'')"
  "enc_entry log_env = (\<lambda>_. [1])" "dec_entry log_env = (\<lambda>_. Inr (args_entry sample_args))"
  "enc_index log_env = (\<lambda>_. [2])" "dec_index log_env = (\<lambda>_. Inr (sample_index sample_env))"
  by (simp_all add: log_env_def sample_env_def zg_env.defs)

lemma log_env_root [simp]: "root_of log_env d = root_of sample_env d"
  by (simp add: root_of_def hexdigest_def sample_env_def split: sum.split)

lemma log_sample:
  "log_ok log_env UNIV sample_kvs" "log_hist log_env sample_kvs = []"
  "ops_fit (log_fits log_env UNIV) (append_with log_env) [sample_args] sample_kvs"
proof -
  have ok: "zg_ok log_env UNIV (\<lparr>zg_backend = InMemory [], zg_net = ()\<rparr>)"
    by (rule zg_ok_inmemory_empty) simp
  show "log_ok log_env UNIV sample_kvs" "log_hist log_env sample_kvs = []"
    unfolding sample_kvs_def using log_ok_new [OF ok] by simp_all
  have "zg_fits UNIV (manifest_bytes log_env now m)" for now m
    by (rule zg_fits_UNIV) (simp add: manifest_bytes_def bytes_of_def)
  then show "ops_fit (log_fits log_env UNIV) (append_with log_env) [sample_args] sample_kvs"
    by (simp add: sample_args_def sample_kvs_def Let_def zg_fits_UNIV cur_index_def sample_index_def)
qed

theorem log_append_recent_witness:
  "\<exists>es s'. sx_map (append_with log_env) [sample_args] sample_kvs = (Inr es, s') \<and>
     log_recent log_env ''t'' 5 s' = (Inr [args_entry sample_args], s') \<and>
     entry_count log_env ''t'' s' = (Inr 1, s')"
  using log_append_recent [OF log_sample(1,3), of "''t''" 5] log_sample(2)
  by (auto simp: py_from_def)

text \<open>
  What an append returns: the entry with its root hash filled in, under which
  \<^verbatim>\<open>get_entry\<close> finds the stored copy, which has no root hash; no other key of the store
  changes.
\<close>

theorem log_append_returns:
  assumes "log_ok env B (k, z)" and "log_fits env B (ts, eid, ev, role, data) (k, z)"
  shows "\<exists>r s'. log_append env ts eid ev role data (k, z) =
      (Inr ((new_entry (ts 0) eid ev role data)\<lparr>le_root_hash := Some r\<rparr>), s') \<and>
    get_entry env r s' = (Inr (new_entry (ts 0) eid ev role data), s') \<and>
    (\<forall>key. key \<noteq> KV_LOG_INDEX \<longrightarrow> kv_get env key s' = (Inr (kv_map (k, z) key), s'))"
proof -
  from assms obtain r k' z' where a: "log_append env ts eid ev role data (k, z) =
      (Inr ((new_entry (ts 0) eid ev role data)\<lparr>le_root_hash := Some r\<rparr>), (k', z'))"
    "log_ok env B (k', z')" "entry_at env z' r = Some (new_entry (ts 0) eid ev role data)"
    "\<forall>key. key \<noteq> KV_LOG_INDEX \<longrightarrow> kv_map (k', z') key = kv_map (k, z) key"
    by (rule log_append_ok)
  from a(2) have ok: "kv_ok env B (k', z')" by (simp add: log_ok_def)
  from a(1,4) get_entry_ok [OF ok a(3)] show ?thesis by (auto simp: kv_get_ok [OF ok] simp del: kv_map.simps)
qed

theorem log_append_returns_witness:
  "\<exists>r s'. log_append log_env (\<lambda>_. ''t'') ''id'' LE_MARKET_SIGNAL ''researcher'' [] sample_kvs =
      (Inr ((args_entry sample_args)\<lparr>le_root_hash := Some r\<rparr>), s') \<and>
    get_entry log_env r s' = (Inr (args_entry sample_args), s') \<and>
    kv_get log_env KV_SWARM_STATE s' = (Inr None, s')"
proof -
  obtain k z where s: "sample_kvs = (k, z)" and m: "kv_map (k, z) = Map.empty"
    using kv_map_new unfolding sample_kvs_def by metis
  have "log_ok log_env UNIV (k, z)" using log_sample(1) by (simp only: s)
  moreover have "log_fits log_env UNIV ((\<lambda>_. ''t''), ''id'', LE_MARKET_SIGNAL, ''researcher'', []) (k, z)"
    using log_sample(3) by (simp only: s sample_args_def ops_fit.simps)
  ultimately show ?thesis
    using log_append_returns [of log_env UNIV k z "\<lambda>_. ''t''" "''id''" LE_MARKET_SIGNAL "''researcher''" "[]"] m
    by (auto simp: s sample_args_def simp del: kv_map.simps)
qed

text \<open>
  The filters search a window and keep its oldest matches: \<^verbatim>\<open>by_agent(role, limit)\<close> and
  \<^verbatim>\<open>by_event_type(ev, limit)\<close> return, for a positive limit, the first \<open>limit\<close> matches
  among the last \<open>3 * limit\<close> entries, in order, so at most \<open>limit\<close> of them; a match outside
  the window is not found.
\<close>

theorem log_filters:
  assumes "log_ok env B s" and "0 < n"
  shows "by_agent env now role (int n) s =
      (Inr (take n (filter (\<lambda>e. le_agent_role e = role)
         (drop (length (log_hist env s) - 3 * n) (log_hist env s)))), s) \<and>
    by_event_type env now ev (int n) s =
      (Inr (take n (filter (\<lambda>e. le_event_type e = ev)
         (drop (length (log_hist env s) - 3 * n) (log_hist env s)))), s)"
proof -
  have "log_recent env now (int n * 3) s =
      (Inr (drop (length (log_hist env s) - 3 * n) (log_hist env s)), s)"
    using log_recent_ok [OF assms(1), of now "int n * 3"] py_from_neg [of "3 * n" "log_hist env s"] assms(2)
    by (simp add: mult.commute)
  then show ?thesis by (simp add: by_agent_def by_event_type_def sx_simps py_upto_def)
qed

theorem log_filters_witness:
  "\<exists>s. log_hist log_env s = [args_entry sample_args] \<and>
     by_agent log_env ''t'' ''researcher'' (int 1) s = (Inr [args_entry sample_args], s)"
proof -
  obtain es s' where "log_ok log_env UNIV s'" and h: "log_hist log_env s' = [args_entry sample_args]"
    using slog.app_series [OF log_sample(1,3)] log_sample(2) by auto
  from log_filters [OF this(1), of 1 "''t''" "''researcher''"] h show ?thesis
    by (intro exI [of _ s']) (simp add: sample_args_def new_entry_def)
qed

end
