(* ===== verification/Agent_Memory.thy ===== *)
theory Agent_Memory
  imports Swarm_Log
begin

text \<open>
  The per-agent view of storage (\<^verbatim>\<open>core/storage/agent_memory.py\<close>). The operations of an
  \<^verbatim>\<open>AgentMemory\<close> act on its key-value store and the client (\<open>'n kvs\<close>). Several memories
  may hold the same \<^verbatim>\<open>SwarmKV\<close> object, so the objects live in a heap: a memory is its role
  and the address of its store, \<open>mem_heap\<close> holds the stores and the client all of them share.
  \<open>ts i\<close> is the \<open>i\<close>-th clock reading of an operation.
\<close>

subsection \<open>Operations\<close>

definition read_swarm_state :: "('n, 'x) st_env_scheme \<Rightarrow> string \<Rightarrow> ('n kvs, swarm_state) sx" where
  "read_swarm_state env now =
     sx_bind (kv_get env KV_SWARM_STATE) (\<lambda>raw.
       case raw of
         None \<Rightarrow> sx_return (new_swarm_state now)
       | Some b \<Rightarrow> sx_try (sx_lift (dec_swarm env b)) (\<lambda>e. sx_return (new_swarm_state now)))"

text \<open>The keyword arguments of \<^verbatim>\<open>update_status\<close>; a dictionary left out is empty.\<close>

record status_args =
  sa_status :: agent_status
  sa_last_signal :: pydict
  sa_last_risk_score :: "pyfloat option"
  sa_last_tx_hash :: "string option"
  sa_error_message :: "string option"
  sa_metadata :: pydict

definition status_only :: "agent_status \<Rightarrow> status_args" where
  "status_only st = \<lparr>sa_status = st, sa_last_signal = [], sa_last_risk_score = None,
     sa_last_tx_hash = None, sa_error_message = None, sa_metadata = []\<rparr>"

definition status_state :: "string \<Rightarrow> string \<Rightarrow> status_args \<Rightarrow> agent_state" where
  "status_state now role a =
     \<lparr>as_role = role, as_status = sa_status a, as_last_seen = now, as_last_signal = sa_last_signal a,
      as_last_risk_score = sa_last_risk_score a, as_last_tx_hash = sa_last_tx_hash a,
      as_error_message = sa_error_message a, as_metadata = sa_metadata a\<rparr>"

definition update_status ::
  "('n, 'x) st_env_scheme \<Rightarrow> (nat \<Rightarrow> string) \<Rightarrow> string \<Rightarrow> status_args \<Rightarrow> ('n kvs, unit) sx" where
  "update_status env ts role a =
     (let st = status_state (ts 0) role a
      in sx_bind (kv_set env (ts 1) (kv_agent_state role) (enc_agent env st)) (\<lambda>_.
         sx_bind (read_swarm_state env (ts 2)) (\<lambda>swarm.
         sx_bind (kv_set env (ts 4) KV_SWARM_STATE (enc_swarm env (update_agent (ts 3) role st swarm))) (\<lambda>_.
         sx_return ()))))"

text \<open>\<^verbatim>\<open>target = role or self.role\<close>\<close>

definition read_agent_state ::
  "('n, 'x) st_env_scheme \<Rightarrow> string \<Rightarrow> string option \<Rightarrow> ('n kvs, agent_state option) sx" where
  "read_agent_state env self_role role =
     (let target = (if str_truthy role then the role else self_role)
      in sx_bind (kv_get env (kv_agent_state target)) (\<lambda>raw.
           case raw of
             None \<Rightarrow> sx_return None
           | Some b \<Rightarrow> sx_bind (sx_lift (dec_agent env b)) (\<lambda>st. sx_return (Some st))))"

definition log_event ::
  "('n, 'x) st_env_scheme \<Rightarrow> (nat \<Rightarrow> string) \<Rightarrow> string \<Rightarrow> string \<Rightarrow> log_event_type \<Rightarrow> pydict \<Rightarrow>
   ('n kvs, string) sx" where
  "log_event env ts eid role ev data =
     sx_bind (log_append env ts eid ev role data) (\<lambda>e.
       sx_return (case le_root_hash e of Some r \<Rightarrow> r | None \<Rightarrow> []))"

definition entry_dict :: "log_entry \<Rightarrow> pydict" where
  "entry_dict e =
     [(''entry_id'', VStr (le_entry_id e)),
      (''event_type'', VStr (event_value (le_event_type e))),
      (''agent_role'', VStr (le_agent_role e)),
      (''timestamp'', VStr (le_timestamp e)),
      (''data'', VDict (le_data e)),
      (''root_hash'', opt_str (le_root_hash e))]"

definition read_recent_log :: "('n, 'x) st_env_scheme \<Rightarrow> string \<Rightarrow> int \<Rightarrow> ('n kvs, pydict list) sx" where
  "read_recent_log env now limit =
     sx_bind (log_recent env now limit) (\<lambda>es. sx_return (map entry_dict es))"

subsection \<open>Memories as objects\<close>

record agent_memory =
  am_role :: string
  am_kv :: nat

record 'n mem_heap =
  mh_kvs :: "swarm_kv list"
  mh_zg :: "'n zg"

definition on_mem :: "agent_memory \<Rightarrow> ('n kvs, 'a) sx \<Rightarrow> ('n mem_heap, 'a) sx" where
  "on_mem m = sx_zoom (\<lambda>h. (mh_kvs h ! am_kv m, mh_zg h))
     (\<lambda>(k, z) h. h\<lparr>mh_kvs := (mh_kvs h)[am_kv m := k], mh_zg := z\<rparr>)"

definition manifest_root :: "agent_memory \<Rightarrow> 'n mem_heap \<Rightarrow> string option" where
  "manifest_root m h = kv_manifest_root (mh_kvs h ! am_kv m)"

definition make_agent_memory :: "string \<Rightarrow> 'n mem_heap \<Rightarrow> agent_memory \<times> 'n mem_heap" where
  "make_agent_memory role h =
     (\<lparr>am_role = role, am_kv = length (mh_kvs h)\<rparr>, h\<lparr>mh_kvs := mh_kvs h @ [new_kv]\<rparr>)"

fun memory_dict :: "nat \<Rightarrow> string list \<Rightarrow> (string \<times> agent_memory) list" where
  "memory_dict a [] = []"
| "memory_dict a (r # rs) = (r, \<lparr>am_role = r, am_kv = a\<rparr>) # filter (\<lambda>(r', m). r' \<noteq> r) (memory_dict a rs)"

definition make_shared_memory_set ::
  "string list \<Rightarrow> 'n mem_heap \<Rightarrow> (string \<times> agent_memory) list \<times> 'n mem_heap" where
  "make_shared_memory_set roles h =
     (memory_dict (length (mh_kvs h)) roles, h\<lparr>mh_kvs := mh_kvs h @ [new_kv]\<rparr>)"

definition mem_update_status ::
  "('n, 'x) st_env_scheme \<Rightarrow> (nat \<Rightarrow> string) \<Rightarrow> agent_memory \<Rightarrow> status_args \<Rightarrow> ('n mem_heap, unit) sx" where
  "mem_update_status env ts m a = on_mem m (update_status env ts (am_role m) a)"

definition mem_read_swarm_state ::
  "('n, 'x) st_env_scheme \<Rightarrow> string \<Rightarrow> agent_memory \<Rightarrow> ('n mem_heap, swarm_state) sx" where
  "mem_read_swarm_state env now m = on_mem m (read_swarm_state env now)"

definition mem_log_event ::
  "('n, 'x) st_env_scheme \<Rightarrow> (nat \<Rightarrow> string) \<Rightarrow> string \<Rightarrow> agent_memory \<Rightarrow> log_event_type \<Rightarrow> pydict \<Rightarrow>
   ('n mem_heap, string) sx" where
  "mem_log_event env ts eid m ev data = on_mem m (log_event env ts eid (am_role m) ev data)"

subsection \<open>The abstract swarm memory\<close>

text \<open>What the agents see: the aggregate state and the history.\<close>

definition cur_swarm :: "('n, 'x) st_env_scheme \<Rightarrow> string \<Rightarrow> 'n kvs \<Rightarrow> swarm_state" where
  "cur_swarm env now s =
     (case kv_map s KV_SWARM_STATE of
        None \<Rightarrow> new_swarm_state now
      | Some b \<Rightarrow> (case dec_swarm env b of Inr sw \<Rightarrow> sw | Inl _ \<Rightarrow> new_swarm_state now))"

record swarm_view =
  sv_agents :: "string \<rightharpoonup> agent_state"
  sv_version :: int
  sv_history :: "log_entry list"

definition swarm_view_of :: "('n, 'x) st_env_scheme \<Rightarrow> 'n kvs \<Rightarrow> swarm_view" where
  "swarm_view_of env s = \<lparr>sv_agents = map_of (ss_agents (cur_swarm env [] s)),
     sv_version = ss_version (cur_swarm env [] s), sv_history = log_hist env s\<rparr>"

text \<open>An operation of some agent: its role with either a status update or a log event.\<close>

datatype mem_op =
    OpStatus (op_ts: "nat \<Rightarrow> string") (op_role: string) (op_args: status_args)
  | OpLog (op_ts: "nat \<Rightarrow> string") (op_eid: string) (op_role: string) (op_event: log_event_type) (op_data: pydict)

fun run_op :: "('n, 'x) st_env_scheme \<Rightarrow> mem_op \<Rightarrow> ('n kvs, unit) sx" where
  "run_op env (OpStatus ts role a) = update_status env ts role a"
| "run_op env (OpLog ts eid role ev data) =
     sx_bind (log_event env ts eid role ev data) (\<lambda>_. sx_return ())"

fun view_step :: "mem_op \<Rightarrow> swarm_view \<Rightarrow> swarm_view" where
  "view_step (OpStatus ts role a) v =
     v\<lparr>sv_agents := (sv_agents v)(role \<mapsto> status_state (ts 0) role a), sv_version := sv_version v + 1\<rparr>"
| "view_step (OpLog ts eid role ev data) v =
     v\<lparr>sv_history := sv_history v @ [new_entry (ts 0) eid ev role data]\<rparr>"

text \<open>What a status update needs of the codecs and of the digest.\<close>

fun status_fits ::
  "('n, 'x) st_env_scheme \<Rightarrow> bytes set \<Rightarrow> (nat \<Rightarrow> string) \<Rightarrow> string \<Rightarrow> status_args \<Rightarrow> 'n kvs \<Rightarrow> bool" where
  "status_fits env B ts role a (k, z) \<longleftrightarrow>
     (let st = status_state (ts 0) role a;
          sw = update_agent (ts 3) role st (cur_swarm env (ts 2) (k, z));
          m1 = AList.update (kv_agent_state role) (VStr (root_of env (enc_agent env st))) (kv_manifest k)
      in dec_agent env (enc_agent env st) = Inr st \<and> dec_swarm env (enc_swarm env sw) = Inr sw \<and>
         kv_set_fits env B (ts 1) (kv_agent_state role) (enc_agent env st) (k, z) \<and>
         kv_set_fits env B (ts 4) KV_SWARM_STATE (enc_swarm env sw) (k\<lparr>kv_manifest := m1\<rparr>, z))"

fun op_fits :: "('n, 'x) st_env_scheme \<Rightarrow> bytes set \<Rightarrow> mem_op \<Rightarrow> 'n kvs \<Rightarrow> bool" where
  "op_fits env B (OpStatus ts role a) s \<longleftrightarrow> status_fits env B ts role a s"
| "op_fits env B (OpLog ts eid role ev data) s \<longleftrightarrow> log_fits env B (ts, eid, ev, role, data) s"

subsection \<open>The operations refine the abstract memory\<close>

lemma cur_swarm_clock:
  "ss_agents (cur_swarm env now s) = ss_agents (cur_swarm env [] s)"
  "ss_version (cur_swarm env now s) = ss_version (cur_swarm env [] s)"
  by (simp_all add: cur_swarm_def new_swarm_state_def split: option.split sum.split)

lemma read_swarm_state_ok:
  assumes "kv_ok env B s"
  shows "read_swarm_state env now s = (Inr (cur_swarm env now s), s)"
  using kv_get_ok [OF assms, of KV_SWARM_STATE]
  by (cases "kv_map s KV_SWARM_STATE"; cases "dec_swarm env (the (kv_map s KV_SWARM_STATE))")
    (simp_all add: read_swarm_state_def cur_swarm_def sx_simps)

lemma update_status_ok:
  assumes "log_ok env B (k, z)" and "status_fits env B ts role a (k, z)"
  obtains k' z' where "update_status env ts role a (k, z) = (Inr (), (k', z'))"
    and "log_ok env B (k', z')" and "log_hist env (k', z') = log_hist env (k, z)"
    and "kv_map (k', z') = (kv_map (k, z))
           (kv_agent_state role \<mapsto> enc_agent env (status_state (ts 0) role a),
            KV_SWARM_STATE \<mapsto> enc_swarm env (update_agent (ts 3) role (status_state (ts 0) role a)
                                 (cur_swarm env (ts 2) (k, z))))"
    and "\<forall>now. cur_swarm env now (k', z') =
           update_agent (ts 3) role (status_state (ts 0) role a) (cur_swarm env (ts 2) (k, z))"
    and "blobs_kept z z'"
proof -
  let ?st = "status_state (ts 0) role a"
  let ?sw = "update_agent (ts 3) role ?st (cur_swarm env (ts 2) (k, z))"
  from assms have ok: "kv_ok env B (k, z)"
    and dsw: "dec_swarm env (enc_swarm env ?sw) = Inr ?sw"
    and f1: "kv_set_fits env B (ts 1) (kv_agent_state role) (enc_agent env ?st) (k, z)"
    and f2: "kv_set_fits env B (ts 4) KV_SWARM_STATE (enc_swarm env ?sw)
      (k\<lparr>kv_manifest := AList.update (kv_agent_state role)
         (VStr (root_of env (enc_agent env ?st))) (kv_manifest k)\<rparr>, z)"
    by (simp_all add: log_ok_def Let_def)
  from ok f1 obtain u k1 z1 where u: "kv_set env (ts 1) (kv_agent_state role) (enc_agent env ?st) (k, z)
      = (Inr u, (k1, z1))" "kv_ok env B (k1, z1)"
    "kv_map (k1, z1) = (kv_map (k, z))(kv_agent_state role \<mapsto> enc_agent env ?st)" "blobs_kept z z1"
    "kv_manifest k1 = AList.update (kv_agent_state role) (VStr (root_of env (enc_agent env ?st))) (kv_manifest k)"
    by (rule kv_set_ok)
  have sw1: "read_swarm_state env (ts 2) (k1, z1) = (Inr (cur_swarm env (ts 2) (k, z)), (k1, z1))"
    using read_swarm_state_ok [OF u(2), of "ts 2"] u(3) by (simp add: cur_swarm_def)
  have "kv_set_fits env B (ts 4) KV_SWARM_STATE (enc_swarm env ?sw) (k1, z1)"
    using f2 u(5) by simp
  with u(2) obtain v k2 z2 where v: "kv_set env (ts 4) KV_SWARM_STATE (enc_swarm env ?sw) (k1, z1)
      = (Inr v, (k2, z2))" "kv_ok env B (k2, z2)"
    "kv_map (k2, z2) = (kv_map (k1, z1))(KV_SWARM_STATE \<mapsto> enc_swarm env ?sw)" "blobs_kept z1 z2"
    by (rule kv_set_ok)
  have kept: "blobs_kept z z2" using u(4) v(4) by (rule blobs_kept_trans)
  have m2: "kv_map (k2, z2) = (kv_map (k, z))
      (kv_agent_state role \<mapsto> enc_agent env ?st, KV_SWARM_STATE \<mapsto> enc_swarm env ?sw)"
    using u(3) v(3) by simp
  then have "kv_map (k2, z2) KV_LOG_INDEX = kv_map (k, z) KV_LOG_INDEX" by simp
  note log = log_kept [OF assms(1) v(2) kept this]
  have "update_status env ts role a (k, z) = (Inr (), (k2, z2))"
    unfolding update_status_def Let_def by (simp add: u(1) sw1 v(1) sx_return_def del: One_nat_def)
  moreover have "\<forall>now. cur_swarm env now (k2, z2) = ?sw"
    using m2 dsw by (simp add: cur_swarm_def)
  ultimately show thesis using log m2 kept by (intro that [of k2 z2])
qed

lemma swarm_view_kept:
  assumes "kv_map s' KV_SWARM_STATE = kv_map s KV_SWARM_STATE"
  shows "cur_swarm env now s' = cur_swarm env now s"
  using assms by (simp add: cur_swarm_def)

interpretation amem: op_refinement "run_op env" view_step "swarm_view_of env" "log_ok env B"
    "op_fits env B"
  for env :: "('n, 'x) st_env_scheme" and B
proof
  fix s :: "'n kvs" and op
  assume ok: "log_ok env B s" and fits: "op_fits env B op s"
  obtain k z where s: "s = (k, z)" by (cases s)
  show "\<exists>b s'. run_op env op s = (Inr b, s') \<and> log_ok env B s' \<and>
      swarm_view_of env s' = view_step op (swarm_view_of env s)"
  proof (cases op)
    case (OpStatus ts role a)
    with ok fits s have "log_ok env B (k, z)" "status_fits env B ts role a (k, z)"
      by (simp_all del: status_fits.simps)
    then obtain k' z' where "update_status env ts role a (k, z) = (Inr (), (k', z'))"
      "log_ok env B (k', z')" "log_hist env (k', z') = log_hist env (k, z)"
      "\<forall>now. cur_swarm env now (k', z') =
           update_agent (ts 3) role (status_state (ts 0) role a) (cur_swarm env (ts 2) (k, z))"
      by (rule update_status_ok)
    then show ?thesis using s OpStatus cur_swarm_clock [of env "ts 2" "(k, z)"]
      by (auto simp: swarm_view_of_def)
  next
    case (OpLog ts eid role ev data)
    with ok fits s have "log_ok env B (k, z)" "log_fits env B (ts, eid, ev, role, data) (k, z)"
      by (simp_all del: log_fits.simps)
    then obtain r k' z' where "log_append env ts eid ev role data (k, z) =
        (Inr ((new_entry (ts 0) eid ev role data)\<lparr>le_root_hash := Some r\<rparr>), (k', z'))"
      "log_ok env B (k', z')"
      "log_hist env (k', z') = log_hist env (k, z) @ [new_entry (ts 0) eid ev role data]"
      "\<forall>key. key \<noteq> KV_LOG_INDEX \<longrightarrow> kv_map (k', z') key = kv_map (k, z) key"
      by (rule log_append_ok)
    moreover from this(4) have "cur_swarm env now (k', z') = cur_swarm env now (k, z)" for now
      by (intro swarm_view_kept) (simp del: kv_map.simps)
    ultimately show ?thesis using s OpLog
      by (auto simp: swarm_view_of_def log_event_def sx_simps)
  qed
qed

text \<open>An operation through one memory leaves the stores at other addresses alone.\<close>

lemma on_mem_Pair:
  assumes "op (mh_kvs h ! am_kv m, mh_zg h) = (r, (k', z'))"
  shows "on_mem m op h = (r, h\<lparr>mh_kvs := (mh_kvs h)[am_kv m := k'], mh_zg := z'\<rparr>)"
  using assms by (simp add: on_mem_def sx_simps)

lemma on_mem_other:
  assumes "on_mem m op h = (r, h')" and "am_kv m' \<noteq> am_kv m"
  shows "mh_kvs h' ! am_kv m' = mh_kvs h ! am_kv m'" and "length (mh_kvs h') = length (mh_kvs h)"
  using assms by (auto simp: on_mem_def sx_simps split: prod.splits)

lemma read_swarm_state_empty:
  "kv_manifest k = [] \<Longrightarrow> kv_odd k = None \<Longrightarrow> read_swarm_state env now (k, z) = (Inr (new_swarm_state now), (k, z))"
  by (simp add: read_swarm_state_def kv_get_def dget_def sx_simps)

lemma memory_dict_entry: "(r, m) \<in> set (memory_dict a rs) \<Longrightarrow> am_kv m = a \<and> am_role m = r"
  by (induction a rs rule: memory_dict.induct) auto

subsection \<open>Properties\<close>

text \<open>
  C5. Agents that share a store never lose each other's writes: any interleaving of
  \<^verbatim>\<open>update_status\<close> and \<^verbatim>\<open>log_event\<close> calls by any roles succeeds; afterwards the
  aggregate state holds, for every role, the state of its last update (or what was there), its
  version counts the updates, and the history holds exactly the logged events, in order.
\<close>

theorem memory_interleaving:
  assumes "log_ok env B s" and "ops_fit (op_fits env B) (run_op env) ops s"
  shows "\<exists>us s'. sx_map (run_op env) ops s = (Inr us, s') \<and>
    swarm_view_of env s' = fold view_step ops (swarm_view_of env s) \<and>
    (\<exists>sw. read_swarm_state env now s' = (Inr sw, s') \<and>
       map_of (ss_agents sw) = sv_agents (fold view_step ops (swarm_view_of env s)) \<and>
       ss_version sw = sv_version (fold view_step ops (swarm_view_of env s))) \<and>
    log_recent env now limit s' =
      (Inr (py_from (- limit) (sv_history (fold view_step ops (swarm_view_of env s)))), s')"
proof -
  obtain us s' where us: "sx_map (run_op env) ops s = (Inr us, s')" and ok: "log_ok env B s'"
    and v: "swarm_view_of env s' = fold view_step ops (swarm_view_of env s)"
    using amem.run_series [OF assms] by blast
  from ok have "kv_ok env B s'" by (simp add: log_ok_def)
  note sw = read_swarm_state_ok [OF this, of now]
  show ?thesis unfolding v [symmetric]
    using us sw log_recent_ok [OF ok, of now limit] cur_swarm_clock [of env now s']
    by (auto simp: swarm_view_of_def)
qed

text \<open>An environment whose codecs are those of one fixed agent state and one fixed swarm state.\<close>

definition sample_status :: agent_state where
  "sample_status = status_state ''t'' ''risk'' (status_only AS_DECIDING)"

definition sample_swarm :: swarm_state where
  "sample_swarm = update_agent ''t'' ''risk'' sample_status (new_swarm_state ''t'')"

definition mem_env :: "unit st_env" where
  "mem_env = log_env\<lparr>enc_agent := (\<lambda>_. [3]), dec_agent := (\<lambda>_. Inr sample_status),
      enc_swarm := (\<lambda>_. [4]), dec_swarm := (\<lambda>_. Inr sample_swarm)\<rparr>"

lemma mem_env_simps [simp]:
  "sha256 mem_env = (\<lambda>d. d)" "json_dumps_sorted mem_env = (\<lambda>_. bytes_of ''{}'')"
  "enc_entry mem_env = (\<lambda>_. [1])" "dec_entry mem_env = (\<lambda>_. Inr (args_entry sample_args))"
  "enc_index mem_env = (\<lambda>_. [2])" "dec_index mem_env = (\<lambda>_. Inr (sample_index sample_env))"
  "enc_agent mem_env = (\<lambda>_. [3])" "dec_agent mem_env = (\<lambda>_. Inr sample_status)"
  "enc_swarm mem_env = (\<lambda>_. [4])" "dec_swarm mem_env = (\<lambda>_. Inr sample_swarm)"
  by (simp_all add: mem_env_def)

lemma mem_sample:
  "log_ok mem_env UNIV sample_kvs" "log_hist mem_env sample_kvs = []"
  "cur_swarm mem_env now sample_kvs = new_swarm_state now"
  "status_fits mem_env UNIV (\<lambda>_. ''t'') ''risk'' (status_only AS_DECIDING) sample_kvs"
proof -
  have ok: "zg_ok mem_env UNIV (\<lparr>zg_backend = InMemory [], zg_net = ()\<rparr>)"
    by (rule zg_ok_inmemory_empty) simp
  show "log_ok mem_env UNIV sample_kvs" "log_hist mem_env sample_kvs = []"
    unfolding sample_kvs_def using log_ok_new [OF ok] by simp_all
  show cs: "cur_swarm mem_env now sample_kvs = new_swarm_state now" for now
    by (simp add: sample_kvs_def cur_swarm_def)
  have "zg_fits UNIV (manifest_bytes mem_env now m)" for now m
    by (rule zg_fits_UNIV) (simp add: manifest_bytes_def bytes_of_def)
  then show "status_fits mem_env UNIV (\<lambda>_. ''t'') ''risk'' (status_only AS_DECIDING) sample_kvs"
    using cs by (simp add: sample_kvs_def Let_def zg_fits_UNIV sample_status_def sample_swarm_def)
qed

theorem memory_interleaving_witness:
  "\<exists>us s' sw. sx_map (run_op mem_env) [OpStatus (\<lambda>_. ''t'') ''risk'' (status_only AS_DECIDING)] sample_kvs
       = (Inr us, s') \<and>
     read_swarm_state mem_env ''t'' s' = (Inr sw, s') \<and> ss_version sw = 1 \<and>
     map_of (ss_agents sw) ''risk'' = Some sample_status"
proof -
  let ?ops = "[OpStatus (\<lambda>_. ''t'') ''risk'' (status_only AS_DECIDING)]"
  have "ops_fit (op_fits mem_env UNIV) (run_op mem_env) ?ops sample_kvs"
    using mem_sample(4) by simp
  from memory_interleaving [OF mem_sample(1) this, of "''t''" 1] show ?thesis
    by (auto simp: swarm_view_of_def mem_sample(3) new_swarm_state_def sample_status_def)
qed

text \<open>
  Members of a shared memory set see each other: after one member's \<^verbatim>\<open>update_status\<close>,
  \<^verbatim>\<open>read_swarm_state\<close> of any member returns the aggregate state with exactly that agent's
  entry replaced and the version increased by one.
\<close>

theorem shared_memory_visible:
  assumes "make_shared_memory_set roles h = (mems, h1)"
    and "(r, m) \<in> set mems" and "(r', m') \<in> set mems"
    and "log_ok env B (mh_kvs h2 ! am_kv m, mh_zg h2)" and "am_kv m < length (mh_kvs h2)"
    and "status_fits env B ts (am_role m) a (mh_kvs h2 ! am_kv m, mh_zg h2)"
  shows "\<exists>h3. mem_update_status env ts m a h2 = (Inr (), h3) \<and>
    mem_read_swarm_state env now m' h3 =
      (Inr (update_agent (ts 3) r (status_state (ts 0) r a)
              (cur_swarm env (ts 2) (mh_kvs h2 ! am_kv m, mh_zg h2))), h3)"
proof -
  let ?k = "mh_kvs h2 ! am_kv m" and ?z = "mh_zg h2"
  have same: "am_kv m' = am_kv m" "am_role m = r"
    using assms(1-3) by (auto simp: make_shared_memory_set_def dest!: memory_dict_entry)
  from assms(4,6) obtain k' z' where u: "update_status env ts (am_role m) a (?k, ?z) = (Inr (), (k', z'))"
    and ok: "log_ok env B (k', z')" and sw: "\<forall>now. cur_swarm env now (k', z') =
      update_agent (ts 3) (am_role m) (status_state (ts 0) (am_role m) a) (cur_swarm env (ts 2) (?k, ?z))"
    by (rule update_status_ok)
  let ?h3 = "h2\<lparr>mh_kvs := (mh_kvs h2)[am_kv m := k'], mh_zg := z'\<rparr>"
  have "mem_update_status env ts m a h2 = (Inr (), ?h3)"
    unfolding mem_update_status_def using u by (rule on_mem_Pair)
  moreover from ok have "kv_ok env B (k', z')" by (simp add: log_ok_def)
  from read_swarm_state_ok [OF this, of now] have "mem_read_swarm_state env now m' ?h3 =
      (Inr (cur_swarm env now (k', z')), ?h3)"
    using assms(5) same by (simp add: mem_read_swarm_state_def on_mem_def sx_simps)
  ultimately show ?thesis using sw same by auto
qed

theorem shared_memory_visible_witness:
  "\<exists>mems h1 h3 sw. make_shared_memory_set [''researcher'', ''risk'']
       \<lparr>mh_kvs = [], mh_zg = \<lparr>zg_backend = InMemory [], zg_net = ()\<rparr>\<rparr> = (mems, h1) \<and>
     mem_update_status mem_env (\<lambda>_. ''t'') \<lparr>am_role = ''risk'', am_kv = 0\<rparr> (status_only AS_DECIDING) h1 = (Inr (), h3) \<and>
     mem_read_swarm_state mem_env ''t'' \<lparr>am_role = ''researcher'', am_kv = 0\<rparr> h3 = (Inr sw, h3) \<and>
     ss_version sw = 1"
proof -
  let ?h = "\<lparr>mh_kvs = [], mh_zg = \<lparr>zg_backend = InMemory [], zg_net = ()\<rparr>\<rparr> :: unit mem_heap"
  obtain mems h1 where mk: "make_shared_memory_set [''researcher'', ''risk''] ?h = (mems, h1)"
    by fastforce
  then have mem: "(''risk'', \<lparr>am_role = ''risk'', am_kv = 0\<rparr>) \<in> set mems"
    "(''researcher'', \<lparr>am_role = ''researcher'', am_kv = 0\<rparr>) \<in> set mems"
    and h1: "(mh_kvs h1 ! 0, mh_zg h1) = sample_kvs" "0 < length (mh_kvs h1)"
    by (auto simp: make_shared_memory_set_def sample_kvs_def)
  from shared_memory_visible [OF mk mem, where env = mem_env and B = UNIV and ?h2.0 = h1 and
      ts = "\<lambda>_. ''t''" and a = "status_only AS_DECIDING" and now = "''t''"] h1 mem_sample
  show ?thesis using mk by (auto simp: new_swarm_state_def)
qed

text \<open>
  C35. Memories made one by one do not see each other: \<^verbatim>\<open>make_agent_memory\<close> gives each its
  own store, so whatever one of them writes, and whether or not the write succeeds, the other
  still reads the empty initial state.
\<close>

theorem separate_memories_isolated:
  "case make_agent_memory r1 h of (m1, h1) \<Rightarrow>
   case make_agent_memory r2 h1 of (m2, h2) \<Rightarrow>
   case mem_update_status env ts m1 a h2 of (res, h3) \<Rightarrow>
   case mem_log_event env ts2 eid m1 ev data h3 of (res2, h4) \<Rightarrow>
     mem_read_swarm_state env now m2 h4 = (Inr (new_swarm_state now), h4)"
proof -
  obtain m1 h1 where m1: "make_agent_memory r1 h = (m1, h1)" by fastforce
  obtain m2 h2 where m2: "make_agent_memory r2 h1 = (m2, h2)" by fastforce
  obtain res h3 where u: "mem_update_status env ts m1 a h2 = (res, h3)" by fastforce
  obtain res2 h4 where l: "mem_log_event env ts2 eid m1 ev data h3 = (res2, h4)" by fastforce
  from m1 m2 have ne: "am_kv m2 \<noteq> am_kv m1" and k2: "mh_kvs h2 ! am_kv m2 = new_kv"
    and lt: "am_kv m2 < length (mh_kvs h2)"
    by (auto simp: make_agent_memory_def nth_append)
  note o1 = on_mem_other [OF u [unfolded mem_update_status_def] ne]
  note o2 = on_mem_other [OF l [unfolded mem_log_event_def] ne]
  have k4: "mh_kvs h4 ! am_kv m2 = new_kv" and "am_kv m2 < length (mh_kvs h4)"
    using o1 o2 k2 lt by simp_all
  have "read_swarm_state env now (mh_kvs h4 ! am_kv m2, mh_zg h4) =
      (Inr (new_swarm_state now), (mh_kvs h4 ! am_kv m2, mh_zg h4))"
    by (rule read_swarm_state_empty) (simp_all add: k4 new_kv_def)
  then have "mem_read_swarm_state env now m2 h4 = (Inr (new_swarm_state now), h4)"
    unfolding mem_read_swarm_state_def
    by (subst on_mem_Pair) (auto intro: mem_heap.equality)
  with m1 m2 u l show ?thesis by simp
qed

end
