(* ===== verification/Http.thy ===== *)
theory Http
  imports PyValue
begin

text \<open>
  The HTTP transport of the API clients. The \<^verbatim>\<open>httpx\<close> client and the
  \<^verbatim>\<open>tenacity\<close> retry helper are third-party code: a request on the network state
  \<open>'w\<close>, \<^verbatim>\<open>raise_for_status\<close> and the retry combinator are fields of \<open>http_env\<close>.
  The retry policy, which exceptions are retried and how often, is that of the sources.
\<close>

record http_resp =
  status_code :: int
  json_body :: "pyval res"

record 'w http_env =
  http_request :: "string \<Rightarrow> string \<Rightarrow> string \<Rightarrow> pyval \<Rightarrow> ('w, http_resp) sx"
  raise_for_status :: "http_resp \<Rightarrow> unit res"
  tenacity :: "nat \<Rightarrow> (pyexc \<Rightarrow> bool) \<Rightarrow> ('w, http_resp) sx \<Rightarrow> ('w, http_resp) sx"

definition retryable :: "pyexc \<Rightarrow> bool" where
  "retryable e \<longleftrightarrow> exc_kind e \<in> {ConnectError, TimeoutException}"

text \<open>One attempt: the request and \<^verbatim>\<open>raise_for_status\<close>; up to three of them.\<close>

definition attempt :: "('w, 'x) http_env_scheme \<Rightarrow> string \<Rightarrow> string \<Rightarrow> string \<Rightarrow> pyval \<Rightarrow> ('w, http_resp) sx" where
  "attempt env meth url key body =
     sx_bind (http_request env meth url key body) (\<lambda>resp.
     sx_bind (sx_lift (raise_for_status env resp)) (\<lambda>_. sx_return resp))"

definition retrying :: "('w, 'x) http_env_scheme \<Rightarrow> ('w, http_resp) sx \<Rightarrow> ('w, http_resp) sx" where
  "retrying env m = tenacity env 3 retryable m"

definition request_json :: "('w, 'x) http_env_scheme \<Rightarrow> string \<Rightarrow> string \<Rightarrow> string \<Rightarrow> pyval \<Rightarrow> ('w, pyval) sx" where
  "request_json env meth url key body =
     sx_bind (retrying env (attempt env meth url key body)) (\<lambda>resp. sx_lift (json_body resp))"

subsection \<open>What the retry helper promises\<close>

text \<open>
  The documented behaviour of \<^verbatim>\<open>AsyncRetrying\<close> with \<^verbatim>\<open>stop_after_attempt(n)\<close>,
  \<^verbatim>\<open>retry_if_exception_type\<close> and \<^verbatim>\<open>reraise=True\<close>: run the block, run it again
  while it raises a retried exception and attempts are left, then raise the last exception.
\<close>

fun retry_spec :: "nat \<Rightarrow> (pyexc \<Rightarrow> bool) \<Rightarrow> ('w, 'a) sx \<Rightarrow> ('w, 'a) sx" where
  "retry_spec 0 again m = m"
| "retry_spec (Suc n) again m =
     sx_try m (\<lambda>e. if again e \<and> 0 < n then retry_spec n again m else sx_raise e)"

text \<open>The attempts of a block that counts its runs: at least one, at most \<open>n\<close>.\<close>

lemma retry_spec_count:
  assumes "\<And>w r w'. m w = (r, w') \<Longrightarrow> cnt w' = Suc (cnt w)"
    and "retry_spec n again m w = (r, w')"
  shows "Suc (cnt w) \<le> cnt w' \<and> cnt w' \<le> cnt w + max 1 n"
  using assms(2)
proof (induction n arbitrary: w)
  case 0
  then show ?case using assms(1) by fastforce
next
  case (Suc n)
  obtain x w1 where m: "m w = (x, w1)" by fastforce
  have "cnt w1 = Suc (cnt w)" using assms(1) [OF m] .
  with m Suc.prems Suc.IH [of w1] show ?case
    by (cases x) (auto simp: sx_simps max_def split: if_splits)
qed

text \<open>A property that one run of the block maintains, its retries maintain.\<close>

lemma maintains_retry:
  assumes "maintains I m"
  shows "maintains I (retry_spec n again m)"
proof (induction n)
  case (Suc n)
  then show ?case using assms by (auto intro!: maintains_try)
qed (use assms in simp)

end
