(* ===== verification/Uniswap.thy ===== *)
theory Uniswap
  imports Http Schema
begin

text \<open>
  The Uniswap Trading API: models (\<^verbatim>\<open>core/uniswap/models.py\<close>) and client
  (\<^verbatim>\<open>core/uniswap/client.py\<close>). The client acts on its backend, the mock's call
  lists or the live HTTP session, and the network state.

  Parameters (\<open>uni_env\<close>): the HTTP layer, how pydantic reads the fields of a transaction and
  of an approval response (\<open>parse_tx\<close>, \<open>parse_approval\<close>; the validators of the sources are
  applied on top) and an optional integer (\<open>int_field\<close>), and the text of floats and containers (\<open>repr_val\<close>).
\<close>

subsection \<open>Models\<close>

datatype routing_type = CLASSIC | DUTCH_V2 | DUTCH_V3 | PRIORITY | WRAP | UNWRAP | BRIDGE

fun routing_value :: "routing_type \<Rightarrow> string" where
  "routing_value CLASSIC = ''CLASSIC''"
| "routing_value DUTCH_V2 = ''DUTCH_V2''"
| "routing_value DUTCH_V3 = ''DUTCH_V3''"
| "routing_value PRIORITY = ''PRIORITY''"
| "routing_value WRAP = ''WRAP''"
| "routing_value UNWRAP = ''UNWRAP''"
| "routing_value BRIDGE = ''BRIDGE''"

definition routing_of :: "string \<Rightarrow> routing_type option" where
  "routing_of = enum_of [CLASSIC, DUTCH_V2, DUTCH_V3, PRIORITY, WRAP, UNWRAP, BRIDGE] routing_value"

datatype swap_type = EXACT_INPUT | EXACT_OUTPUT

fun swap_type_value :: "swap_type \<Rightarrow> string" where
  "swap_type_value EXACT_INPUT = ''EXACT_INPUT''"
| "swap_type_value EXACT_OUTPUT = ''EXACT_OUTPUT''"

datatype swap_status = SW_PENDING | SW_SUBMITTED | SW_CONFIRMED | SW_FAILED | SW_SKIPPED

fun swap_status_value :: "swap_status \<Rightarrow> string" where
  "swap_status_value SW_PENDING = ''pending''"
| "swap_status_value SW_SUBMITTED = ''submitted''"
| "swap_status_value SW_CONFIRMED = ''confirmed''"
| "swap_status_value SW_FAILED = ''failed''"
| "swap_status_value SW_SKIPPED = ''skipped''"

definition NATIVE_ETH :: string where
  "NATIVE_ETH = ''0x0000000000000000000000000000000000000000''"

definition BASE_CHAIN_ID :: int where
  "BASE_CHAIN_ID = 8453"

record approval_request =
  ar_token :: string
  ar_amount :: string
  ar_wallet_address :: string
  ar_chain_id :: int

record transaction_request =
  tx_to :: string
  tx_from :: string
  tx_data :: string
  tx_value :: string
  tx_chain_id :: int
  tx_gas_limit :: "string option"
  tx_max_fee_per_gas :: "string option"
  tx_max_priority_fee_per_gas :: "string option"

definition data_must_not_be_empty :: "transaction_request \<Rightarrow> transaction_request res" where
  "data_must_not_be_empty tx =
     (if tx_data tx = [] \<or> tx_data tx = ''0x''
      then Inl (PyExc ValidationError ''Transaction data must not be empty'')
      else Inr tx)"

record approval_response =
  needs_approval :: bool
  approval_tx :: "transaction_request option"

record quote_request =
  qr_token_in :: string
  qr_token_out :: string
  qr_token_in_chain_id :: int
  qr_token_out_chain_id :: int
  qr_amount :: string
  qr_type :: swap_type
  qr_swapper :: string
  qr_slippage_tolerance :: pyfloat

definition validate_quote_request :: "bool \<Rightarrow> quote_request \<Rightarrow> quote_request res" where
  "validate_quote_request nan_ok q =
     (if in_range nan_ok 0 50 (qr_slippage_tolerance q) then Inr q
      else Inl (PyExc ValidationError ''slippageTolerance''))"

definition quote_request_api :: "quote_request \<Rightarrow> pydict" where
  "quote_request_api q =
     [(''tokenIn'', VStr (qr_token_in q)),
      (''tokenOut'', VStr (qr_token_out q)),
      (''tokenInChainId'', VInt (qr_token_in_chain_id q)),
      (''tokenOutChainId'', VInt (qr_token_out_chain_id q)),
      (''amount'', VStr (qr_amount q)),
      (''type'', VStr (swap_type_value (qr_type q))),
      (''swapper'', VStr (qr_swapper q)),
      (''slippageTolerance'', VFloat (qr_slippage_tolerance q))]"

record quote_response =
  q_routing :: routing_type
  q_quote :: pydict
  q_permit_data :: "pydict option"
  q_amount_out :: "string option"
  q_amount_in :: "string option"
  q_price_impact :: "pyfloat option"
  q_gas_use_estimate :: "string option"

definition needs_permit :: "quote_response \<Rightarrow> bool" where
  "needs_permit q \<longleftrightarrow> q_permit_data q \<noteq> None"

definition use_order_endpoint :: "quote_response \<Rightarrow> bool" where
  "use_order_endpoint q \<longleftrightarrow> q_routing q \<in> {DUTCH_V2, DUTCH_V3, PRIORITY}"

record swap_request =
  sr_quote :: pydict
  sr_signature :: "string option"
  sr_permit_data :: "pydict option"

definition swap_request_api :: "swap_request \<Rightarrow> pydict" where
  "swap_request_api r =
     (''quote'', VDict (sr_quote r)) #
     (case (sr_signature r, sr_permit_data r) of
        (Some sig, Some pd) \<Rightarrow>
          if sig \<noteq> [] \<and> pd \<noteq> [] then [(''signature'', VStr sig), (''permitData'', VDict pd)] else []
      | _ \<Rightarrow> [])"

record swap_result =
  sw_status :: swap_status
  sw_tx_hash :: "string option"
  sw_error :: "string option"
  sw_token_in :: string
  sw_token_out :: string
  sw_chain_id :: int
  sw_amount_in :: string
  sw_amount_out :: "string option"
  sw_routing :: "routing_type option"
  sw_price_impact :: "pyfloat option"
  sw_block_number :: "int option"
  sw_gas_used :: "int option"

definition sw_succeeded :: "swap_result \<Rightarrow> bool" where
  "sw_succeeded r \<longleftrightarrow> sw_status r = SW_CONFIRMED"

definition swap_log_data :: "swap_result \<Rightarrow> pydict" where
  "swap_log_data r =
     [(''status'', VStr (swap_status_value (sw_status r)))] @
     opt_item ''tx_hash'' VStr (sw_tx_hash r) @
     opt_item ''error'' VStr (sw_error r) @
     [(''token_in'', VStr (sw_token_in r)),
      (''token_out'', VStr (sw_token_out r)),
      (''chain_id'', VInt (sw_chain_id r)),
      (''amount_in'', VStr (sw_amount_in r))] @
     opt_item ''amount_out'' VStr (sw_amount_out r) @
     opt_item ''routing'' (\<lambda>x. VStr (routing_value x)) (sw_routing r) @
     opt_item ''price_impact'' VFloat (sw_price_impact r) @
     opt_item ''block_number'' VInt (sw_block_number r) @
     opt_item ''gas_used'' VInt (sw_gas_used r)"

subsection \<open>Environment and state\<close>

record 'w uni_env = "'w http_env" +
  parse_tx :: "pyval \<Rightarrow> transaction_request res"
  parse_approval :: "pyval \<Rightarrow> approval_response res"
  int_field :: "pyval \<Rightarrow> int option res"
  repr_val :: "pyval \<Rightarrow> string"
  nan_allowed :: bool

record mock_uniswap =
  check_approval_calls :: "approval_request list"
  quote_calls :: "pydict list"
  swap_calls :: "pydict list"
  order_calls :: "pydict list"

definition new_mock_uniswap :: mock_uniswap where
  "new_mock_uniswap = \<lparr>check_approval_calls = [], quote_calls = [], swap_calls = [], order_calls = []\<rparr>"

text \<open>A live backend holds its API key; its HTTP session exists inside the context manager.\<close>

datatype uni_backend = MockUni mock_uniswap | LiveUni string bool

type_synonym 'w uni = "uni_backend \<times> 'w"

subsection \<open>Mock backend\<close>

definition ZERO_ADDRESS :: string where
  "ZERO_ADDRESS = ''0x'' @ replicate 40 (CHR ''0'')"

definition mock_check_approval :: "approval_request \<Rightarrow> (mock_uniswap, approval_response) sx" where
  "mock_check_approval req =
     sx_bind (sx_modify (check_approval_calls_update (\<lambda>cs. cs @ [req]))) (\<lambda>_.
     sx_return \<lparr>needs_approval = False, approval_tx = None\<rparr>)"

definition mock_quote :: "quote_request \<Rightarrow> (mock_uniswap, quote_response) sx" where
  "mock_quote req =
     sx_bind (sx_modify (quote_calls_update (\<lambda>cs. cs @ [quote_request_api req]))) (\<lambda>_.
     sx_return
       \<lparr>q_routing = CLASSIC,
        q_quote =
          [(''tokenIn'', VStr (qr_token_in req)),
           (''tokenOut'', VStr (qr_token_out req)),
           (''tokenInChainId'', VInt (qr_token_in_chain_id req)),
           (''tokenOutChainId'', VInt (qr_token_out_chain_id req)),
           (''amount'', VStr (qr_amount req)),
           (''swapper'', VStr (qr_swapper req)),
           (''amountOut'', VStr ''1950000000''),
           (''gasUseEstimate'', VStr ''150000'')],
        q_permit_data = None, q_amount_out = Some ''1950000000'', q_amount_in = Some (qr_amount req),
        q_price_impact = None, q_gas_use_estimate = Some ''150000''\<rparr>)"

definition checked_tx :: "('w, 'x) uni_env_scheme \<Rightarrow> pyval \<Rightarrow> transaction_request res" where
  "checked_tx env v = res_bind (parse_tx env v) data_must_not_be_empty"

definition mock_swap :: "('w, 'x) uni_env_scheme \<Rightarrow> swap_request \<Rightarrow> (mock_uniswap, transaction_request) sx" where
  "mock_swap env req =
     sx_bind (sx_modify (swap_calls_update (\<lambda>cs. cs @ [swap_request_api req]))) (\<lambda>_.
     sx_lift (checked_tx env (VDict
       [(''to'', VStr ''0x3fC91A3afd70395Cd496C647d5a6CC9D4B2b7FAD''),
        (''from'', dget (sr_quote req) ''swapper'' (VStr ZERO_ADDRESS)),
        (''data'', VStr (''0x'' @ concat (replicate 100 ''ab''))),
        (''value'', dget (sr_quote req) ''amount'' (VStr ''0'')),
        (''chainId'', dget (sr_quote req) ''tokenInChainId'' (VInt 8453)),
        (''gasLimit'', VStr ''300000'')])))"

definition mock_order :: "swap_request \<Rightarrow> (mock_uniswap, pyval) sx" where
  "mock_order req =
     sx_bind (sx_modify (order_calls_update (\<lambda>cs. cs @ [swap_request_api req]))) (\<lambda>_.
       case dget (sr_quote req) ''amount'' (VStr ''0'') of
         VStr s \<Rightarrow> sx_return (VDict [(''orderId'', VStr (''mock-order-'' @ take 8 s))])
       | _ \<Rightarrow> sx_raise (PyExc TypeError ''amount''))"

subsection \<open>Live backend\<close>

definition UNISWAP_API_BASE :: string where
  "UNISWAP_API_BASE = ''https://trade-api.gateway.uniswap.org/v1''"

definition uni_post :: "('w, 'x) uni_env_scheme \<Rightarrow> string \<Rightarrow> bool \<Rightarrow> string \<Rightarrow> pydict \<Rightarrow> ('w, pyval) sx" where
  "uni_post env key opened path body =
     (if opened then request_json env ''POST'' (UNISWAP_API_BASE @ path) key (VDict body)
      else sx_bind (retrying env (sx_raise (PyExc RuntimeError ''Client must be used as async context manager'')))
             (\<lambda>resp. sx_lift (json_body resp)))"

definition live_check_approval ::
  "('w, 'x) uni_env_scheme \<Rightarrow> string \<Rightarrow> bool \<Rightarrow> approval_request \<Rightarrow> ('w, approval_response) sx" where
  "live_check_approval env key opened req =
     sx_bind (uni_post env key opened ''/check_approval''
         [(''token'', VStr (ar_token req)), (''amount'', VStr (ar_amount req)),
          (''walletAddress'', VStr (ar_wallet_address req)), (''chainId'', VInt (ar_chain_id req))]) (\<lambda>v.
     sx_lift (res_bind (parse_approval env v) (\<lambda>a.
       case approval_tx a of
         None \<Rightarrow> Inr a
       | Some tx \<Rightarrow> res_bind (data_must_not_be_empty tx) (\<lambda>_. Inr a))))"

text \<open>\<^verbatim>\<open>quote_obj.get(k, {}).get("amount", "")\<close>\<close>

definition nested_amount :: "pyval \<Rightarrow> string \<Rightarrow> pyval res" where
  "nested_amount v k = res_bind (vget v k (VDict [])) (\<lambda>o1. vget o1 ''amount'' (VStr []))"

definition live_quote ::
  "('w, 'x) uni_env_scheme \<Rightarrow> string \<Rightarrow> bool \<Rightarrow> quote_request \<Rightarrow> ('w, quote_response) sx" where
  "live_quote env key opened req =
     sx_bind (uni_post env key opened ''/quote'' (quote_request_api req)) (\<lambda>data.
     sx_lift (
       res_bind (vget data ''quote'' (VDict [])) (\<lambda>quote_obj.
       res_bind (vget data ''routing'' (VStr ''CLASSIC'')) (\<lambda>r.
       res_bind (case r of VStr s \<Rightarrow> (case routing_of s of Some x \<Rightarrow> Inr x
                                      | None \<Rightarrow> Inl (PyExc ValueError ''is not a valid RoutingType''))
                 | _ \<Rightarrow> Inl (PyExc ValueError ''is not a valid RoutingType'')) (\<lambda>routing.
       res_bind (vget data ''permitData'' VNone) (\<lambda>pd.
       res_bind (nested_amount quote_obj ''outputAmount'') (\<lambda>ao.
       res_bind (nested_amount quote_obj ''inputAmount'') (\<lambda>ai.
       res_bind (vget quote_obj ''gasUseEstimate'' (VStr [])) (\<lambda>g.
         case (quote_obj, pd) of
           (VDict q, VNone) \<Rightarrow>
             Inr \<lparr>q_routing = routing, q_quote = q, q_permit_data = None,
               q_amount_out = Some (py_str (repr_val env) ao), q_amount_in = Some (py_str (repr_val env) ai),
               q_price_impact = None, q_gas_use_estimate = Some (py_str (repr_val env) g)\<rparr>
         | (VDict q, VDict p) \<Rightarrow>
             Inr \<lparr>q_routing = routing, q_quote = q, q_permit_data = Some p,
               q_amount_out = Some (py_str (repr_val env) ao), q_amount_in = Some (py_str (repr_val env) ai),
               q_price_impact = None, q_gas_use_estimate = Some (py_str (repr_val env) g)\<rparr>
         | _ \<Rightarrow> Inl (PyExc ValidationError ''permitData''))))))))))"

definition live_swap ::
  "('w, 'x) uni_env_scheme \<Rightarrow> string \<Rightarrow> bool \<Rightarrow> swap_request \<Rightarrow> ('w, transaction_request) sx" where
  "live_swap env key opened req =
     sx_bind (uni_post env key opened ''/swap'' (swap_request_api req)) (\<lambda>data.
     sx_lift (case data of
         VDict d \<Rightarrow> (case map_of d ''swap'' of
             Some v \<Rightarrow> checked_tx env v
           | None \<Rightarrow> Inl (PyExc ValidationError ''swap''))
       | _ \<Rightarrow> Inl (PyExc ValidationError ''SwapResponse'')))"

definition live_order ::
  "('w, 'x) uni_env_scheme \<Rightarrow> string \<Rightarrow> bool \<Rightarrow> swap_request \<Rightarrow> ('w, pyval) sx" where
  "live_order env key opened req = uni_post env key opened ''/order'' (swap_request_api req)"

subsection \<open>The facade\<close>

definition on_uni ::
  "(mock_uniswap, 'a) sx \<Rightarrow> (string \<Rightarrow> bool \<Rightarrow> ('w, 'a) sx) \<Rightarrow> ('w uni, 'a) sx" where
  "on_uni mock live s =
     (case s of
        (MockUni m, w) \<Rightarrow> (case mock m of (r, m') \<Rightarrow> (r, (MockUni m', w)))
      | (LiveUni key opened, w) \<Rightarrow> (case live key opened w of (r, w') \<Rightarrow> (r, (LiveUni key opened, w'))))"

definition uni_check_approval ::
  "('w, 'x) uni_env_scheme \<Rightarrow> approval_request \<Rightarrow> ('w uni, approval_response) sx" where
  "uni_check_approval env req =
     on_uni (mock_check_approval req) (\<lambda>key opened. live_check_approval env key opened req)"

definition uni_quote :: "('w, 'x) uni_env_scheme \<Rightarrow> quote_request \<Rightarrow> ('w uni, quote_response) sx" where
  "uni_quote env req = on_uni (mock_quote req) (\<lambda>key opened. live_quote env key opened req)"

definition uni_swap :: "('w, 'x) uni_env_scheme \<Rightarrow> swap_request \<Rightarrow> ('w uni, transaction_request) sx" where
  "uni_swap env req = on_uni (mock_swap env req) (\<lambda>key opened. live_swap env key opened req)"

text \<open>The facade logs \<^verbatim>\<open>result.get("orderId", "?")\<close>, so a reply that is no dictionary raises.\<close>

definition uni_order :: "('w, 'x) uni_env_scheme \<Rightarrow> swap_request \<Rightarrow> ('w uni, pydict) sx" where
  "uni_order env req =
     sx_bind (on_uni (mock_order req) (\<lambda>key opened. live_order env key opened req)) (\<lambda>v.
       case v of VDict d \<Rightarrow> sx_return d
       | _ \<Rightarrow> sx_raise (PyExc AttributeError ''object has no attribute get''))"

definition uni_from_env :: "(string \<Rightarrow> string option) \<Rightarrow> uni_backend" where
  "uni_from_env getenv =
     (let k = str_strip (case getenv ''UNISWAP_API_KEY'' of Some v \<Rightarrow> v | None \<Rightarrow> [])
      in if k \<noteq> [] then LiveUni k False else MockUni new_mock_uniswap)"

definition uni_enter :: "uni_backend \<Rightarrow> uni_backend" where
  "uni_enter b = (case b of LiveUni k _ \<Rightarrow> LiveUni k True | MockUni m \<Rightarrow> MockUni m)"

definition uni_is_live :: "uni_backend \<Rightarrow> bool" where
  "uni_is_live b = (case b of LiveUni _ _ \<Rightarrow> True | MockUni _ \<Rightarrow> False)"

definition uni_mock :: "uni_backend \<Rightarrow> mock_uniswap option" where
  "uni_mock b = (case b of MockUni m \<Rightarrow> Some m | LiveUni _ _ \<Rightarrow> None)"

definition uni_reset_mock :: "uni_backend \<Rightarrow> uni_backend" where
  "uni_reset_mock b = (case b of MockUni m \<Rightarrow> MockUni new_mock_uniswap | LiveUni k o1 \<Rightarrow> LiveUni k o1)"

interpretation routing_enum: str_enum routing_value routing_of
  unfolding routing_of_def
proof (rule str_enum_of)
  show "x \<in> set [CLASSIC, DUTCH_V2, DUTCH_V3, PRIORITY, WRAP, UNWRAP, BRIDGE]" for x
    by (cases x) simp_all
  show "routing_value x = routing_value y \<Longrightarrow> x = y" for x y by (cases x; cases y) simp_all
qed

end
