(* ===== verification/KeeperHub.thy ===== *)
theory KeeperHub
  imports Http Schema
begin

text \<open>
  The KeeperHub execution service: models (\<^verbatim>\<open>core/keeperhub/models.py\<close>) and client
  (\<^verbatim>\<open>core/keeperhub/client.py\<close>) with its mock and live backends. The state is the
  backend (the mock's call lists and executions, or the live session) and the network state;
  \<open>uid\<close> is the fresh random identifier of a call.
\<close>

subsection \<open>Models\<close>

datatype kh_network = ETHEREUM | BASE | ARBITRUM | POLYGON | SEPOLIA | BASE_SEPOLIA

fun network_value :: "kh_network \<Rightarrow> string" where
  "network_value ETHEREUM = ''ethereum''"
| "network_value BASE = ''base''"
| "network_value ARBITRUM = ''arbitrum''"
| "network_value POLYGON = ''polygon''"
| "network_value SEPOLIA = ''sepolia''"
| "network_value BASE_SEPOLIA = ''base-sepolia''"

definition network_of :: "string \<Rightarrow> kh_network option" where
  "network_of = enum_of [ETHEREUM, BASE, ARBITRUM, POLYGON, SEPOLIA, BASE_SEPOLIA] network_value"

datatype kh_exec_status = KH_PENDING | KH_RUNNING | KH_SUCCESS | KH_COMPLETED | KH_FAILED | KH_ERROR | KH_CANCELLED

fun kh_status_value :: "kh_exec_status \<Rightarrow> string" where
  "kh_status_value KH_PENDING = ''pending''"
| "kh_status_value KH_RUNNING = ''running''"
| "kh_status_value KH_SUCCESS = ''success''"
| "kh_status_value KH_COMPLETED = ''completed''"
| "kh_status_value KH_FAILED = ''failed''"
| "kh_status_value KH_ERROR = ''error''"
| "kh_status_value KH_CANCELLED = ''cancelled''"

definition kh_status_of :: "string \<Rightarrow> kh_exec_status option" where
  "kh_status_of = enum_of [KH_PENDING, KH_RUNNING, KH_SUCCESS, KH_COMPLETED, KH_FAILED, KH_ERROR, KH_CANCELLED]
     kh_status_value"

record kh_transfer_request =
  tr_network :: kh_network
  tr_recipient_address :: string
  tr_amount :: string
  tr_token_address :: "string option"

definition transfer_api :: "kh_transfer_request \<Rightarrow> pydict" where
  "transfer_api r =
     [(''network'', VStr (network_value (tr_network r))),
      (''recipientAddress'', VStr (tr_recipient_address r)),
      (''amount'', VStr (tr_amount r))] @
     opt_item ''tokenAddress'' VStr (tr_token_address r)"

record kh_contract_call_request =
  cc_contract_address :: string
  cc_network :: kh_network
  cc_function_name :: string
  cc_function_args :: "string option"
  cc_abi :: "string option"
  cc_calldata :: "string option"
  cc_value :: "string option"

definition contract_call_api :: "kh_contract_call_request \<Rightarrow> pydict" where
  "contract_call_api r =
     [(''contractAddress'', VStr (cc_contract_address r)),
      (''network'', VStr (network_value (cc_network r))),
      (''functionName'', VStr (cc_function_name r))] @
     opt_item ''functionArgs'' VStr (cc_function_args r) @
     opt_item ''abi'' VStr (cc_abi r) @
     opt_item ''calldata'' VStr (cc_calldata r) @
     opt_item ''value'' VStr (cc_value r)"

text \<open>The trigger types of workflows.\<close>

datatype kh_trigger_type = TR_MANUAL | TR_SCHEDULE | TR_WEBHOOK | TR_EVENT

fun trigger_value :: "kh_trigger_type \<Rightarrow> string" where
  "trigger_value TR_MANUAL = ''manual''"
| "trigger_value TR_SCHEDULE = ''schedule''"
| "trigger_value TR_WEBHOOK = ''webhook''"
| "trigger_value TR_EVENT = ''event''"

definition trigger_of :: "string \<Rightarrow> kh_trigger_type option" where
  "trigger_of = enum_of [TR_MANUAL, TR_SCHEDULE, TR_WEBHOOK, TR_EVENT] trigger_value"

datatype kh_operator = OP_EQ | OP_NEQ | OP_GT | OP_LT | OP_GTE | OP_LTE

fun operator_value :: "kh_operator \<Rightarrow> string" where
  "operator_value OP_EQ = ''eq''"
| "operator_value OP_NEQ = ''neq''"
| "operator_value OP_GT = ''gt''"
| "operator_value OP_LT = ''lt''"
| "operator_value OP_GTE = ''gte''"
| "operator_value OP_LTE = ''lte''"

record kh_check_request =
  ck_contract_address :: string
  ck_network :: kh_network
  ck_function_name :: string
  ck_operator :: kh_operator
  ck_value :: string
  ck_action :: pydict

text \<open>\<^verbatim>\<open>model_dump()\<close> uses the field names, \<^verbatim>\<open>by_alias=True\<close> the API's names.\<close>

definition check_request_dump :: "bool \<Rightarrow> kh_check_request \<Rightarrow> pydict" where
  "check_request_dump by_alias r =
     [(if by_alias then ''contractAddress'' else ''contract_address'', VStr (ck_contract_address r)),
      (''network'', VStr (network_value (ck_network r))),
      (if by_alias then ''functionName'' else ''function_name'', VStr (ck_function_name r)),
      (''condition'', VDict [(''operator'', VStr (operator_value (ck_operator r))), (''value'', VStr (ck_value r))]),
      (''action'', VDict (ck_action r))]"

record kh_workflow_node =
  wn_id :: string
  wn_type :: string
  wn_data :: pydict

record kh_workflow_edge =
  we_id :: string
  we_source :: string
  we_target :: string

record kh_create_workflow_request =
  cw_name :: string
  cw_description :: "string option"
  cw_project_id :: "string option"
  cw_nodes :: "pydict list"
  cw_edges :: "pydict list"

definition create_workflow_dump :: "kh_create_workflow_request \<Rightarrow> pydict" where
  "create_workflow_dump r =
     [(''name'', VStr (cw_name r)), (''description'', opt_str (cw_description r)),
      (''project_id'', opt_str (cw_project_id r)),
      (''nodes'', VList (map VDict (cw_nodes r))), (''edges'', VList (map VDict (cw_edges r)))]"

definition create_workflow_api :: "kh_create_workflow_request \<Rightarrow> pydict" where
  "create_workflow_api r =
     [(''name'', VStr (cw_name r))] @
     opt_item ''description'' VStr (cw_description r) @
     opt_item ''projectId'' VStr (cw_project_id r) @
     [(''nodes'', VList (map VDict (cw_nodes r))), (''edges'', VList (map VDict (cw_edges r)))]"

record kh_workflow =
  wf_workflow_id :: string
  wf_name :: string
  wf_description :: "string option"
  wf_status :: "string option"
  wf_created_at :: "string option"

record kh_execute_workflow_request =
  ew_workflow_id :: string
  ew_input :: pydict

record kh_exec_result =
  kr_execution_id :: string
  kr_status :: kh_exec_status

record kh_status =
  ks_execution_id :: string
  ks_status :: kh_exec_status
  ks_tx_hash :: "string option"
  ks_block_number :: "int option"
  ks_gas_used :: "int option"
  ks_error :: "string option"
  ks_explorer_url :: "string option"

definition ks_succeeded :: "kh_status \<Rightarrow> bool" where
  "ks_succeeded s \<longleftrightarrow> ks_status s \<in> {KH_SUCCESS, KH_COMPLETED}"

definition is_terminal :: "kh_status \<Rightarrow> bool" where
  "is_terminal s \<longleftrightarrow> ks_status s \<in> {KH_SUCCESS, KH_COMPLETED, KH_FAILED, KH_ERROR, KH_CANCELLED}"

record kh_audit_entry =
  ka_execution_id :: string
  ka_status :: kh_exec_status
  ka_tx_hash :: "string option"
  ka_block_number :: "int option"
  ka_gas_used :: "int option"
  ka_error :: "string option"
  ka_explorer_url :: "string option"
  ka_network :: string
  ka_contract :: string
  ka_function_name :: string
  ka_retry_count :: int
  ka_elapsed_ms :: int

definition ka_succeeded :: "kh_audit_entry \<Rightarrow> bool" where
  "ka_succeeded a \<longleftrightarrow> ka_status a = KH_SUCCESS"

definition audit_log_data :: "kh_audit_entry \<Rightarrow> pydict" where
  "audit_log_data a =
     [(''execution_id'', VStr (ka_execution_id a)),
      (''status'', VStr (kh_status_value (ka_status a)))] @
     opt_item ''tx_hash'' VStr (ka_tx_hash a) @
     opt_item ''block_number'' VInt (ka_block_number a) @
     opt_item ''gas_used'' VInt (ka_gas_used a) @
     opt_item ''error'' VStr (ka_error a) @
     opt_item ''explorer_url'' VStr (ka_explorer_url a) @
     [(''network'', VStr (ka_network a)),
      (''contract'', VStr (ka_contract a)),
      (''function_name'', VStr (ka_function_name a)),
      (''retry_count'', VInt (ka_retry_count a)),
      (''elapsed_ms'', VInt (ka_elapsed_ms a))]"

subsection \<open>Mock backend\<close>

record mock_kh =
  transfer_calls :: "pydict list"
  contract_call_calls :: "pydict list"
  check_execute_calls :: "pydict list"
  workflow_calls :: "pydict list"
  execute_workflow_calls :: "pydict list"
  executions :: "(string \<times> kh_status) list"
  fail_next :: bool

definition new_mock_kh :: mock_kh where
  "new_mock_kh = \<lparr>transfer_calls = [], contract_call_calls = [], check_execute_calls = [],
     workflow_calls = [], execute_workflow_calls = [], executions = [], fail_next = False\<rparr>"

definition MOCK_TX_HASH :: string where
  "MOCK_TX_HASH = ''0x'' @ concat (replicate 32 ''ab'')"

definition mock_status :: "string \<Rightarrow> bool \<Rightarrow> kh_status" where
  "mock_status eid failed =
     (if failed
      then \<lparr>ks_execution_id = eid, ks_status = KH_FAILED, ks_tx_hash = None, ks_block_number = None,
             ks_gas_used = None, ks_error = Some ''Mock failure'', ks_explorer_url = None\<rparr>
      else \<lparr>ks_execution_id = eid, ks_status = KH_SUCCESS, ks_tx_hash = Some MOCK_TX_HASH,
             ks_block_number = Some 12345678, ks_gas_used = Some 150000, ks_error = None,
             ks_explorer_url = Some (''https://basescan.org/tx/'' @ MOCK_TX_HASH)\<rparr>)"

definition make_execution :: "string \<Rightarrow> (mock_kh, kh_exec_result) sx" where
  "make_execution uid m =
     (let eid = ''direct_'' @ take 12 uid
      in (Inr \<lparr>kr_execution_id = eid, kr_status = KH_PENDING\<rparr>,
          m\<lparr>fail_next := False,
             executions := AList.update eid (mock_status eid (fail_next m)) (executions m)\<rparr>))"

definition mock_execute_transfer :: "string \<Rightarrow> kh_transfer_request \<Rightarrow> (mock_kh, kh_exec_result) sx" where
  "mock_execute_transfer uid req =
     sx_bind (sx_modify (transfer_calls_update (\<lambda>cs. cs @ [transfer_api req]))) (\<lambda>_. make_execution uid)"

definition mock_execute_contract_call ::
  "string \<Rightarrow> kh_contract_call_request \<Rightarrow> (mock_kh, kh_exec_result) sx" where
  "mock_execute_contract_call uid req =
     sx_bind (sx_modify (contract_call_calls_update (\<lambda>cs. cs @ [contract_call_api req]))) (\<lambda>_. make_execution uid)"

definition mock_check_and_execute :: "string \<Rightarrow> kh_check_request \<Rightarrow> (mock_kh, kh_exec_result) sx" where
  "mock_check_and_execute uid req =
     sx_bind (sx_modify (check_execute_calls_update (\<lambda>cs. cs @ [check_request_dump False req])))
       (\<lambda>_. make_execution uid)"

definition mock_create_workflow :: "string \<Rightarrow> kh_create_workflow_request \<Rightarrow> (mock_kh, kh_workflow) sx" where
  "mock_create_workflow uid req =
     sx_bind (sx_modify (workflow_calls_update (\<lambda>cs. cs @ [create_workflow_dump req]))) (\<lambda>_.
     sx_return \<lparr>wf_workflow_id = take 20 uid, wf_name = cw_name req, wf_description = cw_description req,
        wf_status = None, wf_created_at = None\<rparr>)"

definition mock_execute_workflow ::
  "string \<Rightarrow> kh_execute_workflow_request \<Rightarrow> (mock_kh, kh_exec_result) sx" where
  "mock_execute_workflow uid req =
     sx_bind (sx_modify (execute_workflow_calls_update (\<lambda>cs. cs @
        [[(''workflow_id'', VStr (ew_workflow_id req)), (''input'', VDict (ew_input req))]])))
       (\<lambda>_. make_execution uid)"

definition mock_get_execution_status :: "string \<Rightarrow> (mock_kh, kh_status) sx" where
  "mock_get_execution_status eid m =
     (case map_of (executions m) eid of
        None \<Rightarrow> (Inl (PyExc KeyError (''Execution not found: '' @ eid)), m)
      | Some st \<Rightarrow> (Inr st, m))"

definition mock_get_execution_logs :: "string \<Rightarrow> (mock_kh, pyval) sx" where
  "mock_get_execution_logs eid =
     sx_return (VList [VDict [(''timestamp'', VStr ''2026-01-01T00:00:00Z''),
                              (''message'', VStr (''Mock log for '' @ eid))]])"

subsection \<open>Live backend\<close>

definition KH_BASE_URL :: string where
  "KH_BASE_URL = ''https://app.keeperhub.com/api''"

definition kh_request ::
  "('w, 'x) http_env_scheme \<Rightarrow> string \<Rightarrow> bool \<Rightarrow> string \<Rightarrow> string \<Rightarrow> pyval \<Rightarrow> ('w, pyval) sx" where
  "kh_request env key opened meth path body =
     (if opened then request_json env meth (KH_BASE_URL @ path) key body
      else sx_raise (PyExc AssertionError []))"

definition unwrap_response :: "pyval \<Rightarrow> pyval" where
  "unwrap_response v =
     (case v of
        VDict d \<Rightarrow> (case map_of d ''data'' of Some x \<Rightarrow> x | None \<Rightarrow> VDict d)
      | _ \<Rightarrow> VDict [])"

definition status_field :: "pyval \<Rightarrow> kh_exec_status res" where
  "status_field v =
     (case v of
        VStr s \<Rightarrow> (case kh_status_of s of
                     Some st \<Rightarrow> Inr st
                   | None \<Rightarrow> Inl (PyExc ValueError ''is not a valid KHExecutionStatus''))
      | _ \<Rightarrow> Inl (PyExc ValueError ''is not a valid KHExecutionStatus''))"

definition exec_result_of :: "pyval \<Rightarrow> kh_exec_result res" where
  "exec_result_of data =
     res_bind (vget data ''executionId'' VNone) (\<lambda>a.
     res_bind (vget data ''id'' (VStr [])) (\<lambda>b.
     res_bind (vget data ''status'' (VStr ''pending'')) (\<lambda>st.
     res_bind (status_field st) (\<lambda>status.
     res_bind (str_field (py_or a b)) (\<lambda>eid.
     Inr \<lparr>kr_execution_id = eid, kr_status = status\<rparr>)))))"

definition live_execute_transfer ::
  "('w, 'x) http_env_scheme \<Rightarrow> string \<Rightarrow> bool \<Rightarrow> kh_transfer_request \<Rightarrow> ('w, kh_exec_result) sx" where
  "live_execute_transfer env key opened req =
     sx_bind (kh_request env key opened ''POST'' ''/execute/transfer'' (VDict (transfer_api req))) (\<lambda>v.
     sx_lift (exec_result_of (unwrap_response v)))"

definition live_execute_contract_call ::
  "('w, 'x) http_env_scheme \<Rightarrow> string \<Rightarrow> bool \<Rightarrow> kh_contract_call_request \<Rightarrow> ('w, kh_exec_result) sx" where
  "live_execute_contract_call env key opened req =
     sx_bind (kh_request env key opened ''POST'' ''/execute/contract-call'' (VDict (contract_call_api req))) (\<lambda>v.
     sx_lift (exec_result_of (unwrap_response v)))"

definition live_check_and_execute ::
  "('w, 'x) http_env_scheme \<Rightarrow> string \<Rightarrow> bool \<Rightarrow> kh_check_request \<Rightarrow> ('w, kh_exec_result) sx" where
  "live_check_and_execute env key opened req =
     sx_bind (kh_request env key opened ''POST'' ''/execute/check-and-execute''
         (VDict (check_request_dump True req))) (\<lambda>v.
     sx_lift (
       res_bind (vget (unwrap_response v) ''executionId'' (VStr [])) (\<lambda>e.
       res_bind (str_field e) (\<lambda>eid. Inr \<lparr>kr_execution_id = eid, kr_status = KH_PENDING\<rparr>))))"

definition live_execute_workflow ::
  "('w, 'x) http_env_scheme \<Rightarrow> string \<Rightarrow> bool \<Rightarrow> kh_execute_workflow_request \<Rightarrow> ('w, kh_exec_result) sx" where
  "live_execute_workflow env key opened req =
     sx_bind (kh_request env key opened ''POST'' (''/workflow/'' @ ew_workflow_id req @ ''/execute'')
         (VDict (ew_input req))) (\<lambda>v.
     sx_lift (
       res_bind (vget (unwrap_response v) ''executionId'' (VStr [])) (\<lambda>e.
       res_bind (vget (unwrap_response v) ''status'' (VStr ''pending'')) (\<lambda>st.
       res_bind (status_field st) (\<lambda>status.
       res_bind (str_field e) (\<lambda>eid. Inr \<lparr>kr_execution_id = eid, kr_status = status\<rparr>))))))"

text \<open>An optional string field: absent, null or a string.\<close>

definition opt_str_field :: "pyval \<Rightarrow> string option res" where
  "opt_str_field v =
     (case v of VNone \<Rightarrow> Inr None | VStr s \<Rightarrow> Inr (Some s) | _ \<Rightarrow> Inl (PyExc ValidationError ''str''))"

text \<open>\<^verbatim>\<open>KHWorkflow.model_validate\<close>: the id under its alias or its field name.\<close>

definition workflow_of :: "pyval \<Rightarrow> kh_workflow res" where
  "workflow_of v =
     (case v of
        VDict d \<Rightarrow>
          res_bind (str_field (dget d ''id'' (dget d ''workflow_id'' VNone))) (\<lambda>i.
          res_bind (str_field (dget d ''name'' VNone)) (\<lambda>n.
          res_bind (opt_str_field (dget d ''description'' VNone)) (\<lambda>ds.
          res_bind (opt_str_field (dget d ''status'' VNone)) (\<lambda>st.
          res_bind (opt_str_field (dget d ''createdAt'' (dget d ''created_at'' VNone))) (\<lambda>cr.
          Inr \<lparr>wf_workflow_id = i, wf_name = n, wf_description = ds, wf_status = st, wf_created_at = cr\<rparr>)))))
      | _ \<Rightarrow> Inl (PyExc ValidationError ''KHWorkflow''))"

definition live_create_workflow ::
  "('w, 'x) http_env_scheme \<Rightarrow> string \<Rightarrow> bool \<Rightarrow> kh_create_workflow_request \<Rightarrow> ('w, kh_workflow) sx" where
  "live_create_workflow env key opened req =
     sx_bind (kh_request env key opened ''POST'' ''/workflows/create'' (VDict (create_workflow_api req))) (\<lambda>v.
     sx_lift (workflow_of (unwrap_response v)))"

text \<open>\<^verbatim>\<open>status_map.get(raw_status, PENDING)\<close>: an unhashable key raises.\<close>

definition status_map :: "pyval \<Rightarrow> kh_exec_status res" where
  "status_map raw =
     (case raw of
        VStr s \<Rightarrow> Inr (if s = ''completed'' then KH_SUCCESS else if s = ''error'' then KH_FAILED
                       else if s = ''running'' then KH_RUNNING else KH_PENDING)
      | VList _ \<Rightarrow> Inl (PyExc TypeError ''unhashable type'')
      | VDict _ \<Rightarrow> Inl (PyExc TypeError ''unhashable type'')
      | _ \<Rightarrow> Inr KH_PENDING)"

definition live_status_of :: "string \<Rightarrow> pyval \<Rightarrow> kh_status res" where
  "live_status_of eid data =
     res_bind (vget data ''status'' (VStr ''pending'')) (\<lambda>raw.
     res_bind (status_map raw) (\<lambda>mapped.
     res_bind (vget data ''transactionHash'' VNone) (\<lambda>h.
     res_bind (vget data ''error'' VNone) (\<lambda>er.
     res_bind (vget data ''transactionLink'' VNone) (\<lambda>url.
     res_bind (opt_str_field h) (\<lambda>h'.
     res_bind (opt_str_field er) (\<lambda>er'.
     res_bind (opt_str_field url) (\<lambda>url'.
     Inr \<lparr>ks_execution_id = eid, ks_status = mapped, ks_tx_hash = h', ks_block_number = None,
          ks_gas_used = None, ks_error = er', ks_explorer_url = url'\<rparr>))))))))"

definition live_get_execution_status ::
  "('w, 'x) http_env_scheme \<Rightarrow> string \<Rightarrow> bool \<Rightarrow> string \<Rightarrow> ('w, kh_status) sx" where
  "live_get_execution_status env key opened eid =
     sx_bind (kh_request env key opened ''GET'' (''/execute/'' @ eid @ ''/status'') VNone) (\<lambda>v.
     sx_lift (live_status_of eid (unwrap_response v)))"

definition live_get_execution_logs ::
  "('w, 'x) http_env_scheme \<Rightarrow> string \<Rightarrow> bool \<Rightarrow> string \<Rightarrow> ('w, pyval) sx" where
  "live_get_execution_logs env key opened eid =
     sx_bind (kh_request env key opened ''GET'' (''/workflows/executions/'' @ eid @ ''/logs'') VNone) (\<lambda>v.
     sx_return (case v of VDict d \<Rightarrow> dget d ''data'' v | _ \<Rightarrow> v))"

subsection \<open>The facade\<close>

datatype kh_backend = MockKH mock_kh | LiveKH string bool

type_synonym 'w kh = "kh_backend \<times> 'w"

definition on_kh ::
  "(mock_kh, 'a) sx \<Rightarrow> (string \<Rightarrow> bool \<Rightarrow> ('w, 'a) sx) \<Rightarrow> ('w kh, 'a) sx" where
  "on_kh mock live s =
     (case s of
        (MockKH m, w) \<Rightarrow> (case mock m of (r, m') \<Rightarrow> (r, (MockKH m', w)))
      | (LiveKH key opened, w) \<Rightarrow> (case live key opened w of (r, w') \<Rightarrow> (r, (LiveKH key opened, w'))))"

definition kh_execute_transfer ::
  "('w, 'x) http_env_scheme \<Rightarrow> string \<Rightarrow> kh_transfer_request \<Rightarrow> ('w kh, kh_exec_result) sx" where
  "kh_execute_transfer env uid req =
     on_kh (mock_execute_transfer uid req) (\<lambda>key opened. live_execute_transfer env key opened req)"

definition kh_execute_contract_call ::
  "('w, 'x) http_env_scheme \<Rightarrow> string \<Rightarrow> kh_contract_call_request \<Rightarrow> ('w kh, kh_exec_result) sx" where
  "kh_execute_contract_call env uid req =
     on_kh (mock_execute_contract_call uid req) (\<lambda>key opened. live_execute_contract_call env key opened req)"

definition kh_check_and_execute ::
  "('w, 'x) http_env_scheme \<Rightarrow> string \<Rightarrow> kh_check_request \<Rightarrow> ('w kh, kh_exec_result) sx" where
  "kh_check_and_execute env uid req =
     on_kh (mock_check_and_execute uid req) (\<lambda>key opened. live_check_and_execute env key opened req)"

definition kh_create_workflow ::
  "('w, 'x) http_env_scheme \<Rightarrow> string \<Rightarrow> kh_create_workflow_request \<Rightarrow> ('w kh, kh_workflow) sx" where
  "kh_create_workflow env uid req =
     on_kh (mock_create_workflow uid req) (\<lambda>key opened. live_create_workflow env key opened req)"

definition kh_execute_workflow ::
  "('w, 'x) http_env_scheme \<Rightarrow> string \<Rightarrow> kh_execute_workflow_request \<Rightarrow> ('w kh, kh_exec_result) sx" where
  "kh_execute_workflow env uid req =
     on_kh (mock_execute_workflow uid req) (\<lambda>key opened. live_execute_workflow env key opened req)"

definition kh_get_execution_status :: "('w, 'x) http_env_scheme \<Rightarrow> string \<Rightarrow> ('w kh, kh_status) sx" where
  "kh_get_execution_status env eid =
     on_kh (mock_get_execution_status eid) (\<lambda>key opened. live_get_execution_status env key opened eid)"

definition kh_get_execution_logs :: "('w, 'x) http_env_scheme \<Rightarrow> string \<Rightarrow> ('w kh, pyval) sx" where
  "kh_get_execution_logs env eid =
     on_kh (mock_get_execution_logs eid) (\<lambda>key opened. live_get_execution_logs env key opened eid)"

text \<open>
  The polling loop ends when a terminal status is seen or the accumulated time reaches the
  timeout; with a poll interval that does not advance it, it may not end (\<open>None\<close>).
\<close>

partial_function (option) wait_loop ::
  "('w, 'x) http_env_scheme \<Rightarrow> string \<Rightarrow> pyfloat \<Rightarrow> pyfloat \<Rightarrow> pyfloat \<Rightarrow> 'w kh \<Rightarrow>
   ((pyexc + kh_status) \<times> 'w kh) option" where
  "wait_loop env eid poll timeout elapsed s =
     (if f_less elapsed timeout
      then (case kh_get_execution_status env eid s of
              (Inl e, s') \<Rightarrow> Some (Inl e, s')
            | (Inr st, s') \<Rightarrow>
                if is_terminal st then Some (Inr st, s')
                else wait_loop env eid poll timeout (f_add elapsed poll) s')
      else Some (kh_get_execution_status env eid s))"

definition wait_for_completion ::
  "('w, 'x) http_env_scheme \<Rightarrow> string \<Rightarrow> pyfloat \<Rightarrow> pyfloat \<Rightarrow> 'w kh \<Rightarrow> ((pyexc + kh_status) \<times> 'w kh) option" where
  "wait_for_completion env eid poll timeout s = wait_loop env eid poll timeout (Fin 0) s"

definition kh_from_env :: "(string \<Rightarrow> string option) \<Rightarrow> kh_backend" where
  "kh_from_env getenv =
     (let k = str_strip (case getenv ''KEEPERHUB_API_KEY'' of Some v \<Rightarrow> v | None \<Rightarrow> [])
      in if k \<noteq> [] then LiveKH k False else MockKH new_mock_kh)"

definition kh_enter :: "kh_backend \<Rightarrow> kh_backend" where
  "kh_enter b = (case b of LiveKH k _ \<Rightarrow> LiveKH k True | MockKH m \<Rightarrow> MockKH m)"

definition kh_reset_mock :: "kh_backend \<Rightarrow> kh_backend" where
  "kh_reset_mock b = (case b of MockKH m \<Rightarrow> MockKH new_mock_kh | LiveKH k o1 \<Rightarrow> LiveKH k o1)"

definition kh_is_live :: "kh_backend \<Rightarrow> bool" where
  "kh_is_live b = (case b of LiveKH _ _ \<Rightarrow> True | MockKH _ \<Rightarrow> False)"

definition kh_mock :: "kh_backend \<Rightarrow> mock_kh option" where
  "kh_mock b = (case b of MockKH m \<Rightarrow> Some m | LiveKH _ _ \<Rightarrow> None)"

interpretation trigger_enum: str_enum trigger_value trigger_of
  unfolding trigger_of_def
proof (rule str_enum_of)
  show "x \<in> set [TR_MANUAL, TR_SCHEDULE, TR_WEBHOOK, TR_EVENT]" for x by (cases x) simp_all
  show "trigger_value x = trigger_value y \<Longrightarrow> x = y" for x y by (cases x; cases y) simp_all
qed

interpretation network_enum: str_enum network_value network_of
  unfolding network_of_def
proof (rule str_enum_of)
  show "x \<in> set [ETHEREUM, BASE, ARBITRUM, POLYGON, SEPOLIA, BASE_SEPOLIA]" for x by (cases x) simp_all
  show "network_value x = network_value y \<Longrightarrow> x = y" for x y by (cases x; cases y) simp_all
qed

interpretation kh_status_enum: str_enum kh_status_value kh_status_of
  unfolding kh_status_of_def
proof (rule str_enum_of)
  show "x \<in> set [KH_PENDING, KH_RUNNING, KH_SUCCESS, KH_COMPLETED, KH_FAILED, KH_ERROR, KH_CANCELLED]" for x
    by (cases x) simp_all
  show "kh_status_value x = kh_status_value y \<Longrightarrow> x = y" for x y by (cases x; cases y) simp_all
qed

subsection \<open>Polling\<close>

text \<open>The reference: at most \<open>n\<close> polls for a terminal status, then one last reading.\<close>

fun poll_n :: "('w, 'x) http_env_scheme \<Rightarrow> string \<Rightarrow> nat \<Rightarrow> ('w kh, kh_status) sx" where
  "poll_n env eid 0 = kh_get_execution_status env eid"
| "poll_n env eid (Suc n) =
     sx_bind (kh_get_execution_status env eid) (\<lambda>st.
       if is_terminal st then sx_return st else poll_n env eid n)"

lemma f_add_two:
  assumes "n < 60"
  shows "f_add (Fin (of_int (120 - 2 * int (Suc n)))) (Fin 2) = Fin (of_int (120 - 2 * int n))"
proof -
  have "(of_int (120 - 2 * int (Suc n)) :: rat) + 2 = of_int (120 - 2 * int n)" by simp
  moreover have "\<bar>120 - 2 * int n\<bar> < 2 ^ 53" using assms by simp
  then have "fl (of_int (120 - 2 * int n)) = Fin (of_int (120 - 2 * int n))" by (rule fl_of_int)
  ultimately show ?thesis by simp
qed

lemma wait_loop_poll_n:
  "n \<le> 60 \<Longrightarrow>
   wait_loop env eid (Fin 2) (Fin 120) (Fin (of_int (120 - 2 * int n))) s = Some (poll_n env eid n s)"
proof (induction n arbitrary: s)
  case 0
  then show ?case by (subst wait_loop.simps) (simp add: f_less_def)
next
  case (Suc n)
  then have n: "n < 60" "n \<le> 60" by simp_all
  have less: "f_less (Fin (of_int (120 - 2 * int (Suc n)))) (Fin 120)" by (simp add: f_less_def)
  obtain x s1 where x: "kh_get_execution_status env eid s = (x, s1)" by (rule prod.exhaust)
  show ?case
  proof (cases x)
    case (Inl e)
    with x less show ?thesis by (subst wait_loop.simps) simp
  next
    case (Inr st)
    with x less f_add_two [OF n(1)] Suc.IH [OF n(2), of s1] show ?thesis
      by (subst wait_loop.simps) (simp add: sx_simps)
  qed
qed

subsection \<open>Properties\<close>

text \<open>
  C26. \<^verbatim>\<open>wait_for_completion\<close> with its default interval and timeout always returns (or raises
  what a status request raises): it is exactly the loop that asks for the status at most 60
  times, stops at the first terminal one, and otherwise reports one last reading.
\<close>

theorem wait_for_completion_bounded:
  "wait_for_completion env eid (Fin 2) (Fin 120) s = Some (poll_n env eid 60 s)"
  using wait_loop_poll_n [of 60 env eid s] by (simp add: wait_for_completion_def)

text \<open>
  What the live client reports as finished: a status read from the API is terminal exactly
  when the service said \<^verbatim>\<open>completed\<close> (reported as success) or \<^verbatim>\<open>error\<close> (reported as
  failed); every other word, also \<^verbatim>\<open>success\<close>, \<^verbatim>\<open>failed\<close> and \<^verbatim>\<open>cancelled\<close>, counts
  as still pending or running.
\<close>

theorem live_status_terminal:
  assumes "live_status_of eid (VDict d) = Inr st"
  shows "(is_terminal st \<longleftrightarrow> map_of d ''status'' \<in> {Some (VStr ''completed''), Some (VStr ''error'')}) \<and>
    (ks_succeeded st \<longleftrightarrow> map_of d ''status'' = Some (VStr ''completed''))"
proof -
  from assms have m: "status_map (dget d ''status'' (VStr ''pending'')) = Inr (ks_status st)"
    by (auto simp: live_status_of_def vget_def res_bind_Inr_iff)
  show ?thesis
  proof (cases "map_of d ''status''")
    case None
    with m show ?thesis by (auto simp: dget_def status_map_def is_terminal_def ks_succeeded_def)
  next
    case (Some v)
    with m show ?thesis
      by (cases v) (auto simp: dget_def status_map_def is_terminal_def ks_succeeded_def split: if_splits)
  qed
qed

theorem live_status_terminal_witness:
  "\<exists>st. live_status_of ''e'' (VDict [(''status'', VStr ''success''), (''transactionHash'', VStr ''0x1'')]) = Inr st \<and>
     \<not> is_terminal st \<and> \<not> ks_succeeded st"
proof -
  let ?d = "[(''status'', VStr ''success''), (''transactionHash'', VStr ''0x1'')]"
  obtain st where st: "live_status_of ''e'' (VDict ?d) = Inr st"
    by (simp add: live_status_of_def vget_def dget_def status_map_def opt_str_field_def)
  from live_status_terminal [OF st] st show ?thesis by auto
qed

end
