(* ===== verification/KH_Executor.thy ===== *)
theory KH_Executor
  imports Uniswap KeeperHub Swarm_Log
begin

text \<open>
  The swap executor the swarm uses (\<^verbatim>\<open>core/keeperhub/executor.py\<close>): a Uniswap quote as
  price intelligence, a treasury-commitment transfer through KeeperHub, an audit entry on
  storage and the result record. The state holds the two API clients, the network and the
  storage client; \<open>getenv\<close> is the process environment, \<open>run_inputs\<close> what a run reads from
  clocks and random sources. Sleeping between polls is not part of the model.
\<close>

subsection \<open>State\<close>

record ('n, 'w) xstate =
  x_uni :: uni_backend
  x_kh :: kh_backend
  x_net :: 'w
  x_zg :: "'n zg"

record kh_executor =
  kx_wallet :: string
  kx_has_zg :: bool

record run_inputs =
  ri_uid :: string
  ri_elapsed_ms :: int
  ri_ts :: "nat \<Rightarrow> string"
  ri_eid :: string

definition on_uniswap :: "('w uni, 'a) sx \<Rightarrow> (('n, 'w) xstate, 'a) sx" where
  [sx_simps]: "on_uniswap m = sx_zoom (\<lambda>x. (x_uni x, x_net x)) (\<lambda>(u, w) x. x\<lparr>x_uni := u, x_net := w\<rparr>) m"

definition on_keeperhub :: "('w kh, 'a) sx \<Rightarrow> (('n, 'w) xstate, 'a) sx" where
  [sx_simps]: "on_keeperhub m = sx_zoom (\<lambda>x. (x_kh x, x_net x)) (\<lambda>(k, w) x. x\<lparr>x_kh := k, x_net := w\<rparr>) m"

text \<open>\<^verbatim>\<open>(os.getenv(k) or dflt).strip()\<close>\<close>

definition env_str :: "(string \<Rightarrow> string option) \<Rightarrow> string \<Rightarrow> string \<Rightarrow> string" where
  "env_str getenv k dflt =
     str_strip (case getenv k of Some v \<Rightarrow> if v = [] then dflt else v | None \<Rightarrow> dflt)"

definition str_or :: "string \<Rightarrow> string \<Rightarrow> string" where
  "str_or a b = (if a = [] then b else a)"

definition chain_network :: "int \<Rightarrow> kh_network" where
  "chain_network c =
     (if c = 1 then ETHEREUM else if c = 8453 then BASE else if c = 42161 then ARBITRUM
      else if c = 137 then POLYGON else if c = 11155111 then SEPOLIA
      else if c = 84532 then BASE_SEPOLIA else BASE)"

subsection \<open>Quote\<close>

definition kh_get_quote ::
  "('w, 'x) uni_env_scheme \<Rightarrow> string \<Rightarrow> string \<Rightarrow> string \<Rightarrow> int \<Rightarrow> pyfloat \<Rightarrow> string \<Rightarrow>
   (('n, 'w) xstate, quote_response) sx" where
  "kh_get_quote env token_in token_out amount chain slippage wallet =
     sx_bind (sx_lift (validate_quote_request (nan_allowed env)
        \<lparr>qr_token_in = token_in, qr_token_out = token_out, qr_token_in_chain_id = chain,
         qr_token_out_chain_id = chain, qr_amount = amount, qr_type = EXACT_INPUT,
         qr_swapper = str_or wallet ZERO_ADDRESS, qr_slippage_tolerance = slippage\<rparr>)) (\<lambda>req.
     on_uniswap (uni_quote env req))"

subsection \<open>Treasury commitment\<close>

definition commitment_recipient :: "(string \<Rightarrow> string option) \<Rightarrow> kh_executor \<Rightarrow> string" where
  "commitment_recipient getenv ex =
     str_or (env_str getenv ''SWARMFI_COMMITMENT_RECIPIENT'' [])
       (str_or (env_str getenv ''KH_KEEPER_ADDRESS'' []) (kx_wallet ex))"

definition commitment_network :: "(string \<Rightarrow> string option) \<Rightarrow> kh_network" where
  "commitment_network getenv =
     (case network_of (str_lower (env_str getenv ''SWARMFI_COMMITMENT_NETWORK'' ''sepolia'')) of
        Some n \<Rightarrow> n | None \<Rightarrow> SEPOLIA)"

definition commitment_request :: "(string \<Rightarrow> string option) \<Rightarrow> kh_executor \<Rightarrow> kh_transfer_request" where
  "commitment_request getenv ex =
     \<lparr>tr_network = commitment_network getenv,
      tr_recipient_address = commitment_recipient getenv ex,
      tr_amount = env_str getenv ''SWARMFI_COMMITMENT_ETH'' ''0.0001'',
      tr_token_address = None\<rparr>"

text \<open>The local \<^verbatim>\<open>_ExecStatus\<close> has the fields of a \<open>kh_status\<close>.\<close>

definition exec_status :: "string \<Rightarrow> kh_exec_status \<Rightarrow> string option \<Rightarrow> string option \<Rightarrow> kh_status" where
  "exec_status eid st h err =
     \<lparr>ks_execution_id = eid, ks_status = st, ks_tx_hash = h, ks_block_number = None, ks_gas_used = None,
      ks_error = err, ks_explorer_url = None\<rparr>"

text \<open>
  The polling loop: \<open>Inl st\<close> when a poll surfaced a transaction hash, \<open>Inr last\<close> when it
  stopped without one, at a terminal status or after the last poll. A poll that raises is
  passed over.
\<close>

fun poll_tx_hash ::
  "('w, 'x) uni_env_scheme \<Rightarrow> string \<Rightarrow> nat \<Rightarrow> kh_status option \<Rightarrow>
   (('n, 'w) xstate, kh_status + kh_status option) sx" where
  "poll_tx_hash env eid 0 last_status = sx_return (Inr last_status)"
| "poll_tx_hash env eid (Suc n) last_status =
     sx_bind (sx_try (sx_bind (on_keeperhub (kh_get_execution_status env eid)) (\<lambda>st. sx_return (Some st)))
                (\<lambda>e. sx_return None)) (\<lambda>polled.
       case polled of
         None \<Rightarrow> poll_tx_hash env eid n last_status
       | Some st \<Rightarrow>
           if str_truthy (ks_tx_hash st) then sx_return (Inl st)
           else if is_terminal st then sx_return (Inr (Some st))
           else poll_tx_hash env eid n (Some st))"

definition COMMITMENT_POLLS :: nat where
  "COMMITMENT_POLLS = 60"

fun log_tx_hash :: "pyval list \<Rightarrow> string option" where
  "log_tx_hash [] = None"
| "log_tx_hash (VDict entry # rest) =
     (case dget entry ''output'' VNone of
        VDict out \<Rightarrow>
          (case py_or (dget out ''transactionHash'' VNone) (dget out ''txHash'' VNone) of
             VStr h \<Rightarrow> if h \<noteq> [] \<and> startswith ''0x'' h then Some h else log_tx_hash rest
           | _ \<Rightarrow> log_tx_hash rest)
      | _ \<Rightarrow> log_tx_hash rest)"
| "log_tx_hash (_ # rest) = log_tx_hash rest"

text \<open>Only a list of entries can yield a hash; whatever else is returned or raised yields none.\<close>

definition tx_hash_from_logs :: "('w, 'x) uni_env_scheme \<Rightarrow> string \<Rightarrow> (('n, 'w) xstate, string option) sx" where
  "tx_hash_from_logs env eid =
     sx_try (sx_bind (on_keeperhub (kh_get_execution_logs env eid)) (\<lambda>logs.
               sx_return (case logs of VList es \<Rightarrow> log_tx_hash es | _ \<Rightarrow> None)))
       (\<lambda>e. sx_return None)"

definition commitment_outcome ::
  "('w, 'x) uni_env_scheme \<Rightarrow> string \<Rightarrow> (('n, 'w) xstate, kh_status) sx" where
  "commitment_outcome env eid =
     sx_bind (poll_tx_hash env eid COMMITMENT_POLLS None) (\<lambda>polled.
       case polled of
         Inl st \<Rightarrow> sx_return (st\<lparr>ks_execution_id := eid\<rparr>)
       | Inr last_status \<Rightarrow>
           sx_bind (tx_hash_from_logs env eid) (\<lambda>h.
             case h of
               Some tx \<Rightarrow> sx_return (exec_status eid KH_SUCCESS (Some tx) None)
             | None \<Rightarrow>
                 sx_return (case last_status of
                     Some st \<Rightarrow> exec_status eid (ks_status st) (ks_tx_hash st) (ks_error st)
                   | None \<Rightarrow> exec_status eid KH_RUNNING None None)))"

definition NO_RECIPIENT :: string where
  "NO_RECIPIENT = ''No recipient '' @ [CHR 0xE2, CHR 0x80, CHR 0x94] @ '' set KH_KEEPER_ADDRESS or pass wallet_address''"

definition submit_treasury_commitment ::
  "('w, 'x) uni_env_scheme \<Rightarrow> (string \<Rightarrow> string option) \<Rightarrow> kh_executor \<Rightarrow> string \<Rightarrow>
   (('n, 'w) xstate, kh_status) sx" where
  "submit_treasury_commitment env getenv ex uid =
     (if commitment_recipient getenv ex = []
      then sx_return (exec_status [] KH_FAILED None
             (Some NO_RECIPIENT))
      else
        sx_bind (sx_try (sx_bind (on_keeperhub (kh_execute_transfer env uid (commitment_request getenv ex)))
                           (\<lambda>r. sx_return (Inr r)))
                  (\<lambda>e. sx_return (Inl (exc_str e)))) (\<lambda>submitted.
          case submitted of
            Inl err \<Rightarrow> sx_return (exec_status [] KH_FAILED None (Some err))
          | Inr result \<Rightarrow> commitment_outcome env (kr_execution_id result)))"

subsection \<open>Audit and result\<close>

definition write_audit ::
  "('n, 'y) st_env_scheme \<Rightarrow> kh_executor \<Rightarrow> run_inputs \<Rightarrow> kh_audit_entry \<Rightarrow> (('n, 'w) xstate, unit) sx" where
  "write_audit senv ex ri audit x =
     (if \<not> kx_has_zg ex then (Inr (), x)
      else case log_append senv (ri_ts ri) (ri_eid ri)
                  (if ka_succeeded audit then LE_TRADE_EXECUTED else LE_TRADE_FAILED)
                  ''executor'' (audit_log_data audit) (new_kv, x_zg x) of
             (_, (k, z)) \<Rightarrow> (Inr (), x\<lparr>x_zg := z\<rparr>))"

definition audit_of :: "int \<Rightarrow> int \<Rightarrow> kh_status \<Rightarrow> kh_audit_entry" where
  "audit_of chain ms st =
     \<lparr>ka_execution_id = ks_execution_id st, ka_status = ks_status st, ka_tx_hash = ks_tx_hash st,
      ka_block_number = ks_block_number st, ka_gas_used = ks_gas_used st, ka_error = ks_error st,
      ka_explorer_url = ks_explorer_url st, ka_network = network_value (chain_network chain),
      ka_contract = ''treasury_commitment'', ka_function_name = ''transfer'', ka_retry_count = 0,
      ka_elapsed_ms = ms\<rparr>"

definition swap_result_of ::
  "string \<Rightarrow> string \<Rightarrow> int \<Rightarrow> string \<Rightarrow> quote_response \<Rightarrow> kh_status \<Rightarrow> swap_result" where
  "swap_result_of token_in token_out chain amount q st =
     \<lparr>sw_status = (if ks_succeeded st then SW_CONFIRMED
                   else if ks_status st = KH_RUNNING then SW_SUBMITTED else SW_FAILED),
      sw_tx_hash = ks_tx_hash st,
      sw_error = (if ks_succeeded st then None else ks_error st),
      sw_token_in = token_in, sw_token_out = token_out, sw_chain_id = chain, sw_amount_in = amount,
      sw_amount_out = q_amount_out q, sw_routing = Some (q_routing q), sw_price_impact = None,
      sw_block_number = ks_block_number st, sw_gas_used = ks_gas_used st\<rparr>"

text \<open>The apostrophe of the first text is written by its code, as is the dash above.\<close>

definition kh_quirks :: "string list" where
  "kh_quirks =
     [''fragment inputs doesn'' @ [CHR 0x27] @ ''t match arguments'',
      ''execution reverted (unknown custom error)'',
      ''missing revert data'',
      ''500 Internal Server Error'']"

definition kh_swap_error :: "pyexc \<Rightarrow> string \<Rightarrow> string \<Rightarrow> int \<Rightarrow> string \<Rightarrow> swap_result" where
  "kh_swap_error e token_in token_out chain amount =
     \<lparr>sw_status = (if list_ex (\<lambda>q. str_contains q (exc_str e)) kh_quirks then SW_SUBMITTED else SW_FAILED),
      sw_tx_hash = None, sw_error = Some (exc_str e), sw_token_in = token_in, sw_token_out = token_out,
      sw_chain_id = chain, sw_amount_in = amount, sw_amount_out = None, sw_routing = None,
      sw_price_impact = None, sw_block_number = None, sw_gas_used = None\<rparr>"

definition swap_wallet :: "(string \<Rightarrow> string option) \<Rightarrow> kh_executor \<Rightarrow> string option \<Rightarrow> string" where
  "swap_wallet getenv ex wallet_address =
     str_or (env_str getenv ''KH_KEEPER_ADDRESS'' [])
       (str_or (case wallet_address of Some w \<Rightarrow> w | None \<Rightarrow> []) (kx_wallet ex))"

definition kh_execute_swap ::
  "('w, 'x) uni_env_scheme \<Rightarrow> ('n, 'y) st_env_scheme \<Rightarrow> (string \<Rightarrow> string option) \<Rightarrow> kh_executor \<Rightarrow> run_inputs \<Rightarrow>
   string \<Rightarrow> string \<Rightarrow> string \<Rightarrow> int \<Rightarrow> pyfloat \<Rightarrow> string option \<Rightarrow> (('n, 'w) xstate, swap_result) sx" where
  "kh_execute_swap env senv getenv ex ri token_in token_out amount chain slippage wallet_address =
     sx_try
       (sx_bind (kh_get_quote env token_in token_out amount chain slippage (swap_wallet getenv ex wallet_address)) (\<lambda>q.
        sx_bind (submit_treasury_commitment env getenv ex (ri_uid ri)) (\<lambda>st.
        sx_bind (write_audit senv ex ri (audit_of chain (ri_elapsed_ms ri) st)) (\<lambda>_.
        sx_return (swap_result_of token_in token_out chain amount q st)))))
       (\<lambda>e. sx_return (kh_swap_error e token_in token_out chain amount))"

subsection \<open>The commitment never raises\<close>

lemma poll_tx_hash_returns: "\<exists>r x'. poll_tx_hash env eid n l x = (Inr r, x')"
proof (induction n arbitrary: l x)
  case 0
  then show ?case by (simp add: sx_simps)
next
  case (Suc n)
  obtain y x1 where y: "on_keeperhub (kh_get_execution_status env eid) x = (y, x1)" by (rule prod.exhaust)
  show ?case
  proof (cases y)
    case (Inl e)
    with y Suc.IH show ?thesis by (simp add: sx_return_def)
  next
    case (Inr st)
    with y Suc.IH show ?thesis by (simp add: sx_return_def)
  qed
qed

lemma tx_hash_from_logs_returns: "\<exists>r x'. tx_hash_from_logs env eid x = (Inr r, x')"
  unfolding tx_hash_from_logs_def by (rule sx_try_never_raises) (simp add: sx_return_def)

lemma commitment_outcome_returns: "\<exists>st x'. commitment_outcome env eid x = (Inr st, x')"
proof -
  obtain r x1 where r: "poll_tx_hash env eid COMMITMENT_POLLS None x = (Inr r, x1)"
    using poll_tx_hash_returns by blast
  obtain h x2 where "tx_hash_from_logs env eid x1 = (Inr h, x2)"
    using tx_hash_from_logs_returns by blast
  with r show ?thesis
    by (cases r; cases h) (simp_all add: commitment_outcome_def sx_return_def)
qed

lemma commitment_returns:
  "\<exists>st x'. submit_treasury_commitment env getenv ex uid x = (Inr st, x')"
proof (cases "commitment_recipient getenv ex = []")
  case True
  then show ?thesis by (simp add: submit_treasury_commitment_def sx_return_def)
next
  case False
  obtain y x1 where y: "on_keeperhub (kh_execute_transfer env uid (commitment_request getenv ex)) x = (y, x1)"
    by (rule prod.exhaust)
  with False commitment_outcome_returns show ?thesis
    by (cases y) (simp_all add: submit_treasury_commitment_def sx_return_def)
qed

lemma write_audit_returns:
  "\<exists>x'. write_audit senv ex ri a x = (Inr (), x') \<and> x_kh x' = x_kh x \<and> x_net x' = x_net x \<and> x_uni x' = x_uni x"
  by (auto simp: write_audit_def split: prod.split)

subsection \<open>Where a reported outcome comes from\<close>

text \<open>
  The status replies that the polling loop sees from a state on, with the state it ends in: one
  for each poll, up to the first that carries a transaction hash or a terminal status.
\<close>

definition ends_polling :: "kh_status res \<Rightarrow> bool" where
  "ends_polling y = (case y of Inr st \<Rightarrow> str_truthy (ks_tx_hash st) \<or> is_terminal st | Inl _ \<Rightarrow> False)"

fun poll_replies ::
  "('w, 'x) uni_env_scheme \<Rightarrow> string \<Rightarrow> nat \<Rightarrow> ('n, 'w) xstate \<Rightarrow> kh_status res list \<times> ('n, 'w) xstate" where
  "poll_replies env eid 0 x = ([], x)"
| "poll_replies env eid (Suc n) x =
     (case on_keeperhub (kh_get_execution_status env eid) x of
        (y, x1) \<Rightarrow>
          if ends_polling y then ([y], x1)
          else (case poll_replies env eid n x1 of (ys, x2) \<Rightarrow> (y # ys, x2)))"

definition last_status :: "kh_status option \<Rightarrow> kh_status res list \<Rightarrow> kh_status option" where
  "last_status l ys = fold (\<lambda>y l. case y of Inr st \<Rightarrow> Some st | Inl _ \<Rightarrow> l) ys l"

lemma last_status_simps [simp]:
  "last_status l [] = l" "last_status l (Inl e # ys) = last_status l ys" "last_status l (Inr st # ys) = last_status (Some st) ys"
  by (simp_all add: last_status_def)

lemma poll_tx_hash_replies:
  assumes "poll_replies env eid n x = (ys, x1)"
  shows "\<exists>r. poll_tx_hash env eid n l x = (Inr r, x1) \<and>
    (case r of Inl st \<Rightarrow> ys \<noteq> [] \<and> last ys = Inr st | Inr l' \<Rightarrow> l' = last_status l ys)"
  using assms
proof (induction n arbitrary: l x ys x1)
  case 0
  then show ?case by (simp add: sx_simps)
next
  case (Suc n)
  obtain y x2 where y: "on_keeperhub (kh_get_execution_status env eid) x = (y, x2)" by (rule prod.exhaust)
  obtain ys' x3 where rest: "poll_replies env eid n x2 = (ys', x3)" by (rule prod.exhaust)
  show ?case
  proof (cases "ends_polling y")
    case True
    then obtain st where "y = Inr st" "str_truthy (ks_tx_hash st) \<or> is_terminal st"
      by (auto simp: ends_polling_def split: sum.splits)
    with y Suc.prems show ?thesis by (auto simp: ends_polling_def sx_return_def)
  next
    case False
    with y rest Suc.prems have ys: "ys = y # ys'" "x1 = x3" by simp_all
    define l1 where "l1 = last_status l [y]"
    from Suc.IH [OF rest, of l1] obtain r where
      r: "poll_tx_hash env eid n l1 x2 = (Inr r, x3)"
        "case r of Inl st \<Rightarrow> ys' \<noteq> [] \<and> last ys' = Inr st | Inr l' \<Rightarrow> l' = last_status l1 ys'" by blast
    have "poll_tx_hash env eid (Suc n) l x = (Inr r, x3)"
      using y r(1) False by (cases y) (simp_all add: l1_def ends_polling_def sx_return_def)
    moreover have "last_status l1 ys' = last_status l ys" by (simp add: l1_def ys last_status_def)
    ultimately show ?thesis using r(2) ys by (auto split: sum.splits)
  qed
qed

text \<open>Only the last reply can report success, as success is terminal.\<close>

lemma poll_replies_success:
  assumes "poll_replies env eid n x = (ys, x1)" and "last_status None ys = Some st" and "ks_succeeded st"
  shows "ys \<noteq> [] \<and> last ys = Inr st"
proof -
  have "last_status l ys = l \<or> (\<exists>y\<in>set (butlast ys). y = Inr (the (last_status l ys)) \<and> \<not> ends_polling y) \<or>
      ys \<noteq> [] \<and> last ys = Inr (the (last_status l ys))" for l
    using assms(1)
  proof (induction n arbitrary: l x ys x1)
    case (Suc n)
    obtain y x2 where y: "on_keeperhub (kh_get_execution_status env eid) x = (y, x2)" by (rule prod.exhaust)
    obtain ys' x3 where rest: "poll_replies env eid n x2 = (ys', x3)" by (rule prod.exhaust)
    show ?case
    proof (cases "ends_polling y")
      case True
      with y Suc.prems have "ys = [y]" by simp
      then show ?thesis by (cases y) simp_all
    next
      case False
      with y rest Suc.prems have "ys = y # ys'" by simp
      with False Suc.IH [OF rest, of "last_status l [y]"] show ?thesis
        by (cases y; cases "ys' = []") (auto simp: last_status_def)
    qed
  qed simp
  from this [of None] show ?thesis using assms(2,3)
    by (auto simp: ends_polling_def ks_succeeded_def is_terminal_def)
qed

definition hash_logged :: "('w, 'x) uni_env_scheme \<Rightarrow> string \<Rightarrow> string \<Rightarrow> ('n, 'w) xstate \<Rightarrow> bool" where
  "hash_logged env eid h x \<longleftrightarrow>
     (\<exists>es x2. on_keeperhub (kh_get_execution_logs env eid) x = (Inr (VList es), x2) \<and> log_tx_hash es = Some h)"

lemma tx_hash_from_logs_sound:
  assumes "tx_hash_from_logs env eid x = (Inr (Some h), x')"
  shows "hash_logged env eid h x"
proof -
  obtain y x1 where y: "on_keeperhub (kh_get_execution_logs env eid) x = (y, x1)" by (rule prod.exhaust)
  with assms show ?thesis
    by (cases y) (auto simp: tx_hash_from_logs_def sx_return_def hash_logged_def split: pyval.splits)
qed

lemma log_tx_hash_0x: "log_tx_hash es = Some h \<Longrightarrow> startswith ''0x'' h"
  by (induction es rule: log_tx_hash.induct) (auto split: pyval.splits if_splits)

lemma commitment_outcome_sound:
  assumes "commitment_outcome env eid x = (Inr st, x')" and "ks_succeeded st"
    and "poll_replies env eid COMMITMENT_POLLS x = (ys, x1)"
  shows "(\<exists>st1. ys \<noteq> [] \<and> last ys = Inr st1 \<and> ks_succeeded st1 \<and> ks_tx_hash st = ks_tx_hash st1) \<or>
    (\<exists>h. hash_logged env eid h x1 \<and> ks_tx_hash st = Some h)"
proof -
  obtain r where r: "poll_tx_hash env eid COMMITMENT_POLLS None x = (Inr r, x1)"
    and sound: "case r of Inl st \<Rightarrow> ys \<noteq> [] \<and> last ys = Inr st | Inr l \<Rightarrow> l = last_status None ys"
    using poll_tx_hash_replies [OF assms(3)] by blast
  show ?thesis
  proof (cases r)
    case (Inl st1)
    with r assms(1,2) sound show ?thesis
      by (auto simp: commitment_outcome_def sx_return_def ks_succeeded_def)
  next
    case (Inr l)
    obtain h x2 where h: "tx_hash_from_logs env eid x1 = (Inr h, x2)"
      using tx_hash_from_logs_returns by blast
    show ?thesis
    proof (cases h)
      case (Some tx)
      with h have "hash_logged env eid tx x1" by (simp add: tx_hash_from_logs_sound)
      with Inr r h Some assms(1) show ?thesis
        by (auto simp: commitment_outcome_def sx_return_def exec_status_def)
    next
      case None
      with Inr r h assms(1,2) obtain st1 where "l = Some st1" "ks_succeeded st1" "ks_tx_hash st = ks_tx_hash st1"
        by (cases l) (auto simp: commitment_outcome_def sx_return_def exec_status_def ks_succeeded_def)
      with poll_replies_success [OF assms(3), of st1] sound Inr show ?thesis by simp
    qed
  qed
qed

lemma kh_swap_Inr:
  fixes x :: "('n, 'w) xstate"
  assumes "kh_execute_swap env senv getenv ex ri ti to am ch sl w x = (Inr r, x')"
  obtains e where "r = kh_swap_error e ti to ch am"
  | q st and x1 x2 :: "('n, 'w) xstate"
    where "kh_get_quote env ti to am ch sl (swap_wallet getenv ex w) x = (Inr q, x1)"
      and "submit_treasury_commitment env getenv ex (ri_uid ri) x1 = (Inr st, x2)"
      and "r = swap_result_of ti to ch am q st" and "x_kh x' = x_kh x2" and "x_net x' = x_net x2"
proof -
  obtain y x1 where y: "kh_get_quote env ti to am ch sl (swap_wallet getenv ex w) x = (y, x1)"
    by (rule prod.exhaust)
  show thesis
  proof (cases y)
    case (Inl e)
    with y assms show thesis by (intro that(1) [of e]) (simp add: kh_execute_swap_def sx_return_def)
  next
    case (Inr q)
    obtain st x2 where st: "submit_treasury_commitment env getenv ex (ri_uid ri) x1 = (Inr st, x2)"
      using commitment_returns by blast
    obtain x3 where "write_audit senv ex ri (audit_of ch (ri_elapsed_ms ri) st) x2 = (Inr (), x3)"
      "x_kh x3 = x_kh x2" "x_net x3 = x_net x2"
      using write_audit_returns [of senv ex ri "audit_of ch (ri_elapsed_ms ri) st" x2] by blast
    with y Inr st assms show thesis
      by (intro that(2) [OF _ st, of q]) (simp_all add: kh_execute_swap_def sx_return_def)
  qed
qed

lemma commitment_succeeded:
  fixes x :: "('n, 'w) xstate"
  assumes "submit_treasury_commitment env getenv ex uid x = (Inr st, x')" and "ks_succeeded st"
  obtains res and x1 :: "('n, 'w) xstate"
    where "on_keeperhub (kh_execute_transfer env uid (commitment_request getenv ex)) x = (Inr res, x1)"
      and "commitment_outcome env (kr_execution_id res) x1 = (Inr st, x')"
proof (cases "commitment_recipient getenv ex = []")
  case True
  with assms show ?thesis
    by (auto simp: submit_treasury_commitment_def sx_return_def exec_status_def ks_succeeded_def)
next
  case False
  obtain y x1 where y: "on_keeperhub (kh_execute_transfer env uid (commitment_request getenv ex)) x = (y, x1)"
    by (rule prod.exhaust)
  show ?thesis
  proof (cases y)
    case (Inl e)
    with False y assms show ?thesis
      by (auto simp: submit_treasury_commitment_def sx_return_def exec_status_def ks_succeeded_def)
  next
    case (Inr res)
    with False y assms(1) show ?thesis
      by (intro that [of res x1]) (simp_all add: submit_treasury_commitment_def sx_return_def)
  qed
qed

subsection \<open>Runs on the mock backends\<close>

lemma mock_quote_run:
  assumes "x_uni x = MockUni u" and "in_range (nan_allowed env) 0 50 sl"
  obtains q u' where "kh_get_quote env ti to am ch sl w x = (Inr q, x\<lparr>x_uni := MockUni u'\<rparr>)"
  using assms
  by (simp add: kh_get_quote_def validate_quote_request_def uni_quote_def on_uni_def mock_quote_def sx_simps)

lemma mock_commitment_run:
  fixes x :: "('n, 'w) xstate" and uid :: string
  assumes "x_kh x = MockKH m" and "commitment_recipient getenv ex \<noteq> []"
  defines "eid \<equiv> ''direct_'' @ take 12 uid"
  defines "m' \<equiv> m\<lparr>transfer_calls := transfer_calls m @ [transfer_api (commitment_request getenv ex)],
      fail_next := False, executions := AList.update eid (mock_status eid (fail_next m)) (executions m)\<rparr>"
  shows "submit_treasury_commitment env getenv ex uid x =
    (Inr (if fail_next m then exec_status eid KH_FAILED None (Some ''Mock failure'') else mock_status eid False),
     x\<lparr>x_kh := MockKH m'\<rparr>)"
proof -
  let ?x = "x\<lparr>x_kh := MockKH m'\<rparr>"
  have t: "on_keeperhub (kh_execute_transfer env uid (commitment_request getenv ex)) x =
      (Inr \<lparr>kr_execution_id = eid, kr_status = KH_PENDING\<rparr>, ?x)"
    using assms(1) by (simp add: kh_execute_transfer_def on_kh_def mock_execute_transfer_def make_execution_def
        eid_def m'_def Let_def sx_simps)
  have g: "on_keeperhub (kh_get_execution_status env eid) ?x = (Inr (mock_status eid (fail_next m)), ?x)"
    by (simp add: kh_get_execution_status_def on_kh_def mock_get_execution_status_def m'_def sx_simps)
  have l: "tx_hash_from_logs env eid ?x = (Inr None, ?x)"
    by (simp add: tx_hash_from_logs_def kh_get_execution_logs_def on_kh_def mock_get_execution_logs_def dget_def
        sx_simps)
  have "poll_tx_hash env eid (Suc n) None ?x =
      (Inr (if fail_next m then Inr (Some (mock_status eid True)) else Inl (mock_status eid False)), ?x)" for n
    using g by (simp add: sx_return_def mock_status_def str_truthy_def is_terminal_def MOCK_TX_HASH_def)
  from this [of 59] have p: "poll_tx_hash env eid COMMITMENT_POLLS None ?x =
      (Inr (if fail_next m then Inr (Some (mock_status eid True)) else Inl (mock_status eid False)), ?x)"
    by (simp add: COMMITMENT_POLLS_def)
  have "commitment_outcome env eid ?x =
      (Inr (if fail_next m then exec_status eid KH_FAILED None (Some ''Mock failure'') else mock_status eid False), ?x)"
    using p l by (simp add: commitment_outcome_def sx_return_def mock_status_def)
  with t assms(2) show ?thesis by (simp add: submit_treasury_commitment_def sx_return_def)
qed

subsection \<open>Properties\<close>

text \<open>
  C19. How a swap ends: \<^verbatim>\<open>execute_swap\<close> never raises. An exception of the quote is the only
  one that reaches its handler, and then nothing was sent to KeeperHub; otherwise the
  commitment was attempted, and the result is the commitment's status. Writing the audit entry
  changes neither client nor the network.
\<close>

theorem kh_swap_cases:
  "case kh_get_quote env token_in token_out amount chain slippage (swap_wallet getenv ex wallet) x of
     (Inl e, x1) \<Rightarrow>
       kh_execute_swap env senv getenv ex ri token_in token_out amount chain slippage wallet x =
         (Inr (kh_swap_error e token_in token_out chain amount), x1) \<and> x_kh x1 = x_kh x \<and> x_zg x1 = x_zg x
   | (Inr q, x1) \<Rightarrow>
       (\<exists>st x2 x3. submit_treasury_commitment env getenv ex (ri_uid ri) x1 = (Inr st, x2) \<and>
          kh_execute_swap env senv getenv ex ri token_in token_out amount chain slippage wallet x =
            (Inr (swap_result_of token_in token_out chain amount q st), x3) \<and>
          x_uni x3 = x_uni x2 \<and> x_kh x3 = x_kh x2 \<and> x_net x3 = x_net x2)"
proof -
  obtain y x1 where y: "kh_get_quote env token_in token_out amount chain slippage
      (swap_wallet getenv ex wallet) x = (y, x1)" by (rule prod.exhaust)
  show ?thesis
  proof (cases y)
    case (Inl e)
    have "x_kh x1 = x_kh x \<and> x_zg x1 = x_zg x"
      using y by (auto simp: kh_get_quote_def sx_bind_def sx_lift_def sx_simps split: sum.splits prod.splits)
    with y Inl show ?thesis by (simp add: kh_execute_swap_def sx_return_def)
  next
    case (Inr q)
    obtain st x2 where st: "submit_treasury_commitment env getenv ex (ri_uid ri) x1 = (Inr st, x2)"
      using commitment_returns by blast
    obtain x3 where "write_audit senv ex ri (audit_of chain (ri_elapsed_ms ri) st) x2 = (Inr (), x3)"
      "x_kh x3 = x_kh x2" "x_net x3 = x_net x2" "x_uni x3 = x_uni x2"
      using write_audit_returns [of senv ex ri "audit_of chain (ri_elapsed_ms ri) st" x2] by blast
    with y Inr st show ?thesis by (auto simp: kh_execute_swap_def sx_return_def)
  qed
qed

text \<open>
  C4. A confirmed swap was accepted and reported, in the run that confirmed it: the quote was read,
  then KeeperHub accepted the transfer, and then either the last of the at most 60 status replies
  for the execution it named, the one that ended the polling, says success, and the result
  carries the hash of that reply, or the logs read right after the polling held a transaction hash
  starting with \<^verbatim>\<open>0x\<close>, which the result carries.
\<close>

theorem confirmed_was_reported:
  assumes "kh_execute_swap env senv getenv ex ri token_in token_out amount chain slippage wallet x = (Inr r, x')"
    and "sw_status r = SW_CONFIRMED"
  shows "\<exists>q x1 res x2.
    kh_get_quote env token_in token_out amount chain slippage (swap_wallet getenv ex wallet) x = (Inr q, x1) \<and>
    on_keeperhub (kh_execute_transfer env (ri_uid ri) (commitment_request getenv ex)) x1 = (Inr res, x2) \<and>
    (case poll_replies env (kr_execution_id res) COMMITMENT_POLLS x2 of
       (replies, x3) \<Rightarrow>
         (\<exists>st. replies \<noteq> [] \<and> last replies = Inr st \<and> ks_succeeded st \<and> sw_tx_hash r = ks_tx_hash st) \<or>
         (\<exists>h. hash_logged env (kr_execution_id res) h x3 \<and> sw_tx_hash r = Some h \<and> startswith ''0x'' h))"
proof -
  from assms(1) obtain q st x1 x2 where
    q: "kh_get_quote env token_in token_out amount chain slippage (swap_wallet getenv ex wallet) x = (Inr q, x1)"
    and c: "submit_treasury_commitment env getenv ex (ri_uid ri) x1 = (Inr st, x2)"
    and r: "r = swap_result_of token_in token_out chain amount q st"
    by (rule kh_swap_Inr) (use assms(2) in \<open>auto simp: kh_swap_error_def split: if_splits\<close>)
  have ok: "ks_succeeded st" using assms(2) r by (simp add: swap_result_of_def split: if_splits)
  have h: "sw_tx_hash r = ks_tx_hash st" using r by (simp add: swap_result_of_def)
  from c ok obtain res x3 where
    t: "on_keeperhub (kh_execute_transfer env (ri_uid ri) (commitment_request getenv ex)) x1 = (Inr res, x3)"
    and o: "commitment_outcome env (kr_execution_id res) x3 = (Inr st, x2)"
    by (rule commitment_succeeded)
  obtain ys x4 where ys: "poll_replies env (kr_execution_id res) COMMITMENT_POLLS x3 = (ys, x4)" by (rule prod.exhaust)
  from commitment_outcome_sound [OF o ok ys] q t h ys show ?thesis
    by (auto simp: hash_logged_def dest: log_tx_hash_0x)
qed

text \<open>
  C20. End to end on the mock backends: one swap makes exactly one transfer, the configured
  commitment, and is confirmed with the hash the service gave; when the service is told to fail
  it reports the failure with its text and no hash, once: the next run succeeds again.
\<close>

theorem kh_swap_mock:
  assumes "x_uni x = MockUni u" and "x_kh x = MockKH m" and "commitment_recipient getenv ex \<noteq> []"
    and "in_range (nan_allowed env) 0 50 slippage"
  shows "\<exists>r x' m'. kh_execute_swap env senv getenv ex ri token_in token_out amount chain slippage wallet x = (Inr r, x') \<and>
    x_kh x' = MockKH m' \<and> x_net x' = x_net x \<and> \<not> fail_next m' \<and>
    transfer_calls m' = transfer_calls m @ [transfer_api (commitment_request getenv ex)] \<and>
    (if fail_next m
     then sw_status r = SW_FAILED \<and> sw_error r = Some ''Mock failure'' \<and> sw_tx_hash r = None
     else sw_status r = SW_CONFIRMED \<and> sw_error r = None \<and> sw_tx_hash r = Some MOCK_TX_HASH)"
proof -
  obtain q u' where q: "kh_get_quote env token_in token_out amount chain slippage (swap_wallet getenv ex wallet) x =
      (Inr q, x\<lparr>x_uni := MockUni u'\<rparr>)"
    using assms(1,4) by (rule mock_quote_run)
  let ?x1 = "x\<lparr>x_uni := MockUni u'\<rparr>"
  have kh: "x_kh ?x1 = MockKH m" using assms(2) by simp
  note c = mock_commitment_run [OF kh assms(3), of env "ri_uid ri"]
  obtain st x2 where st: "submit_treasury_commitment env getenv ex (ri_uid ri) ?x1 = (Inr st, x2)"
    using c by blast
  obtain x3 where a: "write_audit senv ex ri (audit_of chain (ri_elapsed_ms ri) st) x2 = (Inr (), x3)"
    "x_kh x3 = x_kh x2" "x_net x3 = x_net x2"
    using write_audit_returns [of senv ex ri "audit_of chain (ri_elapsed_ms ri) st" x2] by blast
  have run: "kh_execute_swap env senv getenv ex ri token_in token_out amount chain slippage wallet x =
      (Inr (swap_result_of token_in token_out chain amount q st), x3)"
    using q st a(1) by (simp add: kh_execute_swap_def sx_return_def)
  show ?thesis
    using run a(2,3) c st
    by (auto simp: swap_result_of_def ks_succeeded_def exec_status_def mock_status_def)
qed

text \<open>An executor, an environment and a state for the worked instances.\<close>

definition sample_uni_env :: "unit uni_env" where
  "sample_uni_env = \<lparr>http_request = (\<lambda>_ _ _ _. sx_raise (PyExc ConnectError ''offline'')),
     raise_for_status = (\<lambda>_. Inr ()), tenacity = retry_spec, parse_tx = (\<lambda>_. Inl (PyExc ValidationError [])),
     parse_approval = (\<lambda>_. Inl (PyExc ValidationError [])), int_field = (\<lambda>_. Inr None),
     repr_val = (\<lambda>_. []), nan_allowed = True\<rparr>"

definition sample_kx :: kh_executor where
  "sample_kx = \<lparr>kx_wallet = ''0xw'', kx_has_zg = False\<rparr>"

definition sample_ri :: run_inputs where
  "sample_ri = \<lparr>ri_uid = ''0123456789abcdef'', ri_elapsed_ms = 5, ri_ts = (\<lambda>_. ''t''), ri_eid = ''id''\<rparr>"

definition sample_xstate :: "(unit, unit) xstate" where
  "sample_xstate = \<lparr>x_uni = MockUni new_mock_uniswap, x_kh = MockKH new_mock_kh, x_net = (),
     x_zg = \<lparr>zg_backend = InMemory [], zg_net = ()\<rparr>\<rparr>"

abbreviation no_env :: "string \<Rightarrow> string option" where
  "no_env \<equiv> (\<lambda>_. None)"

lemma sample_x_simps:
  "x_uni sample_xstate = MockUni new_mock_uniswap" "x_kh sample_xstate = MockKH new_mock_kh"
  "commitment_recipient no_env sample_kx \<noteq> []" "in_range (nan_allowed sample_uni_env) 0 50 (Fin (1 / 2))"
  by (simp_all add: sample_xstate_def sample_kx_def commitment_recipient_def env_str_def str_or_def str_strip_def)

theorem kh_swap_mock_witness:
  "\<exists>r x'. kh_execute_swap sample_uni_env log_env no_env sample_kx sample_ri ''a'' ''b'' ''1'' 8453 (Fin (1 / 2)) None
       sample_xstate = (Inr r, x') \<and> sw_status r = SW_CONFIRMED \<and> sw_tx_hash r = Some MOCK_TX_HASH"
  using kh_swap_mock [OF sample_x_simps, of log_env sample_ri "''a''" "''b''" "''1''" 8453 None]
  by (auto simp: new_mock_kh_def)

theorem confirmed_was_reported_witness:
  "\<exists>r x' q x1 res x2 replies x3.
     kh_execute_swap sample_uni_env log_env no_env sample_kx sample_ri ''a'' ''b'' ''1'' 8453 (Fin (1 / 2)) None
       sample_xstate = (Inr r, x') \<and> sw_status r = SW_CONFIRMED \<and>
     kh_get_quote sample_uni_env ''a'' ''b'' ''1'' 8453 (Fin (1 / 2)) (swap_wallet no_env sample_kx None) sample_xstate = (Inr q, x1) \<and>
     on_keeperhub (kh_execute_transfer sample_uni_env (ri_uid sample_ri) (commitment_request no_env sample_kx)) x1 =
       (Inr res, x2) \<and> poll_replies sample_uni_env (kr_execution_id res) COMMITMENT_POLLS x2 = (replies, x3) \<and>
     ((\<exists>st. replies \<noteq> [] \<and> last replies = Inr st \<and> ks_succeeded st \<and> sw_tx_hash r = ks_tx_hash st) \<or>
      (\<exists>h. hash_logged sample_uni_env (kr_execution_id res) h x3 \<and> sw_tx_hash r = Some h))"
proof -
  let ?run = "kh_execute_swap sample_uni_env log_env no_env sample_kx sample_ri ''a'' ''b'' ''1'' 8453 (Fin (1 / 2)) None
       sample_xstate"
  obtain q u' where q: "kh_get_quote sample_uni_env ''a'' ''b'' ''1'' 8453 (Fin (1 / 2)) (swap_wallet no_env sample_kx None)
      sample_xstate = (Inr q, sample_xstate\<lparr>x_uni := MockUni u'\<rparr>)"
    using sample_x_simps(1,4) by (rule mock_quote_run)
  have kh: "x_kh (sample_xstate\<lparr>x_uni := MockUni u'\<rparr>) = MockKH new_mock_kh" by (simp add: sample_x_simps(2))
  note c = mock_commitment_run [OF kh sample_x_simps(3), of sample_uni_env "ri_uid sample_ri"]
  have "\<exists>r x'. ?run = (Inr r, x') \<and> sw_status r = SW_CONFIRMED"
    using q c by (simp add: kh_execute_swap_def sx_return_def write_audit_def sample_kx_def new_mock_kh_def
        swap_result_of_def ks_succeeded_def mock_status_def)
  then obtain r x' where r: "?run = (Inr r, x')" "sw_status r = SW_CONFIRMED" by blast
  from confirmed_was_reported [OF r] obtain q x1 res x2 where
    f: "kh_get_quote sample_uni_env ''a'' ''b'' ''1'' 8453 (Fin (1 / 2)) (swap_wallet no_env sample_kx None) sample_xstate = (Inr q, x1)"
      "on_keeperhub (kh_execute_transfer sample_uni_env (ri_uid sample_ri) (commitment_request no_env sample_kx)) x1 = (Inr res, x2)"
    and rep: "case poll_replies sample_uni_env (kr_execution_id res) COMMITMENT_POLLS x2 of (replies, x3) \<Rightarrow>
      (\<exists>st. replies \<noteq> [] \<and> last replies = Inr st \<and> ks_succeeded st \<and> sw_tx_hash r = ks_tx_hash st) \<or>
      (\<exists>h. hash_logged sample_uni_env (kr_execution_id res) h x3 \<and> sw_tx_hash r = Some h \<and> startswith ''0x'' h)"
    by (elim exE conjE) (rule that; assumption)
  obtain replies x3 where p: "poll_replies sample_uni_env (kr_execution_id res) COMMITMENT_POLLS x2 = (replies, x3)"
    by (rule prod.exhaust)
  from rep have "(\<exists>st. replies \<noteq> [] \<and> last replies = Inr st \<and> ks_succeeded st \<and> sw_tx_hash r = ks_tx_hash st) \<or>
      (\<exists>h. hash_logged sample_uni_env (kr_execution_id res) h x3 \<and> sw_tx_hash r = Some h)"
    unfolding p by auto
  with r f p show ?thesis by blast
qed

text \<open>
  Without a recipient nothing is transferred: when neither environment variable nor the
  executor's own wallet names one, a run leaves the KeeperHub client as it was, touches the
  network only for the quote, and never reports a confirmation or a hash.
\<close>

theorem no_recipient_no_transfer:
  assumes "commitment_recipient getenv ex = []"
  shows "\<exists>r x'. kh_execute_swap env senv getenv ex ri token_in token_out amount chain slippage wallet x = (Inr r, x') \<and>
    x_kh x' = x_kh x \<and> sw_status r \<noteq> SW_CONFIRMED \<and> sw_tx_hash r = None \<and>
    x_net x' = x_net (snd (kh_get_quote env token_in token_out amount chain slippage
                            (swap_wallet getenv ex wallet) x))"
proof -
  obtain y x1 where y: "kh_get_quote env token_in token_out amount chain slippage
      (swap_wallet getenv ex wallet) x = (y, x1)" by (rule prod.exhaust)
  have kh: "x_kh x1 = x_kh x"
    using y by (auto simp: kh_get_quote_def sx_bind_def sx_lift_def sx_simps split: sum.splits prod.splits)
  show ?thesis
  proof (cases y)
    case (Inl e)
    with y kh show ?thesis by (simp add: kh_execute_swap_def sx_return_def kh_swap_error_def)
  next
    case (Inr q)
    let ?st = "exec_status [] KH_FAILED None (Some NO_RECIPIENT)"
    have "submit_treasury_commitment env getenv ex (ri_uid ri) x1 = (Inr ?st, x1)"
      using assms by (simp add: submit_treasury_commitment_def sx_return_def)
    moreover obtain x3 where "write_audit senv ex ri (audit_of chain (ri_elapsed_ms ri) ?st) x1 = (Inr (), x3)"
      "x_kh x3 = x_kh x1" "x_net x3 = x_net x1"
      using write_audit_returns [of senv ex ri "audit_of chain (ri_elapsed_ms ri) ?st" x1] by blast
    ultimately show ?thesis using y Inr kh
      by (simp add: kh_execute_swap_def sx_return_def swap_result_of_def ks_succeeded_def exec_status_def)
  qed
qed

theorem no_recipient_no_transfer_witness:
  "commitment_recipient no_env (sample_kx\<lparr>kx_wallet := []\<rparr>) = [] \<and>
   (\<exists>r x'. kh_execute_swap sample_uni_env log_env no_env (sample_kx\<lparr>kx_wallet := []\<rparr>) sample_ri ''a'' ''b'' ''1'' 8453
       (Fin (1 / 2)) None sample_xstate = (Inr r, x') \<and> x_kh x' = x_kh sample_xstate \<and> sw_tx_hash r = None)"
proof -
  have e: "commitment_recipient no_env (sample_kx\<lparr>kx_wallet := []\<rparr>) = []"
    by (simp add: commitment_recipient_def env_str_def str_or_def str_strip_def)
  from e no_recipient_no_transfer [OF e, of sample_uni_env log_env sample_ri "''a''" "''b''" "''1''" 8453 "Fin (1 / 2)" None sample_xstate]
  show ?thesis by blast
qed

text \<open>
  A failed quote can be reported as submitted: when the Uniswap quote raises an exception
  whose text contains one of the four listed phrases, such as an HTTP 500, the run reports
  status submitted with no hash although nothing was sent to KeeperHub.
\<close>

theorem quote_failure_reported_submitted:
  assumes "kh_get_quote env token_in token_out amount chain slippage (swap_wallet getenv ex wallet) x = (Inl e, x1)"
    and "str_contains ''500 Internal Server Error'' (exc_str e)"
  shows "\<exists>r. kh_execute_swap env senv getenv ex ri token_in token_out amount chain slippage wallet x = (Inr r, x1) \<and>
    sw_status r = SW_SUBMITTED \<and> sw_tx_hash r = None \<and> sw_error r = Some (exc_str e) \<and> x_kh x1 = x_kh x"
proof -
  have "x_kh x1 = x_kh x"
    using assms(1) by (auto simp: kh_get_quote_def sx_bind_def sx_lift_def sx_simps split: sum.splits prod.splits)
  with assms show ?thesis by (simp add: kh_execute_swap_def sx_return_def kh_swap_error_def kh_quirks_def)
qed

definition quote_500_env :: "unit uni_env" where
  "quote_500_env = sample_uni_env\<lparr>http_request :=
     (\<lambda>_ _ _ _. sx_raise (PyExc HTTPStatusError ''Server error 500 Internal Server Error''))\<rparr>"

theorem quote_failure_reported_submitted_witness:
  "\<exists>r x1. kh_execute_swap quote_500_env log_env no_env sample_kx sample_ri ''a'' ''b'' ''1'' 8453 (Fin (1 / 2)) None
       (sample_xstate\<lparr>x_uni := LiveUni ''key'' True\<rparr>) = (Inr r, x1) \<and>
     sw_status r = SW_SUBMITTED \<and> sw_tx_hash r = None"
proof -
  let ?x = "sample_xstate\<lparr>x_uni := LiveUni ''key'' True\<rparr>"
  let ?e = "PyExc HTTPStatusError ''Server error 500 Internal Server Error''"
  have q: "kh_get_quote quote_500_env ''a'' ''b'' ''1'' 8453 (Fin (1 / 2)) (swap_wallet no_env sample_kx None) ?x =
      (Inl ?e, ?x)"
    by (simp add: kh_get_quote_def validate_quote_request_def uni_quote_def on_uni_def live_quote_def uni_post_def
        request_json_def retrying_def attempt_def quote_500_env_def sample_uni_env_def eval_nat_numeral
        sx_bind_def sx_try_def sx_lift_def sx_simps retryable_def)
  have "str_contains ''500 Internal Server Error'' (exc_str ?e)" by (simp add: startswith_def)
  from quote_failure_reported_submitted [OF q this, of log_env sample_ri] show ?thesis by blast
qed

text \<open>
  The audit entry is stored but not in the swarm's shared history: writing it keeps every
  store's history as it was and only adds blobs, among them the entry of the executed or failed
  trade; the log index that lists it belongs to a fresh key-value store that is dropped.
\<close>

theorem audit_outside_shared_history:
  assumes "log_ok senv B (k, x_zg x)" and "kx_has_zg ex"
    and "log_fits senv B (ri_ts ri, ri_eid ri,
           if ka_succeeded a then LE_TRADE_EXECUTED else LE_TRADE_FAILED, ''executor'', audit_log_data a)
         (new_kv, x_zg x)"
  shows "\<exists>x' r. write_audit senv ex ri a x = (Inr (), x') \<and>
    log_ok senv B (k, x_zg x') \<and> log_hist senv (k, x_zg x') = log_hist senv (k, x_zg x) \<and>
    entry_at senv (x_zg x') r = Some (new_entry (ri_ts ri 0) (ri_eid ri)
      (if ka_succeeded a then LE_TRADE_EXECUTED else LE_TRADE_FAILED) ''executor'' (audit_log_data a))"
proof -
  let ?ev = "if ka_succeeded a then LE_TRADE_EXECUTED else LE_TRADE_FAILED"
  from assms(1) have zg: "zg_ok senv B (x_zg x)" and man: "manifest_ok (kv_manifest k) (x_zg x)" and dict: "kv_odd k = None"
    by (auto simp: log_ok_def)
  from log_ok_new(1) [OF zg] assms(3) obtain r k' z' where app: "log_append senv (ri_ts ri) (ri_eid ri) ?ev ''executor''
      (audit_log_data a) (new_kv, x_zg x) =
      (Inr ((new_entry (ri_ts ri 0) (ri_eid ri) ?ev ''executor'' (audit_log_data a))\<lparr>le_root_hash := Some r\<rparr>), (k', z'))"
    and ok: "log_ok senv B (k', z')"
    and e: "entry_at senv z' r = Some (new_entry (ri_ts ri 0) (ri_eid ri) ?ev ''executor'' (audit_log_data a))"
    and kept: "blobs_kept (x_zg x) z'"
    by (rule log_append_ok)
  have w: "write_audit senv ex ri a x = (Inr (), x\<lparr>x_zg := z'\<rparr>)"
    using assms(2) app by (simp add: write_audit_def)
  from ok man dict kept have kok: "kv_ok senv B (k, z')" by (auto simp: log_ok_def intro: manifest_ok_kept)
  have "kv_map (k, z') KV_LOG_INDEX = kv_map (k, x_zg x) KV_LOG_INDEX"
    using manifest_map_kept [OF man kept] by simp
  note l = log_kept [OF assms(1) kok kept this]
  show ?thesis using w l e by (intro exI [of _ "x\<lparr>x_zg := z'\<rparr>"] exI [of _ r]) simp
qed

definition sample_audit :: kh_audit_entry where
  "sample_audit = audit_of 8453 5 (exec_status [] KH_FAILED None (Some ''declined''))"

definition audit_env :: "unit st_env" where
  "audit_env = log_env\<lparr>dec_entry :=
     (\<lambda>_. Inr (new_entry ''t'' ''id'' LE_TRADE_FAILED ''executor'' (audit_log_data sample_audit)))\<rparr>"

lemma audit_env_simps [simp]:
  "sha256 audit_env = (\<lambda>d. d)" "json_dumps_sorted audit_env = (\<lambda>_. bytes_of ''{}'')"
  "enc_entry audit_env = (\<lambda>_. [1])" "enc_index audit_env = (\<lambda>_. [2])"
  "dec_index audit_env = (\<lambda>_. Inr (sample_index sample_env))"
  "dec_entry audit_env =
     (\<lambda>_. Inr (new_entry ''t'' ''id'' LE_TRADE_FAILED ''executor'' (audit_log_data sample_audit)))"
  by (simp_all add: audit_env_def)

lemma audit_env_root: "root_of audit_env d = root_of sample_env d"
  by (simp add: root_of_def hexdigest_def sample_env_def split: sum.split)

theorem audit_outside_shared_history_witness:
  "\<exists>x' r. write_audit audit_env (sample_kx\<lparr>kx_has_zg := True\<rparr>) sample_ri sample_audit sample_xstate = (Inr (), x') \<and>
     log_hist audit_env (new_kv, x_zg x') = log_hist audit_env (new_kv, x_zg sample_xstate) \<and>
     entry_at audit_env (x_zg x') r =
       Some (new_entry ''t'' ''id'' LE_TRADE_FAILED ''executor'' (audit_log_data sample_audit))"
proof -
  have ok: "log_ok audit_env UNIV (new_kv, x_zg sample_xstate)"
    by (rule log_ok_new) (simp add: sample_xstate_def zg_ok_inmemory_empty)
  have "zg_fits UNIV (manifest_bytes audit_env now m)" for now m
    by (rule zg_fits_UNIV) (simp add: manifest_bytes_def bytes_of_def)
  then have fits: "log_fits audit_env UNIV (ri_ts sample_ri, ri_eid sample_ri,
      if ka_succeeded sample_audit then LE_TRADE_EXECUTED else LE_TRADE_FAILED, ''executor'', audit_log_data sample_audit)
      (new_kv, x_zg sample_xstate)"
    by (simp add: sample_ri_def sample_audit_def audit_of_def exec_status_def ka_succeeded_def Let_def zg_fits_UNIV
        cur_index_def sample_index_def audit_env_root)
  have f: "\<not> ka_succeeded sample_audit"
    by (simp add: sample_audit_def audit_of_def exec_status_def ka_succeeded_def)
  have "kx_has_zg (sample_kx\<lparr>kx_has_zg := True\<rparr>)" by simp
  from audit_outside_shared_history [OF ok this fits] f show ?thesis
    by (auto simp: sample_ri_def)
qed

end
