(* ===== verification/Risk_Scorer.thy ===== *)
theory Risk_Scorer
  imports Http Schema
begin

text \<open>
  Risk scoring by inference: the compute client (\<^verbatim>\<open>core/compute/client.py\<close>) and the
  scorer (\<^verbatim>\<open>core/compute/risk_scorer.py\<close>) that turns a market signal into a trade
  decision. Parameters (\<open>risk_env\<close>): the HTTP layer, the JSON reader (\<open>loads\<close>), the text of
  values in f-strings (\<open>show_val\<close>) and pydantic's answer to NaN.
\<close>

record 'w risk_env = "'w http_env" +
  loads :: "string \<Rightarrow> pyval res"
  show_val :: "pyval \<Rightarrow> string"
  nan_valid :: bool

subsection \<open>Compute client\<close>

datatype compute_backend = MockCompute | LiveCompute string string string bool

type_synonym 'w compute = "compute_backend \<times> 'w"

fun rstrip_slash :: "string \<Rightarrow> string" where
  "rstrip_slash s = rev (dropWhile (\<lambda>c. c = CHR ''/'') (rev s))"

definition DEFAULT_BASE_URL :: string where
  "DEFAULT_BASE_URL = ''https://router-api-testnet.integratenetwork.work/v1''"

definition DEFAULT_MODEL :: string where
  "DEFAULT_MODEL = ''qwen/qwen-2.5-7b-instruct''"

definition compute_from_env :: "(string \<Rightarrow> string option) \<Rightarrow> compute_backend" where
  "compute_from_env getenv =
     (let key = str_strip (case getenv ''ZG_COMPUTE_API_KEY'' of Some v \<Rightarrow> v | None \<Rightarrow> []);
          url = (case getenv ''ZG_COMPUTE_BASE_URL'' of Some v \<Rightarrow> v | None \<Rightarrow> DEFAULT_BASE_URL);
          model = (case getenv ''ZG_COMPUTE_MODEL'' of Some v \<Rightarrow> v | None \<Rightarrow> DEFAULT_MODEL)
      in if key \<noteq> [] then LiveCompute (rstrip_slash url) key model False else MockCompute)"

definition compute_enter :: "compute_backend \<Rightarrow> compute_backend" where
  "compute_enter b = (case b of LiveCompute url key model _ \<Rightarrow> LiveCompute url key model True | MockCompute \<Rightarrow> MockCompute)"

definition compute_is_live :: "compute_backend \<Rightarrow> bool" where
  "compute_is_live b = (case b of LiveCompute _ _ _ _ \<Rightarrow> True | MockCompute \<Rightarrow> False)"

text \<open>The mock's reply to every prompt, as \<^verbatim>\<open>json.dumps\<close> writes it.\<close>

definition MOCK_CHAT :: string where
  "MOCK_CHAT =
     ''{'' @ QT @ ''risk_score'' @ QT @ '': 3.2, '' @ QT @ ''action'' @ QT @ '': '' @ QT @ ''buy'' @ QT @ '', '' @
     QT @ ''confidence'' @ QT @ '': 0.78, '' @ QT @ ''reasoning'' @ QT @ '': '' @
     QT @ ''Mock: signal strength is medium, price action consistent with trend'' @ QT @ '', '' @
     QT @ ''rejection_reason'' @ QT @ '': null}''"

text \<open>\<^verbatim>\<open>resp.json()["choices"][0]["message"]["content"]\<close>\<close>

definition key_item :: "pyval \<Rightarrow> string \<Rightarrow> pyval res" where
  "key_item v k =
     (case v of
        VDict d \<Rightarrow> (case map_of d k of Some x \<Rightarrow> Inr x | None \<Rightarrow> Inl (PyExc KeyError k))
      | _ \<Rightarrow> Inl (PyExc TypeError ''object is not subscriptable''))"

definition first_item :: "pyval \<Rightarrow> pyval res" where
  "first_item v =
     (case v of
        VList (x # _) \<Rightarrow> Inr x
      | VList [] \<Rightarrow> Inl (PyExc IndexError ''list index out of range'')
      | VStr (c # _) \<Rightarrow> Inr (VStr [c])
      | VStr [] \<Rightarrow> Inl (PyExc IndexError ''string index out of range'')
      | VDict _ \<Rightarrow> Inl (PyExc KeyError ''0'')
      | _ \<Rightarrow> Inl (PyExc TypeError ''object is not subscriptable''))"

definition chat_content :: "pyval \<Rightarrow> pyval res" where
  "chat_content v =
     res_bind (key_item v ''choices'') (\<lambda>cs.
     res_bind (first_item cs) (\<lambda>c.
     res_bind (key_item c ''message'') (\<lambda>m. key_item m ''content'')))"

definition live_chat ::
  "('w, 'x) risk_env_scheme \<Rightarrow> string \<Rightarrow> string \<Rightarrow> string \<Rightarrow> bool \<Rightarrow> pyval \<Rightarrow> int \<Rightarrow> ('w, pyval) sx" where
  "live_chat env url key model opened messages max_tokens =
     (if \<not> opened then sx_raise (PyExc AssertionError [])
      else sx_bind (request_json env ''POST'' (url @ ''/chat/completions'') key
             (VDict [(''model'', VStr model), (''messages'', messages), (''max_tokens'', VInt max_tokens)])) (\<lambda>v.
           sx_lift (chat_content v)))"

definition compute_chat :: "('w, 'x) risk_env_scheme \<Rightarrow> pyval \<Rightarrow> int \<Rightarrow> ('w compute, pyval) sx" where
  "compute_chat env messages max_tokens s =
     (case s of
        (MockCompute, w) \<Rightarrow> (Inr (VStr MOCK_CHAT), s)
      | (LiveCompute url key model opened, w) \<Rightarrow>
          (case live_chat env url key model opened messages max_tokens w of
             (r, w') \<Rightarrow> (r, (LiveCompute url key model opened, w'))))"

subsection \<open>Prompt\<close>

definition SYSTEM_PROMPT :: string where
  "SYSTEM_PROMPT = text_lines
     [''You are the risk-scoring AI for SwarmFi, an autonomous DeFi swarm.'',
      [],
      ''Your sole job is to assess one market signal and return a single JSON object.'',
      ''NEVER output prose, markdown fences, or commentary '' @ [CHR 0xE2, CHR 0x80, CHR 0x94] @ '' only the JSON.'',
      [],
      ''Schema:'',
      ''{'',
      ''  '' @ QT @ ''risk_score'' @ QT @ '':       <float 0-10>,'',
      ''  '' @ QT @ ''action'' @ QT @ '':           '' @ QT @ ''buy'' @ QT @ '' | '' @ QT @ ''sell'' @ QT @ '' | '' @ QT @ ''hold'' @ QT @ '','',
      ''  '' @ QT @ ''confidence'' @ QT @ '':       <float 0-1>,'',
      ''  '' @ QT @ ''reasoning'' @ QT @ '':        <string, '' @ [CHR 0xE2, CHR 0x89, CHR 0xA4] @ ''160 chars, plain text>,'',
      ''  '' @ QT @ ''rejection_reason'' @ QT @ '': <string if hold, else null>'',
      ''}'',
      [],
      ''Scoring rubric (use the FULL range, do not anchor on 5):'',
      ''  0'' @ [CHR 0xE2, CHR 0x80, CHR 0x93] @ ''2  Bluechip pair on a healthy L2, strong directional signal,'',
      ''       liquid venue, no flagged anomalies. '' @ [CHR 0xE2, CHR 0x86, CHR 0x92] @ '' BUY or SELL.'',
      ''  3'' @ [CHR 0xE2, CHR 0x80, CHR 0x93] @ ''4  Solid pair, signal is medium-strong. '' @ [CHR 0xE2, CHR 0x86, CHR 0x92] @ '' BUY or SELL.'',
      ''  5'' @ [CHR 0xE2, CHR 0x80, CHR 0x93] @ ''6  Mixed signal or moderate uncertainty. '' @ [CHR 0xE2, CHR 0x86, CHR 0x92] @ '' BUY/SELL only with high'',
      ''       confidence; otherwise HOLD.'',
      ''  7'' @ [CHR 0xE2, CHR 0x80, CHR 0x93] @ ''8  Weak signal, illiquid pair, or adverse conditions. '' @ [CHR 0xE2, CHR 0x86, CHR 0x92] @ '' HOLD.'',
      ''  9'' @ [CHR 0xE2, CHR 0x80, CHR 0x93] @ ''10 Unknown token, missing critical data, suspected scam. '' @ [CHR 0xE2, CHR 0x86, CHR 0x92] @ '' HOLD.'',
      [],
      ''Important rules:'',
      ''  - Treat ETH, WETH, USDC, USDT, DAI, cbBTC on Base (chain 8453) as'',
      ''    bluechip and well-known. Do NOT flag these as '' @ QT @ ''unknown tokens'' @ QT @ ''.'',
      ''  - The signal already contains a live price quote '' @ [CHR 0xE2, CHR 0x80, CHR 0x94] @ '' that is real,'',
      ''    not a missing data point.'',
      ''  - '' @ QT @ ''Insufficient information'' @ QT @ '' is NOT a valid reason for HOLD when the'',
      ''    pair is in the bluechip list above. Score on the directional'',
      ''    signal strength instead.'',
      ''  - Be decisive. Defaulting to HOLD because you '' @ QT @ ''cannot verify'' @ QT @ '' is a'',
      ''    failure mode.'']"

definition KNOWN_TOKENS :: "int \<Rightarrow> (string \<times> string) list" where
  "KNOWN_TOKENS chain =
     (if chain = 8453 then
        [(''0x0000000000000000000000000000000000000000'', ''ETH''),
         (''0x4200000000000000000000000000000000000006'', ''WETH''),
         (''0x833589fcd6edb6e08f4c7c32d4f71b54bda02913'', ''USDC''),
         (''0xfde4c96c8593536e31f229ea8f37b2ada2699bb2'', ''USDT''),
         (''0x50c5725949a6f0c72e6c4a641f24049a917db0cb'', ''DAI''),
         (''0xcbb7c0000ab88b473b1f5afd9ef808440eed33bf'', ''cbBTC'')]
      else if chain = 1 then
        [(''0x0000000000000000000000000000000000000000'', ''ETH''),
         (''0xc02aaa39b223fe8d0a0e5c4f27ead9083c756cc2'', ''WETH''),
         (''0xa0b86991c6218b36c1d19d4a2e9eb0ce3606eb48'', ''USDC''),
         (''0xdac17f958d2ee523a2206206994597c13d831ec7'', ''USDT'')]
      else [])"

definition resolve_symbol :: "pyval \<Rightarrow> int \<Rightarrow> string res" where
  "resolve_symbol addr chain =
     (if \<not> truthy addr then Inr ''?''
      else res_bind (py_lower addr) (\<lambda>a.
        case map_of (KNOWN_TOKENS chain) a of
          Some symb \<Rightarrow> Inr symb
        | None \<Rightarrow> (case addr of
            VStr s \<Rightarrow> Inr (py_upto 8 s @ ELLIPSIS @ py_from (- 4) s)
          | _ \<Rightarrow> Inl (PyExc TypeError ''object is not subscriptable''))))"

definition BLUECHIP :: "string list" where
  "BLUECHIP = [''ETH'', ''WETH'', ''USDC'', ''USDT'', ''DAI'', ''cbBTC'']"

definition nl :: string where
  "nl = [CHR 0x0A]"

definition build_user_prompt :: "('w, 'x) risk_env_scheme \<Rightarrow> pydict \<Rightarrow> string res" where
  "build_user_prompt env signal =
     res_bind (py_int (dget signal ''chain_id'' (VInt 8453))) (\<lambda>chain.
     res_bind (resolve_symbol (dget signal ''token_in'' VNone) chain) (\<lambda>in_sym.
     res_bind (resolve_symbol (dget signal ''token_out'' VNone) chain) (\<lambda>out_sym.
     res_bind (py_float (dget signal ''price_usd'' (VInt 0))) (\<lambda>price.
     let chain_lbl = (if chain = 8453 then ''Base'' else if chain = 1 then ''Ethereum'' else ''chain '' @ str_int chain);
         note = (if in_sym \<in> set BLUECHIP \<and> out_sym \<in> set BLUECHIP
                 then ''Both tokens are bluechip on this venue.''
                 else ''At least one token is non-bluechip; weight that in your score.'');
         txt = py_str (show_val env)
     in Inr (''Market signal to assess:'' @ nl @ nl @
        ''  Pair:        '' @ in_sym @ '' '' @ ARROW @ '' '' @ out_sym @ ''   ('' @ chain_lbl @ '')'' @ nl @
        ''  Live price:  $'' @ fmt_2f_comma price @ nl @
        ''  Strength:    '' @ txt (dget signal ''signal'' (VStr ''medium'')) @ nl @
        ''  Rationale:   '' @ txt (dget signal ''reason'' (VStr ''(no rationale)'')) @ nl @
        ''  Size:        '' @ txt (dget signal ''amount_in_wei'' (VInt 0)) @ '' wei'' @ nl @ nl @
        ''  Venue note:  '' @ note @ nl @ nl @
        ''Return the JSON risk assessment now.'')))))"

subsection \<open>Reading the model's reply\<close>

text \<open>\<^verbatim>\<open>re.sub\<close> of a fence: three backticks and an optional \<^verbatim>\<open>json\<close>.\<close>

definition FENCE :: string where
  "FENCE = [CHR 0x60, CHR 0x60, CHR 0x60]"

function strip_fences :: "string \<Rightarrow> string" where
  "strip_fences s =
     (if startswith FENCE s
      then (let t = drop 3 s in strip_fences (if startswith ''json'' t then drop 4 t else t))
      else case s of [] \<Rightarrow> [] | c # t \<Rightarrow> c # strip_fences t)"
  by pat_completeness auto
termination
proof (relation "measure length")
  show "wf (measure length :: (string \<times> string) set)" by simp
  fix s t :: string
  assume f: "startswith FENCE s" and t: "t = drop 3 s"
  from f have "3 \<le> length s" by (cases s; cases "tl s"; cases "tl (tl s)") (auto simp: startswith_def FENCE_def)
  with t show "(if startswith ''json'' t then drop 4 t else t, s) \<in> measure length" by auto
next
  fix s t :: string and c
  assume "s = c # t"
  then show "(t, s) \<in> measure length" by simp
qed

declare strip_fences.simps [simp del]

text \<open>\<^verbatim>\<open>re.search\<close> of a greedy brace pair: from the first opening to the last closing brace.\<close>

definition brace_span :: "string \<Rightarrow> string option" where
  "brace_span s =
     (let t = dropWhile (\<lambda>c. c \<noteq> CHR 0x7B) s;
          u = rev (dropWhile (\<lambda>c. c \<noteq> CHR 0x7D) (rev t))
      in if t = [] \<or> u = [] then None else Some u)"

definition parse_response :: "('w, 'x) risk_env_scheme \<Rightarrow> pyval \<Rightarrow> pyval res" where
  "parse_response env raw =
     (case raw of
        VStr r \<Rightarrow>
          (let cleaned = str_strip (strip_fences r)
           in case brace_span cleaned of Some obj \<Rightarrow> loads env obj | None \<Rightarrow> loads env cleaned)
      | _ \<Rightarrow> Inl (PyExc TypeError ''expected string or bytes-like object''))"

subsection \<open>Scoring\<close>

definition RISK_THRESHOLD :: pyfloat where
  "RISK_THRESHOLD = Fin 7"

definition inference_failed :: "pyexc \<Rightarrow> pyval" where
  "inference_failed e =
     VDict [(''risk_score'', VFloat (Fin 10)), (''action'', VStr ''hold''), (''confidence'', VFloat (Fin 0)),
            (''reasoning'', VStr (''Inference failed: '' @ exc_str e)),
            (''rejection_reason'', VStr (''Inference error: '' @ exc_str e))]"

definition ask_model :: "('w, 'x) risk_env_scheme \<Rightarrow> string \<Rightarrow> ('w compute, pyval) sx" where
  "ask_model env prompt =
     sx_bind (compute_chat env
         (VList [VDict [(''role'', VStr ''system''), (''content'', VStr SYSTEM_PROMPT)],
                 VDict [(''role'', VStr ''user''), (''content'', VStr prompt)]]) 512) (\<lambda>raw.
     sx_lift (parse_response env raw))"

definition infer :: "('w, 'x) risk_env_scheme \<Rightarrow> string \<Rightarrow> ('w compute, pyval) sx" where
  "infer env prompt = sx_try (ask_model env prompt) (\<lambda>e. sx_return (inference_failed e))"

definition DEFAULT_TOKEN_IN :: string where
  "DEFAULT_TOKEN_IN = ''0x0000000000000000000000000000000000000000''"

definition DEFAULT_TOKEN_OUT :: string where
  "DEFAULT_TOKEN_OUT = ''0x833589fCD6eDb6E08f4c7C32D4f71b54bdA02913''"

text \<open>The gate: a score at or above the threshold turns every other action into a hold.\<close>

definition risk_gate :: "pyfloat \<Rightarrow> string \<Rightarrow> pydict \<Rightarrow> string \<times> pydict" where
  "risk_gate risk action_str result =
     (if f_ge risk RISK_THRESHOLD \<and> action_str \<noteq> ''hold''
      then (''hold'', AList.update ''rejection_reason''
              (VStr (''Risk score '' @ fmt_1f risk @ '' exceeds threshold 7.0'')) result)
      else (action_str, result))"

definition decide_action :: "string \<Rightarrow> trade_action" where
  "decide_action s = (if s = ''buy'' then BUY else if s = ''sell'' then SELL else HOLD)"

definition decision_of :: "bool \<Rightarrow> pydict \<Rightarrow> pyval \<Rightarrow> trade_decision res" where
  "decision_of nan_ok signal reply =
     (case reply of
        VDict result \<Rightarrow>
          res_bind (py_float (dget result ''risk_score'' (VFloat (Fin 10)))) (\<lambda>risk.
          res_bind (py_lower (dget result ''action'' (VStr ''hold''))) (\<lambda>action0.
          res_bind (py_float (dget result ''confidence'' (VFloat (Fin (1 / 2))))) (\<lambda>confidence.
          case risk_gate risk action0 result of (action_str, result') \<Rightarrow>
          let action = decide_action action_str in
          res_bind (py_int (dget signal ''chain_id'' (VInt 8453))) (\<lambda>chain.
          res_bind (py_int (dget signal ''amount_in_wei'' (VInt 100000000000000000))) (\<lambda>amount.
          res_bind (str_field (dget signal ''token_in'' (VStr DEFAULT_TOKEN_IN))) (\<lambda>token_in.
          res_bind (str_field (dget signal ''token_out'' (VStr DEFAULT_TOKEN_OUT))) (\<lambda>token_out.
          res_bind (if action = HOLD
                    then res_bind (str_field (py_or (dget result' ''rejection_reason'' VNone)
                                                (VStr ''Risk gate: hold signal''))) (\<lambda>r. Inr (Some r))
                    else Inr None) (\<lambda>reason.
          validate_trade_decision nan_ok
            \<lparr>td_action = action, td_token_in = token_in, td_token_out = token_out, td_chain_id = chain,
             td_amount_in_wei = amount, td_risk_score = risk, td_confidence = confidence,
             td_rejection_reason = reason\<rparr>))))))))
      | _ \<Rightarrow> Inl (PyExc AttributeError ''object has no attribute get''))"

definition score ::
  "('w, 'x) risk_env_scheme \<Rightarrow> string \<Rightarrow> string \<Rightarrow> pydict \<Rightarrow> string \<Rightarrow> ('w compute, swarm_message) sx" where
  "score env mid now signal our_pubkey =
     sx_bind (sx_lift (build_user_prompt env signal)) (\<lambda>prompt.
     sx_bind (infer env prompt) (\<lambda>reply.
     sx_bind (sx_lift (decision_of (nan_valid env) signal reply)) (\<lambda>decision.
     sx_lift (make_message mid now MT_TRADE_DECISION RISK our_pubkey (trade_decision_dump decision)))))"

subsection \<open>What a decision guarantees\<close>

definition decision_ok :: "bool \<Rightarrow> trade_decision \<Rightarrow> bool" where
  "decision_ok nan_ok d \<longleftrightarrow>
     0 < td_amount_in_wei d \<and> in_range nan_ok 0 10 (td_risk_score d) \<and> in_range nan_ok 0 1 (td_confidence d) \<and>
     (if td_action d = HOLD then str_truthy (td_rejection_reason d)
      else \<not> f_ge (td_risk_score d) RISK_THRESHOLD)"

lemma decide_action_HOLD [simp]: "decide_action ''hold'' = HOLD"
  by (simp add: decide_action_def)

lemma decide_action_value: "decide_action s \<noteq> HOLD \<Longrightarrow> action_value (decide_action s) = s"
  by (auto simp: decide_action_def)

lemma risk_gate_action:
  assumes "risk_gate risk a result = (a', result')" and "decide_action a' \<noteq> HOLD"
  shows "a' = a" and "\<not> f_ge risk RISK_THRESHOLD"
  using assms by (auto simp: risk_gate_def split: if_splits)

lemma decision_of_Inr:
  assumes "decision_of nan_ok signal (VDict result) = Inr d"
  shows "decision_ok nan_ok d"
    and "py_float (dget result ''risk_score'' (VFloat (Fin 10))) = Inr (td_risk_score d)"
    and "td_action d = HOLD \<or>
         py_lower (dget result ''action'' (VStr ''hold'')) = Inr (action_value (td_action d))"
    and "\<exists>wish. py_lower (dget result ''action'' (VStr ''hold'')) = Inr wish \<and>
         td_action d = (if f_ge (td_risk_score d) RISK_THRESHOLD then HOLD else decide_action wish)"
proof -
  from assms obtain risk a0 where
    r: "py_float (dget result ''risk_score'' (VFloat (Fin 10))) = Inr risk"
    and a0: "py_lower (dget result ''action'' (VStr ''hold'')) = Inr a0"
    by (auto simp: decision_of_def res_bind_Inr_iff)
  obtain a result' where g: "risk_gate risk a0 result = (a, result')" by (rule prod.exhaust)
  from assms obtain conf chain amount ti to reason where
    "validate_trade_decision nan_ok \<lparr>td_action = decide_action a, td_token_in = ti, td_token_out = to,
       td_chain_id = chain, td_amount_in_wei = amount, td_risk_score = risk, td_confidence = conf,
       td_rejection_reason = reason\<rparr> = Inr d"
    by (auto simp: decision_of_def res_bind_Inr_iff Let_def r a0 g)
  then obtain dec where v: "validate_trade_decision nan_ok dec = Inr d"
    and dec: "td_action dec = decide_action a" "td_risk_score dec = risk"
    by (metis trade_decision.select_convs(1,6))
  from v have d: "d = dec" and ok: "0 < td_amount_in_wei dec" "in_range nan_ok 0 10 risk"
    "in_range nan_ok 0 1 (td_confidence dec)" "td_action dec = HOLD \<longrightarrow> str_truthy (td_rejection_reason dec)"
    by (auto simp: validate_trade_decision_iff dec)
  show "decision_ok nan_ok d"
    using ok risk_gate_action(2) [OF g] d dec by (auto simp: decision_ok_def)
  show "py_float (dget result ''risk_score'' (VFloat (Fin 10))) = Inr (td_risk_score d)"
    using r d dec by simp
  show "td_action d = HOLD \<or> py_lower (dget result ''action'' (VStr ''hold'')) = Inr (action_value (td_action d))"
    using a0 d dec risk_gate_action(1) [OF g] decide_action_value [of a] by (cases "decide_action a = HOLD") auto
  show "\<exists>wish. py_lower (dget result ''action'' (VStr ''hold'')) = Inr wish \<and>
      td_action d = (if f_ge (td_risk_score d) RISK_THRESHOLD then HOLD else decide_action wish)"
    using a0 d dec g by (auto simp: risk_gate_def split: if_splits)
qed

text \<open>A score in range that is not at or above the threshold is below it, or is no number at all.\<close>

lemma below_threshold:
  assumes "in_range nan_ok 0 10 f" and "\<not> f_ge f RISK_THRESHOLD"
  shows "f_less f RISK_THRESHOLD \<or> nan_ok \<and> f = NaN"
  using assms by (cases f) (auto simp: in_range_def RISK_THRESHOLD_def f_less_def f_ge_def)

text \<open>
  The exception is real: with a payload model that lets NaN through its range constraint, a reply
  whose score is NaN passes the gate, as NaN is not at or above 7.0.
\<close>

lemma nan_passes_gate:
  "\<exists>d. decision_of True [] (VDict [(''risk_score'', VFloat NaN), (''action'', VStr ''buy''), (''confidence'', VFloat (Fin 1))]) =
     Inr d \<and> td_action d = BUY \<and> td_risk_score d = NaN"
proof -
  have b: "str_lower ''buy'' = ''buy''" by (simp add: str_lower_def char_lower_def)
  show ?thesis
    by (simp add: decision_of_def dget_def b risk_gate_def RISK_THRESHOLD_def Let_def str_field_def
        decide_action_def validate_trade_decision_def hold_needs_reason_def in_range_def)
qed

lemma score_Inr:
  assumes "score env mid now signal pk s = (Inr m, s')"
  obtains p reply d where "build_user_prompt env signal = Inr p" and "infer env p s = (Inr reply, s')"
    and "decision_of (nan_valid env) signal reply = Inr d"
    and "make_message mid now MT_TRADE_DECISION RISK pk (trade_decision_dump d) = Inr m"
  using assms by (auto simp: score_def sx_bind_Inr_iff)

lemma decision_of_dict: "decision_of nan_ok signal reply = Inr d \<Longrightarrow> \<exists>result. reply = VDict result"
  by (cases reply) (simp_all add: decision_of_def)

lemma infer_failure:
  "ask_model env p s = (Inl e, s1) \<Longrightarrow> infer env p s = (Inr (inference_failed e), s1)"
  by (simp add: infer_def sx_return_def)

text \<open>An environment for the worked instances: the mock backend, a reader with a fixed answer.\<close>

definition sample_risk_env :: "pyval res \<Rightarrow> 'w risk_env" where
  "sample_risk_env answer = \<lparr>http_request = (\<lambda>_ _ _ _. sx_raise (PyExc ConnectError ''offline'')),
     raise_for_status = (\<lambda>_. Inr ()), tenacity = retry_spec, loads = (\<lambda>_. answer), show_val = (\<lambda>_. []),
     nan_valid = False\<rparr>"

definition sample_reply :: pyval where
  "sample_reply = VDict [(''risk_score'', VFloat (Fin 3)), (''action'', VStr ''buy''), (''confidence'', VFloat (Fin 1))]"

lemma sample_prompt: "\<exists>p. build_user_prompt (sample_risk_env a) [] = Inr p"
  by (simp add: build_user_prompt_def dget_def resolve_symbol_def fl_def Let_def)

lemma sample_ask: "ask_model (sample_risk_env a) p (MockCompute, w) = (a, (MockCompute, w))"
proof -
  have "parse_response (sample_risk_env a :: 'a risk_env) (VStr s) = a" for s
    by (simp add: parse_response_def sample_risk_env_def Let_def split: option.split)
  then show ?thesis
    by (cases a) (simp_all add: ask_model_def compute_chat_def sx_bind_def sx_lift_def)
qed

subsection \<open>Properties\<close>

text \<open>
  C3. The risk gate: every decision the scorer sends is a valid trade decision from the risk
  agent, with a positive amount and scores in range, and a hold always carries a reason. Its score
  is the one of the model's reply; at or above the threshold 7.0 the action is a hold, otherwise
  it is the one the reply asked for. So it is a buy or a sell only when the reply said so and the
  score is below 7.0, with one exception that the code does not exclude: a NaN score, if the payload
  model accepts NaN (\<open>nan_valid\<close>; see \<open>nan_passes_gate\<close>).
\<close>

theorem risk_gate_enforced:
  assumes "score env mid now signal pk s = (Inr m, s')"
  shows "\<exists>d. message_type m = MT_TRADE_DECISION \<and> sender_role m = RISK \<and> payload m = trade_decision_dump d \<and>
    decision_ok (nan_valid env) d \<and>
    (\<exists>p result. infer env p s = (Inr (VDict result), s') \<and>
       py_float (dget result ''risk_score'' (VFloat (Fin 10))) = Inr (td_risk_score d) \<and>
       (if td_action d = HOLD then True
        else py_lower (dget result ''action'' (VStr ''hold'')) = Inr (action_value (td_action d)) \<and>
          (f_less (td_risk_score d) RISK_THRESHOLD \<or> nan_valid env \<and> td_risk_score d = NaN)) \<and>
       (\<exists>wish. py_lower (dget result ''action'' (VStr ''hold'')) = Inr wish \<and>
          td_action d = (if f_ge (td_risk_score d) RISK_THRESHOLD then HOLD else decide_action wish)))"
proof -
  from assms obtain p reply d where i: "infer env p s = (Inr reply, s')"
    and d: "decision_of (nan_valid env) signal reply = Inr d"
    and m: "make_message mid now MT_TRADE_DECISION RISK pk (trade_decision_dump d) = Inr m"
    by (rule score_Inr)
  from d obtain result where reply: "reply = VDict result" using decision_of_dict by blast
  note inr = decision_of_Inr [OF d [unfolded reply]]
  have env: "message_type m = MT_TRADE_DECISION" "sender_role m = RISK" "payload m = trade_decision_dump d"
    using make_message_SomeD [OF m] by simp_all
  have low: "td_action d \<noteq> HOLD \<longrightarrow> f_less (td_risk_score d) RISK_THRESHOLD \<or> nan_valid env \<and> td_risk_score d = NaN"
    using inr(1) below_threshold [of "nan_valid env" "td_risk_score d"] by (auto simp: decision_ok_def)
  have "if td_action d = HOLD then True
        else py_lower (dget result ''action'' (VStr ''hold'')) = Inr (action_value (td_action d)) \<and>
          (f_less (td_risk_score d) RISK_THRESHOLD \<or> nan_valid env \<and> td_risk_score d = NaN)"
    using inr(3) low by auto
  with env inr(1,2,4) i [unfolded reply] show ?thesis by blast
qed

theorem risk_gate_enforced_witness:
  "\<exists>m s' d. score (sample_risk_env (Inr sample_reply)) ''id'' ''now'' [] sample_pk (MockCompute, ()) = (Inr m, s') \<and>
     payload m = trade_decision_dump d \<and> decision_ok False d"
proof -
  let ?env = "sample_risk_env (Inr sample_reply) :: unit risk_env"
  obtain p where p: "build_user_prompt ?env [] = Inr p" using sample_prompt by blast
  have i: "infer ?env p (MockCompute, ()) = (Inr sample_reply, (MockCompute, ()))"
    by (simp add: infer_def sample_ask)
  have b: "str_lower ''buy'' = ''buy''" by (simp add: str_lower_def char_lower_def)
  have "\<exists>d. decision_of (nan_valid ?env) [] sample_reply = Inr d"
    by (simp add: decision_of_def sample_reply_def dget_def b risk_gate_def RISK_THRESHOLD_def Let_def str_field_def
        decide_action_def validate_trade_decision_def hold_needs_reason_def sample_risk_env_def)
  then obtain d where d: "decision_of (nan_valid ?env) [] sample_reply = Inr d" ..
  from sample_pk_hex obtain n where "str_to_int 16 sample_pk = Some n" ..
  moreover have "length sample_pk = 64" by (simp add: sample_pk_def)
  ultimately obtain m where m: "make_message ''id'' ''now'' MT_TRADE_DECISION RISK sample_pk (trade_decision_dump d) = Inr m"
    using make_message_total by blast
  have "score ?env ''id'' ''now'' [] sample_pk (MockCompute, ()) = (Inr m, (MockCompute, ()))"
    using p i d m by (simp add: score_def)
  from this risk_gate_enforced [OF this] show ?thesis by (auto simp: sample_risk_env_def)
qed

lemma failed_inference_score:
  assumes "build_user_prompt env signal = Inr p" and "ask_model env p s = (Inl e, s1)"
    and "py_int (dget signal ''chain_id'' (VInt 8453)) = Inr chain"
    and "py_int (dget signal ''amount_in_wei'' (VInt 100000000000000000)) = Inr amount" and "0 < amount"
    and "dget signal ''token_in'' (VStr DEFAULT_TOKEN_IN) = VStr token_in"
    and "dget signal ''token_out'' (VStr DEFAULT_TOKEN_OUT) = VStr token_out"
    and "length pk = 64" and "str_to_int 16 pk = Some i"
  shows "\<exists>m. score env mid now signal pk s = (Inr m, s1) \<and>
    payload m = trade_decision_dump \<lparr>td_action = HOLD, td_token_in = token_in, td_token_out = token_out,
      td_chain_id = chain, td_amount_in_wei = amount, td_risk_score = Fin 10, td_confidence = Fin 0,
      td_rejection_reason = Some (''Inference error: '' @ exc_str e)\<rparr>"
proof -
  let ?d = "\<lparr>td_action = HOLD, td_token_in = token_in, td_token_out = token_out,
      td_chain_id = chain, td_amount_in_wei = amount, td_risk_score = Fin 10, td_confidence = Fin 0,
      td_rejection_reason = Some (''Inference error: '' @ exc_str e)\<rparr>"
  have low: "str_lower ''hold'' = ''hold''" by (simp add: str_lower_def char_lower_def)
  have "decision_of (nan_valid env) signal (inference_failed e) = validate_trade_decision (nan_valid env) ?d"
    using assms(3-7)
    by (simp add: decision_of_def inference_failed_def dget_def low risk_gate_def Let_def str_field_def py_or_def)
  also have "\<dots> = Inr ?d"
    using assms(5) by (simp add: validate_trade_decision_def hold_needs_reason_def str_truthy_def)
  finally have d: "decision_of (nan_valid env) signal (inference_failed e) = Inr ?d" .
  show ?thesis
    using assms(1) infer_failure [OF assms(2)] d make_message_total [OF assms(8,9)] by (simp add: score_def)
qed

text \<open>
  C8. When inference fails the swarm holds: if asking the model raises any exception (network,
  malformed reply, no JSON), a signal with usable fields still gives a decision, and it is a
  hold with risk 10, confidence 0 and the error as its reason.
\<close>

theorem inference_failure_holds:
  assumes "build_user_prompt env signal = Inr p" and "ask_model env p s = (Inl e, s1)"
    and "py_int (dget signal ''chain_id'' (VInt 8453)) = Inr chain"
    and "py_int (dget signal ''amount_in_wei'' (VInt 100000000000000000)) = Inr amount" and "0 < amount"
    and "dget signal ''token_in'' (VStr DEFAULT_TOKEN_IN) = VStr token_in"
    and "dget signal ''token_out'' (VStr DEFAULT_TOKEN_OUT) = VStr token_out"
    and "length pk = 64" and "str_to_int 16 pk = Some i"
  shows "\<exists>m. score env mid now signal pk s = (Inr m, s1) \<and>
    payload m = trade_decision_dump \<lparr>td_action = HOLD, td_token_in = token_in, td_token_out = token_out,
      td_chain_id = chain, td_amount_in_wei = amount, td_risk_score = Fin 10, td_confidence = Fin 0,
      td_rejection_reason = Some (''Inference error: '' @ exc_str e)\<rparr>"
  using assms by (rule failed_inference_score)

theorem inference_failure_holds_witness:
  "\<exists>m. score (sample_risk_env (Inl (PyExc ValueError ''bad''))) ''id'' ''now'' [] sample_pk (MockCompute, ()) =
       (Inr m, (MockCompute, ())) \<and>
     payload m = trade_decision_dump \<lparr>td_action = HOLD, td_token_in = DEFAULT_TOKEN_IN, td_token_out = DEFAULT_TOKEN_OUT,
      td_chain_id = 8453, td_amount_in_wei = 100000000000000000, td_risk_score = Fin 10, td_confidence = Fin 0,
      td_rejection_reason = Some (''Inference error: '' @ ''bad'')\<rparr>"
proof -
  let ?a = "Inl (PyExc ValueError ''bad'') :: pyval res"
  obtain p where p: "build_user_prompt (sample_risk_env ?a :: unit risk_env) [] = Inr p" using sample_prompt by blast
  obtain n where n: "str_to_int 16 sample_pk = Some n" using sample_pk_hex by blast
  have l: "length sample_pk = 64" by (simp add: sample_pk_def)
  have "py_int (dget [] ''chain_id'' (VInt 8453)) = Inr 8453"
    "py_int (dget [] ''amount_in_wei'' (VInt 100000000000000000)) = Inr 100000000000000000"
    "(0 :: int) < 100000000000000000"
    "dget [] ''token_in'' (VStr DEFAULT_TOKEN_IN) = VStr DEFAULT_TOKEN_IN"
    "dget [] ''token_out'' (VStr DEFAULT_TOKEN_OUT) = VStr DEFAULT_TOKEN_OUT"
    by (simp_all add: dget_def)
  from inference_failure_holds [OF p sample_ask this l n] show ?thesis by fastforce
qed

text \<open>
  A score above 10 is not turned into a hold: a reply whose risk score is a number above 10
  makes scoring raise, so no decision is sent at all.
\<close>

theorem score_above_ten_raises:
  assumes "py_float (dget result ''risk_score'' (VFloat (Fin 10))) = Inr (Fin r)" and "10 < r"
  shows "\<exists>e. decision_of nan_ok signal (VDict result) = Inl e"
proof (cases "decision_of nan_ok signal (VDict result)")
  case (Inr d)
  have "td_risk_score d = Fin r" using decision_of_Inr(2) [OF Inr] assms(1) by simp
  with decision_of_Inr(1) [OF Inr] assms(2) show ?thesis by (simp add: decision_ok_def)
qed simp

theorem score_above_ten_raises_witness:
  "\<exists>e. decision_of True [] (VDict [(''risk_score'', VFloat (Fin 11)), (''action'', VStr ''buy'')]) = Inl e"
  by (rule score_above_ten_raises [where r = 11]) (simp_all add: dget_def)

end
