(* ===== verification/Axl.thy ===== *)
theory Axl
  imports Http Schema
begin

text \<open>
  Messaging between the agents: the client of one AXL node (\<^verbatim>\<open>core/axl_client.py\<close>), the
  registry of public keys (\<^verbatim>\<open>core/registry.py\<close>) and the bus that announces the cycle's
  transitions (\<^verbatim>\<open>core/axl_bus.py\<close>).

  Parameters (\<open>axl_env\<close>): the node's HTTP bridge on a network state \<open>'w\<close>, the retry
  helper, and pydantic's JSON functions for messages. Concurrent start-up queries run in the
  order of the endpoints.
\<close>

subsection \<open>Client\<close>

record axl_resp =
  ar_status :: int
  ar_content :: bytes
  ar_from :: string
  ar_json :: "pyval res"

record 'w axl_env =
  axl_request :: "string \<Rightarrow> string \<Rightarrow> string option \<Rightarrow> bytes \<Rightarrow> ('w, axl_resp) sx"
  axl_raise_for_status :: "axl_resp \<Rightarrow> unit res"
  axl_tenacity :: "nat \<Rightarrow> (pyexc \<Rightarrow> bool) \<Rightarrow> ('w, axl_resp) sx \<Rightarrow> ('w, axl_resp) sx"
  dump_message :: "swarm_message \<Rightarrow> bytes"
  load_message :: "bytes \<Rightarrow> swarm_message res"

record node_info =
  ni_public_key :: string
  ni_ipv6 :: string
  ni_api_url :: string

record received_message =
  rm_message :: swarm_message
  rm_from_pubkey :: string

definition axl_retrying :: "('w, 'x) axl_env_scheme \<Rightarrow> ('w, axl_resp) sx \<Rightarrow> ('w, axl_resp) sx" where
  "axl_retrying env m = axl_tenacity env 3 retryable m"

definition axl_attempt ::
  "('w, 'x) axl_env_scheme \<Rightarrow> string \<Rightarrow> string \<Rightarrow> string option \<Rightarrow> bytes \<Rightarrow> ('w, axl_resp) sx" where
  "axl_attempt env url path dest body =
     sx_bind (axl_request env url path dest body) (\<lambda>resp.
     sx_bind (sx_lift (axl_raise_for_status env resp)) (\<lambda>_. sx_return resp))"

definition json_str_item :: "pyval \<Rightarrow> string \<Rightarrow> string res" where
  "json_str_item v k =
     (case v of
        VDict d \<Rightarrow> (case map_of d k of
            Some (VStr s) \<Rightarrow> Inr s
          | Some _ \<Rightarrow> Inl (PyExc TypeError k)
          | None \<Rightarrow> Inl (PyExc KeyError k))
      | _ \<Rightarrow> Inl (PyExc TypeError k))"

definition axl_topology :: "('w, 'x) axl_env_scheme \<Rightarrow> string \<Rightarrow> ('w, node_info) sx" where
  "axl_topology env url =
     sx_bind (axl_retrying env (axl_attempt env url ''GET /topology'' None [])) (\<lambda>resp.
     sx_bind (sx_lift (ar_json resp)) (\<lambda>data.
     sx_bind (sx_lift (json_str_item data ''our_public_key'')) (\<lambda>pk.
     sx_bind (sx_lift (json_str_item data ''our_ipv6'')) (\<lambda>ip.
     sx_return \<lparr>ni_public_key = pk, ni_ipv6 = ip, ni_api_url = url\<rparr>))))"

definition axl_is_healthy :: "('w, 'x) axl_env_scheme \<Rightarrow> string \<Rightarrow> ('w, bool) sx" where
  "axl_is_healthy env url =
     sx_try (sx_bind (axl_topology env url) (\<lambda>_. sx_return True)) (\<lambda>_. sx_return False)"

definition axl_send :: "('w, 'x) axl_env_scheme \<Rightarrow> string \<Rightarrow> string \<Rightarrow> swarm_message \<Rightarrow> ('w, unit) sx" where
  "axl_send env url dest msg =
     sx_bind (axl_retrying env (axl_attempt env url ''POST /send'' (Some dest)
                (encode_message (dump_message env) msg))) (\<lambda>_.
     sx_return ())"

definition axl_recv :: "('w, 'x) axl_env_scheme \<Rightarrow> string \<Rightarrow> ('w, received_message option) sx" where
  "axl_recv env url =
     sx_bind (sx_try (sx_bind (axl_request env url ''GET /recv'' None []) (\<lambda>r. sx_return (Some r)))
                (\<lambda>e. if exc_kind e = TimeoutException then sx_return None else sx_raise e)) (\<lambda>reply.
       case reply of
         None \<Rightarrow> sx_return None
       | Some resp \<Rightarrow>
           if ar_status resp = 204 \<or> ar_content resp = [] then sx_return None
           else
             sx_bind (sx_lift (axl_raise_for_status env resp)) (\<lambda>_.
             case decode_message (load_message env) (ar_content resp) of
               Inl e \<Rightarrow> sx_raise (PyExc ValueError (''Invalid SwarmMessage from '' @ ar_from resp @ '': '' @ exc_str e))
             | Inr msg \<Rightarrow> sx_return (Some \<lparr>rm_message = msg, rm_from_pubkey = ar_from resp\<rparr>)))"

subsection \<open>Registry\<close>

record agent_endpoint =
  ep_api_url :: string
  ep_public_key :: string

record agent_registry =
  rg_endpoints :: "(agent_role \<times> agent_endpoint) list"
  rg_bootstrapped :: bool

definition DEFAULT_ENDPOINTS :: "(agent_role \<times> string) list" where
  "DEFAULT_ENDPOINTS =
     [(RESEARCHER, ''http://127.0.0.1:9002''), (RISK, ''http://127.0.0.1:9012''),
      (EXECUTOR, ''http://127.0.0.1:9022'')]"

definition new_registry :: "(agent_role \<times> string) list option \<Rightarrow> agent_registry" where
  "new_registry endpoints =
     (let eps = (case endpoints of Some (e # es) \<Rightarrow> e # es | _ \<Rightarrow> DEFAULT_ENDPOINTS)
      in \<lparr>rg_endpoints = map (\<lambda>(r, u). (r, \<lparr>ep_api_url = u, ep_public_key = []\<rparr>)) eps,
          rg_bootstrapped = False\<rparr>)"

text \<open>All queries run; a failed one leaves its key unset and the first failure is raised.\<close>

fun fetch_keys ::
  "('w, 'x) axl_env_scheme \<Rightarrow> (agent_role \<times> agent_endpoint) list \<Rightarrow> 'w \<Rightarrow>
   pyexc option \<times> (agent_role \<times> agent_endpoint) list \<times> 'w" where
  "fetch_keys env [] w = (None, [], w)"
| "fetch_keys env ((r, ep) # eps) w =
     (case axl_topology env (ep_api_url ep) w of
        (Inl e, w1) \<Rightarrow> (case fetch_keys env eps w1 of (_, eps', w2) \<Rightarrow> (Some e, (r, ep) # eps', w2))
      | (Inr info, w1) \<Rightarrow>
          (case fetch_keys env eps w1 of
             (err, eps', w2) \<Rightarrow> (err, (r, ep\<lparr>ep_public_key := ni_public_key info\<rparr>) # eps', w2)))"

definition bootstrap :: "('w, 'x) axl_env_scheme \<Rightarrow> (agent_registry \<times> 'w, unit) sx" where
  "bootstrap env s =
     (case s of (rg, w) \<Rightarrow>
        (case fetch_keys env (rg_endpoints rg) w of
           (None, eps, w') \<Rightarrow> (Inr (), (rg\<lparr>rg_endpoints := eps, rg_bootstrapped := True\<rparr>, w'))
         | (Some e, eps, w') \<Rightarrow> (Inl e, (rg\<lparr>rg_endpoints := eps\<rparr>, w'))))"

definition pubkey_for :: "agent_registry \<Rightarrow> agent_role \<Rightarrow> string res" where
  "pubkey_for rg role =
     (if \<not> rg_bootstrapped rg
      then Inl (PyExc RuntimeError ''AgentRegistry has not been bootstrapped. Call await registry.bootstrap() first.'')
      else case map_of (rg_endpoints rg) role of
        None \<Rightarrow> Inl (PyExc KeyError ''Unknown agent role'')
      | Some ep \<Rightarrow> if ep_public_key ep = [] then Inl (PyExc RuntimeError ''has no public key'') else Inr (ep_public_key ep))"

definition api_url_for :: "agent_registry \<Rightarrow> agent_role \<Rightarrow> string res" where
  "api_url_for rg role =
     (case map_of (rg_endpoints rg) role of
        None \<Rightarrow> Inl (PyExc KeyError ''Unknown agent role'') | Some ep \<Rightarrow> Inr (ep_api_url ep))"

definition all_roles :: "agent_registry \<Rightarrow> agent_role list" where
  "all_roles rg = map fst (rg_endpoints rg)"

subsection \<open>Bus\<close>

record 'w axl_bus =
  bus_registry :: "agent_registry option"
  bus_events :: "pydict list"
  bus_unavailable_logged :: bool
  bus_net :: 'w

definition AXL_EVENTS_MAX :: nat where
  "AXL_EVENTS_MAX = 50"

text \<open>
  The registry is created and queried once; a bootstrap that fails is tried again next time.
  The success log line reads the researcher's key, so a missing one disables the call as well.
\<close>

definition get_registry :: "('w, 'x) axl_env_scheme \<Rightarrow> ('w axl_bus, agent_registry option) sx" where
  "get_registry env b =
     (case bus_registry b of
        Some r \<Rightarrow> (Inr (Some r), b)
      | None \<Rightarrow>
          (case bootstrap env (new_registry None, bus_net b) of
             (Inl e, (rg, w)) \<Rightarrow> (Inr None, b\<lparr>bus_net := w\<rparr>)
           | (Inr _, (rg, w)) \<Rightarrow>
               (case pubkey_for rg RESEARCHER of
                  Inl e \<Rightarrow> (Inr None, b\<lparr>bus_registry := Some rg, bus_net := w\<rparr>)
                | Inr _ \<Rightarrow> (Inr (Some rg), b\<lparr>bus_registry := Some rg, bus_net := w\<rparr>))))"

text \<open>\<^verbatim>\<open>_axl_events.append(evt); del _axl_events[:-50]\<close>\<close>

definition push_event :: "pydict \<Rightarrow> 'w axl_bus \<Rightarrow> 'w axl_bus" where
  "push_event evt b = b\<lparr>bus_events := py_from (- int AXL_EVENTS_MAX) (bus_events b @ [evt])\<rparr>"

definition event_of_send ::
  "string \<Rightarrow> agent_role \<Rightarrow> agent_role \<Rightarrow> message_type \<Rightarrow> swarm_message \<Rightarrow> string \<Rightarrow> pydict" where
  "event_of_send now sender receiver mt msg summary =
     [(''ts'', VStr now), (''from'', VStr (role_value sender)), (''to'', VStr (role_value receiver)),
      (''message_type'', VStr (message_type_value mt)), (''message_id'', VStr (message_id msg)),
      (''summary'', VStr summary)]"

text \<open>The one-line text for the dashboard; \<open>show\<close> is the text of floats and containers.\<close>

definition summarise :: "(pyval \<Rightarrow> string) \<Rightarrow> pydict \<Rightarrow> message_type \<Rightarrow> string res" where
  "summarise show pl mt =
     (case mt of
        MT_MARKET_SIGNAL \<Rightarrow>
          res_bind (py_float (dget pl ''price_usd'' (VInt 0))) (\<lambda>price.
          Inr (py_str show (py_or (dget pl ''token_in_sym'' VNone) (VStr ''?'')) @ '' '' @ ARROW @ '' '' @
               py_str show (py_or (dget pl ''token_out_sym'' VNone) (VStr ''?'')) @ '' @ $'' @ fmt_2f_comma price @
               '' '' @ DOT @ '' '' @ py_str show (dget pl ''signal'' (VStr ''?''))))
      | MT_TRADE_DECISION \<Rightarrow>
          Inr (map char_upper (action_text show (dget pl ''action'' (VStr ''?''))) @ '' '' @ DOT @ '' risk '' @
               py_str show (dget pl ''risk_score'' VNone))
      | MT_EXECUTION_RESULT \<Rightarrow>
          Inr (if truthy (dget pl ''tx_hash'' VNone)
               then ''settled '' @ DOT @ '' tx '' @ take 10 (py_str show (dget pl ''tx_hash'' VNone)) @ ELLIPSIS
               else ''submitted '' @ DOT @ '' '' @ py_str show (dget pl ''status'' (VStr ''?'')))
      | _ \<Rightarrow> Inr (message_type_value mt))"

text \<open>Building the message and its summary are outside the handlers of \<^verbatim>\<open>_send\<close> and may raise.\<close>

definition bus_send ::
  "('w, 'x) axl_env_scheme \<Rightarrow> (pyval \<Rightarrow> string) \<Rightarrow> string \<Rightarrow> string \<Rightarrow> string \<Rightarrow> agent_role \<Rightarrow>
   agent_role \<Rightarrow> message_type \<Rightarrow> pydict \<Rightarrow> ('w axl_bus, pydict option) sx" where
  "bus_send env show mid now now2 sender receiver mt pl =
     sx_bind (get_registry env) (\<lambda>rg_opt.
       case rg_opt of
         None \<Rightarrow> sx_return None
       | Some rg \<Rightarrow>
           (case (api_url_for rg sender, pubkey_for rg sender, pubkey_for rg receiver) of
              (Inr url, Inr spk, Inr dest) \<Rightarrow>
                sx_bind (sx_lift (make_message mid now mt sender spk pl)) (\<lambda>msg b.
                  case axl_send env url dest msg (bus_net b) of
                    (Inl e, w) \<Rightarrow> (Inr None, b\<lparr>bus_net := w, bus_unavailable_logged := True\<rparr>)
                  | (Inr _, w) \<Rightarrow>
                      (case summarise show pl mt of
                         Inl e \<Rightarrow> (Inl e, b\<lparr>bus_net := w\<rparr>)
                       | Inr txt \<Rightarrow>
                           (let evt = event_of_send now2 sender receiver mt msg txt
                            in (Inr (Some evt), push_event evt (b\<lparr>bus_net := w\<rparr>)))))
            | _ \<Rightarrow> sx_return None))"

definition announce_market_signal ::
  "('w, 'x) axl_env_scheme \<Rightarrow> (pyval \<Rightarrow> string) \<Rightarrow> string \<Rightarrow> string \<Rightarrow> string \<Rightarrow> pydict \<Rightarrow>
   ('w axl_bus, pydict option) sx" where
  "announce_market_signal env show mid now now2 = bus_send env show mid now now2 RESEARCHER RISK MT_MARKET_SIGNAL"

definition announce_trade_decision ::
  "('w, 'x) axl_env_scheme \<Rightarrow> (pyval \<Rightarrow> string) \<Rightarrow> string \<Rightarrow> string \<Rightarrow> string \<Rightarrow> pydict \<Rightarrow>
   ('w axl_bus, pydict option) sx" where
  "announce_trade_decision env show mid now now2 = bus_send env show mid now now2 RISK EXECUTOR MT_TRADE_DECISION"

definition announce_execution_result ::
  "('w, 'x) axl_env_scheme \<Rightarrow> (pyval \<Rightarrow> string) \<Rightarrow> string \<Rightarrow> string \<Rightarrow> string \<Rightarrow> pydict \<Rightarrow>
   ('w axl_bus, pydict option) sx" where
  "announce_execution_result env show mid now now2 =
     bus_send env show mid now now2 EXECUTOR RESEARCHER MT_EXECUTION_RESULT"

definition recent_events :: "int \<Rightarrow> 'w axl_bus \<Rightarrow> pydict list" where
  "recent_events limit b = py_from (- limit) (bus_events b)"

subsection \<open>Event history\<close>

text \<open>
  The events list as a function of everything ever pushed: pushing keeps the last 50 of it.
\<close>

lemma events_snoc:
  "py_from (- int AXL_EVENTS_MAX) (py_from (- int AXL_EVENTS_MAX) xs @ [x]) = py_from (- int AXL_EVENTS_MAX) (xs @ [x])"
  by (rule py_from_snoc) (simp add: AXL_EVENTS_MAX_def)

lemma get_registry_events:
  "get_registry env b = (r, b') \<Longrightarrow> bus_events b' = bus_events b"
  by (auto simp: get_registry_def split: option.splits prod.splits sum.splits)

lemma bus_send_events:
  assumes "bus_send env show mid now now2 sender receiver mt pl b = (r, b')"
  shows "bus_events b' = (case r of
      Inr (Some evt) \<Rightarrow> py_from (- int AXL_EVENTS_MAX) (bus_events b @ [evt])
    | _ \<Rightarrow> bus_events b)"
proof -
  obtain x b1 where x: "get_registry env b = (x, b1)" by (rule prod.exhaust)
  note e1 = get_registry_events [OF x]
  show ?thesis
  proof (cases x)
    case (Inl e)
    with x e1 assms show ?thesis by (auto simp: bus_send_def)
  next
    case (Inr rg_opt)
    with x e1 assms show ?thesis
      by (auto simp: bus_send_def sx_return_def sx_bind_def sx_lift_def push_event_def Let_def
          split: option.splits sum.splits prod.splits)
  qed
qed

text \<open>A series of sends, with the events they report (none for a send that failed or raised).\<close>

type_synonym send_args = "string \<times> string \<times> string \<times> agent_role \<times> agent_role \<times> message_type \<times> pydict"

fun run_sends ::
  "('w, 'x) axl_env_scheme \<Rightarrow> (pyval \<Rightarrow> string) \<Rightarrow> send_args list \<Rightarrow> 'w axl_bus \<Rightarrow> pydict list \<times> 'w axl_bus" where
  "run_sends env show [] b = ([], b)"
| "run_sends env show ((mid, now, now2, sd, rc, mt, pl) # as) b =
     (case bus_send env show mid now now2 sd rc mt pl b of
        (r, b1) \<Rightarrow> (case run_sends env show as b1 of
           (evs, b2) \<Rightarrow> ((case r of Inr (Some e) \<Rightarrow> e # evs | _ \<Rightarrow> evs), b2)))"

lemma run_sends_events:
  assumes "bus_events b = py_from (- int AXL_EVENTS_MAX) sofar" and "run_sends env show as b = (evs, b')"
  shows "bus_events b' = py_from (- int AXL_EVENTS_MAX) (sofar @ evs)"
  using assms
proof (induction as arbitrary: b sofar evs b')
  case Nil
  then show ?case by simp
next
  case (Cons a as)
  obtain mid now now2 sd rc mt pl where a: "a = (mid, now, now2, sd, rc, mt, pl)" by (cases a)
  obtain r b1 where r: "bus_send env show mid now now2 sd rc mt pl b = (r, b1)" by (rule prod.exhaust)
  obtain evs1 b2 where s: "run_sends env show as b1 = (evs1, b2)" by (rule prod.exhaust)
  from Cons.prems a r s have ev: "evs = (case r of Inr (Some e) \<Rightarrow> e # evs1 | _ \<Rightarrow> evs1)" "b' = b2" by auto
  note e1 = bus_send_events [OF r]
  show ?case
  proof (cases "\<exists>e. r = Inr (Some e)")
    case True
    then obtain e where re: "r = Inr (Some e)" ..
    have "bus_events b1 = py_from (- int AXL_EVENTS_MAX) (sofar @ [e])"
      using e1 re Cons.prems(1) by (simp add: events_snoc)
    from Cons.IH [OF this s] ev re show ?thesis by simp
  next
    case False
    with e1 have "bus_events b1 = py_from (- int AXL_EVENTS_MAX) sofar"
      using Cons.prems(1) by (auto split: sum.splits option.splits)
    from Cons.IH [OF this s] False ev show ?thesis by (auto split: sum.splits option.splits)
  qed
qed

subsection \<open>Start-up\<close>

lemma fetch_keys_ok:
  assumes "fetch_keys env eps w = (None, eps', w')"
  shows "list_all2 (\<lambda>(r, ep) (r', ep'). r' = r \<and> ep_api_url ep' = ep_api_url ep \<and>
      (\<exists>w1 w2 info. axl_topology env (ep_api_url ep) w1 = (Inr info, w2) \<and> ep_public_key ep' = ni_public_key info))
    eps eps'"
  using assms
proof (induction env eps w arbitrary: eps' rule: fetch_keys.induct)
  case (1 env w)
  then show ?case by simp
next
  case (2 env r ep eps w)
  obtain x w1 where x: "axl_topology env (ep_api_url ep) w = (x, w1)" by (rule prod.exhaust)
  obtain err eps1 w2 where f: "fetch_keys env eps w1 = (err, eps1, w2)" by (metis prod.exhaust)
  from "2.prems" x f obtain info where info: "x = Inr info" "err = None"
    and eps': "eps' = (r, ep\<lparr>ep_public_key := ni_public_key info\<rparr>) # eps1" "w2 = w'"
    by (cases x) auto
  have "list_all2 (\<lambda>(r, ep) (r', ep'). r' = r \<and> ep_api_url ep' = ep_api_url ep \<and>
      (\<exists>w1 w2 info. axl_topology env (ep_api_url ep) w1 = (Inr info, w2) \<and> ep_public_key ep' = ni_public_key info))
    eps eps1"
    using "2.IH"(2) [OF x [symmetric] info(1)] f info eps' by simp
  then show ?case using eps' x info by auto
qed

lemma fetch_keys_roles: "fetch_keys env eps w = (err, eps', w') \<Longrightarrow> map fst eps' = map fst eps"
  by (induction env eps w arbitrary: err eps' w' rule: fetch_keys.induct)
    (auto split: prod.splits sum.splits)

subsection \<open>Properties\<close>

text \<open>
  C36. The bus remembers the last 50 successful sends: starting from an empty list, after any
  series of sends, successful, failed or raising, the kept events are exactly the last 50 of
  those reported, in order, and \<^verbatim>\<open>recent_events(limit)\<close> gives the last \<open>limit\<close> of them.
\<close>

theorem bus_keeps_last_events:
  assumes "bus_events b = []" and "0 < limit" and "limit \<le> 50"
  shows "case run_sends env show as b of (evs, b') \<Rightarrow>
    bus_events b' = drop (length evs - 50) evs \<and> recent_events (int limit) b' = drop (length evs - limit) evs"
proof -
  obtain evs b' where r: "run_sends env show as b = (evs, b')" by (rule prod.exhaust)
  have "bus_events b = py_from (- int AXL_EVENTS_MAX) []" using assms(1) by (simp add: py_from_def)
  from run_sends_events [OF this r] have e: "bus_events b' = drop (length evs - 50) evs"
    using py_from_neg [of 50 evs] by (simp add: AXL_EVENTS_MAX_def)
  moreover have "recent_events (int limit) b' = drop (length evs - limit) evs"
  proof -
    have "length evs - (length evs - 50 + limit) + (length evs - 50) = length evs - limit \<or> length evs \<le> limit"
      using assms(2,3) by linarith
    then show ?thesis using assms(2,3) by (auto simp: recent_events_def e py_from_neg)
  qed
  ultimately show ?thesis using r by simp
qed

definition sample_axl_env :: "unit axl_env" where
  "sample_axl_env = \<lparr>axl_request = (\<lambda>_ _ _ _. sx_raise (PyExc ConnectError ''down'')),
     axl_raise_for_status = (\<lambda>_. Inr ()), axl_tenacity = retry_spec, dump_message = (\<lambda>_. []),
     load_message = (\<lambda>_. Inl (PyExc ValueError []))\<rparr>"

theorem bus_keeps_last_events_witness:
  "case run_sends sample_axl_env (\<lambda>_. [])
       [(''id'', ''t'', ''t'', RISK, EXECUTOR, MT_TRADE_DECISION, [])]
       \<lparr>bus_registry = None, bus_events = [], bus_unavailable_logged = False, bus_net = ()\<rparr> of
     (evs, b') \<Rightarrow> bus_events b' = drop (length evs - 50) evs \<and> recent_events (int 5) b' = drop (length evs - 5) evs"
  by (rule bus_keeps_last_events) simp_all

text \<open>
  Start-up discovers the peers or none can be addressed: after a successful bootstrap every
  configured role is still registered in its place, with the public key its own node reported;
  if any node failed, the failure is raised and no key lookup succeeds.
\<close>

theorem bootstrap_discovers:
  assumes "\<not> rg_bootstrapped rg"
  shows "case bootstrap env (rg, w) of
      (Inl e, (rg', w')) \<Rightarrow> \<forall>role. \<exists>e'. pubkey_for rg' role = Inl e'
    | (Inr _, (rg', w')) \<Rightarrow> all_roles rg' = all_roles rg \<and>
        list_all2 (\<lambda>(r, ep) (r', ep'). r' = r \<and> ep_api_url ep' = ep_api_url ep \<and>
          (\<exists>w1 w2 info. axl_topology env (ep_api_url ep) w1 = (Inr info, w2) \<and> ep_public_key ep' = ni_public_key info))
        (rg_endpoints rg) (rg_endpoints rg') \<and>
        (\<forall>role. pubkey_for rg' role = (case map_of (rg_endpoints rg') role of
             None \<Rightarrow> Inl (PyExc KeyError ''Unknown agent role'')
           | Some ep \<Rightarrow> if ep_public_key ep = [] then Inl (PyExc RuntimeError ''has no public key'') else Inr (ep_public_key ep)))"
proof -
  obtain err eps w' where f: "fetch_keys env (rg_endpoints rg) w = (err, eps, w')" by (metis prod.exhaust)
  show ?thesis
  proof (cases err)
    case None
    with f fetch_keys_ok [of env "rg_endpoints rg" w eps w'] fetch_keys_roles [OF f] show ?thesis
      by (simp add: bootstrap_def all_roles_def pubkey_for_def)
  next
    case (Some e)
    with f assms show ?thesis by (simp add: bootstrap_def pubkey_for_def)
  qed
qed

theorem bootstrap_discovers_witness:
  "case bootstrap sample_axl_env (new_registry None, ()) of
      (Inl e, (rg', w')) \<Rightarrow> \<forall>role. \<exists>e'. pubkey_for rg' role = Inl e' | (Inr _, _) \<Rightarrow> True"
  using bootstrap_discovers [of "new_registry None" sample_axl_env "()"]
  by (auto simp: new_registry_def split: prod.splits sum.splits)

end
