(* ===== verification/Agents.thy ===== *)
theory Agents
  imports Agent_Memory KH_Executor Risk_Scorer Axl
begin

text \<open>
  The agents (\<^verbatim>\<open>agents/base.py\<close>, \<^verbatim>\<open>executor.py\<close>, \<^verbatim>\<open>risk.py\<close>,
  \<^verbatim>\<open>researcher.py\<close>): life cycle, message dispatch and the message handlers, composed
  from the components they call. An agent acts on \<open>asys\<close>: its own fields, the API clients, the
  network and the storage it may share with others.
\<close>

subsection \<open>State\<close>

record ('n, 'w) asys =
  sy_x :: "('n, 'w) xstate"
  sy_kvs :: "swarm_kv list"
  sy_compute :: compute_backend
  ag_pubkey :: string
  ag_running :: bool
  ag_memory :: "agent_memory option"

record agent_conf =
  ac_role :: agent_role
  ac_api_url :: string
  ac_registry :: agent_registry
  ac_has_zg :: bool
  ac_wallet :: string

record ('n, 'w) swarm_env =
  e_axl :: "'w axl_env"
  e_uni :: "'w uni_env"
  e_risk :: "'w risk_env"
  e_st :: "'n st_env"
  e_getenv :: "string \<Rightarrow> string option"
  e_parse_decision :: "pydict \<Rightarrow> trade_decision res"
  e_nan :: bool

text \<open>Clock readings and fresh identifiers: \<open>ai_ts i\<close> and \<open>ai_eid i\<close> are those of the \<open>i\<close>-th storage operation.\<close>

record agent_inputs =
  ai_ts :: "nat \<Rightarrow> nat \<Rightarrow> string"
  ai_eid :: "nat \<Rightarrow> string"
  ai_mid :: string
  ai_now :: string
  ai_latency :: "pyfloat option"
  ai_ri :: run_inputs

definition on_heap :: "('n mem_heap, 'a) sx \<Rightarrow> (('n, 'w) asys, 'a) sx" where
  [sx_simps]: "on_heap m = sx_zoom (\<lambda>s. \<lparr>mh_kvs = sy_kvs s, mh_zg = x_zg (sy_x s)\<rparr>)
     (\<lambda>h s. s\<lparr>sy_kvs := mh_kvs h, sy_x := (sy_x s)\<lparr>x_zg := mh_zg h\<rparr>\<rparr>) m"

definition on_x :: "(('n, 'w) xstate, 'a) sx \<Rightarrow> (('n, 'w) asys, 'a) sx" where
  [sx_simps]: "on_x m = sx_zoom sy_x (\<lambda>x s. s\<lparr>sy_x := x\<rparr>) m"

definition on_axl :: "('w, 'a) sx \<Rightarrow> (('n, 'w) asys, 'a) sx" where
  [sx_simps]: "on_axl m = sx_zoom (\<lambda>s. x_net (sy_x s)) (\<lambda>w s. s\<lparr>sy_x := (sy_x s)\<lparr>x_net := w\<rparr>\<rparr>) m"

definition on_compute :: "('w compute, 'a) sx \<Rightarrow> (('n, 'w) asys, 'a) sx" where
  [sx_simps]: "on_compute m = sx_zoom (\<lambda>s. (sy_compute s, x_net (sy_x s)))
     (\<lambda>(c, w) s. s\<lparr>sy_compute := c, sy_x := (sy_x s)\<lparr>x_net := w\<rparr>\<rparr>) m"

definition with_memory :: "(agent_memory \<Rightarrow> ('n mem_heap, unit) sx) \<Rightarrow> (('n, 'w) asys, unit) sx" where
  "with_memory f s = (case ag_memory s of None \<Rightarrow> (Inr (), s) | Some m \<Rightarrow> on_heap (f m) s)"

definition save_status ::
  "('n, 'w) swarm_env \<Rightarrow> agent_inputs \<Rightarrow> nat \<Rightarrow> status_args \<Rightarrow> (('n, 'w) asys, unit) sx" where
  "save_status env ai i a = with_memory (\<lambda>m. mem_update_status (e_st env) (ai_ts ai i) m a)"

definition save_event ::
  "('n, 'w) swarm_env \<Rightarrow> agent_inputs \<Rightarrow> nat \<Rightarrow> log_event_type \<Rightarrow> pydict \<Rightarrow> (('n, 'w) asys, unit) sx" where
  "save_event env ai i ev data =
     with_memory (\<lambda>m. sx_bind (mem_log_event (e_st env) (ai_ts ai i) (ai_eid ai i) m ev data) (\<lambda>_. sx_return ()))"

subsection \<open>Base agent\<close>

definition own_pubkey :: "(('n, 'w) asys, string) sx" where
  "own_pubkey s =
     (if ag_pubkey s = [] then (Inl (PyExc RuntimeError ''Agent not started''), s) else (Inr (ag_pubkey s), s))"

definition agent_start :: "('n, 'w) swarm_env \<Rightarrow> agent_conf \<Rightarrow> agent_inputs \<Rightarrow> (('n, 'w) asys, unit) sx" where
  "agent_start env ac ai =
     sx_bind (on_axl (axl_topology (e_axl env) (ac_api_url ac))) (\<lambda>info.
     sx_bind (sx_modify (\<lambda>s. s\<lparr>ag_pubkey := ni_public_key info, ag_running := True\<rparr>)) (\<lambda>_.
       if ac_has_zg ac then
         sx_bind (sx_modify (\<lambda>s.
            case make_agent_memory (role_value (ac_role ac)) \<lparr>mh_kvs = sy_kvs s, mh_zg = x_zg (sy_x s)\<rparr> of
              (m, h) \<Rightarrow> s\<lparr>ag_memory := Some m, sy_kvs := mh_kvs h\<rparr>)) (\<lambda>_.
         sx_bind (save_status env ai 0 (status_only AS_IDLE)) (\<lambda>_.
         save_event env ai 1 LE_AGENT_STARTED
           [(''pubkey'', VStr (take 16 (ni_public_key info) @ ELLIPSIS))]))
       else sx_return ()))"

definition agent_stop :: "('n, 'w) swarm_env \<Rightarrow> agent_inputs \<Rightarrow> (('n, 'w) asys, unit) sx" where
  "agent_stop env ai =
     sx_bind (sx_modify (ag_running_update (\<lambda>_. False))) (\<lambda>_.
     sx_try (sx_bind (save_status env ai 0 (status_only AS_IDLE)) (\<lambda>_. save_event env ai 1 LE_AGENT_STOPPED []))
       (\<lambda>e. sx_return ()))"

definition agent_send ::
  "('n, 'w) swarm_env \<Rightarrow> agent_conf \<Rightarrow> agent_role \<Rightarrow> swarm_message \<Rightarrow> (('n, 'w) asys, unit) sx" where
  "agent_send env ac dest msg =
     sx_bind (sx_lift (pubkey_for (ac_registry ac) dest)) (\<lambda>pk.
     on_axl (axl_send (e_axl env) (ac_api_url ac) pk msg))"

definition handle_ping ::
  "('n, 'w) swarm_env \<Rightarrow> agent_conf \<Rightarrow> agent_inputs \<Rightarrow> received_message \<Rightarrow> (('n, 'w) asys, unit) sx" where
  "handle_ping env ac ai r =
     sx_bind own_pubkey (\<lambda>pk.
     sx_bind (sx_lift (make_pong (ai_mid ai) (ai_now ai) (rm_message r) (ac_role ac) pk (ai_latency ai))) (\<lambda>pong.
     on_axl (axl_send (e_axl env) (ac_api_url ac) (rm_from_pubkey r) pong)))"

text \<open>A handler's exception is logged and dropped; that of a ping is not.\<close>

definition route ::
  "('n, 'w) swarm_env \<Rightarrow> agent_conf \<Rightarrow> agent_inputs \<Rightarrow> (received_message \<Rightarrow> (('n, 'w) asys, unit) sx) \<Rightarrow>
   received_message \<Rightarrow> (('n, 'w) asys, unit) sx" where
  "route env ac ai on_message r =
     (if message_type (rm_message r) = MT_PING then handle_ping env ac ai r
      else sx_try (on_message r) (\<lambda>e. sx_return ()))"

text \<open>\<open>n\<close> rounds of the dispatch loop; an exception ends it.\<close>

fun dispatch_loop ::
  "('n, 'w) swarm_env \<Rightarrow> agent_conf \<Rightarrow> (nat \<Rightarrow> agent_inputs) \<Rightarrow>
   (agent_inputs \<Rightarrow> received_message \<Rightarrow> (('n, 'w) asys, unit) sx) \<Rightarrow> nat \<Rightarrow> (('n, 'w) asys, unit) sx" where
  "dispatch_loop env ac ins on_message 0 = sx_return ()"
| "dispatch_loop env ac ins on_message (Suc n) =
     sx_bind (on_axl (axl_recv (e_axl env) (ac_api_url ac))) (\<lambda>received.
       case received of
         None \<Rightarrow> dispatch_loop env ac ins on_message n
       | Some r \<Rightarrow>
           sx_bind sx_get (\<lambda>s.
             if \<not> ag_running s then sx_return ()
             else sx_bind (route env ac (ins n) (on_message (ins n)) r) (\<lambda>_.
                  dispatch_loop env ac ins on_message n)))"

subsection \<open>Researcher\<close>

fun ping_roles ::
  "('n, 'w) swarm_env \<Rightarrow> agent_conf \<Rightarrow> (agent_role \<Rightarrow> string \<times> string \<times> string) \<Rightarrow> agent_role list \<Rightarrow>
   (('n, 'w) asys, unit) sx" where
  "ping_roles env ac fresh [] = sx_return ()"
| "ping_roles env ac fresh (r # rs) =
     (if r = ac_role ac then ping_roles env ac fresh rs
      else case fresh r of (nonce, mid, now) \<Rightarrow>
        sx_bind own_pubkey (\<lambda>pk.
        sx_bind (sx_lift (make_ping nonce mid now (ac_role ac) pk)) (\<lambda>msg.
        sx_bind (agent_send env ac r msg) (\<lambda>_.
        ping_roles env ac fresh rs))))"

definition ping_swarm ::
  "('n, 'w) swarm_env \<Rightarrow> agent_conf \<Rightarrow> (agent_role \<Rightarrow> string \<times> string \<times> string) \<Rightarrow> (('n, 'w) asys, unit) sx" where
  "ping_swarm env ac fresh = ping_roles env ac fresh (all_roles (ac_registry ac))"

text \<open>The researcher only logs; slicing a nonce that is no string raises.\<close>

definition researcher_on_message :: "received_message \<Rightarrow> (('n, 'w) asys, unit) sx" where
  "researcher_on_message r =
     (if message_type (rm_message r) = MT_PONG
      then (case dget (payload (rm_message r)) ''nonce'' (VStr []) of
              VStr _ \<Rightarrow> sx_return ()
            | VList _ \<Rightarrow> sx_return ()
            | VDict _ \<Rightarrow> sx_raise (PyExc KeyError ''slice'')
            | _ \<Rightarrow> sx_raise (PyExc TypeError ''object is not subscriptable''))
      else sx_return ())"

subsection \<open>Risk agent\<close>

text \<open>\<^verbatim>\<open>payload.get("risk_score")\<close> of a decision message, as the status update takes it.\<close>

definition payload_risk :: "pydict \<Rightarrow> pyfloat option" where
  "payload_risk pl = (case dget pl ''risk_score'' VNone of VFloat f \<Rightarrow> Some f | _ \<Rightarrow> None)"

definition handle_signal ::
  "('n, 'w) swarm_env \<Rightarrow> agent_conf \<Rightarrow> agent_inputs \<Rightarrow> pydict \<Rightarrow> (('n, 'w) asys, unit) sx" where
  "handle_signal env ac ai signal =
     sx_bind (save_status env ai 0 ((status_only AS_DECIDING)\<lparr>sa_last_signal := signal\<rparr>)) (\<lambda>_.
     sx_bind own_pubkey (\<lambda>pk.
     sx_bind (on_compute (score (e_risk env) (ai_mid ai) (ai_now ai) signal pk)) (\<lambda>msg.
     sx_bind (save_event env ai 1 LE_RISK_DECISION (payload msg)) (\<lambda>_.
     sx_bind (save_status env ai 2 ((status_only AS_IDLE)\<lparr>sa_last_risk_score := payload_risk (payload msg)\<rparr>)) (\<lambda>_.
     agent_send env ac EXECUTOR msg)))))"

definition risk_on_message ::
  "('n, 'w) swarm_env \<Rightarrow> agent_conf \<Rightarrow> agent_inputs \<Rightarrow> received_message \<Rightarrow> (('n, 'w) asys, unit) sx" where
  "risk_on_message env ac ai r =
     (if message_type (rm_message r) = MT_MARKET_SIGNAL then handle_signal env ac ai (payload (rm_message r))
      else sx_return ())"

subsection \<open>Executor agent\<close>

definition agent_kx :: "agent_conf \<Rightarrow> kh_executor" where
  "agent_kx ac = \<lparr>kx_wallet = ac_wallet ac, kx_has_zg = ac_has_zg ac\<rparr>"

definition send_result ::
  "('n, 'w) swarm_env \<Rightarrow> agent_conf \<Rightarrow> agent_inputs \<Rightarrow> bool \<Rightarrow> string option \<Rightarrow> string option \<Rightarrow>
   (('n, 'w) asys, unit) sx" where
  "send_result env ac ai success txh err =
     sx_bind (sx_lift (result_must_have_detail
        \<lparr>er_success = success, er_tx_hash = (if success then txh else None),
         er_error = (if success then None else err), er_gas_used = None, er_block_number = None\<rparr>)) (\<lambda>p.
     sx_bind own_pubkey (\<lambda>pk.
     sx_bind (sx_lift (make_message (ai_mid ai) (ai_now ai) MT_EXECUTION_RESULT EXECUTOR pk (execution_result_dump p))) (\<lambda>msg.
     sx_try (agent_send env ac RESEARCHER msg) (\<lambda>e. sx_return ()))))"

definition read_decision :: "('n, 'w) swarm_env \<Rightarrow> pydict \<Rightarrow> trade_decision res" where
  "read_decision env pl = res_bind (e_parse_decision env pl) (validate_trade_decision (e_nan env))"

definition handle_hold ::
  "('n, 'w) swarm_env \<Rightarrow> agent_conf \<Rightarrow> agent_inputs \<Rightarrow> trade_decision \<Rightarrow> (('n, 'w) asys, unit) sx" where
  "handle_hold env ac ai d =
     sx_bind (save_status env ai 0 (status_only AS_IDLE)) (\<lambda>_.
     sx_bind (save_event env ai 1 LE_TRADE_FAILED
        [(''action'', VStr ''HOLD''), (''reason'', opt_str (td_rejection_reason d)),
         (''risk_score'', VFloat (td_risk_score d))]) (\<lambda>_.
     send_result env ac ai False None
       (Some (''HOLD: '' @ (case td_rejection_reason d of Some r \<Rightarrow> r | None \<Rightarrow> ''None'')))))"

definition record_result ::
  "('n, 'w) swarm_env \<Rightarrow> agent_inputs \<Rightarrow> swap_result \<Rightarrow> (('n, 'w) asys, unit) sx" where
  "record_result env ai r =
     (if sw_succeeded r
      then sx_bind (save_status env ai 1 ((status_only AS_IDLE)\<lparr>sa_last_tx_hash := sw_tx_hash r\<rparr>)) (\<lambda>_.
           save_event env ai 2 LE_TRADE_EXECUTED (swap_log_data r))
      else sx_bind (save_status env ai 1 ((status_only AS_ERROR)\<lparr>sa_error_message := sw_error r\<rparr>)) (\<lambda>_.
           save_event env ai 2 LE_TRADE_FAILED (swap_log_data r)))"

definition handle_trade_decision ::
  "('n, 'w) swarm_env \<Rightarrow> agent_conf \<Rightarrow> agent_inputs \<Rightarrow> swarm_message \<Rightarrow> (('n, 'w) asys, unit) sx" where
  "handle_trade_decision env ac ai msg =
     (case read_decision env (payload msg) of
        Inl e \<Rightarrow> sx_return ()
      | Inr d \<Rightarrow>
          if td_action d = HOLD then handle_hold env ac ai d
          else
            sx_bind (save_status env ai 0 (status_only AS_EXECUTING)) (\<lambda>_.
            sx_bind (on_x (kh_execute_swap (e_uni env) (e_st env) (e_getenv env) (agent_kx ac) (ai_ri ai)
                (td_token_in d) (td_token_out d) (str_int (td_amount_in_wei d)) (td_chain_id d) (Fin (1 / 2))
                (Some (ac_wallet ac)))) (\<lambda>r.
            sx_bind (record_result env ai r) (\<lambda>_.
            send_result env ac ai (sw_status r \<in> {SW_CONFIRMED, SW_SUBMITTED}) (sw_tx_hash r) (sw_error r)))))"

definition executor_on_message ::
  "('n, 'w) swarm_env \<Rightarrow> agent_conf \<Rightarrow> agent_inputs \<Rightarrow> received_message \<Rightarrow> (('n, 'w) asys, unit) sx" where
  "executor_on_message env ac ai r =
     (if message_type (rm_message r) = MT_TRADE_DECISION then handle_trade_decision env ac ai (rm_message r)
      else sx_return ())"

subsection \<open>What the steps leave alone\<close>

text \<open>The API clients: the part of the state a trade would use.\<close>

definition api_clients :: "('n, 'w) asys \<Rightarrow> uni_backend \<times> kh_backend" where
  "api_clients s = (x_uni (sy_x s), x_kh (sy_x s))"

abbreviation keeps_clients :: "(('n, 'w) asys, 'a) sx \<Rightarrow> bool" where
  "keeps_clients \<equiv> keeps api_clients"

lemma keeps_clients_basic [intro]:
  "keeps_clients (on_heap h)" "keeps_clients (on_axl a)" "keeps_clients own_pubkey"
  by (auto simp: keeps_def own_pubkey_def api_clients_def on_heap_def on_axl_def sx_zoom_def split: prod.splits)

lemma keeps_clients_memory [intro]: "keeps_clients (with_memory f)"
  using keeps_clients_basic(1) by (auto simp: keeps_def with_memory_def api_clients_def split: option.split)

lemma keeps_clients_save [intro]: "keeps_clients (save_status env ai i a)" "keeps_clients (save_event env ai i ev d)"
  by (auto simp: save_status_def save_event_def)

lemma keeps_clients_send [intro]: "keeps_clients (agent_send env ac dest msg)"
  unfolding agent_send_def by (intro keeps_bind keeps_basic keeps_clients_basic)

lemma keeps_clients_result [intro]: "keeps_clients (send_result env ac ai ok h e)"
  unfolding send_result_def by (intro keeps_bind keeps_try keeps_basic keeps_clients_basic keeps_clients_send)

lemma keeps_clients_hold: "keeps_clients (handle_hold env ac ai d)"
  unfolding handle_hold_def by (intro keeps_bind keeps_clients_save keeps_clients_result)

text \<open>The steps around a trade do not look at the trading services.\<close>

lemma uni_irrelevant [simp]:
  "save_status (env\<lparr>e_uni := u\<rparr>) = save_status env" "save_event (env\<lparr>e_uni := u\<rparr>) = save_event env"
  "agent_send (env\<lparr>e_uni := u\<rparr>) = agent_send env" "read_decision (env\<lparr>e_uni := u\<rparr>) = read_decision env"
  by (simp_all add: fun_eq_iff save_status_def save_event_def agent_send_def read_decision_def)

lemma send_result_irrelevant [simp]: "send_result (env\<lparr>e_uni := u\<rparr>) = send_result env"
  by (simp add: fun_eq_iff send_result_def)

lemma handle_hold_irrelevant [simp]: "handle_hold (env\<lparr>e_uni := u\<rparr>) = handle_hold env"
  by (simp add: fun_eq_iff handle_hold_def)

lemma hold_no_trade:
  assumes "read_decision env (payload msg) = Inr d" and "td_action d = HOLD"
  shows "handle_trade_decision (env\<lparr>e_uni := u\<rparr>) ac ai msg = handle_trade_decision env ac ai msg"
    and "api_clients (snd (handle_trade_decision env ac ai msg s)) = api_clients s"
  using assms keeps_clients_hold [of env ac ai d]
  by (auto simp: handle_trade_decision_def keeps_def)

lemma route_returns:
  "message_type (rm_message r) \<noteq> MT_PING \<Longrightarrow> \<exists>s'. route env ac ai f r s = (Inr (), s')"
  using sx_try_never_raises [of "\<lambda>e. sx_return ()" "f r" s] by (auto simp: route_def sx_return_def)

lemma send_result_no_hash:
  assumes "\<not> str_truthy h"
  shows "send_result env ac ai True h e s =
    (Inl (PyExc ValidationError ''Successful execution must include tx_hash''), s)"
  using assms by (simp add: send_result_def result_must_have_detail_def)

subsection \<open>Worked instances\<close>

text \<open>A reader of dumped decisions, inverse to the dump.\<close>

definition decision_of_dump :: "pydict \<Rightarrow> trade_decision res" where
  "decision_of_dump pl =
     (case map snd pl of
        [VStr a, VStr ti, VStr to, VInt c, VInt w, VFloat r, VFloat f, reason] \<Rightarrow>
          (case action_of a of
             None \<Rightarrow> Inl (PyExc ValidationError ''action'')
           | Some act \<Rightarrow> Inr \<lparr>td_action = act, td_token_in = ti, td_token_out = to, td_chain_id = c,
               td_amount_in_wei = w, td_risk_score = r, td_confidence = f,
               td_rejection_reason = (case reason of VStr x \<Rightarrow> Some x | _ \<Rightarrow> None)\<rparr>)
      | _ \<Rightarrow> Inl (PyExc ValidationError ''fields''))"

lemma decision_of_dump: "decision_of_dump (trade_decision_dump d) = Inr d"
  by (simp add: decision_of_dump_def trade_decision_dump_def action_enum.parse_val opt_str_def split: option.split)

definition sample_swarm_env :: "(unit, unit) swarm_env" where
  "sample_swarm_env = \<lparr>e_axl = sample_axl_env, e_uni = quote_500_env, e_risk = sample_risk_env (Inr sample_reply),
     e_st = log_env, e_getenv = no_env, e_parse_decision = decision_of_dump, e_nan = False\<rparr>"

definition sample_asys :: "(unit, unit) asys" where
  "sample_asys = \<lparr>sy_x = sample_xstate\<lparr>x_uni := LiveUni ''key'' True\<rparr>, sy_kvs = [], sy_compute = MockCompute,
     ag_pubkey = sample_pk, ag_running = True, ag_memory = None\<rparr>"

definition sample_conf :: agent_conf where
  "sample_conf = \<lparr>ac_role = EXECUTOR, ac_api_url = ''u'', ac_registry = new_registry None, ac_has_zg = False,
     ac_wallet = ''0xw''\<rparr>"

definition sample_inputs :: agent_inputs where
  "sample_inputs = \<lparr>ai_ts = (\<lambda>_ _. ''t''), ai_eid = (\<lambda>_. ''id''), ai_mid = ''m'', ai_now = ''t'', ai_latency = None,
     ai_ri = sample_ri\<rparr>"

definition sample_decision :: "trade_action \<Rightarrow> trade_decision" where
  "sample_decision a = \<lparr>td_action = a, td_token_in = ''a'', td_token_out = ''b'', td_chain_id = 8453,
     td_amount_in_wei = 1, td_risk_score = Fin 3, td_confidence = Fin 1,
     td_rejection_reason = (if a = HOLD then Some ''why'' else None)\<rparr>"

definition sample_msg :: "trade_action \<Rightarrow> swarm_message" where
  "sample_msg a = \<lparr>message_id = ''m'', message_type = MT_TRADE_DECISION, sender_role = RISK,
     sender_pubkey = sample_pk, timestamp = ''t'', payload = trade_decision_dump (sample_decision a)\<rparr>"

lemma sample_read: "read_decision sample_swarm_env (payload (sample_msg a)) = Inr (sample_decision a)"
  by (simp add: read_decision_def sample_swarm_env_def sample_msg_def decision_of_dump validate_trade_decision_iff
      sample_decision_def str_truthy_def)

definition risky_reply :: pyval where
  "risky_reply = VDict [(''risk_score'', VFloat (Fin 9)), (''action'', VStr ''buy''), (''confidence'', VFloat (Fin 1))]"

lemma risky_score:
  fixes w :: 'w
  assumes "length pk = 64" and "str_to_int 16 pk = Some n"
  shows "\<exists>m. score (sample_risk_env (Inr risky_reply)) mid now [] pk (MockCompute, w) = (Inr m, (MockCompute, w)) \<and>
     dget (payload m) ''risk_score'' VNone = VFloat (Fin 9) \<and> dget (payload m) ''confidence'' VNone = VFloat (Fin 1)"
proof -
  let ?env = "sample_risk_env (Inr risky_reply) :: 'w risk_env"
  obtain p where p: "build_user_prompt ?env [] = Inr p" using sample_prompt by blast
  have i: "infer ?env p (MockCompute, w) = (Inr risky_reply, (MockCompute, w))"
    by (simp add: infer_def sample_ask)
  have b: "str_lower ''buy'' = ''buy''" by (simp add: str_lower_def char_lower_def)
  have "\<exists>d. decision_of (nan_valid ?env) [] risky_reply = Inr d \<and> td_risk_score d = Fin 9 \<and> td_confidence d = Fin 1"
    by (simp add: decision_of_def risky_reply_def dget_def b risk_gate_def RISK_THRESHOLD_def Let_def str_field_def py_or_def
        validate_trade_decision_def hold_needs_reason_def str_truthy_def sample_risk_env_def)
  then obtain d where d: "decision_of (nan_valid ?env) [] risky_reply = Inr d" "td_risk_score d = Fin 9" "td_confidence d = Fin 1" by blast
  obtain m where m: "make_message mid now MT_TRADE_DECISION RISK pk (trade_decision_dump d) = Inr m"
    and pl: "payload m = trade_decision_dump d"
    using make_message_total [OF assms] by fastforce
  with p i d show ?thesis by (simp add: score_def trade_decision_dump_def dget_def)
qed

lemma risky_sample:
  "\<exists>m. score (sample_risk_env (Inr risky_reply)) ''m'' ''t'' [] sample_pk (MockCompute, ()) = (Inr m, (MockCompute, ())) \<and>
     dget (payload m) ''risk_score'' VNone = VFloat (Fin 9)"
proof -
  obtain n where "str_to_int 16 sample_pk = Some n" using sample_pk_hex by blast
  moreover have "length sample_pk = 64" by (simp add: sample_pk_def)
  ultimately show ?thesis
    using risky_score [where mid = "''m''" and now = "''t''" and w = "()"] by blast
qed

subsection \<open>Properties\<close>

text \<open>
  A hold never trades: handling a decision whose action is hold does the same whatever the
  trading services would answer, and leaves both API clients as they were, also when storage or
  messaging raises on the way.
\<close>

theorem hold_never_trades:
  assumes "read_decision env (payload msg) = Inr d" and "td_action d = HOLD"
  shows "handle_trade_decision (env\<lparr>e_uni := u\<rparr>) ac ai msg s = handle_trade_decision env ac ai msg s \<and>
    api_clients (snd (handle_trade_decision env ac ai msg s)) = api_clients s"
  using hold_no_trade [OF assms] by simp

theorem hold_never_trades_witness:
  "read_decision sample_swarm_env (payload (sample_msg HOLD)) = Inr (sample_decision HOLD) \<and>
   api_clients (snd (handle_trade_decision sample_swarm_env sample_conf sample_inputs (sample_msg HOLD) sample_asys)) =
     api_clients sample_asys"
proof -
  have "td_action (sample_decision HOLD) = HOLD" by (simp add: sample_decision_def)
  from hold_never_trades [OF sample_read this] sample_read show ?thesis by blast
qed

text \<open>
  C1. The risk gate holds across agents: a message that the scorer produced with a risk score of
  7 or more makes no trade at the executor, whatever the model said and whatever the trading
  services would answer, provided reading back a dumped decision restores it.
\<close>

theorem high_risk_never_trades:
  assumes "score renv mid now signal pk cs = (Inr m, cs')"
    and "dget (payload m) ''risk_score'' VNone = VFloat (Fin q)" and "7 \<le> q"
    and "\<forall>d. e_parse_decision env (trade_decision_dump d) = Inr d" and "nan_valid renv = e_nan env"
  shows "handle_trade_decision (env\<lparr>e_uni := u\<rparr>) ac ai m s = handle_trade_decision env ac ai m s \<and>
    api_clients (snd (handle_trade_decision env ac ai m s)) = api_clients s"
proof -
  from assms(1) obtain p reply d where d: "decision_of (nan_valid renv) signal reply = Inr d"
    and m: "make_message mid now MT_TRADE_DECISION RISK pk (trade_decision_dump d) = Inr m"
    by (rule score_Inr)
  from d obtain result where reply: "reply = VDict result" using decision_of_dict by blast
  have pl: "payload m = trade_decision_dump d" using make_message_SomeD [OF m] by simp
  have ok: "decision_ok (nan_valid renv) d" using decision_of_Inr(1) [OF d [unfolded reply]] .
  have "td_risk_score d = Fin q" using assms(2) pl by (simp add: trade_decision_dump_def dget_def)
  with ok assms(3) have hold: "td_action d = HOLD" by (auto simp: decision_ok_def RISK_THRESHOLD_def split: if_splits)
  have "read_decision env (payload m) = Inr d"
    using ok assms(4,5) hold
    by (simp add: read_decision_def pl validate_trade_decision_iff decision_ok_def)
  from hold_no_trade [OF this hold] show ?thesis by simp
qed

theorem high_risk_never_trades_witness:
  "\<exists>m. score (sample_risk_env (Inr risky_reply)) ''m'' ''t'' [] sample_pk (MockCompute, ()) = (Inr m, (MockCompute, ())) \<and>
     api_clients (snd (handle_trade_decision sample_swarm_env sample_conf sample_inputs m sample_asys)) =
       api_clients sample_asys"
proof -
  obtain m where m: "score (sample_risk_env (Inr risky_reply)) ''m'' ''t'' [] sample_pk (MockCompute, ()) =
      (Inr m, (MockCompute, ()))" and r: "dget (payload m) ''risk_score'' VNone = VFloat (Fin 9)"
    using risky_sample by blast
  have "(7 :: rat) \<le> 9" and "\<forall>d. e_parse_decision sample_swarm_env (trade_decision_dump d) = Inr d"
    and "nan_valid (sample_risk_env (Inr risky_reply)) = e_nan sample_swarm_env"
    by (simp_all add: sample_swarm_env_def decision_of_dump sample_risk_env_def)
  from high_risk_never_trades [OF m r this] m show ?thesis by blast
qed

text \<open>What the writes to storage leave alone: the network and the API clients.\<close>

lemma with_memory_quiet: "keeps (\<lambda>s. (x_net (sy_x s), api_clients s)) (with_memory f)"
  by (auto simp: keeps_def api_clients_def with_memory_def on_heap_def sx_zoom_def split: option.split prod.split)

lemma record_quiet:
  assumes "record_result env ai r s = (y, s')"
  shows "x_net (sy_x s') = x_net (sy_x s)" and "api_clients s' = api_clients s"
proof -
  have "keeps (\<lambda>s. (x_net (sy_x s), api_clients s)) (record_result env ai r)"
    unfolding record_result_def save_status_def save_event_def by (auto intro!: keeps_bind with_memory_quiet)
  from keepsD [OF this assms] show "x_net (sy_x s') = x_net (sy_x s)" "api_clients s' = api_clients s" by simp_all
qed

text \<open>
  C37. A swap that the executor counts as submitted, without a transaction hash, is never announced:
  when the executing status was stored and the quote then fails with an HTTP 500 text, the handler
  raises, with the exception of storage if recording the result fails and otherwise while building the
  message that would carry the result. From the failed quote on nothing is sent: the network and the API clients
  stay as the quote left them, so the researcher is told nothing.
\<close>

theorem deferred_swap_unreported:
  assumes "read_decision env (payload msg) = Inr d" and "td_action d \<noteq> HOLD"
    and "save_status env ai 0 (status_only AS_EXECUTING) s = (Inr (), s1)"
    and "kh_get_quote (e_uni env) (td_token_in d) (td_token_out d) (str_int (td_amount_in_wei d)) (td_chain_id d)
      (Fin (1 / 2)) (swap_wallet (e_getenv env) (agent_kx ac) (Some (ac_wallet ac))) (sy_x s1) = (Inl e, x1)"
    and "str_contains ''500 Internal Server Error'' (exc_str e)"
  shows "\<exists>e' s2. handle_trade_decision env ac ai msg s = (Inl e', s2) \<and>
    x_net (sy_x s2) = x_net x1 \<and> api_clients s2 = (x_uni x1, x_kh x1) \<and>
    (case record_result env ai (kh_swap_error e (td_token_in d) (td_token_out d) (td_chain_id d) (str_int (td_amount_in_wei d)))
        (s1\<lparr>sy_x := x1\<rparr>) of
       (Inl e1, s3) \<Rightarrow> e' = e1 \<and> s2 = s3
     | (Inr _, s3) \<Rightarrow> e' = PyExc ValidationError ''Successful execution must include tx_hash'' \<and> s2 = s3)"
proof -
  let ?r = "kh_swap_error e (td_token_in d) (td_token_out d) (td_chain_id d) (str_int (td_amount_in_wei d))"
  have "kh_execute_swap (e_uni env) (e_st env) (e_getenv env) (agent_kx ac) (ai_ri ai) (td_token_in d) (td_token_out d)
      (str_int (td_amount_in_wei d)) (td_chain_id d) (Fin (1 / 2)) (Some (ac_wallet ac)) (sy_x s1) = (Inr ?r, x1)"
    using assms(4) by (simp add: kh_execute_swap_def sx_return_def)
  then have run: "on_x (kh_execute_swap (e_uni env) (e_st env) (e_getenv env) (agent_kx ac) (ai_ri ai) (td_token_in d) (td_token_out d)
      (str_int (td_amount_in_wei d)) (td_chain_id d) (Fin (1 / 2)) (Some (ac_wallet ac))) s1 = (Inr ?r, s1\<lparr>sy_x := x1\<rparr>)"
    by (simp add: sx_simps)
  have st: "sw_status ?r = SW_SUBMITTED" "sw_tx_hash ?r = None"
    using assms(5) by (simp_all add: kh_swap_error_def kh_quirks_def)
  obtain y s3 where rec: "record_result env ai ?r (s1\<lparr>sy_x := x1\<rparr>) = (y, s3)" by (rule prod.exhaust)
  have quiet: "x_net (sy_x s3) = x_net x1" "api_clients s3 = (x_uni x1, x_kh x1)"
    using record_quiet [OF rec] by (simp_all add: api_clients_def)
  have "handle_trade_decision env ac ai msg s =
      (case y of Inl e1 \<Rightarrow> (Inl e1, s3) | Inr _ \<Rightarrow> (Inl (PyExc ValidationError ''Successful execution must include tx_hash''), s3))"
    using assms(1-3) run rec st by (cases y) (simp_all add: handle_trade_decision_def send_result_no_hash str_truthy_def)
  with rec quiet show ?thesis by (cases y) auto
qed

text \<open>An executor with a memory: a store whose codecs know the executing state.\<close>

definition executing_st :: "unit st_env" where
  "executing_st = mem_env\<lparr>dec_agent := (\<lambda>_. Inr (status_state ''t'' ''executor'' (status_only AS_EXECUTING))),
     dec_swarm := (\<lambda>_. Inr (update_agent ''t'' ''executor'' (status_state ''t'' ''executor'' (status_only AS_EXECUTING))
       (new_swarm_state ''t'')))\<rparr>"

definition stored_asys :: "(unit, unit) asys" where
  "stored_asys = sample_asys\<lparr>sy_kvs := [new_kv], ag_memory := Some \<lparr>am_role = ''executor'', am_kv = 0\<rparr>\<rparr>"

lemma executing_saved:
  "\<exists>k z. save_status (sample_swarm_env\<lparr>e_st := executing_st\<rparr>) sample_inputs 0 (status_only AS_EXECUTING) stored_asys =
     (Inr (), stored_asys\<lparr>sy_kvs := [k], sy_x := (sy_x stored_asys)\<lparr>x_zg := z\<rparr>\<rparr>)"
proof -
  let ?z = "\<lparr>zg_backend = InMemory [], zg_net = ()\<rparr>"
  have "zg_ok executing_st UNIV ?z" by (rule zg_ok_inmemory_empty) (simp add: executing_st_def)
  then have ok: "log_ok executing_st UNIV (new_kv, ?z)" by (rule log_ok_new)
  have "zg_fits UNIV (manifest_bytes executing_st now m)" for now m
    by (rule zg_fits_UNIV) (simp add: manifest_bytes_def bytes_of_def executing_st_def)
  moreover have "cur_swarm executing_st ''t'' (new_kv, ?z) = new_swarm_state ''t''" by (simp add: cur_swarm_def new_kv_def manifest_map_def)
  ultimately have "status_fits executing_st UNIV (\<lambda>_. ''t'') ''executor'' (status_only AS_EXECUTING) (new_kv, ?z)"
    by (simp add: Let_def zg_fits_UNIV executing_st_def)
  with ok obtain k z where
    "update_status executing_st (\<lambda>_. ''t'') ''executor'' (status_only AS_EXECUTING) (new_kv, ?z) = (Inr (), (k, z))"
    by (rule update_status_ok)
  then show ?thesis
    by (intro exI [of _ k] exI [of _ z]) (simp add: save_status_def with_memory_def stored_asys_def mem_update_status_def
        on_mem_def on_heap_def sx_zoom_def sample_asys_def sample_xstate_def sample_inputs_def)
qed

theorem deferred_swap_unreported_witness:
  "\<exists>e s2. handle_trade_decision (sample_swarm_env\<lparr>e_st := executing_st\<rparr>) sample_conf sample_inputs (sample_msg BUY) stored_asys =
     (Inl e, s2) \<and> x_net (sy_x s2) = ()"
proof -
  let ?env = "sample_swarm_env\<lparr>e_st := executing_st\<rparr>"
  let ?d = "sample_decision BUY" and ?e = "PyExc HTTPStatusError ''Server error 500 Internal Server Error''"
  obtain k z where saved: "save_status ?env sample_inputs 0 (status_only AS_EXECUTING) stored_asys =
      (Inr (), stored_asys\<lparr>sy_kvs := [k], sy_x := (sy_x stored_asys)\<lparr>x_zg := z\<rparr>\<rparr>)"
    using executing_saved by blast
  have act: "td_action ?d \<noteq> HOLD" and read: "read_decision ?env (payload (sample_msg BUY)) = Inr ?d"
    using sample_read by (simp_all add: sample_decision_def read_decision_def)
  have "kh_get_quote quote_500_env a b c n (Fin (1 / 2)) w (sample_xstate\<lparr>x_uni := LiveUni ''key'' True, x_zg := z\<rparr>) =
      (Inl ?e, sample_xstate\<lparr>x_uni := LiveUni ''key'' True, x_zg := z\<rparr>)" for a b c n w
    by (simp add: kh_get_quote_def validate_quote_request_def uni_quote_def on_uni_def live_quote_def uni_post_def
        request_json_def retrying_def attempt_def quote_500_env_def sample_uni_env_def eval_nat_numeral
        sx_bind_def sx_try_def sx_lift_def sx_simps retryable_def)
  then have q: "kh_get_quote (e_uni ?env) (td_token_in ?d) (td_token_out ?d) (str_int (td_amount_in_wei ?d))
      (td_chain_id ?d) (Fin (1 / 2)) (swap_wallet (e_getenv ?env) (agent_kx sample_conf) (Some (ac_wallet sample_conf)))
      (sy_x (stored_asys\<lparr>sy_kvs := [k], sy_x := (sy_x stored_asys)\<lparr>x_zg := z\<rparr>\<rparr>)) = (Inl ?e, (sy_x stored_asys)\<lparr>x_zg := z\<rparr>)"
    by (simp add: sample_swarm_env_def stored_asys_def sample_asys_def)
  have "str_contains ''500 Internal Server Error'' (exc_str ?e)" by (simp add: startswith_def)
  from deferred_swap_unreported [OF read act saved q this] show ?thesis by auto
qed

text \<open>One round of the dispatch loop before the others.\<close>

lemma dispatch_loop_none:
  "on_axl (axl_recv (e_axl env) (ac_api_url ac)) s = (Inr None, s1) \<Longrightarrow>
   dispatch_loop env ac ins on_message (Suc k) s = dispatch_loop env ac ins on_message k s1"
  by simp

lemma dispatch_loop_routed:
  "on_axl (axl_recv (e_axl env) (ac_api_url ac)) s = (Inr (Some r), s1) \<Longrightarrow> ag_running s1 \<Longrightarrow>
   route env ac (ins k) (on_message (ins k)) r s1 = (Inr (), s2) \<Longrightarrow>
   dispatch_loop env ac ins on_message (Suc k) s = dispatch_loop env ac ins on_message k s2"
  by (simp add: sx_get_def)

text \<open>
  C34. What can stop an agent's dispatch loop: a run of the loop that ends with an exception went through
  some rounds without one, and then either receiving raised it (a transport failure or a message that
  does not decode), or the message received was a ping, on an agent still running, and answering it
  raised. The state is the one this receiving or answering left. No exception of a message handler gets through.
\<close>

theorem dispatch_crash_cause:
  assumes "dispatch_loop env ac ins on_message n s = (Inl e, s')"
  shows "\<exists>k<n. \<exists>s1. dispatch_loop env ac (\<lambda>i. ins (n - k + i)) on_message k s = (Inr (), s1) \<and>
    (case on_axl (axl_recv (e_axl env) (ac_api_url ac)) s1 of
       (Inl e', s2) \<Rightarrow> e' = e \<and> s2 = s'
     | (Inr None, s2) \<Rightarrow> False
     | (Inr (Some r), s2) \<Rightarrow> ag_running s2 \<and> message_type (rm_message r) = MT_PING \<and>
         handle_ping env ac (ins (n - Suc k)) r s2 = (Inl e, s'))"
    (is "\<exists>k<n. \<exists>s1. _ \<and> ?cause n k s1")
  using assms
proof (induction n arbitrary: s)
  case 0
  then show ?case by (simp add: sx_return_def)
next
  case (Suc n)
  obtain x s1 where x: "on_axl (axl_recv (e_axl env) (ac_api_url ac)) s = (x, s1)" by (rule prod.exhaust)
  have later: ?case if rest: "dispatch_loop env ac ins on_message n s2 = (Inl e, s')" and
    round: "\<And>k. k < n \<Longrightarrow> dispatch_loop env ac (\<lambda>i. ins (n - k + i)) on_message (Suc k) s =
      dispatch_loop env ac (\<lambda>i. ins (n - k + i)) on_message k s2" for s2
  proof -
    from Suc.IH [OF rest] obtain k s3 where k: "k < n" "dispatch_loop env ac (\<lambda>i. ins (n - k + i)) on_message k s2 = (Inr (), s3)"
      "?cause n k s3" by (elim exE conjE) (rule that)
    have "dispatch_loop env ac (\<lambda>i. ins (Suc n - Suc k + i)) on_message (Suc k) s = (Inr (), s3)"
      unfolding diff_Suc_Suc round [OF k(1)] k(2) ..
    moreover have "?cause (Suc n) (Suc k) s3" unfolding diff_Suc_Suc by (fact k(3))
    ultimately have "\<exists>s1. dispatch_loop env ac (\<lambda>i. ins (Suc n - Suc k + i)) on_message (Suc k) s = (Inr (), s1) \<and>
        ?cause (Suc n) (Suc k) s1" by (intro exI conjI)
    with k(1) show ?thesis by (intro exI [of _ "Suc k"] conjI) simp_all
  qed
  have now: ?case if "?cause (Suc n) 0 s"
  proof -
    have "dispatch_loop env ac (\<lambda>i. ins (Suc n - 0 + i)) on_message 0 s = (Inr (), s)" by (simp add: sx_return_def)
    with that have "\<exists>s1. dispatch_loop env ac (\<lambda>i. ins (Suc n - 0 + i)) on_message 0 s = (Inr (), s1) \<and> ?cause (Suc n) 0 s1"
      by (intro exI conjI)
    then show ?thesis by (intro exI [of _ 0] conjI) simp_all
  qed
  consider (crash) e1 where "x = Inl e1" | (none) "x = Inr None" | (msg) r where "x = Inr (Some r)"
  proof (cases x)
    case (Inr y)
    then show thesis using that(2,3) by (cases y) simp_all
  qed (rule that(1))
  then show ?case
  proof cases
    case crash
    with x Suc.prems show ?thesis by (intro now) simp
  next
    case none
    with x Suc.prems show ?thesis by (intro later [of s1] dispatch_loop_none) simp_all
  next
    case msg
    obtain y s2 where y: "route env ac (ins n) (on_message (ins n)) r s1 = (y, s2)" by (rule prod.exhaust)
    have run: "ag_running s1" using x msg Suc.prems by (auto simp: sx_simps split: if_splits)
    show ?thesis
    proof (cases y)
      case (Inl e1)
      with y have ping: "message_type (rm_message r) = MT_PING"
        using route_returns [of r env ac "ins n" "on_message (ins n)" s1] by force
      have "e1 = e" "s2 = s'" using x msg run y Inl Suc.prems by (simp_all add: sx_get_def)
      with y Inl ping x msg run show ?thesis by (intro now) (simp add: route_def)
    next
      case (Inr u)
      then have "dispatch_loop env ac ins on_message n s2 = (Inl e, s')"
        using x msg run y Suc.prems by (simp add: sx_get_def)
      then show ?thesis using x msg run y Inr by (intro later [of s2] dispatch_loop_routed) simp_all
    qed
  qed
qed

theorem dispatch_crash_cause_witness:
  "\<exists>s' k s1. dispatch_loop sample_swarm_env sample_conf (\<lambda>_. sample_inputs) (\<lambda>ai. researcher_on_message) 1 sample_asys =
       (Inl (PyExc ConnectError ''down''), s') \<and> k < 1 \<and>
     dispatch_loop sample_swarm_env sample_conf (\<lambda>_. sample_inputs) (\<lambda>ai. researcher_on_message) k sample_asys = (Inr (), s1) \<and>
     on_axl (axl_recv (e_axl sample_swarm_env) (ac_api_url sample_conf)) s1 = (Inl (PyExc ConnectError ''down''), s')"
proof -
  have recv: "on_axl (axl_recv (e_axl sample_swarm_env) (ac_api_url sample_conf)) s = (Inl (PyExc ConnectError ''down''), s)"
    for s :: "(unit, unit) asys"
    by (simp add: axl_recv_def sample_swarm_env_def sample_axl_env_def sx_bind_def sx_try_def sx_simps)
  then have s': "dispatch_loop sample_swarm_env sample_conf (\<lambda>_. sample_inputs) (\<lambda>ai. researcher_on_message) 1
      sample_asys = (Inl (PyExc ConnectError ''down''), sample_asys)"
    by (simp add: sx_bind_def)
  from dispatch_crash_cause [OF s'] s' recv show ?thesis by auto
qed

end
