(* ===== verification/Ens.thy ===== *)
theory Ens
  imports PyValue
begin

text \<open>
  The ENS identity layer (\<^verbatim>\<open>core/ens/resolver.py\<close>): the in-memory and the live resolver
  with their caches, and \<^verbatim>\<open>AgentIdentity\<close> on top of either. The \<^verbatim>\<open>ens\<close>, \<^verbatim>\<open>web3\<close> and
  \<^verbatim>\<open>eth_account\<close> packages and Python's \<^verbatim>\<open>hash\<close> are the record \<open>ens_env\<close>.
\<close>

subsection \<open>Text records\<close>

text \<open>A \<^verbatim>\<open>dict[str, dict[str, str]]\<close>: \<^verbatim>\<open>d.setdefault(name, {})[key] = value\<close> and lookup.\<close>

type_synonym text_dict = "(string \<times> (string \<times> string) list) list"

definition text_put :: "string \<Rightarrow> string \<Rightarrow> string \<Rightarrow> text_dict \<Rightarrow> text_dict" where
  "text_put name key v d =
     AList.update name (AList.update key v (case map_of d name of Some e \<Rightarrow> e | None \<Rightarrow> [])) d"

definition text_get :: "string \<Rightarrow> string \<Rightarrow> text_dict \<Rightarrow> string option" where
  "text_get name key d = (case map_of d name of Some e \<Rightarrow> map_of e key | None \<Rightarrow> None)"

text \<open>The contract of a store of text records, and what a series of writes does to it.\<close>

locale text_records =
  fixes put :: "string \<Rightarrow> string \<Rightarrow> string \<Rightarrow> 'r \<Rightarrow> 'r"
    and get :: "string \<Rightarrow> string \<Rightarrow> 'r \<Rightarrow> string option"
  assumes get_put_same: "get n k (put n k v r) = Some v"
    and get_put_other: "(n', k') \<noteq> (n, k) \<Longrightarrow> get n' k' (put n k v r) = get n' k' r"
begin

lemma get_puts:
  "get n k (fold (\<lambda>(n, k, v). put n k v) ups r) =
     (case map_of (rev (map (\<lambda>(n, k, v). ((n, k), v)) ups)) (n, k) of Some v \<Rightarrow> Some v | None \<Rightarrow> get n k r)"
proof (induction ups arbitrary: r)
  case (Cons u ups)
  obtain n' k' v where u: "u = (n', k', v)" by (rule prod_cases3)
  show ?case
  proof (cases "(n, k) = (n', k')")
    case True
    then show ?thesis using Cons.IH u
      by (auto simp: get_put_same map_add_def split: option.split)
  next
    case False
    then show ?thesis using Cons.IH u
      by (auto simp: get_put_other map_add_def split: option.split)
  qed
qed simp

end

interpretation dict_records: text_records text_put text_get
  by unfold_locales (auto simp: text_put_def text_get_def split: option.split)

subsection \<open>Resolvers\<close>

record live_resolver =
  lr_connected :: bool
  text_cache :: text_dict
  addr_cache :: "(string \<times> string option) list"

datatype resolver = MockENS text_dict | LiveENS live_resolver

record 'w ens_env =
  py_hash :: "string \<Rightarrow> int"
  ens_connect :: "('w, unit) sx"
  ens_address :: "string \<Rightarrow> ('w, string option) sx"
  ens_get_text :: "string \<Rightarrow> string \<Rightarrow> ('w, string option) sx"
  ens_resolver :: "string \<Rightarrow> ('w, string) sx"
  account_from_key :: "string \<Rightarrow> string res"
  send_set_text :: "string \<Rightarrow> string \<Rightarrow> string \<Rightarrow> string \<Rightarrow> string \<Rightarrow> ('w, string) sx"
  wallet_private_key :: string

type_synonym 'w res_state = "resolver \<times> 'w"

definition TEXT_RECORD :: string where
  "TEXT_RECORD = ''axl_pubkey''"

text \<open>\<^verbatim>\<open>n.to_bytes(k, "big")\<close>.\<close>

definition to_bytes :: "nat \<Rightarrow> nat \<Rightarrow> bytes res" where
  "to_bytes k n =
     (if n < 256 ^ k then Inr (map (\<lambda>i. of_nat (n div 256 ^ (k - Suc i))) [0..<k])
      else Inl (PyExc OverflowError ''int too big to convert''))"

definition mock_resolve_address :: "'w ens_env \<Rightarrow> string \<Rightarrow> string option res" where
  "mock_resolve_address env name =
     map_sum id (\<lambda>bs. Some (''0x'' @ bytes_hex bs)) (to_bytes 20 (nat \<bar>py_hash env name\<bar>))"

definition mock_get_text_record :: "string \<Rightarrow> string \<Rightarrow> text_dict \<Rightarrow> string option" where
  "mock_get_text_record name key d =
     (case text_get name key d of
        Some v \<Rightarrow> Some v
      | None \<Rightarrow> if key = TEXT_RECORD then Some (replicate 64 CHR ''a'') else None)"

text \<open>\<^verbatim>\<open>_get_ns\<close>: the connection is made once.\<close>

definition get_ns :: "'w ens_env \<Rightarrow> (live_resolver \<times> 'w, unit) sx" where
  "get_ns env = (\<lambda>(l, w).
     if lr_connected l then (Inr (), (l, w))
     else case ens_connect env w of
       (Inr _, w') \<Rightarrow> (Inr (), (l\<lparr>lr_connected := True\<rparr>, w'))
     | (Inl e, w') \<Rightarrow> (Inl e, (l, w')))"

definition on_world :: "('w, 'a) sx \<Rightarrow> ('l \<times> 'w, 'a) sx" where
  "on_world m = (\<lambda>(l, w). case m w of (r, w') \<Rightarrow> (r, (l, w')))"

definition live_resolve_address :: "'w ens_env \<Rightarrow> string \<Rightarrow> live_resolver \<times> 'w \<Rightarrow> string option \<times> (live_resolver \<times> 'w)" where
  "live_resolve_address env name = (\<lambda>(l, w).
     case map_of (addr_cache l) name of
       Some a \<Rightarrow> (a, (l, w))
     | None \<Rightarrow>
         (case sx_bind (get_ns env) (\<lambda>_. on_world (ens_address env name)) (l, w) of
            (r, (l', w')) \<Rightarrow>
              let result = (case r of Inr (Some a) \<Rightarrow> if a = [] then None else Some a | _ \<Rightarrow> None)
              in (result, (l'\<lparr>addr_cache := AList.update name result (addr_cache l')\<rparr>, w'))))"

definition live_get_text_record ::
  "'w ens_env \<Rightarrow> string \<Rightarrow> string \<Rightarrow> live_resolver \<times> 'w \<Rightarrow> string option \<times> (live_resolver \<times> 'w)" where
  "live_get_text_record env name key = (\<lambda>(l, w).
     case text_get name key (text_cache l) of
       Some v \<Rightarrow> (Some v, (l, w))
     | None \<Rightarrow>
         (case sx_bind (get_ns env) (\<lambda>_. on_world (ens_get_text env name key)) (l, w) of
            (Inr v, (l', w')) \<Rightarrow>
              (v, ((if str_truthy v then l'\<lparr>text_cache := text_put name key (the v) (text_cache l')\<rparr> else l'), w'))
          | (Inl _, (l', w')) \<Rightarrow> (None, (l', w'))))"

definition live_set_text_record :: "'w ens_env \<Rightarrow> string \<Rightarrow> string \<Rightarrow> string \<Rightarrow> (live_resolver \<times> 'w, string) sx" where
  "live_set_text_record env name key v =
     (let pk = wallet_private_key env
      in if pk = [] then sx_raise (PyExc RuntimeError ''WALLET_PRIVATE_KEY required to set ENS text records'')
         else sx_bind (sx_lift (account_from_key env pk)) (\<lambda>_.
              sx_bind (get_ns env) (\<lambda>_.
              sx_bind (on_world (ens_resolver env name)) (\<lambda>resolver_address.
                on_world (send_set_text env pk resolver_address name key v)))))"

text \<open>The three operations and the cache write, on either resolver.\<close>

definition lift_live :: "live_resolver \<times> 'w \<Rightarrow> 'w res_state" where
  "lift_live = (\<lambda>(l, w). (LiveENS l, w))"

definition resolver_address :: "'w ens_env \<Rightarrow> string \<Rightarrow> ('w res_state, string option) sx" where
  "resolver_address env name = (\<lambda>(r, w).
     case r of
       MockENS d \<Rightarrow> (mock_resolve_address env name, (r, w))
     | LiveENS l \<Rightarrow> (case live_resolve_address env name (l, w) of (a, s) \<Rightarrow> (Inr a, lift_live s)))"

definition get_text_record :: "'w ens_env \<Rightarrow> string \<Rightarrow> string \<Rightarrow> 'w res_state \<Rightarrow> string option \<times> 'w res_state" where
  "get_text_record env name key = (\<lambda>(r, w).
     case r of
       MockENS d \<Rightarrow> (mock_get_text_record name key d, (r, w))
     | LiveENS l \<Rightarrow> (case live_get_text_record env name key (l, w) of (v, s) \<Rightarrow> (v, lift_live s)))"

definition set_text_record :: "'w ens_env \<Rightarrow> string \<Rightarrow> string \<Rightarrow> string \<Rightarrow> ('w res_state, string) sx" where
  "set_text_record env name key v = (\<lambda>(r, w).
     case r of
       MockENS d \<Rightarrow> (Inr (''0x'' @ concat (replicate 32 ''00'')), (MockENS (text_put name key v d), w))
     | LiveENS l \<Rightarrow> (case live_set_text_record env name key v (l, w) of (x, s) \<Rightarrow> (x, lift_live s)))"

definition cache_text :: "string \<Rightarrow> string \<Rightarrow> string \<Rightarrow> resolver \<Rightarrow> resolver" where
  "cache_text name key v r =
     (case r of
        MockENS d \<Rightarrow> MockENS (text_put name key v d)
      | LiveENS l \<Rightarrow> LiveENS (l\<lparr>text_cache := text_put name key v (text_cache l)\<rparr>))"

subsection \<open>Agent identity\<close>

record 'w identity_state =
  id_domain :: string
  id_resolver :: resolver
  id_cache :: "(string \<times> string) list"
  id_world :: 'w

definition on_resolver :: "('w res_state \<Rightarrow> 'a \<times> 'w res_state) \<Rightarrow> 'w identity_state \<Rightarrow> 'a \<times> 'w identity_state" where
  "on_resolver f s =
     (case f (id_resolver s, id_world s) of (x, (r, w)) \<Rightarrow> (x, s\<lparr>id_resolver := r, id_world := w\<rparr>))"

text \<open>
  \<^verbatim>\<open>from_env\<close>: the process-wide instance, made on the first call; whether the \<^verbatim>\<open>ens\<close> package can
  be imported decides the resolver.
\<close>

definition identity_from_env :: "bool \<Rightarrow> string option \<Rightarrow> 'w identity_state option \<Rightarrow> 'w \<Rightarrow> 'w identity_state" where
  "identity_from_env ens_available domain shared w =
     (case shared of
        Some s \<Rightarrow> s
      | None \<Rightarrow>
          \<lparr>id_domain = (case domain of Some d \<Rightarrow> d | None \<Rightarrow> ''swarmfi.eth''),
           id_resolver = (if ens_available then LiveENS \<lparr>lr_connected = False, text_cache = [], addr_cache = []\<rparr>
                          else MockENS []),
           id_cache = [], id_world = w\<rparr>)"

definition name_for :: "'w identity_state \<Rightarrow> string \<Rightarrow> string" where
  "name_for s rl = rl @ ''.'' @ id_domain s"

definition get_axl_pubkey :: "'w ens_env \<Rightarrow> string \<Rightarrow> 'w identity_state \<Rightarrow> string option \<times> 'w identity_state" where
  "get_axl_pubkey env rl s =
     (let name = name_for s rl
      in case map_of (id_cache s) name of
           Some k \<Rightarrow> (Some k, s)
         | None \<Rightarrow>
             (case on_resolver (get_text_record env name TEXT_RECORD) s of
                (pubkey, s') \<Rightarrow>
                  (pubkey, if str_truthy pubkey then s'\<lparr>id_cache := AList.update name (the pubkey) (id_cache s')\<rparr> else s')))"

definition register_pubkey :: "'w ens_env \<Rightarrow> string \<Rightarrow> string \<Rightarrow> ('w identity_state, string) sx" where
  "register_pubkey env rl pubkey s =
     (let name = name_for s rl
      in case on_resolver (set_text_record env name TEXT_RECORD pubkey) s of
           (Inr tx, s') \<Rightarrow> (Inr tx, s'\<lparr>id_cache := AList.update name pubkey (id_cache s')\<rparr>)
         | (Inl e, s') \<Rightarrow> (Inl e, s'))"

definition resolve_role_address :: "'w ens_env \<Rightarrow> string \<Rightarrow> ('w identity_state, string option) sx" where
  "resolve_role_address env rl s = on_resolver (resolver_address env (name_for s rl)) s"

definition PROFILE_KEYS :: "string list" where
  "PROFILE_KEYS = [''axl_pubkey'', ''swarmfi.role'', ''swarmfi.status'', ''swarmfi.last'', ''swarmfi.tx'', ''swarmfi.snapshot'']"

fun read_records ::
  "'w ens_env \<Rightarrow> string \<Rightarrow> string list \<Rightarrow> 'w identity_state \<Rightarrow> (string \<times> string option) list \<times> 'w identity_state" where
  "read_records env name [] s = ([], s)"
| "read_records env name (k # ks) s =
     (case on_resolver (get_text_record env name k) s of (v, s1) \<Rightarrow>
        (case read_records env name ks s1 of (rs, s2) \<Rightarrow> ((k, v) # rs, s2)))"

record ens_profile =
  prof_name :: string
  prof_role :: string
  prof_address :: "string option"
  prof_axl_pubkey :: "string option"
  prof_status :: "string option"
  prof_last :: "string option"
  prof_tx :: "string option"
  prof_snapshot :: "string option"

definition get_profile :: "'w ens_env \<Rightarrow> string \<Rightarrow> 'w identity_state \<Rightarrow> ens_profile \<times> 'w identity_state" where
  "get_profile env rl s =
     (let name = name_for s rl
      in case read_records env name PROFILE_KEYS s of (rs, s1) \<Rightarrow>
         (case on_resolver (resolver_address env name) s1 of (a, s2) \<Rightarrow>
            (let rec = (\<lambda>k. Option.bind (map_of rs k) id)
             in (\<lparr>prof_name = name, prof_role = rl,
                  prof_address = (case a of Inr x \<Rightarrow> x | Inl _ \<Rightarrow> None),
                  prof_axl_pubkey = rec ''axl_pubkey'', prof_status = rec ''swarmfi.status'',
                  prof_last = rec ''swarmfi.last'', prof_tx = rec ''swarmfi.tx'',
                  prof_snapshot = rec ''swarmfi.snapshot''\<rparr>, s2))))"

definition update_text :: "string \<Rightarrow> string \<Rightarrow> string \<Rightarrow> 'w identity_state \<Rightarrow> 'w identity_state" where
  "update_text rl key v s = s\<lparr>id_resolver := cache_text (name_for s rl) key v (id_resolver s)\<rparr>"

subsection \<open>Reads after writes\<close>

text \<open>What a resolver answers without asking the network.\<close>

definition known_text :: "string \<Rightarrow> string \<Rightarrow> resolver \<Rightarrow> string option" where
  "known_text name key r = text_get name key (case r of MockENS d \<Rightarrow> d | LiveENS l \<Rightarrow> text_cache l)"

interpretation resolver_records: text_records cache_text known_text
  by unfold_locales
    (auto simp: known_text_def cache_text_def dict_records.get_put_same dict_records.get_put_other split: resolver.split)

lemma get_ns_keeps: "get_ns env (l, w) = (x, (l', w')) \<Longrightarrow> text_cache l' = text_cache l \<and> addr_cache l' = addr_cache l"
  by (auto simp: get_ns_def split: if_splits prod.splits sum.splits)

lemma net_keeps:
  assumes "sx_bind (get_ns env) (\<lambda>_. on_world m) (l, w) = (x, (l', w'))"
  shows "text_cache l' = text_cache l \<and> addr_cache l' = addr_cache l"
proof -
  obtain y l1 w1 where g: "get_ns env (l, w) = (y, (l1, w1))" by (rule prod_cases3)
  with get_ns_keeps [OF g] assms show ?thesis
    by (cases y) (auto simp: on_world_def split: prod.splits)
qed

lemma get_text_record_known:
  "known_text name key r = Some v \<Longrightarrow> get_text_record env name key (r, w) = (Some v, (r, w))"
  by (cases r) (simp_all add: known_text_def get_text_record_def mock_get_text_record_def live_get_text_record_def lift_live_def)

lemma get_text_record_keeps:
  assumes "get_text_record env name key (r, w) = (v, (r', w'))" and "known_text n k r = Some u"
  shows "known_text n k r' = Some u"
proof (cases "(name, key) = (n, k)")
  case True
  then show ?thesis using assms get_text_record_known [OF assms(2), of env w] by simp
next
  case False
  show ?thesis
  proof (cases r)
    case (MockENS d)
    then show ?thesis using assms by (auto simp: get_text_record_def)
  next
    case (LiveENS l)
    obtain x l' w2 where n: "sx_bind (get_ns env) (\<lambda>_. on_world (ens_get_text env name key)) (l, w) = (x, (l', w2))"
      by (rule prod_cases3)
    with net_keeps [OF n] LiveENS assms False show ?thesis
      by (cases x; cases "text_get name key (text_cache l)")
        (auto simp: get_text_record_def live_get_text_record_def lift_live_def known_text_def dict_records.get_put_other
          split: if_splits)
  qed
qed

lemma on_resolver_known:
  "known_text n k (id_resolver s) = Some v \<Longrightarrow> on_resolver (get_text_record env n k) s = (Some v, s)"
  by (simp add: on_resolver_def get_text_record_known)

lemma on_resolver_keeps:
  assumes "on_resolver (get_text_record env n k) s = (x, s')"
  shows "known_text n' k' (id_resolver s) = Some u \<longrightarrow> known_text n' k' (id_resolver s') = Some u"
  using assms get_text_record_keeps by (fastforce simp: on_resolver_def split: prod.splits)

lemma read_records_known:
  assumes "read_records env name ks s = (rs, s')" and "known_text name k (id_resolver s) = Some v" and "k \<in> set ks"
  shows "map_of rs k = Some (Some v)"
  using assms
proof (induction ks arbitrary: s rs s')
  case (Cons k' ks)
  obtain x s1 where g: "on_resolver (get_text_record env name k') s = (x, s1)" by (rule prod.exhaust)
  obtain rs2 s2 where r: "read_records env name ks s1 = (rs2, s2)" by (rule prod.exhaust)
  have rs: "rs = (k', x) # rs2" using Cons.prems(1) g r by simp
  show ?case
  proof (cases "k = k'")
    case True
    then show ?thesis using on_resolver_known Cons.prems(2) g rs by fastforce
  next
    case False
    have "known_text name k (id_resolver s1) = Some v" using on_resolver_keeps [OF g] Cons.prems(2) by blast
    then have "map_of rs2 k = Some (Some v)" using Cons.IH [OF r] Cons.prems(3) False by simp
    then show ?thesis using rs False by simp
  qed
qed simp

lemma get_profile_known:
  assumes "get_profile env rl s = (p, s')"
  shows "known_text (name_for s rl) ''axl_pubkey'' (id_resolver s) = Some v \<Longrightarrow> prof_axl_pubkey p = Some v"
    and "known_text (name_for s rl) ''swarmfi.status'' (id_resolver s) = Some v \<Longrightarrow> prof_status p = Some v"
    and "known_text (name_for s rl) ''swarmfi.last'' (id_resolver s) = Some v \<Longrightarrow> prof_last p = Some v"
    and "known_text (name_for s rl) ''swarmfi.tx'' (id_resolver s) = Some v \<Longrightarrow> prof_tx p = Some v"
    and "known_text (name_for s rl) ''swarmfi.snapshot'' (id_resolver s) = Some v \<Longrightarrow> prof_snapshot p = Some v"
proof -
  obtain rs s1 where r: "read_records env (name_for s rl) PROFILE_KEYS s = (rs, s1)" by (rule prod.exhaust)
  note known = read_records_known [OF r]
  have p: "prof_axl_pubkey p = Option.bind (map_of rs ''axl_pubkey'') id"
    "prof_status p = Option.bind (map_of rs ''swarmfi.status'') id"
    "prof_last p = Option.bind (map_of rs ''swarmfi.last'') id"
    "prof_tx p = Option.bind (map_of rs ''swarmfi.tx'') id"
    "prof_snapshot p = Option.bind (map_of rs ''swarmfi.snapshot'') id"
    using assms r by (auto simp: get_profile_def Let_def split: prod.splits)
  show "known_text (name_for s rl) ''axl_pubkey'' (id_resolver s) = Some v \<Longrightarrow> prof_axl_pubkey p = Some v"
    using p(1) known [of "''axl_pubkey''"] by (simp add: PROFILE_KEYS_def)
  show "known_text (name_for s rl) ''swarmfi.status'' (id_resolver s) = Some v \<Longrightarrow> prof_status p = Some v"
    using p(2) known [of "''swarmfi.status''"] by (simp add: PROFILE_KEYS_def)
  show "known_text (name_for s rl) ''swarmfi.last'' (id_resolver s) = Some v \<Longrightarrow> prof_last p = Some v"
    using p(3) known [of "''swarmfi.last''"] by (simp add: PROFILE_KEYS_def)
  show "known_text (name_for s rl) ''swarmfi.tx'' (id_resolver s) = Some v \<Longrightarrow> prof_tx p = Some v"
    using p(4) known [of "''swarmfi.tx''"] by (simp add: PROFILE_KEYS_def)
  show "known_text (name_for s rl) ''swarmfi.snapshot'' (id_resolver s) = Some v \<Longrightarrow> prof_snapshot p = Some v"
    using p(5) known [of "''swarmfi.snapshot''"] by (simp add: PROFILE_KEYS_def)
qed

text \<open>A series of updates of agents' records.\<close>

definition update_texts :: "(string \<times> string \<times> string) list \<Rightarrow> 'w identity_state \<Rightarrow> 'w identity_state" where
  "update_texts ups s = fold (\<lambda>(rl, key, v). update_text rl key v) ups s"

lemma update_texts_known:
  "id_domain (update_texts ups s) = id_domain s \<and>
   known_text (rl @ ''.'' @ id_domain s) key (id_resolver (update_texts ups s)) =
     (case map_of (rev (map (\<lambda>(r, k, v). ((r, k), v)) ups)) (rl, key) of
        Some v \<Rightarrow> Some v | None \<Rightarrow> known_text (rl @ ''.'' @ id_domain s) key (id_resolver s))"
proof (induction ups arbitrary: s)
  case (Cons u ups)
  obtain r k v where u: "u = (r, k, v)" by (rule prod_cases3)
  let ?s = "update_text r k v s"
  have d: "id_domain ?s = id_domain s" "id_resolver ?s = cache_text (r @ ''.'' @ id_domain s) k v (id_resolver s)"
    by (simp_all add: update_text_def name_for_def)
  have "update_texts (u # ups) s = update_texts ups ?s" by (simp add: update_texts_def u)
  with Cons.IH [of ?s] show ?case unfolding u
    by (cases "(rl, key) = (r, k)")
      (auto simp: d resolver_records.get_put_same resolver_records.get_put_other map_add_def split: option.split)
qed (simp add: update_texts_def)

lemma set_text_record_live:
  assumes "on_resolver (set_text_record env n k v) s = (x, s')" and "id_resolver s = LiveENS l"
  shows "\<exists>l'. id_resolver s' = LiveENS l' \<and> text_cache l' = text_cache l \<and> id_domain s' = id_domain s \<and> id_cache s' = id_cache s"
proof -
  obtain y l1 w1 where t: "live_set_text_record env n k v (l, id_world s) = (y, (l1, w1))" by (rule prod_cases3)
  have "text_cache l1 = text_cache l"
  proof -
    obtain g l2 w2 where g: "get_ns env (l, id_world s) = (g, (l2, w2))" by (rule prod_cases3)
    with get_ns_keeps [OF g] t show ?thesis
      by (cases g; cases "account_from_key env (wallet_private_key env)")
        (auto simp: live_set_text_record_def Let_def sx_bind_def sx_raise_def on_world_def split: if_splits prod.splits sum.splits)
  qed
  with t assms show ?thesis by (auto simp: on_resolver_def set_text_record_def lift_live_def)
qed

subsection \<open>Properties\<close>

definition sample_ens_env :: "unit ens_env" where
  "sample_ens_env = \<lparr>py_hash = (\<lambda>_. 7), ens_connect = (\<lambda>w. (Inr (), w)), ens_address = (\<lambda>_ w. (Inr None, w)),
     ens_get_text = (\<lambda>_ _ w. (Inr None, w)), ens_resolver = (\<lambda>_ w. (Inr ''0xresolver'', w)),
     account_from_key = (\<lambda>_. Inr ''0xaccount''), send_set_text = (\<lambda>_ _ _ _ _ w. (Inr ''0xtx'', w)),
     wallet_private_key = ''key''\<rparr>"

definition sample_identity :: "text_dict \<Rightarrow> unit identity_state" where
  "sample_identity d =
     \<lparr>id_domain = ''swarmfi.eth'', id_resolver = LiveENS \<lparr>lr_connected = False, text_cache = d, addr_cache = []\<rparr>,
      id_cache = [], id_world = ()\<rparr>"

text \<open>
  C40. Profiles read what the cycle wrote: after any series of text record updates by any of the
  agents, the profile of an agent shows in each field the last value written for that agent and key,
  with either resolver and whatever the network answers.
\<close>

theorem profile_shows_updates:
  assumes "get_profile env rl (update_texts ups s) = (p, s')"
    and "last_write = (\<lambda>key. map_of (rev (map (\<lambda>(r, k, v). ((r, k), v)) ups)) (rl, key))"
  shows "prof_name p = rl @ ''.'' @ id_domain s \<and> prof_role p = rl \<and>
    (\<forall>v. (last_write ''axl_pubkey'' = Some v \<longrightarrow> prof_axl_pubkey p = Some v) \<and>
         (last_write ''swarmfi.status'' = Some v \<longrightarrow> prof_status p = Some v) \<and>
         (last_write ''swarmfi.last'' = Some v \<longrightarrow> prof_last p = Some v) \<and>
         (last_write ''swarmfi.tx'' = Some v \<longrightarrow> prof_tx p = Some v) \<and>
         (last_write ''swarmfi.snapshot'' = Some v \<longrightarrow> prof_snapshot p = Some v))"
proof -
  have name: "name_for (update_texts ups s) rl = rl @ ''.'' @ id_domain s"
    using update_texts_known [of ups s] by (simp add: name_for_def)
  have known: "known_text (name_for (update_texts ups s) rl) key (id_resolver (update_texts ups s)) = Some v"
    if "last_write key = Some v" for key v
    using that update_texts_known [of ups s rl key] unfolding name assms(2) by simp
  have "prof_name p = name_for (update_texts ups s) rl \<and> prof_role p = rl"
    using assms(1) by (auto simp: get_profile_def Let_def split: prod.splits)
  with name known get_profile_known [OF assms(1)] show ?thesis by auto
qed

theorem profile_shows_updates_witness:
  "\<exists>p s'. get_profile sample_ens_env ''risk''
       (update_texts [(''risk'', ''swarmfi.last'', ''HOLD''), (''executor'', ''swarmfi.last'', ''x''), (''risk'', ''swarmfi.last'', ''BUY'')]
         (sample_identity [])) = (p, s') \<and> prof_last p = Some ''BUY''"
proof -
  let ?ups = "[(''risk'', ''swarmfi.last'', ''HOLD''), (''executor'', ''swarmfi.last'', ''x''), (''risk'', ''swarmfi.last'', ''BUY'')]"
  obtain p s' where p: "get_profile sample_ens_env ''risk'' (update_texts ?ups (sample_identity [])) = (p, s')" by (rule prod.exhaust)
  from profile_shows_updates [OF p refl] have "prof_last p = Some ''BUY''" by simp
  with p show ?thesis by blast
qed

text \<open>
  A registered key is what \<^verbatim>\<open>get_axl_pubkey\<close> answers from then on, without the network.
  With the live resolver the profile does not follow: a key the resolver had cached before stays
  the one that profiles show, since a registration writes to the chain and to the identity's own
  cache but not to the resolver's.
\<close>

theorem registered_key_split:
  assumes "register_pubkey env rl key s = (Inr tx, s')"
    and "id_resolver s = LiveENS l" and "text_get (name_for s rl) TEXT_RECORD (text_cache l) = Some old"
  shows "get_axl_pubkey env rl s' = (Some key, s') \<and> prof_axl_pubkey (fst (get_profile env rl s')) = Some old"
proof -
  obtain x s1 where s1: "on_resolver (set_text_record env (name_for s rl) TEXT_RECORD key) s = (x, s1)" by (rule prod.exhaust)
  from set_text_record_live [OF s1 assms(2)] obtain l' where
    l': "id_resolver s1 = LiveENS l'" "text_cache l' = text_cache l" "id_domain s1 = id_domain s" "id_cache s1 = id_cache s" by blast
  have s': "s' = s1\<lparr>id_cache := AList.update (name_for s rl) key (id_cache s1)\<rparr>"
    using assms(1) s1 by (auto simp: register_pubkey_def Let_def split: sum.splits)
  have n: "name_for s' rl = name_for s rl" using s' l'(3) by (simp add: name_for_def)
  have "get_axl_pubkey env rl s' = (Some key, s')" unfolding get_axl_pubkey_def Let_def n by (simp add: s')
  moreover have "known_text (name_for s' rl) ''axl_pubkey'' (id_resolver s') = Some old"
    unfolding n using s' l' assms(3) by (simp add: known_text_def TEXT_RECORD_def)
  then have "prof_axl_pubkey (fst (get_profile env rl s')) = Some old"
    using get_profile_known(1) [of env rl s'] by (metis prod.collapse)
  ultimately show ?thesis by blast
qed

theorem registered_key_split_witness:
  "\<exists>s'. register_pubkey sample_ens_env ''risk'' ''new'' (sample_identity [(''risk.swarmfi.eth'', [(''axl_pubkey'', ''old'')])]) =
       (Inr ''0xtx'', s') \<and>
     get_axl_pubkey sample_ens_env ''risk'' s' = (Some ''new'', s') \<and>
     prof_axl_pubkey (fst (get_profile sample_ens_env ''risk'' s')) = Some ''old''"
proof -
  let ?s = "sample_identity [(''risk.swarmfi.eth'', [(''axl_pubkey'', ''old'')])]"
  obtain s' where r: "register_pubkey sample_ens_env ''risk'' ''new'' ?s = (Inr ''0xtx'', s')"
    by (simp add: register_pubkey_def on_resolver_def set_text_record_def live_set_text_record_def sample_identity_def
        sample_ens_env_def sx_bind_def get_ns_def on_world_def lift_live_def)
  have "id_resolver ?s = LiveENS \<lparr>lr_connected = False, text_cache = [(''risk.swarmfi.eth'', [(''axl_pubkey'', ''old'')])], addr_cache = []\<rparr>"
    by (simp add: sample_identity_def)
  from registered_key_split [OF r this, of "''old''"] r show ?thesis
    by (auto simp: name_for_def sample_identity_def text_get_def TEXT_RECORD_def)
qed

text \<open>A failed resolution is remembered: the name stays unresolved without asking again.\<close>

lemma failed_resolution_sticks:
  assumes "live_resolve_address env name (l, w) = (None, (l', w'))"
  shows "live_resolve_address env name (l', w2) = (None, (l', w2))"
  using assms by (auto simp: live_resolve_address_def Let_def split: option.splits prod.splits)

end
