(* ===== verification/State_View.thy ===== *)
theory State_View
  imports PyValue
begin

text \<open>
  The dashboard's view of the swarm (\<^verbatim>\<open>dashboard/server.py\<close>): the state file that cycles
  write and the dashboard reads, the agent states and the event log reconstructed from it, the chat
  payload reader and the live configuration. The state file is its parsed content: writing a value
  as JSON and reading it back gives the value again.
\<close>

subsection \<open>Values read from JSON\<close>

text \<open>\<^verbatim>\<open>v[-1]\<close>, and the items a \<^verbatim>\<open>for\<close> loop sees.\<close>

definition last_item :: "pyval \<Rightarrow> pyval res" where
  "last_item v =
     (case v of
        VList xs \<Rightarrow> if xs = [] then Inl (PyExc IndexError ''list index out of range'') else Inr (last xs)
      | VStr s \<Rightarrow> if s = [] then Inl (PyExc IndexError ''string index out of range'') else Inr (VStr [last s])
      | VDict _ \<Rightarrow> Inl (PyExc KeyError ''-1'')
      | _ \<Rightarrow> Inl (PyExc TypeError ''object is not subscriptable''))"

definition iter_items :: "pyval \<Rightarrow> pyval list res" where
  "iter_items v =
     (case v of
        VList xs \<Rightarrow> Inr xs
      | VStr s \<Rightarrow> Inr (map (\<lambda>c. VStr [c]) s)
      | VDict d \<Rightarrow> Inr (map (\<lambda>(k, _). VStr k) d)
      | _ \<Rightarrow> Inl (PyExc TypeError ''object is not iterable''))"

definition opt_text :: "string option \<Rightarrow> pyval" where
  "opt_text x = (case x of Some s \<Rightarrow> VStr s | None \<Rightarrow> VNone)"

subsection \<open>The state file\<close>

record state_file =
  sf_view :: "pyval option"
  sf_writable :: bool

definition read_state_file :: "state_file \<Rightarrow> pyval" where
  "read_state_file f = (case sf_view f of Some v \<Rightarrow> v | None \<Rightarrow> VDict [])"

definition write_state_file :: "pyval \<Rightarrow> state_file \<Rightarrow> state_file" where
  "write_state_file v f = (if sf_writable f then f\<lparr>sf_view := Some v\<rparr> else f)"

text \<open>The values a publication takes from the previous view; an exception publishes nothing.\<close>

definition published_view :: "string \<Rightarrow> string option \<Rightarrow> pydict \<Rightarrow> string option \<Rightarrow> pyval \<Rightarrow> pyval res" where
  "published_view now root_opt result tx_opt v =
     (let view = py_or v (VDict [(''results'', VList [])])
      in res_bind (vget view ''results'' VNone) (\<lambda>rs.
         res_bind (iter_items (py_or rs (VList []))) (\<lambda>old.
         res_bind (vget view ''snapshot_root'' VNone) (\<lambda>root0.
         res_bind (vget view ''snapshot_tx'' VNone) (\<lambda>tx0.
         res_bind (vget view ''pair'' VNone) (\<lambda>pair0.
           let results = old @ [VDict result]
           in Inr (VDict
             [(''updated_at'', VStr now),
              (''snapshot_root'', py_or (opt_text root_opt) root0),
              (''snapshot_tx'', py_or (opt_text tx_opt) tx0),
              (''cycles'', VInt (int (length results))),
              (''results'', VList (py_from (- 20) results)),
              (''pair'', py_or (py_or (dget result ''signal'' VNone) pair0) (VDict [])),
              (''in_progress'', VNone)])))))))"

definition publish_state_view ::
  "string \<Rightarrow> string option \<Rightarrow> pydict \<Rightarrow> string option \<Rightarrow> state_file \<Rightarrow> state_file" where
  "publish_state_view now root_opt result tx_opt f =
     (case published_view now root_opt result tx_opt (read_state_file f) of
        Inr v \<Rightarrow> write_state_file v f | Inl _ \<Rightarrow> f)"

text \<open>
  \<^verbatim>\<open>{"stage": stage, **partial}\<close>; item assignment works on dictionaries only.
\<close>

definition dict_merge :: "pydict \<Rightarrow> pydict \<Rightarrow> pydict" where
  "dict_merge a b = fold (\<lambda>(k, v) d. AList.update k v d) b a"

definition publish_partial :: "string \<Rightarrow> string \<Rightarrow> pydict \<Rightarrow> state_file \<Rightarrow> state_file" where
  "publish_partial now stage partial f =
     (case py_or (read_state_file f) (VDict []) of
        VDict d \<Rightarrow>
          write_state_file (VDict (AList.update ''in_progress'' (VDict (dict_merge [(''stage'', VStr stage)] partial))
             (AList.update ''updated_at'' (VStr now) d))) f
      | _ \<Rightarrow> f)"

subsection \<open>Agent states\<close>

record agents_view =
  rs_status :: string
  rs_last_signal :: pyval
  rk_status :: string
  rk_last_risk_score :: pyval
  rk_last_action :: pyval
  rk_last_confidence :: pyval
  ex_status :: string
  ex_last_tx_hash :: pyval
  ex_last_routing :: pyval

record zg_state =
  zs_version :: pyval
  zs_updated_at :: pyval
  zs_snapshot_root :: pyval
  zs_snapshot_tx :: pyval
  zs_in_progress :: pyval
  zs_agents :: agents_view

definition idle_agents :: "pydict \<Rightarrow> agents_view" where
  "idle_agents last_result =
     \<lparr>rs_status = ''IDLE'', rs_last_signal = dget last_result ''signal'' (VDict []),
      rk_status = ''IDLE'', rk_last_risk_score = dget last_result ''risk'' VNone,
      rk_last_action = dget last_result ''action'' VNone, rk_last_confidence = dget last_result ''confidence'' VNone,
      ex_status = ''IDLE'', ex_last_tx_hash = dget last_result ''tx'' VNone,
      ex_last_routing = dget last_result ''routing'' VNone\<rparr>"

definition show_progress :: "pydict \<Rightarrow> agents_view \<Rightarrow> agents_view" where
  "show_progress p a0 =
     (let stage = dget p ''stage'' VNone;
          a = (if stage \<in> {VStr ''scanning'', VStr ''deciding'', VStr ''executing'', VStr ''committing''}
               then a0\<lparr>rs_last_signal := py_or (dget p ''signal'' (VDict [])) (rs_last_signal a0)\<rparr> else a0)
      in if stage = VStr ''scanning'' then a\<lparr>rs_status := ''SCANNING''\<rparr>
         else if stage = VStr ''deciding'' then
           (let a1 = a\<lparr>rs_status := ''IDLE'', rk_status := ''DECIDING''\<rparr>
            in if dget p ''risk'' VNone \<noteq> VNone
               then a1\<lparr>rk_last_risk_score := dget p ''risk'' VNone, rk_last_action := dget p ''action'' VNone,
                      rk_last_confidence := dget p ''confidence'' VNone\<rparr>
               else a1)
         else if stage = VStr ''executing'' then
           a\<lparr>rk_last_risk_score := dget p ''risk'' VNone, rk_last_action := dget p ''action'' VNone,
             ex_status := ''EXECUTING''\<rparr>
         else if stage = VStr ''committing'' then
           (let a1 = a\<lparr>ex_status := ''EXECUTING''\<rparr>
            in if truthy (dget p ''tx'' VNone) then a1\<lparr>ex_last_tx_hash := dget p ''tx'' VNone\<rparr> else a1)
         else a)"

definition get_zg_state :: "state_file \<Rightarrow> zg_state option res" where
  "get_zg_state f =
     (let view = read_state_file f
      in if \<not> truthy view then Inr None
         else
           res_bind (vget view ''results'' (VList [])) (\<lambda>rs.
           let results = py_or rs (VList [])
           in res_bind (if truthy results then last_item results else Inr (VDict [])) (\<lambda>l.
              res_bind (vget view ''in_progress'' VNone) (\<lambda>prog.
              res_bind (vget view ''cycles'' (VInt 0)) (\<lambda>cycles.
              res_bind (vget view ''updated_at'' VNone) (\<lambda>upd.
              res_bind (vget view ''snapshot_root'' VNone) (\<lambda>rt.
              res_bind (vget view ''snapshot_tx'' VNone) (\<lambda>tx.
                let idle = idle_agents (case l of VDict d \<Rightarrow> d | _ \<Rightarrow> [])
                in Inr (Some
                  \<lparr>zs_version = cycles, zs_updated_at = upd, zs_snapshot_root = rt, zs_snapshot_tx = tx,
                   zs_in_progress = prog,
                   zs_agents = (case prog of VDict p \<Rightarrow> show_progress p idle | _ \<Rightarrow> idle)\<rparr>)))))))))"

subsection \<open>Event log\<close>

definition log_item :: "string \<Rightarrow> string \<Rightarrow> pyval \<Rightarrow> pydict \<Rightarrow> pyval" where
  "log_item ev rl ts data =
     VDict [(''event_type'', VStr ev), (''agent_role'', VStr rl), (''timestamp'', ts), (''data'', VDict data)]"

definition result_events :: "pyval \<Rightarrow> pyval \<Rightarrow> pyval list res" where
  "result_events ts r =
     res_bind (vget r ''cycle'' (VInt 0)) (\<lambda>cyc.
     res_bind (vget r ''risk'' VNone) (\<lambda>risk.
     res_bind (vget r ''action'' VNone) (\<lambda>act.
     res_bind (vget r ''tx'' VNone) (\<lambda>tx.
     res_bind (vget r ''error'' VNone) (\<lambda>err.
       Inr ([log_item ''MARKET_SIGNAL'' ''researcher'' ts [(''cycle'', cyc)],
             log_item ''RISK_DECISION'' ''risk'' ts [(''cycle'', cyc), (''risk_score'', risk), (''action'', act)]] @
            (if truthy tx then [log_item ''TRADE_EXECUTED'' ''executor'' ts [(''cycle'', cyc), (''tx_hash'', tx)]]
             else if act = VStr ''hold'' then []
             else if truthy err then [log_item ''TRADE_FAILED'' ''executor'' ts [(''cycle'', cyc), (''error'', err)]]
             else [])))))))"

fun all_events :: "pyval \<Rightarrow> pyval list \<Rightarrow> pyval list res" where
  "all_events ts [] = Inr []"
| "all_events ts (r # rs) = res_bind (result_events ts r) (\<lambda>es. map_sum id ((@) es) (all_events ts rs))"

definition get_zg_log :: "int \<Rightarrow> state_file \<Rightarrow> pyval list res" where
  "get_zg_log limit f =
     (let view = read_state_file f
      in res_bind (vget view ''results'' (VList [])) (\<lambda>rs.
         res_bind (iter_items (py_or rs (VList []))) (\<lambda>results.
         res_bind (vget view ''updated_at'' VNone) (\<lambda>ts.
         map_sum id (py_from (- limit)) (all_events ts results)))))"

subsection \<open>Chat payloads\<close>

definition chat_msg :: "string \<Rightarrow> string \<Rightarrow> pydict" where
  "chat_msg rl txt = [(''role'', VStr rl), (''content'', VStr txt)]"

definition chat_item :: "(pyval \<Rightarrow> string) \<Rightarrow> pyval \<Rightarrow> pydict list" where
  "chat_item repr m =
     (case m of
        VDict d \<Rightarrow>
          if truthy (dget d ''content'' VNone)
          then [chat_msg (py_str repr (dget d ''role'' (VStr ''user''))) (py_str repr (dget d ''content'' VNone))]
          else []
      | VStr s \<Rightarrow> [chat_msg ''user'' s]
      | _ \<Rightarrow> [])"

fun first_text :: "pydict \<Rightarrow> string list \<Rightarrow> pydict list option" where
  "first_text d [] = None"
| "first_text d (k # ks) =
     (case dget d k VNone of
        VStr s \<Rightarrow> if str_strip s \<noteq> [] then Some [chat_msg ''user'' (str_strip s)] else first_text d ks
      | _ \<Rightarrow> first_text d ks)"

definition normalise_chat_payload :: "(pyval \<Rightarrow> string) \<Rightarrow> pyval \<Rightarrow> pydict list option" where
  "normalise_chat_payload repr body =
     (case body of
        VStr s \<Rightarrow> if str_strip s \<noteq> [] then Some [chat_msg ''user'' (str_strip s)] else None
      | VDict d \<Rightarrow>
          (case dget d ''messages'' VNone of
             VList ms \<Rightarrow>
               (let msgs = concat (map (chat_item repr) ms) in if msgs = [] then None else Some msgs)
           | _ \<Rightarrow> first_text d [''message'', ''prompt'', ''text'', ''input''])
      | _ \<Rightarrow> None)"

subsection \<open>Configuration and short texts\<close>

definition update_config :: "pydict \<Rightarrow> pydict \<Rightarrow> pydict" where
  "update_config updates cfg =
     fold (\<lambda>(k, v) c. if map_of c k \<noteq> None then AList.update k v c else c) updates cfg"

definition DASH :: string where
  "DASH = [CHR 0xE2, CHR 0x80, CHR 0x94]"

text \<open>\<^verbatim>\<open>_short_hash\<close> with its default lengths, on the ASCII texts of hashes.\<close>

definition short_hash :: "(pyval \<Rightarrow> string) \<Rightarrow> pyval \<Rightarrow> string" where
  "short_hash repr v =
     (if \<not> truthy v then DASH
      else let s = py_str repr v
           in if length s \<le> 17 then s else py_upto 10 s @ ELLIPSIS @ py_from (- 6) s)"

subsection \<open>What publications leave in the file\<close>

type_synonym publication = "string \<times> string option \<times> pydict \<times> string option"

fun publish :: "publication \<Rightarrow> state_file \<Rightarrow> state_file" where
  "publish (now, rt, result, tx) f = publish_state_view now rt result tx f"

definition pub_result :: "publication \<Rightarrow> pyval" where
  "pub_result p = (case p of (_, _, result, _) \<Rightarrow> VDict result)"

text \<open>The fields of a view that holds the results \<open>rs\<close> of all publications so far.\<close>

definition view_holds :: "pyval list \<Rightarrow> state_file \<Rightarrow> bool" where
  "view_holds rs f \<longleftrightarrow> sf_writable f \<and>
     (if rs = [] then sf_view f = None
      else \<exists>d. sf_view f = Some (VDict d) \<and> d \<noteq> [] \<and>
        dget d ''results'' (VList []) = VList (py_from (- 20) rs) \<and>
        dget d ''cycles'' (VInt 0) = VInt (int (min (length rs) 21)) \<and>
        dget d ''in_progress'' VNone = VNone)"

lemma dget_default: "map_of d k \<noteq> None \<Longrightarrow> dget d k a = dget d k b"
  by (auto simp: dget_def)

lemma view_holds_step:
  assumes "view_holds rs f"
  shows "view_holds (rs @ [pub_result p]) (publish p f)"
proof -
  obtain now rt result tx where p: "p = (now, rt, result, tx)" by (rule prod_cases4)
  define old where "old = py_from (- 20) rs"
  have "\<exists>v. py_or (read_state_file f) (VDict [(''results'', VList [])]) = VDict v \<and>
      iter_items (py_or (dget v ''results'' VNone) (VList [])) = Inr old"
  proof (cases "rs = []")
    case True
    then show ?thesis using assms
      by (simp add: view_holds_def read_state_file_def py_or_def dget_def iter_items_def old_def py_from_def)
  next
    case False
    then obtain d where d: "sf_view f = Some (VDict d)" "d \<noteq> []" "dget d ''results'' (VList []) = VList old"
      using assms by (auto simp: view_holds_def old_def)
    have "dget d ''results'' VNone = VList old \<or> dget d ''results'' VNone = VNone \<and> old = []"
      using d(3) by (auto simp: dget_def split: option.splits)
    then show ?thesis using d by (auto simp: read_state_file_def py_or_def iter_items_def)
  qed
  then obtain v where v: "py_or (read_state_file f) (VDict [(''results'', VList [])]) = VDict v"
    "iter_items (py_or (dget v ''results'' VNone) (VList [])) = Inr old" by blast
  have len: "length old = min 20 (length rs)" using length_py_from_neg [of 20 rs] by (simp add: old_def)
  have "py_from (- 20) (old @ [VDict result]) = py_from (- 20) (rs @ [VDict result])"
    unfolding old_def using py_from_snoc [of 20 rs "VDict result"] by simp
  moreover have "int (length (old @ [VDict result])) = int (min (length (rs @ [VDict result])) 21)" using len by simp
  moreover have "sf_writable f" using assms by (simp add: view_holds_def)
  moreover obtain a b c where "published_view now rt result tx (read_state_file f) = Inr (VDict
      [(''updated_at'', VStr now), (''snapshot_root'', a), (''snapshot_tx'', b),
       (''cycles'', VInt (int (length (old @ [VDict result])))),
       (''results'', VList (py_from (- 20) (old @ [VDict result]))), (''pair'', c), (''in_progress'', VNone)])"
    using v by (simp add: published_view_def vget_def Let_def)
  ultimately show ?thesis unfolding p
    by (simp add: publish_state_view_def write_state_file_def view_holds_def pub_result_def dget_def)
qed

lemma view_holds_all: "view_holds rs f \<Longrightarrow> view_holds (rs @ map pub_result ps) (fold publish ps f)"
proof (induction ps arbitrary: rs f)
  case (Cons p ps)
  from Cons.IH [OF view_holds_step [OF Cons.prems, of p]] show ?case by simp
qed simp

definition empty_file :: state_file where
  "empty_file = \<lparr>sf_view = None, sf_writable = True\<rparr>"

lemma publish_all:
  "view_holds (map pub_result ps) (fold publish ps empty_file)"
proof -
  have "view_holds [] empty_file" by (simp add: view_holds_def empty_file_def)
  from view_holds_all [OF this] show ?thesis by simp
qed

text \<open>A publication never depends on the stage that a cycle announced in between.\<close>

lemma publish_partial_keeps:
  assumes "sf_view f = Some (VDict d)" and "d \<noteq> []" and "sf_writable f"
  shows "\<exists>d'. sf_view (publish_partial now stage partial f) = Some (VDict d') \<and>
    dget d' ''results'' x = dget d ''results'' x \<and> dget d' ''cycles'' x = dget d ''cycles'' x \<and>
    dget d' ''in_progress'' VNone = VDict (dict_merge [(''stage'', VStr stage)] partial)"
  using assms by (simp add: publish_partial_def read_state_file_def py_or_def write_state_file_def dget_def)

subsection \<open>Configuration\<close>

lemma update_config_keys: "dom (map_of (update_config updates cfg)) = dom (map_of cfg)"
  unfolding update_config_def by (induction updates arbitrary: cfg) (auto split: if_splits)

subsection \<open>Chat messages\<close>

lemma chat_item_shape: "m \<in> set (chat_item repr v) \<Longrightarrow> \<exists>rl txt. m = chat_msg rl txt"
  by (auto simp: chat_item_def split: pyval.splits if_splits)

lemma first_text_shape: "first_text d ks = Some ms \<Longrightarrow> \<exists>txt. ms = [chat_msg ''user'' txt] \<and> txt \<noteq> []"
  by (induction ks) (auto split: pyval.splits if_splits)

subsection \<open>Properties\<close>

text \<open>
  C28. The state file after any number of published cycles, from an empty file on: it holds the last
  20 results in order and no stage in progress, and its cycle counter is the number of cycles only
  up to 21, where it stops: the counter is taken from the results kept.
\<close>

theorem published_history:
  assumes "ps \<noteq> []"
  shows "\<exists>d. sf_view (fold publish ps empty_file) = Some (VDict d) \<and>
    dget d ''results'' (VList []) = VList (py_from (- 20) (map pub_result ps)) \<and>
    dget d ''cycles'' (VInt 0) = VInt (int (min (length ps) 21)) \<and>
    dget d ''in_progress'' VNone = VNone"
  using publish_all [of ps] assms by (auto simp: view_holds_def)

theorem published_history_witness:
  "\<exists>d. sf_view (fold publish (replicate 30 (''t'', None, [], None)) empty_file) = Some (VDict d) \<and>
    dget d ''cycles'' (VInt 0) = VInt 21"
proof -
  have "replicate 30 (''t'', None, [], None) \<noteq> ([] :: publication list)" by simp
  from published_history [OF this] show ?thesis by auto
qed

text \<open>
  What the dashboard shows after a cycle is what the cycle published: the agents are idle, and
  signal, risk score, action, confidence, transaction and routing are those of the last result.
\<close>

theorem published_result_shown:
  assumes "sf_writable f" and "published_view now rt result tx (read_state_file f) = Inr v"
  shows "\<exists>z. get_zg_state (publish_state_view now rt result tx f) = Inr (Some z) \<and>
    zs_in_progress z = VNone \<and> zs_agents z = idle_agents result"
proof -
  obtain old a b c rs where v: "v = VDict
      [(''updated_at'', VStr now), (''snapshot_root'', a), (''snapshot_tx'', b),
       (''cycles'', VInt (int (length (old @ [VDict result])))),
       (''results'', VList (py_from (- 20) (old @ [VDict result]))), (''pair'', c), (''in_progress'', VNone)]"
    using assms(2) by (auto simp: published_view_def Let_def res_bind_Inr_iff)
  have "py_from (- 20) (old @ [VDict result]) \<noteq> []" "last (py_from (- 20) (old @ [VDict result])) = VDict result"
    using py_from_neg [of 20 "old @ [VDict result]"] by (auto simp: last_drop)
  then show ?thesis using assms
    by (simp add: publish_state_view_def write_state_file_def get_zg_state_def read_state_file_def v dget_def vget_def
        py_or_def last_item_def Let_def)
qed

theorem published_result_shown_witness:
  "\<exists>z. get_zg_state (publish_state_view ''t'' None [(''action'', VStr ''hold'')] None empty_file) = Inr (Some z) \<and>
    rk_last_action (zs_agents z) = VStr ''hold''"
proof -
  have "\<exists>v. published_view ''t'' None [(''action'', VStr ''hold'')] None (read_state_file empty_file) = Inr v"
    by (simp add: published_view_def read_state_file_def empty_file_def py_or_def vget_def dget_def iter_items_def Let_def)
  then obtain v where "published_view ''t'' None [(''action'', VStr ''hold'')] None (read_state_file empty_file) = Inr v" ..
  from published_result_shown [OF _ this] show ?thesis by (auto simp: empty_file_def idle_agents_def dget_def)
qed

end
