(* ===== verification/Trade_Cycle.thy ===== *)
theory Trade_Cycle
  imports Agents Ens State_View
begin

text \<open>
  The trade cycle that the dashboard runs (\<^verbatim>\<open>_run_trade_cycle\<close> of \<^verbatim>\<open>dashboard/server.py\<close>):
  researcher, risk and executor one after the other in one process, on clients made for the cycle, a
  shared memory, the AXL bus, the ENS identity and the state file.
\<close>

subsection \<open>State\<close>

text \<open>
  The bus and the identity carry a copy of the network of their own; the zoom \<open>on_bus\<close> runs the
  bus on the network of the cycle.
\<close>

record ('n, 'w) cycle_sys =
  cy_x :: "('n, 'w) xstate"
  cy_kvs :: "swarm_kv list"
  cy_compute :: compute_backend
  cy_bus :: "'w axl_bus"
  cy_identity :: "'w identity_state"
  cy_file :: state_file

record cycle_inputs =
  ci_ts :: "nat \<Rightarrow> nat \<Rightarrow> string"
  ci_eid :: "nat \<Rightarrow> string"
  ci_mid :: "nat \<Rightarrow> string"
  ci_now :: "nat \<Rightarrow> string"
  ci_ri :: run_inputs

definition on_memory :: "('n mem_heap, 'a) sx \<Rightarrow> (('n, 'w) cycle_sys, 'a) sx" where
  "on_memory m = sx_zoom (\<lambda>s. \<lparr>mh_kvs = cy_kvs s, mh_zg = x_zg (cy_x s)\<rparr>)
     (\<lambda>h s. s\<lparr>cy_kvs := mh_kvs h, cy_x := (cy_x s)\<lparr>x_zg := mh_zg h\<rparr>\<rparr>) m"

definition on_storage :: "('n zg, 'a) sx \<Rightarrow> (('n, 'w) cycle_sys, 'a) sx" where
  "on_storage m = sx_zoom (\<lambda>s. x_zg (cy_x s)) (\<lambda>z s. s\<lparr>cy_x := (cy_x s)\<lparr>x_zg := z\<rparr>\<rparr>) m"

definition on_executor :: "(('n, 'w) xstate, 'a) sx \<Rightarrow> (('n, 'w) cycle_sys, 'a) sx" where
  "on_executor m = sx_zoom cy_x (\<lambda>x s. s\<lparr>cy_x := x\<rparr>) m"

definition on_scorer :: "('w compute, 'a) sx \<Rightarrow> (('n, 'w) cycle_sys, 'a) sx" where
  "on_scorer m = sx_zoom (\<lambda>s. (cy_compute s, x_net (cy_x s)))
     (\<lambda>(c, w) s. s\<lparr>cy_compute := c, cy_x := (cy_x s)\<lparr>x_net := w\<rparr>\<rparr>) m"

definition on_bus :: "('w axl_bus, 'a) sx \<Rightarrow> (('n, 'w) cycle_sys, 'a) sx" where
  "on_bus m = sx_zoom (\<lambda>s. (cy_bus s)\<lparr>bus_net := x_net (cy_x s)\<rparr>)
     (\<lambda>b s. s\<lparr>cy_bus := b, cy_x := (cy_x s)\<lparr>x_net := bus_net b\<rparr>\<rparr>) m"

definition ens_text :: "string \<Rightarrow> string \<Rightarrow> string \<Rightarrow> (('n, 'w) cycle_sys, unit) sx" where
  "ens_text rl k v = sx_modify (\<lambda>s. s\<lparr>cy_identity := update_text rl k v (cy_identity s)\<rparr>)"

definition partial_view :: "cycle_inputs \<Rightarrow> nat \<Rightarrow> string \<Rightarrow> pydict \<Rightarrow> (('n, 'w) cycle_sys, unit) sx" where
  "partial_view ci i stage partial =
     sx_modify (\<lambda>s. s\<lparr>cy_file := publish_partial (ci_now ci i) stage partial (cy_file s)\<rparr>)"

type_synonym memories = "(string \<times> agent_memory) list"

definition mem_of :: "memories \<Rightarrow> string \<Rightarrow> agent_memory" where
  "mem_of ms rl = the (map_of ms rl)"

definition cy_status ::
  "('n, 'w) swarm_env \<Rightarrow> cycle_inputs \<Rightarrow> nat \<Rightarrow> memories \<Rightarrow> string \<Rightarrow> status_args \<Rightarrow> (('n, 'w) cycle_sys, unit) sx" where
  "cy_status env ci i ms rl a = on_memory (mem_update_status (e_st env) (ci_ts ci i) (mem_of ms rl) a)"

definition cy_event ::
  "('n, 'w) swarm_env \<Rightarrow> cycle_inputs \<Rightarrow> nat \<Rightarrow> memories \<Rightarrow> string \<Rightarrow> log_event_type \<Rightarrow> pydict \<Rightarrow>
   (('n, 'w) cycle_sys, unit) sx" where
  "cy_event env ci i ms rl ev data =
     sx_bind (on_memory (mem_log_event (e_st env) (ci_ts ci i) (ci_eid ci i) (mem_of ms rl) ev data)) (\<lambda>_. sx_return ())"

subsection \<open>The three agents\<close>

definition scan_text :: "(pyval \<Rightarrow> string) \<Rightarrow> pydict \<Rightarrow> string res" where
  "scan_text show signal =
     res_bind (py_float (dget signal ''price_usd'' (VInt 0))) (\<lambda>price.
     Inr (py_str show (dget signal ''token_in_sym'' (VStr ''?'')) @ ARROW @
          py_str show (dget signal ''token_out_sym'' (VStr ''?'')) @ '' @ $'' @ fmt_2f_comma price @ '' '' @ DOT @ '' '' @
          py_str show (dget signal ''signal'' (VStr ''?''))))"

definition researcher_part ::
  "('n, 'w) swarm_env \<Rightarrow> cycle_inputs \<Rightarrow> memories \<Rightarrow> pydict \<Rightarrow> (('n, 'w) cycle_sys, unit) sx" where
  "researcher_part env ci ms signal =
     sx_bind (partial_view ci 0 ''scanning'' [(''signal'', VDict signal)]) (\<lambda>_.
     sx_bind (cy_status env ci 0 ms ''researcher'' ((status_only AS_SCANNING)\<lparr>sa_last_signal := signal\<rparr>)) (\<lambda>_.
     sx_bind (cy_event env ci 1 ms ''researcher'' LE_MARKET_SIGNAL signal) (\<lambda>_.
     sx_bind (ens_text ''researcher'' ''swarmfi.role'' ''market_scanner'') (\<lambda>_.
     sx_bind (ens_text ''researcher'' ''swarmfi.status'' ''scanning'') (\<lambda>_.
     sx_bind (sx_lift (scan_text (show_val (e_risk env)) signal)) (\<lambda>txt.
     sx_bind (ens_text ''researcher'' ''swarmfi.last'' txt) (\<lambda>_.
     sx_bind (on_bus (announce_market_signal (e_axl env) (show_val (e_risk env)) (ci_mid ci 0) (ci_now ci 1) (ci_now ci 2) signal)) (\<lambda>_.
     sx_return ()))))))))"

text \<open>\<^verbatim>\<open>round(x)\<close> to an integer.\<close>

definition f_round_int :: "pyfloat \<Rightarrow> int res" where
  "f_round_int x =
     (case x of
        Fin q \<Rightarrow> Inr (round_half_even q)
      | NaN \<Rightarrow> Inl (PyExc ValueError ''cannot convert float NaN to integer'')
      | _ \<Rightarrow> Inl (PyExc OverflowError ''cannot convert float infinity to integer''))"

definition f_times_100 :: "pyfloat \<Rightarrow> pyfloat" where
  "f_times_100 x = (case x of Fin q \<Rightarrow> fl (q * 100) | _ \<Rightarrow> x)"

definition risk_text :: "(pyval \<Rightarrow> string) \<Rightarrow> pydict \<Rightarrow> string res" where
  "risk_text show pl =
     res_bind (py_float (dget pl ''risk_score'' (VInt 0))) (\<lambda>risk.
     res_bind (py_float (dget pl ''confidence'' (VInt 0))) (\<lambda>conf.
     res_bind (f_round_int (f_times_100 conf)) (\<lambda>pct.
     Inr (map char_upper (action_text show (dget pl ''action'' (VStr ''?''))) @ '' '' @ DOT @ '' risk '' @ fmt_1f risk @ ''/10 '' @ DOT @
          '' conf '' @ str_int pct @ ''%''))))"

definition zero_key :: string where
  "zero_key = replicate 64 CHR ''0''"

definition result_of_decision :: "pydict \<Rightarrow> pydict \<Rightarrow> pydict" where
  "result_of_decision pl rv =
     AList.update ''reasoning'' (dget pl ''reasoning'' VNone)
      (AList.update ''confidence'' (dget pl ''confidence'' VNone)
       (AList.update ''action'' (dget pl ''action'' VNone)
        (AList.update ''risk'' (dget pl ''risk_score'' VNone) rv)))"

definition risk_part ::
  "('n, 'w) swarm_env \<Rightarrow> cycle_inputs \<Rightarrow> memories \<Rightarrow> pydict \<Rightarrow> (('n, 'w) cycle_sys, pydict) sx" where
  "risk_part env ci ms signal =
     sx_bind (partial_view ci 3 ''deciding'' [(''signal'', VDict signal)]) (\<lambda>_.
     sx_bind (cy_status env ci 2 ms ''risk'' (status_only AS_DECIDING)) (\<lambda>_.
     sx_bind (on_scorer (score (e_risk env) (ci_mid ci 1) (ci_now ci 4) signal zero_key)) (\<lambda>decision.
     let pl = payload decision in
     sx_bind (cy_event env ci 3 ms ''risk'' LE_RISK_DECISION pl) (\<lambda>_.
     sx_bind (cy_status env ci 4 ms ''risk'' ((status_only AS_IDLE)\<lparr>sa_last_risk_score := payload_risk pl\<rparr>)) (\<lambda>_.
     sx_bind (partial_view ci 5 ''deciding'' [(''signal'', VDict signal), (''risk'', dget pl ''risk_score'' VNone),
         (''action'', dget pl ''action'' VNone), (''confidence'', dget pl ''confidence'' VNone)]) (\<lambda>_.
     sx_bind (ens_text ''risk'' ''swarmfi.role'' ''ai_risk_scoring'') (\<lambda>_.
     sx_bind (ens_text ''risk'' ''swarmfi.status'' ''idle'') (\<lambda>_.
     sx_bind (sx_lift (risk_text (show_val (e_risk env)) pl)) (\<lambda>txt.
     sx_bind (ens_text ''risk'' ''swarmfi.last'' txt) (\<lambda>_.
     sx_bind (on_bus (announce_trade_decision (e_axl env) (show_val (e_risk env)) (ci_mid ci 2) (ci_now ci 6) (ci_now ci 7) pl)) (\<lambda>_.
     sx_return pl)))))))))))"

text \<open>The payload is the dump of a validated decision: texts for the tokens, integers for the rest.\<close>

definition str_of :: "pyval \<Rightarrow> string" where
  "str_of v = (case v of VStr s \<Rightarrow> s | _ \<Rightarrow> [])"

definition int_of_val :: "pyval \<Rightarrow> int" where
  "int_of_val v = (case v of VInt i \<Rightarrow> i | _ \<Rightarrow> 0)"

definition routing_text :: "swap_result \<Rightarrow> string" where
  "routing_text r = (case sw_routing r of Some x \<Rightarrow> routing_value x | None \<Rightarrow> ''CLASSIC'')"

definition record_swap ::
  "('n, 'w) swarm_env \<Rightarrow> cycle_inputs \<Rightarrow> memories \<Rightarrow> swap_result \<Rightarrow> pydict \<Rightarrow> (('n, 'w) cycle_sys, pydict) sx" where
  "record_swap env ci ms r rv =
     (if sw_succeeded r \<or> sw_status r = SW_SUBMITTED
      then sx_bind (cy_status env ci 6 ms ''executor'' ((status_only AS_IDLE)\<lparr>sa_last_tx_hash := sw_tx_hash r\<rparr>)) (\<lambda>_.
           sx_bind (cy_event env ci 7 ms ''executor'' LE_TRADE_EXECUTED (swap_log_data r)) (\<lambda>_.
           sx_return (AList.update ''routing'' (VStr (routing_text r)) (AList.update ''tx'' (opt_text (sw_tx_hash r)) rv))))
      else sx_bind (cy_status env ci 6 ms ''executor'' ((status_only AS_ERROR)\<lparr>sa_error_message := sw_error r\<rparr>)) (\<lambda>_.
           sx_bind (cy_event env ci 7 ms ''executor'' LE_TRADE_FAILED (swap_log_data r)) (\<lambda>_.
           sx_return (AList.update ''error'' (opt_text (sw_error r)) rv))))"

definition executor_texts :: "swap_result \<Rightarrow> (('n, 'w) cycle_sys, unit) sx" where
  "executor_texts r =
     sx_bind (ens_text ''executor'' ''swarmfi.role'' ''uniswap_keeperhub'') (\<lambda>_.
     sx_bind (ens_text ''executor'' ''swarmfi.status'' ''idle'') (\<lambda>_.
       if str_truthy (sw_tx_hash r)
       then sx_bind (ens_text ''executor'' ''swarmfi.tx'' (the (sw_tx_hash r))) (\<lambda>_.
            ens_text ''executor'' ''swarmfi.last''
              (routing_text r @ '' '' @ DOT @ '' tx '' @ take 12 (the (sw_tx_hash r)) @ ELLIPSIS))
       else sx_return ()))"

definition trade_part ::
  "('n, 'w) swarm_env \<Rightarrow> cycle_inputs \<Rightarrow> memories \<Rightarrow> pydict \<Rightarrow> pydict \<Rightarrow> pydict \<Rightarrow> (('n, 'w) cycle_sys, pydict) sx" where
  "trade_part env ci ms signal pl rv =
     (let wallet = getenv_or (e_getenv env) ''WALLET_ADDRESS'' []
      in sx_bind (partial_view ci 8 ''executing'' [(''signal'', VDict signal), (''risk'', dget pl ''risk_score'' VNone),
           (''action'', dget pl ''action'' VNone)]) (\<lambda>_.
         sx_bind (cy_status env ci 5 ms ''executor'' (status_only AS_EXECUTING)) (\<lambda>_.
         sx_bind (on_executor (kh_execute_swap (e_uni env) (e_st env) (e_getenv env) \<lparr>kx_wallet = wallet, kx_has_zg = True\<rparr>
             (ci_ri ci) (str_of (dget pl ''token_in'' VNone)) (str_of (dget pl ''token_out'' VNone))
             (py_str (show_val (e_risk env)) (dget pl ''amount_in_wei'' (VInt 50000000000000000)))
             (int_of_val (dget pl ''chain_id'' (VInt 8453))) (Fin (1 / 2)) (Some wallet))) (\<lambda>r.
         sx_bind (record_swap env ci ms r rv) (\<lambda>rv'.
         sx_bind (executor_texts r) (\<lambda>_.
         sx_bind (on_bus (announce_execution_result (e_axl env) (show_val (e_risk env)) (ci_mid ci 3) (ci_now ci 9) (ci_now ci 10)
             [(''tx_hash'', opt_text (sw_tx_hash r)), (''status'', VStr (swap_status_value (sw_status r))),
              (''routing'', opt_text (map_option routing_value (sw_routing r)))])) (\<lambda>_.
         sx_return rv')))))))"

definition executor_part ::
  "('n, 'w) swarm_env \<Rightarrow> cycle_inputs \<Rightarrow> memories \<Rightarrow> pydict \<Rightarrow> pydict \<Rightarrow> pydict \<Rightarrow> (('n, 'w) cycle_sys, pydict) sx" where
  "executor_part env ci ms signal pl rv =
     (if dget pl ''action'' VNone = VStr ''hold''
      then sx_bind (cy_event env ci 5 ms ''executor'' LE_TRADE_FAILED
             [(''action'', VStr ''HOLD''), (''reason'', dget pl ''rejection_reason'' VNone)]) (\<lambda>_. sx_return rv)
      else trade_part env ci ms signal pl rv)"

subsection \<open>Commit and publication\<close>

definition commit_part ::
  "('n, 'w) swarm_env \<Rightarrow> cycle_inputs \<Rightarrow> pydict \<Rightarrow> pydict \<Rightarrow> (('n, 'w) cycle_sys, string option \<times> string option) sx" where
  "commit_part env ci signal rv =
     sx_bind (partial_view ci 11 ''committing'' [(''signal'', VDict signal), (''risk'', dget rv ''risk'' VNone),
         (''action'', dget rv ''action'' VNone), (''tx'', dget rv ''tx'' VNone)]) (\<lambda>_.
     sx_bind (sx_try
        (sx_bind (on_storage (zg_flush (e_st env) (ci_now ci 12))) (\<lambda>rt.
         sx_bind sx_get (\<lambda>s. sx_return (rt, snapshot_tx (x_zg (cy_x s))))))
        (\<lambda>e. sx_return (None, None))) (\<lambda>(rt, tx).
       if str_truthy rt
       then sx_bind (ens_text ''researcher'' ''swarmfi.snapshot'' (the rt)) (\<lambda>_.
            sx_bind (ens_text ''risk'' ''swarmfi.snapshot'' (the rt)) (\<lambda>_.
            sx_bind (ens_text ''executor'' ''swarmfi.snapshot'' (the rt)) (\<lambda>_.
            sx_return (rt, tx))))
       else sx_return (rt, tx)))"

text \<open>\<^verbatim>\<open>(view.get("cycles") or 0) + 1\<close>.\<close>

definition next_cycle :: "pyval \<Rightarrow> pyval res" where
  "next_cycle view =
     res_bind (vget view ''cycles'' VNone) (\<lambda>c.
       case py_or c (VInt 0) of
         VInt i \<Rightarrow> Inr (VInt (i + 1))
       | VBool b \<Rightarrow> Inr (VInt ((if b then 1 else 0) + 1))
       | VFloat x \<Rightarrow> Inr (VFloat (f_add x (Fin 1)))
       | _ \<Rightarrow> Inl (PyExc TypeError ''unsupported operand type(s) for +''))"

text \<open>The clients of a cycle are made and opened anew; the store starts empty.\<close>

definition open_clients ::
  "('n, 'w) swarm_env \<Rightarrow> host_env \<Rightarrow> (('n, 'w) cycle_sys, memories) sx" where
  "open_clients env host s =
     (case zg_from_env (e_getenv env) host None (zg_net (x_zg (cy_x s))) of
        Inl e \<Rightarrow> (Inl e, s)
      | Inr z \<Rightarrow>
          (case make_shared_memory_set [''researcher'', ''risk'', ''executor''] \<lparr>mh_kvs = [], mh_zg = z\<rparr> of
             (ms, h) \<Rightarrow>
               (Inr ms, s\<lparr>cy_kvs := mh_kvs h, cy_compute := compute_enter (compute_from_env (e_getenv env)),
                  cy_x := (cy_x s)\<lparr>x_zg := mh_zg h, x_uni := uni_enter (uni_from_env (e_getenv env)),
                    x_kh := kh_enter (kh_from_env (e_getenv env))\<rparr>\<rparr>)))"

definition cycle_body ::
  "('n, 'w) swarm_env \<Rightarrow> cycle_inputs \<Rightarrow> memories \<Rightarrow> pydict \<Rightarrow> pydict \<Rightarrow>
   (('n, 'w) cycle_sys, pydict \<times> string option \<times> string option) sx" where
  "cycle_body env ci ms signal rv0 =
     sx_bind (researcher_part env ci ms signal) (\<lambda>_.
     sx_bind (risk_part env ci ms signal) (\<lambda>pl.
     sx_bind (executor_part env ci ms signal pl (result_of_decision pl rv0)) (\<lambda>rv.
     sx_bind (commit_part env ci signal rv) (\<lambda>(rt, tx).
     sx_return (rv, rt, tx)))))"

definition run_trade_cycle ::
  "('n, 'w) swarm_env \<Rightarrow> host_env \<Rightarrow> cycle_inputs \<Rightarrow> pydict \<Rightarrow>
   (('n, 'w) cycle_sys, unit) sx" where
  "run_trade_cycle env host ci signal =
     sx_try
       (sx_bind (open_clients env host) (\<lambda>ms.
        sx_bind sx_get (\<lambda>s.
        sx_bind (sx_lift (next_cycle (read_state_file (cy_file s)))) (\<lambda>n.
        sx_bind (cycle_body env ci ms signal [(''cycle'', n), (''signal'', VDict signal)]) (\<lambda>(rv, rt, tx).
        sx_modify (\<lambda>s. s\<lparr>cy_file := publish_state_view (ci_now ci 13) rt rv tx (cy_file s)\<rparr>))))))
       (\<lambda>e. sx_return ())"

subsection \<open>What the steps leave alone\<close>

definition cy_clients :: "('n, 'w) cycle_sys \<Rightarrow> uni_backend \<times> kh_backend" where
  "cy_clients s = (x_uni (cy_x s), x_kh (cy_x s))"

lemma cy_clients_kept [intro, simp]:
  "keeps cy_clients (on_memory m)" "keeps cy_clients (on_storage m')" "keeps cy_clients (on_scorer c)"
  "keeps cy_clients (on_bus b)" "keeps cy_clients (ens_text rl k v)" "keeps cy_clients (partial_view ci i stage p)"
  by (auto simp: keeps_def cy_clients_def on_memory_def on_storage_def on_scorer_def on_bus_def ens_text_def
      partial_view_def sx_zoom_def sx_modify_def split: prod.splits)

lemma cy_clients_memory [intro, simp]: "keeps cy_clients (cy_status env ci i ms rl a)" "keeps cy_clients (cy_event env ci i ms rl ev d)"
  unfolding cy_status_def cy_event_def by (intro keeps_bind keeps_basic cy_clients_kept)+

lemma cy_clients_parts [intro, simp]:
  "keeps cy_clients (researcher_part env ci ms signal)" "keeps cy_clients (risk_part env ci ms signal)"
  "keeps cy_clients (commit_part env ci signal rv)"
  unfolding researcher_part_def risk_part_def commit_part_def Let_def
  by (auto intro!: keeps_bind keeps_try split: prod.splits)

lemma cy_clients_hold:
  "dget pl ''action'' VNone = VStr ''hold'' \<Longrightarrow> keeps cy_clients (executor_part env ci ms signal pl rv)"
  unfolding executor_part_def by (auto intro!: keeps_bind)

text \<open>Recorded results: only the final publication touches them.\<close>

definition file_results :: "state_file \<Rightarrow> pyval option" where
  "file_results f =
     (case py_or (read_state_file f) (VDict []) of
        VDict d \<Rightarrow> Some (py_or (dget d ''results'' VNone) (VList [])) | _ \<Rightarrow> None)"

definition cy_record :: "('n, 'w) cycle_sys \<Rightarrow> pyval option \<times> bool" where
  "cy_record s = (file_results (cy_file s), sf_writable (cy_file s))"

lemma publish_partial_results:
  "file_results (publish_partial now stage p f) = file_results f \<and> sf_writable (publish_partial now stage p f) = sf_writable f"
proof (cases "py_or (read_state_file f) (VDict [])")
  case (VDict d)
  let ?d = "AList.update ''in_progress'' (VDict (dict_merge [(''stage'', VStr stage)] p)) (AList.update ''updated_at'' (VStr now) d)"
  have "map_of ?d ''updated_at'' \<noteq> None" by simp
  then have ne: "?d \<noteq> []" by (metis map_of.simps(1))
  show ?thesis
  proof (cases "sf_writable f")
    case True
    have "dget ?d ''results'' VNone = dget d ''results'' VNone" by (simp add: dget_def)
    with VDict ne True show ?thesis
      by (simp add: publish_partial_def write_state_file_def file_results_def read_state_file_def py_or_def [of "VDict ?d"])
  qed (use VDict in \<open>simp add: publish_partial_def write_state_file_def\<close>)
qed (simp_all add: publish_partial_def)

lemma cy_record_kept [intro, simp]:
  "keeps cy_record (on_memory m)" "keeps cy_record (on_storage m')" "keeps cy_record (on_scorer c)"
  "keeps cy_record (on_bus b)" "keeps cy_record (on_executor x)" "keeps cy_record (ens_text rl k v)" "keeps cy_record (partial_view ci i stage p)"
  by (auto simp: keeps_def cy_record_def on_memory_def on_storage_def on_scorer_def on_bus_def on_executor_def ens_text_def
      partial_view_def sx_zoom_def sx_modify_def publish_partial_results split: prod.splits)

lemma cy_record_memory [intro, simp]: "keeps cy_record (cy_status env ci i ms rl a)" "keeps cy_record (cy_event env ci i ms rl ev d)"
  unfolding cy_status_def cy_event_def by (intro keeps_bind keeps_basic cy_record_kept)+

lemma cy_record_swap [intro, simp]: "keeps cy_record (record_swap env ci ms r rv)" "keeps cy_record (executor_texts r)"
  unfolding record_swap_def executor_texts_def by (auto intro!: keeps_bind)

lemma cy_record_parts [intro, simp]:
  "keeps cy_record (researcher_part env ci ms signal)" "keeps cy_record (risk_part env ci ms signal)"
  "keeps cy_record (trade_part env ci ms signal pl rv)" "keeps cy_record (executor_part env ci ms signal pl rv)"
  "keeps cy_record (commit_part env ci signal rv)"
  unfolding researcher_part_def risk_part_def trade_part_def executor_part_def commit_part_def Let_def
  by (auto intro!: keeps_bind keeps_try split: prod.splits)

lemma cy_record_body [intro, simp]: "keeps cy_record (cycle_body env ci ms signal rv)"
  unfolding cycle_body_def by (auto intro!: keeps_bind split: prod.splits)

lemma cy_record_open [intro, simp]: "keeps cy_record (open_clients env host)"
  by (auto simp: keeps_def cy_record_def open_clients_def split: sum.splits prod.splits)

lemma publish_state_view_results:
  assumes "sf_writable f"
  shows "file_results (publish_state_view now rt rv tx f) = file_results f \<or>
    (\<exists>v old. file_results f = Some v \<and> iter_items v = Inr old \<and>
       file_results (publish_state_view now rt rv tx f) = Some (VList (py_from (- 20) (old @ [VDict rv]))))"
proof (cases "published_view now rt rv tx (read_state_file f)")
  case (Inr w)
  let ?v = "py_or (read_state_file f) (VDict [(''results'', VList [])])"
  obtain d where d: "?v = VDict d" using Inr by (cases ?v) (auto simp: published_view_def vget_def Let_def)
  obtain old a b c where o: "iter_items (py_or (dget d ''results'' VNone) (VList [])) = Inr old"
    and w: "w = VDict [(''updated_at'', VStr now), (''snapshot_root'', a), (''snapshot_tx'', b),
       (''cycles'', VInt (int (length (old @ [VDict rv])))),
       (''results'', VList (py_from (- 20) (old @ [VDict rv]))), (''pair'', c), (''in_progress'', VNone)]"
    using Inr d by (auto simp: published_view_def vget_def Let_def res_bind_Inr_iff)
  have "file_results f = Some (py_or (dget d ''results'' VNone) (VList []))"
    using d by (cases "truthy (read_state_file f)") (auto simp: file_results_def py_or_def dget_def)
  moreover have "py_from (- 20) (old @ [VDict rv]) \<noteq> []" using py_from_neg [of 20 "old @ [VDict rv]"] by auto
  then have "file_results (publish_state_view now rt rv tx f) = Some (VList (py_from (- 20) (old @ [VDict rv])))"
    using Inr w assms
    by (simp add: publish_state_view_def write_state_file_def file_results_def read_state_file_def py_or_def dget_def)
  ultimately show ?thesis using o by blast
qed (simp add: publish_state_view_def)

lemma publish_state_view_writable [simp]: "sf_writable (publish_state_view now rt rv tx f) = sf_writable f"
  by (simp add: publish_state_view_def write_state_file_def split: sum.split)

subsection \<open>The decision of a cycle\<close>

text \<open>The run of a cycle up to the risk agent's decision.\<close>

definition cycle_decision ::
  "('n, 'w) swarm_env \<Rightarrow> host_env \<Rightarrow> cycle_inputs \<Rightarrow> pydict \<Rightarrow>
   (('n, 'w) cycle_sys, memories \<times> pydict \<times> pydict) sx" where
  "cycle_decision env host ci signal =
     sx_bind (open_clients env host) (\<lambda>ms.
     sx_bind sx_get (\<lambda>s.
     sx_bind (sx_lift (next_cycle (read_state_file (cy_file s)))) (\<lambda>n.
     sx_bind (researcher_part env ci ms signal) (\<lambda>_.
     sx_bind (risk_part env ci ms signal) (\<lambda>pl.
     sx_return (ms, pl, result_of_decision pl [(''cycle'', n), (''signal'', VDict signal)]))))))"

definition after_decision ::
  "('n, 'w) swarm_env \<Rightarrow> cycle_inputs \<Rightarrow> pydict \<Rightarrow> memories \<times> pydict \<times> pydict \<Rightarrow> (('n, 'w) cycle_sys, unit) sx" where
  "after_decision env ci signal = (\<lambda>(ms, pl, rv0).
     sx_bind (executor_part env ci ms signal pl rv0) (\<lambda>rv.
     sx_bind (commit_part env ci signal rv) (\<lambda>(rt, tx).
     sx_modify (\<lambda>s. s\<lparr>cy_file := publish_state_view (ci_now ci 13) rt rv tx (cy_file s)\<rparr>))))"

lemma cy_record_decision [intro, simp]: "keeps cy_record (cycle_decision env host ci signal)"
  unfolding cycle_decision_def by (auto intro!: keeps_bind)

lemma sx_bind_return: "sx_bind (sx_return x) f = f x"
  by (rule ext) (simp add: sx_bind_def sx_return_def)

lemma cycle_split:
  "run_trade_cycle env host ci signal =
     sx_try (sx_bind (cycle_decision env host ci signal) (after_decision env ci signal)) (\<lambda>e. sx_return ())"
  by (simp add: run_trade_cycle_def cycle_decision_def after_decision_def cycle_body_def sx_bind_assoc sx_bind_return
      case_prod_unfold)

lemma risk_part_payload:
  fixes s :: "('n, 'w) cycle_sys"
  assumes "risk_part env ci ms signal s = (Inr pl, s')"
  shows "\<exists>m cs cs'. score (e_risk env) (ci_mid ci 1) (ci_now ci 4) signal zero_key cs = (Inr m, cs') \<and> pl = payload m"
proof -
  obtain m and s1 s2 :: "('n, 'w) cycle_sys" where m: "on_scorer (score (e_risk env) (ci_mid ci 1) (ci_now ci 4) signal zero_key) s1 = (Inr m, s2)"
    and pl: "pl = payload m"
    using assms by (auto simp: risk_part_def sx_bind_Inr_iff Let_def sx_return_def simp del: One_nat_def)
  obtain y cs' where y: "score (e_risk env) (ci_mid ci 1) (ci_now ci 4) signal zero_key (cy_compute s1, x_net (cy_x s1)) = (y, cs')"
    by (rule prod.exhaust)
  have "y = Inr m" using m y by (simp add: on_scorer_def sx_zoom_def del: One_nat_def)
  with y pl show ?thesis by blast
qed

lemma risky_payload_holds:
  assumes "score renv mid now signal pk cs = (Inr m, cs')"
    and "dget (payload m) ''risk_score'' VNone = VFloat (Fin q)" and "7 \<le> q"
  shows "dget (payload m) ''action'' VNone = VStr ''hold''"
proof -
  from assms(1) obtain p reply d where d: "decision_of (nan_valid renv) signal reply = Inr d"
    and m: "make_message mid now MT_TRADE_DECISION RISK pk (trade_decision_dump d) = Inr m"
    by (rule score_Inr)
  from d obtain result where reply: "reply = VDict result" using decision_of_dict by blast
  have pl: "payload m = trade_decision_dump d" using make_message_SomeD [OF m] by simp
  have ok: "decision_ok (nan_valid renv) d" using decision_of_Inr(1) [OF d [unfolded reply]] .
  have "td_risk_score d = Fin q" using assms(2) pl by (simp add: trade_decision_dump_def dget_def)
  with ok assms(3) have "td_action d = HOLD" by (auto simp: decision_ok_def RISK_THRESHOLD_def split: if_splits)
  then show ?thesis using pl by (simp add: trade_decision_dump_def dget_def)
qed

lemma cycle_decision_payload:
  assumes "cycle_decision env host ci signal s = (Inr (ms, pl, rv), s')"
  shows "(\<exists>m cs cs'. score (e_risk env) (ci_mid ci 1) (ci_now ci 4) signal zero_key cs = (Inr m, cs') \<and> pl = payload m) \<and>
    dget rv ''signal'' VNone = VDict signal"
proof -
  from assms obtain s1 s2 n where r: "risk_part env ci ms signal s1 = (Inr pl, s2)"
    and rv: "rv = result_of_decision pl [(''cycle'', n), (''signal'', VDict signal)]"
    by (auto simp: cycle_decision_def sx_bind_Inr_iff sx_return_def)
  from risk_part_payload [OF r] show ?thesis unfolding rv by (simp add: result_of_decision_def dget_def)
qed

lemma executor_part_result:
  assumes "executor_part env ci ms signal pl rv s = (Inr rv', s')"
  shows "dget rv' ''signal'' VNone = dget rv ''signal'' VNone"
  using assms
  by (auto simp: executor_part_def trade_part_def record_swap_def Let_def sx_bind_Inr_iff sx_return_def dget_def split: if_splits)

lemma cycle_decision_clients:
  assumes "cycle_decision env host ci signal s = (r, s')"
  shows "cy_clients s' \<in> {cy_clients s, (uni_enter (uni_from_env (e_getenv env)), kh_enter (kh_from_env (e_getenv env)))}"
proof -
  obtain ms s1 where o1: "open_clients env host s = (ms, s1)" by (rule prod.exhaust)
  have c1: "cy_clients s1 \<in> {cy_clients s, (uni_enter (uni_from_env (e_getenv env)), kh_enter (kh_from_env (e_getenv env)))}"
    using o1 by (auto simp: open_clients_def cy_clients_def split: sum.splits prod.splits)
  show ?thesis
  proof (cases ms)
    case (Inl e)
    then show ?thesis using assms o1 c1 by (simp add: cycle_decision_def)
  next
    case (Inr m)
    let ?rest = "sx_bind sx_get (\<lambda>s. sx_bind (sx_lift (next_cycle (read_state_file (cy_file s)))) (\<lambda>n.
       sx_bind (researcher_part env ci m signal) (\<lambda>_. sx_bind (risk_part env ci m signal) (\<lambda>pl.
       sx_return (m, pl, result_of_decision pl [(''cycle'', n), (''signal'', VDict signal)])))))"
    have "?rest s1 = (r, s')" using assms o1 Inr by (simp add: cycle_decision_def)
    moreover have "keeps cy_clients ?rest" by (auto intro!: keeps_bind)
    ultimately have "cy_clients s' = cy_clients s1" by (rule keepsD [rotated])
    with c1 show ?thesis by simp
  qed
qed

lemma open_ignores_trading [simp]: "open_clients (env\<lparr>e_uni := u\<rparr>) = open_clients env"
proof -
  have g: "e_getenv (env\<lparr>e_uni := u\<rparr>) = e_getenv env" by simp
  show ?thesis unfolding fun_eq_iff open_clients_def g by (intro allI refl)
qed

lemma other_parts_ignore_trading [simp]:
  "researcher_part (env\<lparr>e_uni := u\<rparr>) = researcher_part env"
  "risk_part (env\<lparr>e_uni := u\<rparr>) = risk_part env" "commit_part (env\<lparr>e_uni := u\<rparr>) = commit_part env"
  "cy_event (env\<lparr>e_uni := u\<rparr>) = cy_event env"
  by (simp_all add: fun_eq_iff researcher_part_def risk_part_def commit_part_def cy_event_def cy_status_def)

lemma decision_ignores_trading [simp]: "cycle_decision (env\<lparr>e_uni := u\<rparr>) = cycle_decision env"
  by (simp add: fun_eq_iff cycle_decision_def)

lemma after_hold:
  assumes "dget pl ''action'' VNone = VStr ''hold''"
  shows "after_decision (env\<lparr>e_uni := u\<rparr>) ci signal (ms, pl, rv) = after_decision env ci signal (ms, pl, rv)"
    and "keeps cy_clients (after_decision env ci signal (ms, pl, rv))"
proof -
  show "after_decision (env\<lparr>e_uni := u\<rparr>) ci signal (ms, pl, rv) = after_decision env ci signal (ms, pl, rv)"
    using assms by (simp add: after_decision_def executor_part_def)
  have "keeps cy_clients (sx_modify (\<lambda>s. s\<lparr>cy_file := g s\<rparr>))" for g by (simp add: keeps_def cy_clients_def sx_modify_def)
  then show "keeps cy_clients (after_decision env ci signal (ms, pl, rv))"
    using cy_clients_hold [OF assms] by (auto simp: after_decision_def intro!: keeps_bind split: prod.splits)
qed

subsection \<open>Properties\<close>

text \<open>
  C2. The risk gate holds for a whole dashboard cycle: when the scorer gives the signal a risk score
  of 7 or more, the cycle runs the same whatever the trading services would answer, and leaves the
  trading clients as they were opened, also when some step of it fails.
\<close>

theorem risky_cycle_never_trades:
  assumes "\<And>ms pl rv s1. cycle_decision env host ci signal s = (Inr (ms, pl, rv), s1) \<Longrightarrow>
      \<exists>q. dget pl ''risk_score'' VNone = VFloat (Fin q) \<and> 7 \<le> q"
  shows "run_trade_cycle (env\<lparr>e_uni := u\<rparr>) host ci signal s = run_trade_cycle env host ci signal s \<and>
    cy_clients (snd (run_trade_cycle env host ci signal s)) \<in>
      {cy_clients s, (uni_enter (uni_from_env (e_getenv env)), kh_enter (kh_from_env (e_getenv env)))}"
proof -
  obtain r s1 where d: "cycle_decision env host ci signal s = (r, s1)" by (rule prod.exhaust)
  note c1 = cycle_decision_clients [OF d]
  show ?thesis
  proof (cases r)
    case (Inl e)
    then show ?thesis using d c1 by (simp add: cycle_split sx_return_def)
  next
    case (Inr x)
    obtain ms pl rv where x: "x = (ms, pl, rv)" by (rule prod_cases3)
    have run: "cycle_decision env host ci signal s = (Inr (ms, pl, rv), s1)" using d Inr x by simp
    obtain m cs cs' where m: "score (e_risk env) (ci_mid ci 1) (ci_now ci 4) signal zero_key cs = (Inr m, cs')" "pl = payload m"
      using cycle_decision_payload [OF run] by blast
    have hold: "dget pl ''action'' VNone = VStr ''hold''"
      using assms [OF run] risky_payload_holds [OF m(1)] m(2) by blast
    obtain y s2 where a: "after_decision env ci signal (ms, pl, rv) s1 = (y, s2)" by (rule prod.exhaust)
    have "cy_clients s2 = cy_clients s1" using keepsD [OF after_hold(2) [OF hold] a] .
    moreover have a': "after_decision (env\<lparr>e_uni := u\<rparr>) ci signal (ms, pl, rv) s1 = (y, s2)"
      using a unfolding after_hold(1) [OF hold] .
    ultimately show ?thesis using run a c1
      by (cases y) (simp_all add: cycle_split sx_return_def)
  qed
qed

text \<open>
  A cycle never loses recorded results: it returns without an exception, and the results in the
  state file are either those from before (the cycle failed, or they could not be read as a list) or
  those followed by one result for the cycle's signal, the last 20 of them.
\<close>

theorem cycle_keeps_results:
  assumes "run_trade_cycle env host ci signal s = (r, s')" and "sf_writable (cy_file s)"
  shows "r = Inr () \<and> sf_writable (cy_file s') \<and>
    (file_results (cy_file s') = file_results (cy_file s) \<or>
     (\<exists>v old rv. file_results (cy_file s) = Some v \<and> iter_items v = Inr old \<and> dget rv ''signal'' VNone = VDict signal \<and>
        file_results (cy_file s') = Some (VList (py_from (- 20) (old @ [VDict rv])))))"
proof -
  obtain x s1 where d: "cycle_decision env host ci signal s = (x, s1)" by (rule prod.exhaust)
  have k1: "cy_record s1 = cy_record s" using keepsD [OF cy_record_decision d] .
  show ?thesis
  proof (cases x)
    case (Inl e)
    then show ?thesis using assms d k1 by (auto simp: cycle_split sx_return_def cy_record_def)
  next
    case (Inr t)
    obtain ms pl rv0 where t: "t = (ms, pl, rv0)" by (rule prod_cases3)
    have sig: "dget rv0 ''signal'' VNone = VDict signal" using cycle_decision_payload d Inr t by blast
    obtain y s2 where e: "executor_part env ci ms signal pl rv0 s1 = (y, s2)" by (rule prod.exhaust)
    have k2: "cy_record s2 = cy_record s" using keepsD [OF cy_record_parts(4) e] k1 by simp
    show ?thesis
    proof (cases y)
      case y: (Inl e')
      then show ?thesis using assms d Inr t e k2 by (auto simp: cycle_split after_decision_def sx_return_def cy_record_def)
    next
      case y: (Inr rv)
      obtain z s3 where c: "commit_part env ci signal rv s2 = (z, s3)" by (rule prod.exhaust)
      have k3: "cy_record s3 = cy_record s" using keepsD [OF cy_record_parts(5) c] k2 by simp
      show ?thesis
      proof (cases z)
        case z: (Inl e')
        then show ?thesis using assms d Inr t e y c k3
          by (auto simp: cycle_split after_decision_def sx_return_def cy_record_def)
      next
        case z: (Inr p)
        obtain rt tx where p: "p = (rt, tx)" by (rule prod.exhaust)
        have r: "r = Inr ()" and s': "cy_file s' = publish_state_view (ci_now ci 13) rt rv tx (cy_file s3)"
          using assms(1) d Inr t e y c z p by (auto simp: cycle_split after_decision_def sx_modify_def)
        have w: "sf_writable (cy_file s3)" "file_results (cy_file s3) = file_results (cy_file s)"
          using k3 assms(2) by (auto simp: cy_record_def)
        have "dget rv ''signal'' VNone = VDict signal" using executor_part_result e y sig by metis
        then show ?thesis using r s' w publish_state_view_results [OF w(1), of "ci_now ci 13" rt rv tx] by auto
      qed
    qed
  qed
qed

subsection \<open>A worked cycle\<close>

text \<open>In-memory services, a model that asks for a risky buy, no reachable AXL node.\<close>

definition cycle_env :: "(unit, unit) swarm_env" where
  "cycle_env = sample_swarm_env\<lparr>e_risk := sample_risk_env (Inr risky_reply), e_st := mem_env\<rparr>"

definition cycle_ins :: cycle_inputs where
  "cycle_ins = \<lparr>ci_ts = (\<lambda>_ _. ''t''), ci_eid = (\<lambda>_. ''id''), ci_mid = (\<lambda>_. ''m''), ci_now = (\<lambda>_. ''t''), ci_ri = sample_ri\<rparr>"

definition cycle_start :: "(unit, unit) cycle_sys" where
  "cycle_start = \<lparr>cy_x = sample_xstate, cy_kvs = [], cy_compute = MockCompute,
     cy_bus = \<lparr>bus_registry = None, bus_events = [], bus_unavailable_logged = False, bus_net = ()\<rparr>,
     cy_identity = sample_identity [], cy_file = empty_file\<rparr>"

text \<open>With a store in memory and total codecs every step up to the decision succeeds.\<close>

lemma mem_env_fits: "kv_set_fits mem_env UNIV now key [b] s" "zg_fits UNIV [b]"
proof -
  have "zg_fits UNIV (manifest_bytes mem_env now m)" for now m
    by (rule zg_fits_UNIV) (simp add: manifest_bytes_def bytes_of_def)
  then show "kv_set_fits mem_env UNIV now key [b] s" by (cases s) (simp add: zg_fits_UNIV)
qed (simp add: zg_fits_UNIV)

abbreviation mem_ready :: "unit kvs \<Rightarrow> bool" where
  "mem_ready \<equiv> kv_ok mem_env UNIV"

lemma mem_set: "delivers mem_ready (kv_set mem_env now key [b]) (\<lambda>_. True)"
  unfolding delivers_def
proof (intro allI impI)
  fix s :: "unit kvs" assume "mem_ready s"
  moreover obtain k z where s: "s = (k, z)" by (rule prod.exhaust)
  ultimately obtain u k' z' where "kv_set mem_env now key [b] (k, z) = (Inr u, (k', z'))" "kv_ok mem_env UNIV (k', z')"
    using mem_env_fits(1) [of now key b s] kv_set_ok [of mem_env UNIV k z now key "[b]"] by metis
  then show "\<exists>x s'. kv_set mem_env now key [b] s = (Inr x, s') \<and> mem_ready s' \<and> True" using s by blast
qed

lemma mem_read: "delivers mem_ready (read_swarm_state mem_env now) (\<lambda>_. True)" "delivers mem_ready (load_index mem_env now) (\<lambda>_. True)"
  using read_swarm_state_ok load_index_ok by (fastforce simp: delivers_def)+

lemma mem_upload: "delivers mem_ready (on_zg (zg_upload mem_env [b])) (\<lambda>_. True)"
  unfolding delivers_def
proof (intro allI impI)
  fix s :: "unit kvs" assume ok: "mem_ready s"
  obtain k z where s: "s = (k, z)" by (rule prod.exhaust)
  have z: "zg_ok mem_env UNIV z" "manifest_ok (kv_manifest k) z" "kv_odd k = None" using ok s by simp_all
  obtain u z' where u: "on_zg (zg_upload mem_env [b]) (k, z) = (Inr u, (k, z'))" "zg_ok mem_env UNIV z'" "blobs_kept z z'"
    using on_zg_upload [OF z(1) mem_env_fits(2) [of b], of k] by metis
  then show "\<exists>x s'. on_zg (zg_upload mem_env [b]) s = (Inr x, s') \<and> mem_ready s' \<and> True"
    using s z(3) manifest_ok_kept [OF z(2) u(3)] by auto
qed

lemma mem_status: "delivers mem_ready (update_status mem_env ts role a) (\<lambda>_. True)"
  unfolding update_status_def Let_def
  by (auto intro!: delivers_seq delivers_return mem_set mem_read)

lemma mem_log: "delivers mem_ready (log_event mem_env ts eid role ev data) (\<lambda>_. True)"
  unfolding log_event_def log_append_def Let_def
  by (auto intro!: delivers_seq delivers_return mem_set mem_read mem_upload)

definition cycle_ready :: "(unit, unit) cycle_sys \<Rightarrow> bool" where
  "cycle_ready s \<longleftrightarrow> cy_compute s = MockCompute \<and> bus_registry (cy_bus s) = None \<and> (\<exists>k. cy_kvs s = [k] \<and> mem_ready (k, x_zg (cy_x s)))"

lemma cycle_on_memory:
  assumes "delivers mem_ready m Q" and "am_kv a = 0"
  shows "delivers cycle_ready (on_memory (on_mem a m)) Q"
  unfolding delivers_def
proof (intro allI impI)
  fix s assume "cycle_ready s"
  then obtain k where k: "cy_kvs s = [k]" "mem_ready (k, x_zg (cy_x s))" "cy_compute s = MockCompute" "bus_registry (cy_bus s) = None" by (auto simp: cycle_ready_def)
  from assms(1) k(2) obtain x k' z' where "m (k, x_zg (cy_x s)) = (Inr x, (k', z'))" "mem_ready (k', z')" "Q x"
    unfolding delivers_def by (metis prod.exhaust)
  with k assms(2) show "\<exists>x s'. on_memory (on_mem a m) s = (Inr x, s') \<and> cycle_ready s' \<and> Q x"
    by (auto simp: on_memory_def on_mem_def sx_zoom_def cycle_ready_def)
qed


definition cycle_mems :: memories where
  "cycle_mems = memory_dict 0 [''researcher'', ''risk'', ''executor'']"

lemma cycle_env_simps [simp]:
  "e_risk cycle_env = sample_risk_env (Inr risky_reply)" "e_st cycle_env = mem_env" "e_axl cycle_env = sample_axl_env"
  "e_getenv cycle_env = no_env"
  by (simp_all add: cycle_env_def sample_swarm_env_def)

lemma cycle_memory_steps:
  assumes "rl \<in> {''researcher'', ''risk'', ''executor''}"
  shows "delivers cycle_ready (cy_status cycle_env cycle_ins i cycle_mems rl a) (\<lambda>_. True)"
    and "delivers cycle_ready (cy_event cycle_env cycle_ins i cycle_mems rl ev data) (\<lambda>_. True)"
proof -
  have "am_kv (mem_of cycle_mems rl) = 0" using assms by (auto simp: mem_of_def cycle_mems_def)
  then show "delivers cycle_ready (cy_status cycle_env cycle_ins i cycle_mems rl a) (\<lambda>_. True)"
    "delivers cycle_ready (cy_event cycle_env cycle_ins i cycle_mems rl ev data) (\<lambda>_. True)"
    unfolding cy_status_def cy_event_def mem_update_status_def mem_log_event_def cycle_env_simps
    by (auto intro!: cycle_on_memory delivers_seq delivers_return mem_status mem_log)
qed

lemma cycle_small_steps:
  "delivers cycle_ready (ens_text rl key v) (\<lambda>_. True)" "delivers cycle_ready (partial_view ci i stage p) (\<lambda>_. True)"
  unfolding ens_text_def partial_view_def by (auto intro!: delivers_modify simp: cycle_ready_def)

lemma fetch_keys_fail:
  "axl_topology env (ep_api_url ep) w = (Inl e, w1) \<Longrightarrow> \<exists>eps' w2. fetch_keys env ((r, ep) # eps) w = (Some e, eps', w2)"
  by (auto split: prod.splits)

lemma no_node:
  assumes "bus_registry c = None"
  shows "\<exists>c'. bus_send sample_axl_env sh mid now now2 a b mt pl c = (Inr None, c') \<and> bus_registry c' = None"
proof -
  have t: "axl_topology sample_axl_env url w = (Inl (PyExc ConnectError ''down''), w)" for url w
    by (simp add: axl_topology_def axl_retrying_def axl_attempt_def sample_axl_env_def numeral_3_eq_3 sx_simps sx_bind_def sx_try_def)
  obtain ep eps where n: "rg_endpoints (new_registry None) = (RESEARCHER, ep) # eps"
    by (simp add: new_registry_def DEFAULT_ENDPOINTS_def)
  from fetch_keys_fail [OF t, where r = RESEARCHER and ep = ep and eps = eps and w = "bus_net c"] obtain eps' w2 where
    "fetch_keys sample_axl_env (rg_endpoints (new_registry None)) (bus_net c) = (Some (PyExc ConnectError ''down''), eps', w2)"
    unfolding n by blast
  then show ?thesis using assms by (simp add: bus_send_def get_registry_def bootstrap_def sx_return_def)
qed

lemma cycle_bus: "delivers cycle_ready (on_bus (bus_send sample_axl_env sh mid now now2 a b mt pl)) (\<lambda>_. True)"
proof -
  have "\<exists>c'. bus_send sample_axl_env sh mid now now2 a b mt pl (cy_bus s\<lparr>bus_net := w\<rparr>) = (Inr None, c') \<and> bus_registry c' = None"
    if "cycle_ready s" for s w
    using that by (intro no_node) (simp add: cycle_ready_def)
  then show ?thesis by (fastforce simp: delivers_def cycle_ready_def on_bus_def sx_zoom_def)
qed

lemma risky_score_any:
  fixes cs :: "'w compute"
  assumes "score (sample_risk_env (Inr risky_reply)) mid now signal pk cs = (Inr m, cs')"
  shows "\<exists>q. dget (payload m) ''risk_score'' VNone = VFloat (Fin q) \<and> 7 \<le> q"
proof -
  let ?env = "sample_risk_env (Inr risky_reply) :: 'w risk_env"
  from assms obtain p reply cs1 d where i: "infer ?env p cs = (Inr reply, cs1)" and d: "decision_of (nan_valid ?env) signal reply = Inr d"
    and m: "make_message mid now MT_TRADE_DECISION RISK pk (trade_decision_dump d) = Inr m"
    by (auto simp: score_def sx_bind_Inr_iff sx_lift_def)
  have pl: "payload m = trade_decision_dump d" using make_message_SomeD [OF m] by simp
  have "reply = risky_reply \<or> (\<exists>e. reply = inference_failed e)"
  proof -
    obtain r cs2 where Pair: "ask_model ?env p cs = (r, cs2)" by (rule prod.exhaust)
    show ?thesis
    proof (cases r)
      case (Inl e) then show ?thesis using Pair i by (auto simp: infer_def sx_return_def)
    next
      case (Inr v)
      then obtain raw where "parse_response ?env raw = Inr v" using Pair by (auto simp: ask_model_def sx_bind_Inr_iff sx_lift_def)
      then have "v = risky_reply" by (auto simp: parse_response_def sample_risk_env_def Let_def split: pyval.splits option.splits)
      then show ?thesis using Pair Inr i by (auto simp: infer_def)
    qed
  qed
  then have "\<exists>q. td_risk_score d = Fin q \<and> 7 \<le> q"
  proof
    assume "reply = risky_reply"
    then show ?thesis using decision_of_Inr(2) [OF d [unfolded \<open>reply = risky_reply\<close> risky_reply_def]] by (intro exI [of _ 9]) (simp add: dget_def)
  next
    assume "\<exists>e. reply = inference_failed e"
    then obtain e where e: "reply = inference_failed e" ..
    show ?thesis using decision_of_Inr(2) [OF d [unfolded e inference_failed_def]] by (intro exI [of _ 10]) (simp add: dget_def)
  qed
  then show ?thesis using pl by (auto simp: trade_decision_dump_def dget_def)
qed


lemma zero_key_hex: "\<exists>i. str_to_int 16 zero_key = Some i"
  unfolding zero_key_def by (rule hex_key) simp

lemma cycle_score: "delivers cycle_ready (on_scorer (score (e_risk cycle_env) (ci_mid cycle_ins i) (ci_now cycle_ins j) [] zero_key))
   (\<lambda>m. dget (payload m) ''risk_score'' VNone = VFloat (Fin 9) \<and> dget (payload m) ''confidence'' VNone = VFloat (Fin 1))"
proof -
  obtain n where "str_to_int 16 zero_key = Some n" using zero_key_hex by blast
  moreover have "length zero_key = 64" by (simp add: zero_key_def)
  ultimately show ?thesis
    using risky_score [where pk = zero_key and mid = "ci_mid cycle_ins i" and now = "ci_now cycle_ins j" and w = "()"]
    by (auto simp: cycle_ins_def delivers_def on_scorer_def sx_zoom_def cycle_ready_def)
qed

lemma cycle_parts:
  "delivers cycle_ready (researcher_part cycle_env cycle_ins cycle_mems []) (\<lambda>_. True)"
  "delivers cycle_ready (risk_part cycle_env cycle_ins cycle_mems []) (\<lambda>_. True)"
proof -
  obtain t where t: "scan_text (show_val (e_risk cycle_env)) [] = Inr t" using fl_of_int [of 0] by (auto simp: scan_text_def dget_def)
  show "delivers cycle_ready (researcher_part cycle_env cycle_ins cycle_mems []) (\<lambda>_. True)"
    unfolding researcher_part_def t announce_market_signal_def
    by (auto intro!: delivers_seq delivers_return cycle_small_steps cycle_memory_steps cycle_bus delivers_lift)
  have r: "\<exists>txt. risk_text sh pl = Inr txt"
    if "dget pl ''risk_score'' VNone = VFloat (Fin 9)" "dget pl ''confidence'' VNone = VFloat (Fin 1)" for sh pl
  proof -
    have d: "dget pl k v = dget pl k VNone" if "dget pl k VNone \<noteq> VNone" for k v
      using that by (simp add: dget_def split: option.splits)
    have "fl 100 = Fin 100" using fl_of_int [of 100] by simp
    then show ?thesis using that d by (simp add: risk_text_def f_round_int_def f_times_100_def)
  qed
  have t: "delivers cycle_ready (sx_lift (risk_text sh pl)) (\<lambda>_. True)"
    if "dget pl ''risk_score'' VNone = VFloat (Fin 9) \<and> dget pl ''confidence'' VNone = VFloat (Fin 1)" for sh pl
    using r [of pl sh] that by (auto simp: delivers_def sx_lift_def)
  show "delivers cycle_ready (risk_part cycle_env cycle_ins cycle_mems []) (\<lambda>_. True)"
    unfolding risk_part_def announce_trade_decision_def Let_def cycle_env_simps(3)
    by (rule delivers_seq, rule cycle_small_steps, rule delivers_seq, rule cycle_memory_steps, simp,
        rule delivers_bind, rule cycle_score)
      (intro delivers_seq delivers_return cycle_small_steps cycle_memory_steps cycle_bus t; simp)
qed

abbreviation no_sidecar :: host_env where
  "no_sidecar \<equiv> \<lparr>hv_account = (\<lambda>_. Inr ()), hv_exists = (\<lambda>_. False)\<rparr>"

lemma cycle_opens: "\<exists>s. open_clients cycle_env no_sidecar cycle_start = (Inr cycle_mems, s) \<and> cycle_ready s \<and> cy_file s = empty_file"
proof -
  have "zg_ok mem_env UNIV (\<lparr>zg_backend = InMemory [], zg_net = ()\<rparr>)" by (rule zg_ok_inmemory_empty) simp
  then show ?thesis
    by (simp add: open_clients_def zg_from_env_def getenv_or_def make_shared_memory_set_def cycle_start_def cycle_ready_def cycle_mems_def
        compute_from_env_def compute_enter_def new_kv_def manifest_ok_def str_strip_def)
qed

lemma cycle_decides: "\<exists>ms pl rv s1. cycle_decision cycle_env no_sidecar cycle_ins [] cycle_start = (Inr (ms, pl, rv), s1)"
proof -
  obtain s where o: "open_clients cycle_env no_sidecar cycle_start = (Inr cycle_mems, s)" "cycle_ready s" "cy_file s = empty_file"
    using cycle_opens by blast
  obtain s1 where r: "researcher_part cycle_env cycle_ins cycle_mems [] s = (Inr (), s1)" "cycle_ready s1"
    using cycle_parts(1) o(2) by (auto simp: delivers_def)
  obtain pl s2 where k: "risk_part cycle_env cycle_ins cycle_mems [] s1 = (Inr pl, s2)"
    using cycle_parts(2) r(2) unfolding delivers_def by blast
  obtain n where n: "next_cycle (read_state_file empty_file) = Inr n"
    by (auto simp: next_cycle_def empty_file_def read_state_file_def vget_def dget_def py_or_def)
  show ?thesis using o r k n by (simp add: cycle_decision_def sx_return_def sx_get_def sx_lift_def)
qed

theorem risky_cycle_never_trades_witness:
  "\<exists>ms pl rv s1. cycle_decision cycle_env no_sidecar cycle_ins [] cycle_start = (Inr (ms, pl, rv), s1) \<and>
     run_trade_cycle (cycle_env\<lparr>e_uni := sample_uni_env\<rparr>) no_sidecar cycle_ins [] cycle_start =
       run_trade_cycle cycle_env no_sidecar cycle_ins [] cycle_start"
proof -
  have h: "\<exists>q. dget pl ''risk_score'' VNone = VFloat (Fin q) \<and> 7 \<le> q"
    if d: "cycle_decision cycle_env no_sidecar cycle_ins [] cycle_start = (Inr (ms, pl, rv), s1)" for ms pl rv s1
    using cycle_decision_payload [OF d] risky_score_any by fastforce
  have "run_trade_cycle (cycle_env\<lparr>e_uni := sample_uni_env\<rparr>) no_sidecar cycle_ins [] cycle_start =
      run_trade_cycle cycle_env no_sidecar cycle_ins [] cycle_start"
    by (rule conjunct1 [OF risky_cycle_never_trades]) (rule h)
  with cycle_decides show ?thesis by blast
qed

theorem cycle_keeps_results_witness:
  "\<exists>s'. run_trade_cycle cycle_env no_sidecar cycle_ins [] cycle_start = (Inr (), s') \<and>
     (file_results (cy_file s') = Some (VList []) \<or>
      (\<exists>rv. dget rv ''signal'' VNone = VDict [] \<and> file_results (cy_file s') = Some (VList [VDict rv])))"
proof -
  obtain r s' where r: "run_trade_cycle cycle_env no_sidecar cycle_ins [] cycle_start = (r, s')" by (rule prod.exhaust)
  have e: "sf_writable (cy_file cycle_start)" "file_results (cy_file cycle_start) = Some (VList [])"
    by (simp_all add: cycle_start_def empty_file_def file_results_def read_state_file_def py_or_def dget_def)
  have "py_from (- 20) ([] @ [VDict rv]) = [VDict rv]" for rv by (simp add: py_from_def)
  with cycle_keeps_results [OF r e(1)] e(2) r show ?thesis by (auto simp: iter_items_def)
qed

end
