(* ===== verification/Py_Float.thy ===== *)
theory Py_Float
  imports PyValue
begin

text \<open>
  Double arithmetic beyond addition and comparison, with the facts the numeric components rest
  on: \<open>fl\<close> is monotone, leaves doubles alone and, for moderate arguments, is off by at most
  half a unit in the last place.
\<close>

subsection \<open>Powers of two and the binary exponent\<close>

lemma pow2_pos [simp]: "0 < pow2 k"
  by (simp add: pow2_def)

lemma pow2_nonzero [simp]: "pow2 k \<noteq> 0"
  using pow2_pos [of k] by linarith

lemma abs_pow2 [simp]: "\<bar>pow2 k\<bar> = pow2 k"
  by (simp add: less_imp_le)

lemma pow2_powi: "pow2 k = 2 powi k"
  by (simp add: pow2_def power_int_def power_one_over inverse_eq_divide)

lemma pow2_add: "pow2 (a + b) = pow2 a * pow2 b"
  by (simp add: pow2_powi power_int_add)

lemma pow2_mono: "a \<le> b \<Longrightarrow> pow2 a \<le> pow2 b"
  by (simp add: pow2_powi power_int_increasing)

lemma pow2_less_iff [simp]: "pow2 a < pow2 b \<longleftrightarrow> a < b"
proof
  assume "pow2 a < pow2 b"
  then show "a < b" using pow2_mono [of b a] by linarith
next
  assume "a < b"
  then show "pow2 a < pow2 b" by (simp add: pow2_powi power_int_strict_increasing)
qed

lemma pow2_le_iff [simp]: "pow2 a \<le> pow2 b \<longleftrightarrow> a \<le> b"
  by (meson linorder_not_le pow2_less_iff)

lemma pow2_nat: "pow2 (int n) = 2 ^ n"
  by (simp add: pow2_def)

text \<open>The exponent of a positive rational: \<open>2 ^ e \<le> x < 2 ^ (e + 1)\<close>.\<close>

lemma bitlen_rat_bounds:
  assumes "0 < p"
  shows "pow2 (bitlen p - 1) \<le> of_int p \<and> of_int p < pow2 (bitlen p)"
proof -
  have b: "0 < bitlen p" using assms bitlen_eq_zero_iff [of p] bitlen_nonneg [of p] by linarith
  have "(2::int) ^ nat (bitlen p - 1) \<le> p \<and> p < 2 ^ nat (bitlen p)" using bitlen_bounds [OF assms] .
  then have "(of_int (2 ^ nat (bitlen p - 1)) :: rat) \<le> of_int p \<and> (of_int p :: rat) < of_int (2 ^ nat (bitlen p))"
    by (simp only: of_int_le_iff of_int_less_iff)
  with b show ?thesis by (simp add: pow2_def)
qed

lemma floor_log2_bounds:
  assumes "0 < x"
  shows "pow2 (floor_log2 x) \<le> x \<and> x < pow2 (floor_log2 x + 1)"
proof -
  obtain p q where pq: "quotient_of x = (p, q)" by (rule prod.exhaust)
  have q: "0 < q" using quotient_of_denom_pos [OF pq] .
  have x: "x = of_int p / of_int q" using quotient_of_div [OF pq] .
  have p: "0 < p" using assms q unfolding x by (simp add: zero_less_divide_iff)
  define l where "l = bitlen p - bitlen q"
  have bp: "pow2 (bitlen p - 1) \<le> of_int p" "of_int p < pow2 (bitlen p)"
    and bq: "pow2 (bitlen q - 1) \<le> of_int q" "of_int q < pow2 (bitlen q)"
    using bitlen_rat_bounds [OF p] bitlen_rat_bounds [OF q] by auto
  have q': "(0::rat) < of_int q" using q by simp
  have "pow2 (l - 1) * of_int q \<le> pow2 (l - 1) * pow2 (bitlen q)"
    using bq(2) by (intro mult_left_mono) (simp_all add: less_imp_le)
  also have "\<dots> = pow2 (bitlen p - 1)" by (simp add: l_def flip: pow2_add)
  also have "\<dots> \<le> of_int p" by (rule bp(1))
  finally have lo: "pow2 (l - 1) \<le> x" using q' by (simp add: x pos_le_divide_eq)
  have "of_int p < pow2 (bitlen p)" by (rule bp(2))
  also have "\<dots> = pow2 (l + 1) * pow2 (bitlen q - 1)" by (simp add: l_def flip: pow2_add)
  also have "\<dots> \<le> pow2 (l + 1) * of_int q" using bq(1) by (intro mult_left_mono) (simp_all add: less_imp_le)
  finally have hi: "x < pow2 (l + 1)" using q' by (simp add: x pos_divide_less_eq)
  have "floor_log2 x = (if pow2 l \<le> x then l else l - 1)"
    by (simp add: floor_log2_def pq l_def)
  with lo hi show ?thesis by auto
qed

lemma floor_log2_mono:
  assumes "0 < x" and "x \<le> y"
  shows "floor_log2 x \<le> floor_log2 y"
proof -
  have "pow2 (floor_log2 x) < pow2 (floor_log2 y + 1)"
    using floor_log2_bounds [of x] floor_log2_bounds [of y] assms by linarith
  then show ?thesis by simp
qed

lemma floor_log2_less:
  assumes "0 < x" and "x < pow2 k"
  shows "floor_log2 x < k"
proof -
  have "pow2 (floor_log2 x) < pow2 k" using floor_log2_bounds [of x] assms by linarith
  then show ?thesis by simp
qed

subsection \<open>Rounding to integers\<close>

lemma round_half_even_error: "\<bar>of_int (round_half_even x) - x\<bar> \<le> 1 / 2"
proof -
  have "of_int \<lfloor>x\<rfloor> \<le> x" "x < of_int \<lfloor>x\<rfloor> + 1" by linarith+
  then show ?thesis by (auto simp: round_half_even_def Let_def abs_le_iff)
qed

lemma round_half_even_mono:
  assumes "x \<le> y"
  shows "round_half_even x \<le> round_half_even y"
proof (cases "\<lfloor>x\<rfloor> = \<lfloor>y\<rfloor>")
  case True
  with assms show ?thesis by (auto simp: round_half_even_def Let_def)
next
  case False
  with assms have "\<lfloor>x\<rfloor> + 1 \<le> \<lfloor>y\<rfloor>" using floor_mono [OF assms] by linarith
  moreover have "round_half_even x \<le> \<lfloor>x\<rfloor> + 1" by (simp add: round_half_even_def Let_def)
  moreover have "\<lfloor>y\<rfloor> \<le> round_half_even y" by (simp add: round_half_even_def Let_def)
  ultimately show ?thesis by linarith
qed

lemma round_half_even_minus: "round_half_even (- x) = - round_half_even x"
proof (cases "x = of_int \<lfloor>x\<rfloor>")
  case True
  then have "round_half_even x = \<lfloor>x\<rfloor>" "round_half_even (- x) = - \<lfloor>x\<rfloor>"
    by (metis round_half_even_int, metis round_half_even_int of_int_minus)
  then show ?thesis by simp
next
  case False
  have f: "of_int \<lfloor>x\<rfloor> < x" "x < of_int \<lfloor>x\<rfloor> + 1" using False by linarith+
  then have "\<lfloor>- x\<rfloor> = - \<lfloor>x\<rfloor> - 1" by (intro floor_unique) simp_all
  with f show ?thesis by (auto simp: round_half_even_def Let_def)
qed

lemma round_half_even_eqI:
  assumes "\<bar>y - of_int m\<bar> < 1 / 2 \<or> \<bar>y - of_int m\<bar> = 1 / 2 \<and> even m"
  shows "round_half_even y = m"
proof (cases "of_int m \<le> y")
  case True
  then have "\<lfloor>y\<rfloor> = m" using assms by (intro floor_unique) auto
  then show ?thesis using assms True by (auto simp: round_half_even_def Let_def)
next
  case False
  then have "\<lfloor>y\<rfloor> = m - 1" using assms by (intro floor_unique) auto
  then show ?thesis using assms False by (auto simp: round_half_even_def Let_def)
qed

subsection \<open>Rounding to doubles\<close>

definition ulp_exp :: "rat \<Rightarrow> int" where
  "ulp_exp x = max (floor_log2 \<bar>x\<bar> - 52) (- 1074)"

definition rnd :: "rat \<Rightarrow> rat" where
  "rnd x = of_int (round_half_even (x / pow2 (ulp_exp x))) * pow2 (ulp_exp x)"

lemma rnd_0 [simp]: "rnd 0 = 0"
  using round_half_even_int [of 0] by (simp add: rnd_def)

lemma fl_rnd:
  "fl x = (if 2 ^ 1024 \<le> rnd x then PInf else if rnd x \<le> - (2 ^ 1024) then NInf else Fin (rnd x))"
  unfolding fl_def rnd_def ulp_exp_def Let_def
  using round_half_even_int [of 0] by (simp del: power_numeral)

lemma rnd_minus [simp]: "rnd (- x) = - rnd x"
  by (simp add: rnd_def ulp_exp_def round_half_even_minus)

text \<open>A multiple of the last place bounds the rounded value when it bounds the exact one.\<close>

lemma rnd_ge: "of_int m * pow2 (ulp_exp x) \<le> x \<Longrightarrow> of_int m * pow2 (ulp_exp x) \<le> rnd x"
  unfolding rnd_def
  by (intro mult_right_mono)
    (use round_half_even_mono [of "of_int m" "x / pow2 (ulp_exp x)"] in \<open>simp_all add: pos_le_divide_eq less_imp_le\<close>)

lemma rnd_le: "x \<le> of_int m * pow2 (ulp_exp x) \<Longrightarrow> rnd x \<le> of_int m * pow2 (ulp_exp x)"
  unfolding rnd_def
  by (intro mult_right_mono)
    (use round_half_even_mono [of "x / pow2 (ulp_exp x)" "of_int m"] in \<open>simp_all add: pos_divide_le_eq less_imp_le\<close>)

lemma pow2_multiple: "k \<le> e \<Longrightarrow> \<exists>m. pow2 e = of_int m * pow2 k"
  by (rule exI [of _ "2 ^ nat (e - k)"]) (use pow2_add [of "e - k" k] in \<open>simp add: pow2_def\<close>)

lemma rnd_ge_pow2:
  assumes "ulp_exp x \<le> e" and "pow2 e \<le> x"
  shows "pow2 e \<le> rnd x"
  using pow2_multiple [OF assms(1)] assms(2) rnd_ge [of _ x] by metis

lemma rnd_le_pow2:
  assumes "ulp_exp x \<le> e" and "x \<le> pow2 e"
  shows "rnd x \<le> pow2 e"
  using pow2_multiple [OF assms(1)] assms(2) rnd_le [of x] by metis

lemma rnd_nonneg: "0 \<le> x \<Longrightarrow> 0 \<le> rnd x"
  using rnd_ge [of 0 x] by simp

lemma rnd_mono_pos:
  assumes "0 < x" and "x \<le> y"
  shows "rnd x \<le> rnd y"
proof (cases "ulp_exp x = ulp_exp y")
  case True
  have "x / pow2 (ulp_exp y) \<le> y / pow2 (ulp_exp y)" using assms by (simp add: divide_right_mono less_imp_le)
  then show ?thesis unfolding rnd_def True
    by (intro mult_right_mono) (simp_all add: round_half_even_mono less_imp_le)
next
  case False
  define a b where "a = floor_log2 x" and "b = floor_log2 y"
  have ax: "x < pow2 (a + 1)" and bx: "pow2 b \<le> y"
    using floor_log2_bounds [of x] floor_log2_bounds [of y] assms by (auto simp: a_def b_def)
  have "a \<le> b" unfolding a_def b_def using floor_log2_mono [OF assms] .
  then have ul: "ulp_exp x < ulp_exp y" "ulp_exp x \<le> b" "ulp_exp y \<le> b" "a < b"
    using False assms by (auto simp: ulp_exp_def a_def b_def)
  have "x \<le> pow2 b" using ax ul(4) pow2_mono [of "a + 1" b] by linarith
  with bx ul rnd_le_pow2 [of x b] rnd_ge_pow2 [of y b] show ?thesis by linarith
qed

lemma rnd_mono:
  assumes "x \<le> y"
  shows "rnd x \<le> rnd y"
proof -
  consider "0 < x" | "x \<le> 0" "0 \<le> y" | "y < 0" using assms by linarith
  then show ?thesis
  proof cases
    case 1
    then show ?thesis using assms by (rule rnd_mono_pos)
  next
    case 2
    then show ?thesis using rnd_nonneg [of y] rnd_nonneg [of "- x"] by simp
  next
    case 3
    then show ?thesis using rnd_mono_pos [of "- y" "- x"] assms by simp
  qed
qed

text \<open>Numbers with at most 53 significant bits and no bit below \<open>2 ^ -1074\<close> are doubles.\<close>

lemma rnd_exact_int:
  assumes "x = of_int m * pow2 (ulp_exp x)"
  shows "rnd x = x"
proof -
  have "x / pow2 (ulp_exp x) = of_int m" using assms by (simp add: divide_eq_eq)
  then show ?thesis using assms by (simp add: rnd_def)
qed

lemma rnd_exact:
  assumes x: "x = of_int m * pow2 k" and m: "\<bar>m\<bar> \<le> 2 ^ 53" and k: "- 1074 \<le> k"
  shows "rnd x = x"
proof (cases "m = 0 \<or> ulp_exp x \<le> k")
  case True
  then show ?thesis
  proof
    assume "ulp_exp x \<le> k"
    then obtain j where "pow2 k = of_int j * pow2 (ulp_exp x)" using pow2_multiple by blast
    then have "x = of_int (m * j) * pow2 (ulp_exp x)" using x by simp
    then show ?thesis by (rule rnd_exact_int)
  qed (simp add: x)
next
  case False
  define e where "e = floor_log2 \<bar>x\<bar>"
  have ax: "\<bar>x\<bar> = of_int \<bar>m\<bar> * pow2 k" by (simp add: x abs_mult)
  have "0 < \<bar>x\<bar>" using False by (simp add: x)
  then have "pow2 e \<le> \<bar>x\<bar>" unfolding e_def using floor_log2_bounds by blast
  also have "\<dots> \<le> of_int (2 ^ 53) * pow2 k" unfolding ax using m
    by (intro mult_right_mono) (simp_all only: of_int_le_iff pow2_pos less_imp_le)
  also have "\<dots> = pow2 (53 + k)" using pow2_add [of 53 k] pow2_nat [of 53] by simp
  finally have e53: "e \<le> 53 + k" by simp
  with False k have e: "e = 53 + k" "ulp_exp x = k + 1" by (auto simp: ulp_exp_def e_def)
  have "pow2 (53 + k) \<le> of_int \<bar>m\<bar> * pow2 k" using \<open>pow2 e \<le> \<bar>x\<bar>\<close> unfolding ax e(1) .
  then have "pow2 53 \<le> of_int \<bar>m\<bar>" by (simp add: pow2_add)
  then have "(of_int (2 ^ 53) :: rat) \<le> of_int \<bar>m\<bar>" using pow2_nat [of 53] by simp
  then have "2 ^ 53 \<le> \<bar>m\<bar>" by (simp only: of_int_le_iff)
  then have "m = 2 ^ 53 \<or> m = - (2 ^ 53)" using m by linarith
  then have "x = of_int (2 * (m div 2)) * pow2 k" unfolding x by auto
  moreover have "pow2 (k + 1) = 2 * pow2 k" using pow2_add [of k 1] pow2_nat [of 1] by simp
  ultimately have "x = of_int (m div 2) * pow2 (k + 1)" by simp
  then have "x = of_int (m div 2) * pow2 (ulp_exp x)" unfolding e(2) .
  then show ?thesis by (rule rnd_exact_int)
qed

lemma rnd_as_product: "\<exists>m k. rnd x = of_int m * pow2 k \<and> \<bar>m\<bar> \<le> 2 ^ 53 \<and> - 1074 \<le> k"
proof -
  have pos: "\<exists>m k. rnd y = of_int m * pow2 k \<and> \<bar>m\<bar> \<le> 2 ^ 53 \<and> - 1074 \<le> k" if y: "0 < y" for y
  proof -
    define k m where "k = ulp_exp y" and "m = round_half_even (y / pow2 k)"
    have "y < pow2 (floor_log2 y + 1)" using floor_log2_bounds [OF y] by blast
    also have "\<dots> \<le> pow2 (53 + k)" using y by (intro pow2_mono) (simp add: k_def ulp_exp_def)
    also have "\<dots> = of_int (2 ^ 53) * pow2 k" using pow2_add [of 53 k] pow2_nat [of 53] by simp
    finally have "y / pow2 k \<le> of_int (2 ^ 53)" by (simp add: pos_divide_le_eq)
    then have "m \<le> 2 ^ 53" unfolding m_def by (metis round_half_even_int round_half_even_mono)
    moreover have "0 \<le> m" unfolding m_def using round_half_even_mono [of 0 "y / pow2 k"] round_half_even_int [of 0] y
      by (simp add: less_imp_le)
    ultimately have "rnd y = of_int m * pow2 k \<and> \<bar>m\<bar> \<le> 2 ^ 53 \<and> - 1074 \<le> k"
      by (simp add: rnd_def k_def m_def ulp_exp_def)
    then show ?thesis by blast
  qed
  consider "x = 0" | "0 < x" | "0 < - x" by linarith
  then show ?thesis
  proof cases
    case 1
    then show ?thesis by (intro exI [of _ 0]) simp
  next
    case 2
    then show ?thesis by (rule pos)
  next
    case 3
    from pos [OF this] obtain m k where
      mk: "rnd (- x) = of_int m * pow2 k" "\<bar>m\<bar> \<le> 2 ^ 53" "- 1074 \<le> k" by blast
    have "rnd x = - (of_int m * pow2 k)" using mk(1) by (simp add: minus_equation_iff)
    with mk(2,3) have "rnd x = of_int (- m) * pow2 k \<and> \<bar>- m\<bar> \<le> 2 ^ 53 \<and> - 1074 \<le> k" by simp
    then show ?thesis by blast
  qed
qed

lemma rnd_rnd [simp]: "rnd (rnd x) = rnd x"
  using rnd_as_product [of x] rnd_exact by blast

lemma rnd_error:
  assumes "\<bar>x\<bar> < pow2 j" and "- 1021 \<le> j"
  shows "\<bar>rnd x - x\<bar> \<le> pow2 (j - 54)"
proof (cases "x = 0")
  case False
  define k where "k = ulp_exp x"
  have "floor_log2 \<bar>x\<bar> < j" using floor_log2_less assms(1) False by simp
  then have "k \<le> j - 53" using assms(2) by (simp add: k_def ulp_exp_def)
  have "rnd x - x = (of_int (round_half_even (x / pow2 k)) - x / pow2 k) * pow2 k"
    by (simp add: rnd_def k_def left_diff_distrib)
  then have "\<bar>rnd x - x\<bar> = \<bar>of_int (round_half_even (x / pow2 k)) - x / pow2 k\<bar> * pow2 k"
    by (simp add: abs_mult)
  also have "\<dots> \<le> 1 / 2 * pow2 k"
    by (intro mult_right_mono round_half_even_error) (simp add: less_imp_le)
  also have "\<dots> = pow2 (k - 1)" using pow2_add [of "k - 1" 1] pow2_nat [of 1] by simp
  also have "\<dots> \<le> pow2 (j - 54)" using \<open>k \<le> j - 53\<close> by (intro pow2_mono) simp
  finally show ?thesis .
qed (simp add: less_imp_le)

subsection \<open>Doubles and their order\<close>

text \<open>The values a Python \<^verbatim>\<open>float\<close> can take; every operation below yields one.\<close>

definition is_double :: "pyfloat \<Rightarrow> bool" where
  "is_double f = (case f of Fin q \<Rightarrow> rnd q = q \<and> \<bar>q\<bar> < 2 ^ 1024 | _ \<Rightarrow> True)"

lemma is_double_simps [simp]:
  "is_double PInf" "is_double NInf" "is_double NaN"
  "is_double (Fin q) \<longleftrightarrow> rnd q = q \<and> \<bar>q\<bar> < 2 ^ 1024"
  by (simp_all add: is_double_def)

lemma fl_double [simp]: "is_double (fl x)"
proof -
  have "\<not> 2 ^ 1024 \<le> rnd x \<Longrightarrow> \<not> rnd x \<le> - (2 ^ 1024) \<Longrightarrow> \<bar>rnd x\<bar> < 2 ^ 1024"
    by (simp only: abs_less_iff) linarith
  then show ?thesis unfolding fl_rnd by (simp del: power_numeral)
qed

lemma fl_id: "is_double (Fin q) \<Longrightarrow> fl q = Fin q"
  by (auto simp: fl_rnd abs_less_iff simp del: power_numeral)

lemma fl_not_NaN [simp]: "fl x \<noteq> NaN"
  by (simp add: fl_rnd)

lemma f_le_refl: "f_le a a \<longleftrightarrow> a \<noteq> NaN"
  by (cases a) simp_all

lemma f_le_trans: "f_le a b \<Longrightarrow> f_le b c \<Longrightarrow> f_le a c"
  by (cases a; cases b; cases c) simp_all

lemma f_le_antisym: "f_le a b \<Longrightarrow> f_le b a \<Longrightarrow> a = b"
  by (cases a; cases b) simp_all

lemma f_le_linear: "a \<noteq> NaN \<Longrightarrow> b \<noteq> NaN \<Longrightarrow> f_le a b \<or> f_le b a"
  by (cases a; cases b) auto

lemma f_le_not_NaN: "f_le a b \<Longrightarrow> a \<noteq> NaN \<and> b \<noteq> NaN"
  by (cases a; cases b) simp_all

lemma f_not_less: "a \<noteq> NaN \<Longrightarrow> b \<noteq> NaN \<Longrightarrow> \<not> f_less a b \<longleftrightarrow> f_le b a"
  by (cases a; cases b) (auto simp: f_less_def)

lemma fl_mono: "x \<le> y \<Longrightarrow> f_le (fl x) (fl y)"
  using rnd_mono [of x y] by (auto simp: fl_rnd simp del: power_numeral)

lemma f_le_NInf: "f_le NInf a \<longleftrightarrow> a \<noteq> NaN"
  by (cases a) simp_all

lemma f_le_PInf: "f_le a PInf \<longleftrightarrow> a \<noteq> NaN"
  by (cases a) simp_all

text \<open>A finite rational between two doubles rounds to a double between them.\<close>

lemma fl_between:
  assumes "is_double (Fin a)" and "is_double (Fin b)" and "a \<le> x" and "x \<le> b"
  shows "\<exists>q. fl x = Fin q \<and> a \<le> q \<and> q \<le> b"
proof -
  have "f_le (Fin a) (fl x)" "f_le (fl x) (Fin b)"
    using fl_mono [OF assms(3)] fl_mono [OF assms(4)] fl_id [OF assms(1)] fl_id [OF assms(2)] by simp_all
  then show ?thesis by (cases "fl x") simp_all
qed

lemma fl_0 [simp]: "fl 0 = Fin 0" and fl_1 [simp]: "fl 1 = Fin 1"
  using fl_of_int [of 0] fl_of_int [of 1] by simp_all

lemma fl_numeral [simp]: "numeral n < (2 ^ 53 :: int) \<Longrightarrow> fl (numeral n) = Fin (numeral n)"
  using fl_of_int [of "numeral n"] by simp

lemma fl_neg_numeral [simp]: "numeral n < (2 ^ 53 :: int) \<Longrightarrow> fl (- numeral n) = Fin (- numeral n)"
  using fl_of_int [of "- numeral n"] by simp

text \<open>Evaluation: the rounding of a concrete rational, given its mantissa and exponent.\<close>

lemma fl_nearest:
  assumes y: "x = y * pow2 k" and m: "\<bar>y - of_int m\<bar> < 1 / 2 \<or> \<bar>y - of_int m\<bar> = 1 / 2 \<and> even m"
    and lo: "2 ^ 52 \<le> y" and hi: "y < 2 ^ 53" and k: "- 1074 \<le> k" "k \<le> 970"
  shows "fl x = Fin (of_int m * pow2 k)"
proof -
  have pos: "0 < x" using lo by (simp add: y)
  have l: "pow2 (52 + k) \<le> x" using lo pow2_nat [of 52] by (simp add: y pow2_add)
  have h: "x < pow2 (53 + k)" using hi pow2_nat [of 53] by (simp add: y pow2_add)
  have "floor_log2 x < 53 + k" using floor_log2_less [OF pos h] .
  moreover have "pow2 (52 + k) < pow2 (floor_log2 x + 1)" using l floor_log2_bounds [OF pos] by linarith
  ultimately have "floor_log2 x = 52 + k" by simp
  then have u: "ulp_exp x = k" using pos k by (simp add: ulp_exp_def)
  have rm: "round_half_even y = m" using m by (rule round_half_even_eqI)
  have r: "rnd x = of_int m * pow2 k" using rm by (simp add: rnd_def u) (simp add: y)
  have "rnd x \<le> pow2 (53 + k)" using u h by (intro rnd_le_pow2) simp_all
  also have "\<dots> \<le> pow2 1023" using k by (intro pow2_mono) simp
  also have "\<dots> < pow2 1024" by simp
  finally have "rnd x < 2 ^ 1024" using pow2_nat [of 1024] by simp
  moreover have "0 \<le> rnd x" using pos by (simp add: rnd_nonneg)
  ultimately show ?thesis using r by (auto simp: fl_rnd not_le simp del: power_numeral)
qed

subsection \<open>Further operations\<close>

fun f_neg :: "pyfloat \<Rightarrow> pyfloat" where
  "f_neg (Fin a) = Fin (- a)"
| "f_neg PInf = NInf"
| "f_neg NInf = PInf"
| "f_neg NaN = NaN"

definition f_sub :: "pyfloat \<Rightarrow> pyfloat \<Rightarrow> pyfloat" where
  "f_sub a b = f_add a (f_neg b)"

text \<open>The sign of a value that is not NaN.\<close>

fun f_sign :: "pyfloat \<Rightarrow> rat" where
  "f_sign (Fin a) = (if 0 < a then 1 else if a < 0 then - 1 else 0)"
| "f_sign NInf = - 1"
| "f_sign _ = 1"

definition f_inf :: "rat \<Rightarrow> pyfloat" where
  "f_inf s = (if 0 < s then PInf else if s < 0 then NInf else NaN)"

fun f_mul :: "pyfloat \<Rightarrow> pyfloat \<Rightarrow> pyfloat" where
  "f_mul (Fin a) (Fin b) = fl (a * b)"
| "f_mul NaN _ = NaN"
| "f_mul _ NaN = NaN"
| "f_mul a b = f_inf (f_sign a * f_sign b)"

text \<open>Division by a finite zero raises \<^verbatim>\<open>ZeroDivisionError\<close>.\<close>

fun f_quot :: "pyfloat \<Rightarrow> pyfloat \<Rightarrow> pyfloat" where
  "f_quot (Fin a) (Fin b) = fl (a / b)"
| "f_quot NaN _ = NaN"
| "f_quot _ NaN = NaN"
| "f_quot (Fin a) _ = Fin 0"
| "f_quot a (Fin b) = f_inf (f_sign a * (if b < 0 then - 1 else 1))"
| "f_quot _ _ = NaN"

definition f_div :: "pyfloat \<Rightarrow> pyfloat \<Rightarrow> pyfloat res" where
  "f_div a b = (if b = Fin 0 then Inl (PyExc ZeroDivisionError ''float division by zero'') else Inr (f_quot a b))"

definition f_abs :: "pyfloat \<Rightarrow> pyfloat" where
  "f_abs a = (case a of Fin q \<Rightarrow> Fin \<bar>q\<bar> | NInf \<Rightarrow> PInf | _ \<Rightarrow> a)"

text \<open>
  \<^verbatim>\<open>max(a, b)\<close> and \<^verbatim>\<open>min(a, b)\<close> keep the first argument unless the second is
  strictly beyond it, so a NaN in second place is dropped.
\<close>

definition f_max :: "pyfloat \<Rightarrow> pyfloat \<Rightarrow> pyfloat" where
  "f_max a b = (if f_less a b then b else a)"

definition f_min :: "pyfloat \<Rightarrow> pyfloat \<Rightarrow> pyfloat" where
  "f_min a b = (if f_less b a then b else a)"

text \<open>\<^verbatim>\<open>round(x, n)\<close>: the exact value rounded half-even to \<open>n\<close> decimals, then to a double.\<close>

definition f_round :: "nat \<Rightarrow> pyfloat \<Rightarrow> pyfloat" where
  "f_round n x = (case x of Fin q \<Rightarrow> fl (of_int (round_half_even (q * 10 ^ n)) / 10 ^ n) | _ \<Rightarrow> x)"

text \<open>A decimal literal of the source: the nearest double.\<close>

definition lit :: "int \<Rightarrow> nat \<Rightarrow> pyfloat" where
  "lit n d = fl (of_int n / 10 ^ d)"

lemma lit_double [simp]: "is_double (lit n d)"
  by (simp add: lit_def del: is_double_simps(4))

lemma f_mul_1: "is_double x \<Longrightarrow> f_mul x (Fin 1) = x"
  using fl_id by (cases x) (auto simp: f_inf_def simp del: is_double_simps(4))

lemma f_add_double: "is_double (f_add a b)"
  by (cases a; cases b) (simp_all del: is_double_simps(4))

lemma f_mul_double: "is_double (f_mul a b)"
  by (cases a; cases b) (auto simp: f_inf_def simp del: is_double_simps(4))

lemma f_quot_double: "is_double (f_quot a b)"
  by (cases a; cases b) (auto simp: f_inf_def)

lemma f_add_mono:
  assumes "f_le a b" and "f_le c d" and "f_add a c \<noteq> NaN" and "f_add b d \<noteq> NaN"
  shows "f_le (f_add a c) (f_add b d)"
  using assms fl_mono by (cases a; cases b; cases c; cases d) (auto simp: f_le_NInf f_le_PInf)

lemma f_le_0_sign: "f_le (Fin 0) a \<Longrightarrow> 0 \<le> f_sign a"
  by (cases a) simp_all

lemma f_mul_mono_nonneg:
  assumes "f_le a b" and "f_le (Fin 0) c" and "f_mul a c \<noteq> NaN" and "f_mul b c \<noteq> NaN"
  shows "f_le (f_mul a c) (f_mul b c)"
  using assms
  by (cases a; cases b; cases c) (auto simp: f_inf_def f_le_NInf f_le_PInf fl_mono mult_right_mono split: if_splits)

lemma f_mul_commute: "f_mul a b = f_mul b a"
  by (cases a; cases b) (simp_all add: mult.commute)

lemma f_sub_le_0: "f_le a b \<Longrightarrow> \<not> f_less (Fin 0) (f_sub a b)"
proof -
  assume "f_le a b"
  moreover have "f_le (fl (x - y)) (Fin 0)" if "x \<le> y" for x y
    using fl_mono [of "x - y" 0] that by (simp add: fl_def)
  ultimately show ?thesis by (cases a; cases b) (auto simp: f_sub_def f_less_def dest: f_le_antisym)
qed

end
