(* ===== verification/Scanner.thy ===== *)
theory Scanner
  imports Py_Float "HOL-Library.List_Lexorder" "HOL-Library.Char_ord" "HOL-Library.Multiset"
begin

text \<open>
  The researcher's multi-pair edge scanner (\<^verbatim>\<open>core/scanner.py\<close>): the pair registry, the
  sub-scores and their weighted composite, the price cache in front of CoinGecko, the ranking and
  its renderings. The price service and the clock are the record \<open>price_env\<close>.
\<close>

subsection \<open>Formatting\<close>

text \<open>\<^verbatim>\<open>f"{x:.2f}"\<close> and \<^verbatim>\<open>f"{x:+.2f}"\<close>.\<close>

definition fmt_2f :: "pyfloat \<Rightarrow> string" where
  "fmt_2f x =
     (case x of
        Fin q \<Rightarrow>
          (let n = nat (round_half_even (\<bar>q\<bar> * 100))
           in (if q < 0 then ''-'' else []) @ str_nat (n div 100) @ ''.'' @
              str_nat (n div 10 mod 10) @ str_nat (n mod 10))
      | PInf \<Rightarrow> ''inf'' | NInf \<Rightarrow> ''-inf'' | NaN \<Rightarrow> ''nan'')"

definition fmt_2f_plus :: "pyfloat \<Rightarrow> string" where
  "fmt_2f_plus x = (let s = fmt_2f x in if startswith ''-'' s then s else CHR ''+'' # s)"

text \<open>Padding counts characters, not the bytes of their UTF-8 text.\<close>

definition str_len :: "string \<Rightarrow> nat" where
  "str_len s = length (filter (\<lambda>c. (of_char c :: nat) < 128 \<or> 192 \<le> (of_char c :: nat)) s)"

definition ljust :: "nat \<Rightarrow> string \<Rightarrow> string" where
  "ljust w s = s @ replicate (w - str_len s) CHR '' ''"

definition rjust :: "nat \<Rightarrow> string \<Rightarrow> string" where
  "rjust w s = replicate (w - str_len s) CHR '' '' @ s"

subsection \<open>Pair registry\<close>

record pair_spec =
  pair_id :: string
  in_sym :: string
  out_sym :: string
  ps_token_in :: string
  ps_token_out :: string
  ps_chain_id :: int
  coingecko_id :: string
  bluechip_score :: pyfloat
  spread_score :: pyfloat
  ps_label :: string

definition PAIRS :: "pair_spec list" where
  "PAIRS =
    [\<lparr>pair_id = ''ETH_USDC'', in_sym = ''ETH'', out_sym = ''USDC'',
      ps_token_in = ''0x0000000000000000000000000000000000000000'',
      ps_token_out = ''0x833589fCD6eDb6E08f4c7C32D4f71b54bdA02913'',
      ps_chain_id = 8453, coingecko_id = ''ethereum'',
      bluechip_score = lit 100 2, spread_score = lit 92 2,
      ps_label = ''ETH '' @ ARROW @ '' USDC''\<rparr>,
     \<lparr>pair_id = ''ETH_USDT'', in_sym = ''ETH'', out_sym = ''USDT'',
      ps_token_in = ''0x0000000000000000000000000000000000000000'',
      ps_token_out = ''0xfde4C96c8593536E31F229EA8f37b2ADa2699bb2'',
      ps_chain_id = 8453, coingecko_id = ''ethereum'',
      bluechip_score = lit 95 2, spread_score = lit 88 2,
      ps_label = ''ETH '' @ ARROW @ '' USDT''\<rparr>,
     \<lparr>pair_id = ''cbBTC_USDC'', in_sym = ''cbBTC'', out_sym = ''USDC'',
      ps_token_in = ''0xcbB7C0000aB88B473b1f5aFd9ef808440eed33Bf'',
      ps_token_out = ''0x833589fCD6eDb6E08f4c7C32D4f71b54bdA02913'',
      ps_chain_id = 8453, coingecko_id = ''bitcoin'',
      bluechip_score = lit 95 2, spread_score = lit 85 2,
      ps_label = ''cbBTC '' @ ARROW @ '' USDC''\<rparr>,
     \<lparr>pair_id = ''WETH_USDC'', in_sym = ''WETH'', out_sym = ''USDC'',
      ps_token_in = ''0x4200000000000000000000000000000000000006'',
      ps_token_out = ''0x833589fCD6eDb6E08f4c7C32D4f71b54bdA02913'',
      ps_chain_id = 8453, coingecko_id = ''ethereum'',
      bluechip_score = lit 90 2, spread_score = lit 93 2,
      ps_label = ''WETH '' @ ARROW @ '' USDC''\<rparr>]"

definition get_pair :: "string \<Rightarrow> pair_spec option" where
  "get_pair pid = find (\<lambda>p. pair_id p = pid) PAIRS"

subsection \<open>Edge profile\<close>

record pair_score =
  sc_pair :: pair_spec
  sc_price_usd :: pyfloat
  momentum_24h :: pyfloat
  momentum :: pyfloat
  bluechip :: pyfloat
  spread :: pyfloat
  sc_size_fit :: pyfloat
  composite :: pyfloat
  sc_signal :: string
  reasoning :: string

definition to_signal_payload :: "pair_score \<Rightarrow> int \<Rightarrow> pydict" where
  "to_signal_payload s amount_in_wei =
    [(''token_in'', VStr (ps_token_in (sc_pair s))),
     (''token_out'', VStr (ps_token_out (sc_pair s))),
     (''token_in_sym'', VStr (in_sym (sc_pair s))),
     (''token_out_sym'', VStr (out_sym (sc_pair s))),
     (''chain_id'', VInt (ps_chain_id (sc_pair s))),
     (''price_usd'', VFloat (sc_price_usd s)),
     (''signal'', VStr (sc_signal s)),
     (''reason'', VStr (reasoning s)),
     (''amount_in_wei'', VInt amount_in_wei),
     (''edge_profile'', VDict
       [(''momentum_24h'', VFloat (momentum_24h s)),
        (''momentum'', VFloat (f_round 3 (momentum s))),
        (''bluechip'', VFloat (f_round 3 (bluechip s))),
        (''spread'', VFloat (f_round 3 (spread s))),
        (''size_fit'', VFloat (f_round 3 (sc_size_fit s))),
        (''composite'', VFloat (f_round 3 (composite s)))])]"

definition classify_signal :: "pyfloat \<Rightarrow> string" where
  "classify_signal c =
     (if f_ge c (lit 72 2) then ''strong'' else if f_ge c (lit 55 2) then ''medium'' else ''weak'')"

definition normalise_momentum :: "pyfloat \<Rightarrow> pyfloat" where
  "normalise_momentum pct_24h =
     f_max (Fin 0) (f_min (Fin 1) (f_quot (f_add pct_24h (Fin 5)) (Fin 10)))"

definition size_fit :: "int \<Rightarrow> string \<Rightarrow> pyfloat res" where
  "size_fit amount_wei sym_in =
     res_bind (py_float (VInt amount_wei)) (\<lambda>a.
     res_bind (f_div a (lit 1000000000000000000 0)) (\<lambda>eth0.
       let eth = (if sym_in = ''cbBTC'' then f_mul eth0 (Fin 30) else eth0)
       in if f_le (lit 1 4) eth \<and> f_le eth (Fin 1) then Inr (Fin 1)
          else if f_less eth (lit 1 4) then map_sum id (f_max (lit 3 1)) (f_div eth (lit 1 4))
          else map_sum id (f_max (lit 3 1)) (f_div (Fin 1) eth)))"

definition build_reasoning :: "pair_spec \<Rightarrow> pyfloat \<Rightarrow> string \<Rightarrow> pyfloat \<Rightarrow> string" where
  "build_reasoning p mom_pct sig c =
     in_sym p @ ''/'' @ out_sym p @ '' on Base '' @ DOT @ '' 24h '' @
     (if f_ge mom_pct (Fin 0) then ''up'' else ''down'') @ '' '' @ fmt_2f (f_abs mom_pct) @ ''% '' @ DOT @
     '' composite '' @ fmt_2f c @ '' '' @ DOT @ '' '' @ sig @ '' bluechip momentum signal''"

subsection \<open>Price cache\<close>

record cg_resp =
  cg_status :: int
  cg_json :: "pydict res"

record price_cache =
  pc_prices :: pydict
  pc_at :: pyfloat

record 'w price_env =
  cg_get :: "string \<Rightarrow> ('w, cg_resp) sx"
  time_now :: "'w \<Rightarrow> pyfloat \<times> 'w"
  iso_now :: "'w \<Rightarrow> string \<times> 'w"

type_synonym 'w scan_state = "price_cache \<times> 'w"

definition CACHE_TTL_SECS :: pyfloat where
  "CACHE_TTL_SECS = Fin 30"

definition initial_cache :: price_cache where
  "initial_cache = \<lparr>pc_prices = [], pc_at = Fin 0\<rparr>"

text \<open>A dictionary built from a comprehension over keys.\<close>

definition dict_of :: "string list \<Rightarrow> (string \<Rightarrow> pyval) \<Rightarrow> pydict" where
  "dict_of ids f = fold (\<lambda>i d. AList.update i (f i) d) ids []"

text \<open>The two checks of the cache: fresh, and covering every requested identifier.\<close>

definition cached_prices :: "pyfloat \<Rightarrow> string list \<Rightarrow> price_cache \<Rightarrow> pydict option" where
  "cached_prices now ids c =
     (if f_less (f_sub now (pc_at c)) CACHE_TTL_SECS \<and> list_all (\<lambda>i. map_of (pc_prices c) i \<noteq> None) ids
      then Some (dict_of ids (\<lambda>i. dget (pc_prices c) i VNone)) else None)"

text \<open>What the reply does to the cache: only a non-empty object with status 200 refreshes it.\<close>

definition store_reply :: "pyfloat \<Rightarrow> cg_resp res \<Rightarrow> price_cache \<Rightarrow> price_cache" where
  "store_reply now reply c =
     (case reply of
        Inr r \<Rightarrow>
          if cg_status r = 200
          then (case cg_json r of
                  Inr fresh \<Rightarrow>
                    if fresh = [] then c
                    else c\<lparr>pc_prices := fold (\<lambda>(i, v) d. AList.update i v d) fresh (pc_prices c), pc_at := now\<rparr>
                | Inl _ \<Rightarrow> c)
          else c
      | Inl _ \<Rightarrow> c)"

definition stale_prices :: "string list \<Rightarrow> price_cache \<Rightarrow> pydict" where
  "stale_prices ids c = dict_of ids (\<lambda>i. dget (pc_prices c) i (VDict []))"

definition sorted_ids :: "string list \<Rightarrow> string" where
  "sorted_ids ids = join '','' (sort (remdups ids))"

text \<open>The part of \<^verbatim>\<open>_fetch_prices\<close> that runs under the lock.\<close>

definition fetch_locked :: "'w price_env \<Rightarrow> string list \<Rightarrow> 'w scan_state \<Rightarrow> pydict \<times> 'w scan_state" where
  "fetch_locked env ids = (\<lambda>(c, w).
     case time_now env w of (now, w1) \<Rightarrow>
       (case cached_prices now ids c of
          Some d \<Rightarrow> (d, (c, w1))
        | None \<Rightarrow>
            (case cg_get env (sorted_ids ids) w1 of (reply, w2) \<Rightarrow>
               let c' = store_reply now reply c in (stale_prices ids c', (c', w2)))))"

definition fetch_prices :: "'w price_env \<Rightarrow> string list \<Rightarrow> 'w scan_state \<Rightarrow> pydict \<times> 'w scan_state" where
  "fetch_prices env ids = (\<lambda>(c, w).
     case time_now env w of (now, w1) \<Rightarrow>
       (case cached_prices now ids c of Some d \<Rightarrow> (d, (c, w1)) | None \<Rightarrow> fetch_locked env ids (c, w1)))"

subsection \<open>The scan\<close>

record scan_result =
  ranked :: "pair_score list"
  best :: "pair_score option"
  fetched_at :: string

text \<open>\<^verbatim>\<open>float(...) or 0.0\<close>.\<close>

definition f_or_zero :: "pyfloat \<Rightarrow> pyfloat" where
  "f_or_zero x = (if x = Fin 0 then Fin 0 else x)"

definition composite_score :: "pyfloat \<Rightarrow> pyfloat \<Rightarrow> pyfloat \<Rightarrow> pyfloat \<Rightarrow> pyfloat" where
  "composite_score m b s z =
     f_add (f_add (f_add (f_mul (lit 40 2) m) (f_mul (lit 25 2) b)) (f_mul (lit 20 2) s)) (f_mul (lit 15 2) z)"

definition score_pair :: "pydict \<Rightarrow> int \<Rightarrow> pair_spec \<Rightarrow> pair_score res" where
  "score_pair prices amount_in_wei p =
     (let info = dget prices (coingecko_id p) (VDict [])
      in res_bind (res_bind (vget info ''usd'' (VFloat (Fin 0))) py_float) (\<lambda>pr.
         res_bind (res_bind (vget info ''usd_24h_change'' (VFloat (Fin 0))) py_float) (\<lambda>mc.
         let price = f_or_zero pr; mom_pct = f_or_zero mc; momentum_score = normalise_momentum mom_pct
         in res_bind (size_fit amount_in_wei (in_sym p)) (\<lambda>size_score.
            let c = composite_score momentum_score (bluechip_score p) (spread_score p) size_score;
                sig = classify_signal c
            in Inr \<lparr>sc_pair = p, sc_price_usd = price, momentum_24h = mom_pct, momentum = momentum_score,
                    bluechip = bluechip_score p, spread = spread_score p, sc_size_fit = size_score,
                    composite = c, sc_signal = sig, reasoning = build_reasoning p mom_pct sig c\<rparr>))))"

fun res_map :: "('a \<Rightarrow> 'b res) \<Rightarrow> 'a list \<Rightarrow> 'b list res" where
  "res_map f [] = Inr []"
| "res_map f (x # xs) = res_bind (f x) (\<lambda>y. res_bind (res_map f xs) (\<lambda>ys. Inr (y # ys)))"

text \<open>
  \<^verbatim>\<open>list.sort(key=..., reverse=True)\<close>: descending and stable (equal keys keep their
  order), for keys that are never NaN.
\<close>

fun insert_desc :: "pair_score \<Rightarrow> pair_score list \<Rightarrow> pair_score list" where
  "insert_desc x [] = [x]"
| "insert_desc x (y # ys) = (if f_le (composite y) (composite x) then x # y # ys else y # insert_desc x ys)"

definition sort_desc :: "pair_score list \<Rightarrow> pair_score list" where
  "sort_desc xs = foldr insert_desc xs []"

definition scan_pairs :: "'w price_env \<Rightarrow> int \<Rightarrow> ('w scan_state, scan_result) sx" where
  "scan_pairs env amount_in_wei = (\<lambda>st.
     case fetch_prices env (map coingecko_id PAIRS) st of (prices, (c, w)) \<Rightarrow>
       (case res_map (score_pair prices amount_in_wei) PAIRS of
          Inl e \<Rightarrow> (Inl e, (c, w))
        | Inr scored \<Rightarrow>
            let rs = sort_desc scored
            in case iso_now env w of (t, w') \<Rightarrow>
              (Inr \<lparr>ranked = rs, best = (if rs = [] then None else Some (hd rs)), fetched_at = t\<rparr>, (c, w'))))"

subsection \<open>Renderings\<close>

definition pair_asdict :: "pair_spec \<Rightarrow> pydict" where
  "pair_asdict p =
    [(''pair_id'', VStr (pair_id p)), (''in_sym'', VStr (in_sym p)), (''out_sym'', VStr (out_sym p)),
     (''token_in'', VStr (ps_token_in p)), (''token_out'', VStr (ps_token_out p)),
     (''chain_id'', VInt (ps_chain_id p)), (''coingecko_id'', VStr (coingecko_id p)),
     (''bluechip_score'', VFloat (bluechip_score p)), (''spread_score'', VFloat (spread_score p)),
     (''label'', VStr (ps_label p))]"

definition scan_to_dict :: "scan_result \<Rightarrow> pydict" where
  "scan_to_dict r =
    [(''fetched_at'', VStr (fetched_at r)),
     (''best'', case best r of
        None \<Rightarrow> VNone
      | Some b \<Rightarrow> VDict (pair_asdict (sc_pair b) @
          [(''composite'', VFloat (composite b)), (''signal'', VStr (sc_signal b)),
           (''reasoning'', VStr (reasoning b))])),
     (''ranked'', VList (map (\<lambda>s. VDict
        [(''pair_id'', VStr (pair_id (sc_pair s))), (''label'', VStr (ps_label (sc_pair s))),
         (''price_usd'', VFloat (sc_price_usd s)), (''momentum_24h'', VFloat (momentum_24h s)),
         (''composite'', VFloat (composite s)), (''signal'', VStr (sc_signal s))]) (ranked r)))]"

definition STAR :: string where
  "STAR = [CHR 0xE2, CHR 0x98, CHR 0x85]"

text \<open>
  The star marks the row whose object is \<^verbatim>\<open>result.best\<close>; a scan makes that the first
  of its rows.
\<close>

definition table_row :: "bool \<Rightarrow> pair_score \<Rightarrow> string" where
  "table_row is_best s =
     (if is_best then '' '' @ STAR else ''  '') @ ljust 14 (ps_label (sc_pair s)) @ ''$'' @
     rjust 10 (fmt_2f_comma (sc_price_usd s)) @ rjust 8 (fmt_2f_plus (momentum_24h s)) @ ''%'' @
     rjust 7 (fmt_2f (momentum s)) @ rjust 7 (fmt_2f (composite s)) @ ''  '' @ sc_signal s"

definition format_scan_table :: "scan_result \<Rightarrow> string" where
  "format_scan_table r =
     (if ranked r = [] then ''  (no pairs scanned)''
      else join [CHR 0x0A]
        ([''  '' @ ljust 14 ''pair'' @ rjust 12 ''price'' @ rjust 9 ''24h'' @ rjust 7 ''mom'' @ rjust 7 ''edge'' @ ''  signal'',
          ''  '' @ replicate (14 + 12 + 9 + 7 + 7) CHR ''-'' @ ''  -------''] @
         map (\<lambda>(i, s). table_row (i = 0 \<and> best r \<noteq> None) s) (enumerate 0 (ranked r))))"

subsection \<open>Bounds of the scores\<close>

lemma lit_40_2: "lit 40 2 = Fin (3602879701896397 / 9007199254740992)"
  using fl_nearest [of "2 / 5" "36028797018963968 / 5" "-54" "7205759403792794"] by (simp add: lit_def pow2_def)

lemma lit_25_2: "lit 25 2 = Fin (1 / 4)"
  using fl_nearest [of "1 / 4" "4503599627370496" "-54" "4503599627370496"] by (simp add: lit_def pow2_def)

lemma lit_20_2: "lit 20 2 = Fin (3602879701896397 / 18014398509481984)"
  using fl_nearest [of "1 / 5" "36028797018963968 / 5" "-55" "7205759403792794"] by (simp add: lit_def pow2_def)

lemma lit_15_2: "lit 15 2 = Fin (5404319552844595 / 36028797018963968)"
  using fl_nearest [of "3 / 20" "27021597764222976 / 5" "-55" "5404319552844595"] by (simp add: lit_def pow2_def)

lemma lit_100_2: "lit 100 2 = Fin 1"
  using fl_nearest [of "1" "4503599627370496" "-52" "4503599627370496"] by (simp add: lit_def pow2_def)

lemma lit_92_2: "lit 92 2 = Fin (8286623314361713 / 9007199254740992)"
  using fl_nearest [of "23 / 25" "207165582859042816 / 25" "-53" "8286623314361713"] by (simp add: lit_def pow2_def)

lemma lit_95_2: "lit 95 2 = Fin (4278419646001971 / 4503599627370496)"
  using fl_nearest [of "19 / 20" "42784196460019712 / 5" "-53" "8556839292003942"] by (simp add: lit_def pow2_def)

lemma lit_88_2: "lit 88 2 = Fin (7926335344172073 / 9007199254740992)"
  using fl_nearest [of "22 / 25" "198158383604301824 / 25" "-53" "7926335344172073"] by (simp add: lit_def pow2_def)

lemma lit_85_2: "lit 85 2 = Fin (7656119366529843 / 9007199254740992)"
  using fl_nearest [of "17 / 20" "38280596832649216 / 5" "-53" "7656119366529843"] by (simp add: lit_def pow2_def)

lemma lit_90_2: "lit 90 2 = Fin (8106479329266893 / 9007199254740992)"
  using fl_nearest [of "9 / 10" "40532396646334464 / 5" "-53" "8106479329266893"] by (simp add: lit_def pow2_def)

lemma lit_93_2: "lit 93 2 = Fin (8376695306909123 / 9007199254740992)"
  using fl_nearest [of "93 / 100" "209417382672728064 / 25" "-53" "8376695306909123"] by (simp add: lit_def pow2_def)

lemma lit_3_1: "lit 3 1 = Fin (5404319552844595 / 18014398509481984)"
  using fl_nearest [of "3 / 10" "27021597764222976 / 5" "-54" "5404319552844595"] by (simp add: lit_def pow2_def)

lemma lit_1_4: "lit 1 4 = Fin (7378697629483821 / 73786976294838206464)"
  using fl_nearest [of "1 / 10000" "4611686018427387904 / 625" "-66" "7378697629483821"] by (simp add: lit_def pow2_def)

lemma lit_1000000000000000000_0: "lit 1000000000000000000 0 = Fin 1000000000000000000"
  using fl_nearest [of "1000000000000000000" "7812500000000000" "7" "7812500000000000"] by (simp add: lit_def pow2_def)

lemmas lit_values = lit_40_2 lit_25_2 lit_20_2 lit_15_2 lit_100_2 lit_92_2 lit_95_2 lit_88_2 lit_85_2 lit_90_2 lit_93_2 lit_3_1 lit_1_4 lit_1000000000000000000_0
  lit_3_1 [unfolded One_nat_def]

definition in01 :: "pyfloat \<Rightarrow> bool" where
  "in01 x \<longleftrightarrow> f_le (Fin 0) x \<and> f_le x (Fin 1)"

lemma in01_iff: "in01 x \<longleftrightarrow> (\<exists>q. x = Fin q \<and> 0 \<le> q \<and> q \<le> 1)"
  by (cases x) (auto simp: in01_def)

lemma normalise_momentum_in01: "in01 (normalise_momentum p)"
  unfolding normalise_momentum_def
  by (cases "f_quot (f_add p (Fin 5)) (Fin 10)") (auto simp: f_min_def f_max_def f_less_def in01_def)

lemma f_max_in01: "f_le x (Fin 1) \<Longrightarrow> in01 (f_max (lit 3 1) x)"
  by (cases x) (auto simp: f_max_def f_less_def in01_def lit_values)

lemma size_fit_in01:
  assumes "size_fit a sym_in = Inr z"
  shows "in01 z"
proof -
  from assms obtain x eth where x: "f_div x (lit 1000000000000000000 0) = Inr eth" and fx: "py_float (VInt a) = Inr x"
    by (auto simp: size_fit_def res_bind_Inr_iff)
  have xf: "x \<noteq> NaN" using fx by (auto split: pyfloat.splits)
  have "eth \<noteq> NaN" using x xf unfolding lit_values by (cases x) (auto simp: f_div_def f_inf_def)
  define e where "e = (if sym_in = ''cbBTC'' then f_mul eth (Fin 30) else eth)"
  have en: "e \<noteq> NaN" using \<open>eth \<noteq> NaN\<close> by (cases eth) (auto simp: e_def f_inf_def)
  have "z = Fin 1 \<or> f_less e (lit 1 4) \<and> map_sum id (f_max (lit 3 1)) (f_div e (lit 1 4)) = Inr z
      \<or> \<not> f_le e (Fin 1) \<and> \<not> f_less e (lit 1 4) \<and> map_sum id (f_max (lit 3 1)) (f_div (Fin 1) e) = Inr z"
    using assms fx x en by (cases e) (auto simp: size_fit_def Let_def f_less_def lit_values simp flip: e_def split: if_splits)
  then show ?thesis
  proof (elim disjE conjE)
    assume "z = Fin 1"
    then show ?thesis by (simp add: in01_def)
  next
    assume less: "f_less e (lit 1 4)" and z: "map_sum id (f_max (lit 3 1)) (f_div e (lit 1 4)) = Inr z"
    have "f_le (f_quot e (lit 1 4)) (Fin 1)"
    proof (cases e)
      case (Fin q)
      have "q / (7378697629483821 / 73786976294838206464) \<le> 1" using less Fin by (simp add: f_less_def lit_values)
      then show ?thesis using Fin fl_mono fl_1 unfolding lit_values by fastforce
    qed (use less en in \<open>simp_all add: f_less_def lit_values f_inf_def\<close>)
    then show ?thesis using z f_max_in01 by (auto simp: f_div_def lit_values split: if_splits)
  next
    assume big: "\<not> f_le e (Fin 1)" "\<not> f_less e (lit 1 4)" and z: "map_sum id (f_max (lit 3 1)) (f_div (Fin 1) e) = Inr z"
    have "f_le (f_quot (Fin 1) e) (Fin 1)"
    proof (cases e)
      case (Fin q)
      then have "1 / q \<le> 1" using big by simp
      then show ?thesis using Fin fl_mono fl_1 by fastforce
    qed (use big en in simp_all)
    then show ?thesis using z f_max_in01 by (auto simp: f_div_def split: if_splits)
  qed
qed

text \<open>The composite is monotone in every sub-score, hence between 0 and 1.\<close>

lemma f_add_pos_mono:
  assumes "f_le (Fin 0) a" and "f_le a b" and "f_le (Fin 0) c" and "f_le c d"
  shows "f_le (Fin 0) (f_add a c) \<and> f_le (f_add a c) (f_add b d)"
proof -
  have "f_le (Fin 0) (fl x)" if "0 \<le> x" for x using fl_mono [OF that] by simp
  then show ?thesis using assms fl_mono
    by (cases a; cases b; cases c; cases d) (auto simp: f_le_PInf)
qed

lemma weight_mono:
  assumes "0 \<le> w" and "f_le (Fin 0) x" and "f_le x y" and "y \<noteq> PInf"
  shows "f_le (Fin 0) (f_mul (Fin w) x) \<and> f_le (f_mul (Fin w) x) (f_mul (Fin w) y)"
  using assms fl_mono [of 0 "w * _"] by (cases x; cases y) (auto intro!: fl_mono mult_left_mono)

lemma composite_mono:
  assumes "f_le (Fin 0) m" "f_le m m'" "in01 m'" "f_le (Fin 0) b" "f_le b b'" "in01 b'"
    and "f_le (Fin 0) s" "f_le s s'" "in01 s'" "f_le (Fin 0) z" "f_le z z'" "in01 z'"
  shows "f_le (composite_score m b s z) (composite_score m' b' s' z')"
proof -
  have fin: "x \<noteq> PInf" if "in01 x" for x using that by (auto simp: in01_iff)
  have w: "f_le (Fin 0) (f_mul (lit n 2) x) \<and> f_le (f_mul (lit n 2) x) (f_mul (lit n 2) y)"
    if "n \<in> {40, 25, 20, 15}" "f_le (Fin 0) x" "f_le x y" "in01 y" for n x y
    using that(1) weight_mono [OF _ that(2,3) fin [OF that(4)]] by (auto simp: lit_values)
  note a1 = f_add_pos_mono [OF w [of 40 m m', THEN conjunct1] w [of 40 m m', THEN conjunct2]
      w [of 25 b b', THEN conjunct1] w [of 25 b b', THEN conjunct2]]
  note a2 = f_add_pos_mono [OF a1 [THEN conjunct1] a1 [THEN conjunct2]
      w [of 20 s s', THEN conjunct1] w [of 20 s s', THEN conjunct2]]
  note a3 = f_add_pos_mono [OF a2 [THEN conjunct1] a2 [THEN conjunct2]
      w [of 15 z z', THEN conjunct1] w [of 15 z z', THEN conjunct2]]
  show ?thesis unfolding composite_score_def by (rule a3 [THEN conjunct2]) (use assms in simp_all)
qed

lemma composite_ones: "composite_score (Fin 1) (Fin 1) (Fin 1) (Fin 1) = Fin 1"
proof -
  have s0: "fl (5854679515581645 / 9007199254740992) = Fin (5854679515581645 / 9007199254740992)"
    using fl_nearest [of "5854679515581645 / 9007199254740992" "5854679515581645" "-53" "5854679515581645"] by (simp add: pow2_def)
  have s1: "fl (15312238733059687 / 18014398509481984) = Fin (1914029841632461 / 2251799813685248)"
    using fl_nearest [of "15312238733059687 / 18014398509481984" "15312238733059687 / 2" "-53" "7656119366529844"] by (simp add: pow2_def)
  have s2: "fl (36028797018963971 / 36028797018963968) = Fin 1"
    using fl_nearest [of "36028797018963971 / 36028797018963968" "36028797018963971 / 8" "-52" "4503599627370496"] by (simp add: pow2_def)
  have one: "f_mul (lit n 2) (Fin 1) = lit n 2" for n by (rule f_mul_1) simp
  show ?thesis unfolding composite_score_def one unfolding lit_values by (simp add: s0 s1 s2)
qed

lemma composite_zeros: "composite_score (Fin 0) (Fin 0) (Fin 0) (Fin 0) = Fin 0"
  by (simp add: composite_score_def lit_values)

lemma composite_in01:
  assumes "in01 m" "in01 b" "in01 s" "in01 z"
  shows "in01 (composite_score m b s z)"
proof -
  show ?thesis using composite_ones composite_zeros
      composite_mono [of m "Fin 1" b "Fin 1" s "Fin 1" z "Fin 1"]
      composite_mono [of "Fin 0" m "Fin 0" b "Fin 0" s "Fin 0" z] assms
    by (simp add: in01_def)
qed

text \<open>Up to seven roundings the composite is the exact weighted sum.\<close>

lemma fl_error:
  assumes "0 \<le> x" and "x \<le> 3 / 2"
  shows "\<exists>y. fl x = Fin y \<and> 0 \<le> y \<and> \<bar>y - x\<bar> \<le> 1 / 9007199254740992"
proof -
  have "\<bar>rnd x - x\<bar> \<le> pow2 (1 - 54)" using assms pow2_nat [of 1] by (intro rnd_error) simp_all
  then have e: "\<bar>rnd x - x\<bar> \<le> 1 / 9007199254740992" by (simp add: pow2_def)
  then have "rnd x < 2" using assms unfolding abs_le_iff by linarith
  also have "(2 :: rat) \<le> 2 ^ 1024" by (rule self_le_power) simp_all
  finally have "rnd x < 2 ^ 1024" .
  moreover have "0 \<le> rnd x" using assms rnd_nonneg by blast
  ultimately show ?thesis using e by (auto simp: fl_rnd not_le simp del: power_numeral)
qed

abbreviation exact_composite :: "rat \<Rightarrow> rat \<Rightarrow> rat \<Rightarrow> rat \<Rightarrow> rat" where
  "exact_composite m b s z \<equiv>
     3602879701896397 / 9007199254740992 * m + 1 / 4 * b + 3602879701896397 / 18014398509481984 * s
     + 5404319552844595 / 36028797018963968 * z"

lemma composite_error:
  assumes "0 \<le> m" "m \<le> 1" "0 \<le> b" "b \<le> 1" "0 \<le> s" "s \<le> 1" "0 \<le> z" "z \<le> 1"
  shows "\<exists>c. composite_score (Fin m) (Fin b) (Fin s) (Fin z) = Fin c \<and>
    \<bar>c - exact_composite m b s z\<bar> \<le> 7 / 9007199254740992"
proof -
  have w: "\<exists>y. f_mul (Fin w) (Fin x) = Fin y \<and> 0 \<le> y \<and> \<bar>y - w * x\<bar> \<le> 1 / 9007199254740992"
    if "0 \<le> w" "w \<le> 1" "0 \<le> x" "x \<le> 1" for w x
  proof -
    have "w * x \<le> 1" using that by (simp add: mult_le_one)
    then show ?thesis using that fl_error [of "w * x"] by simp
  qed
  obtain p1 where p1: "f_mul (lit 40 2) (Fin m) = Fin p1" "0 \<le> p1"
    "\<bar>p1 - 3602879701896397 / 9007199254740992 * m\<bar> \<le> 1 / 9007199254740992"
    using w [of "3602879701896397 / 9007199254740992" m] assms unfolding lit_values by auto
  obtain p2 where p2: "f_mul (lit 25 2) (Fin b) = Fin p2" "0 \<le> p2" "\<bar>p2 - 1 / 4 * b\<bar> \<le> 1 / 9007199254740992"
    using w [of "1 / 4" b] assms unfolding lit_values by auto
  obtain p3 where p3: "f_mul (lit 20 2) (Fin s) = Fin p3" "0 \<le> p3"
    "\<bar>p3 - 3602879701896397 / 18014398509481984 * s\<bar> \<le> 1 / 9007199254740992"
    using w [of "3602879701896397 / 18014398509481984" s] assms unfolding lit_values by auto
  obtain p4 where p4: "f_mul (lit 15 2) (Fin z) = Fin p4" "0 \<le> p4"
    "\<bar>p4 - 5404319552844595 / 36028797018963968 * z\<bar> \<le> 1 / 9007199254740992"
    using w [of "5404319552844595 / 36028797018963968" z] assms unfolding lit_values by auto
  note ps = p1(2,3) p2(2,3) p3(2,3) p4(2,3)
  have "0 \<le> p1 + p2" "p1 + p2 \<le> 3 / 2" using ps assms unfolding abs_le_iff by linarith+
  from fl_error [OF this] obtain s1 where
    s1: "fl (p1 + p2) = Fin s1" "0 \<le> s1" "\<bar>s1 - (p1 + p2)\<bar> \<le> 1 / 9007199254740992" by blast
  have "0 \<le> s1 + p3" "s1 + p3 \<le> 3 / 2" using ps s1(2,3) assms unfolding abs_le_iff by linarith+
  from fl_error [OF this] obtain s2 where
    s2: "fl (s1 + p3) = Fin s2" "0 \<le> s2" "\<bar>s2 - (s1 + p3)\<bar> \<le> 1 / 9007199254740992" by blast
  have "0 \<le> s2 + p4" "s2 + p4 \<le> 3 / 2" using ps s1(2,3) s2(2,3) assms unfolding abs_le_iff by linarith+
  from fl_error [OF this] obtain s3 where
    s3: "fl (s2 + p4) = Fin s3" "\<bar>s3 - (s2 + p4)\<bar> \<le> 1 / 9007199254740992" by blast
  have "composite_score (Fin m) (Fin b) (Fin s) (Fin z) = Fin s3"
    by (simp add: composite_score_def p1 p2 p3 p4 s1 s2 s3)
  moreover have "\<bar>s3 - exact_composite m b s z\<bar> \<le> 7 / 9007199254740992"
    using p1(3) p2(3) p3(3) p4(3) s1(3) s2(3) s3(2) unfolding abs_le_iff by linarith
  ultimately show ?thesis by blast
qed

subsection \<open>Ranking\<close>

lemma insert_desc_mset [simp]: "mset (insert_desc x xs) = add_mset x (mset xs)"
  by (induction xs) auto

lemma sort_desc_mset: "mset (sort_desc xs) = mset xs"
  by (induction xs) (simp_all add: sort_desc_def)

lemma set_insert_desc [simp]: "set (insert_desc x xs) = insert x (set xs)"
  by (metis insert_desc_mset set_mset_mset set_mset_add_mset_insert)

abbreviation desc :: "pair_score list \<Rightarrow> bool" where
  "desc \<equiv> sorted_wrt (\<lambda>a b. f_ge (composite a) (composite b))"

lemma insert_desc_sorted:
  assumes "desc xs" and "\<forall>y \<in> set (x # xs). in01 (composite y)"
  shows "desc (insert_desc x xs)"
  using assms
proof (induction xs)
  case (Cons y ys)
  have n: "composite x \<noteq> NaN" "composite y \<noteq> NaN" using Cons.prems(2) by (auto simp: in01_iff)
  show ?case
  proof (cases "f_le (composite y) (composite x)")
    case True
    with Cons.prems show ?thesis by (auto simp: f_ge_def intro: f_le_trans)
  next
    case False
    with n have "f_le (composite x) (composite y)" using f_le_linear by blast
    with False Cons show ?thesis by (auto simp: f_ge_def)
  qed
qed simp

lemma sort_desc_sorted: "\<forall>y \<in> set xs. in01 (composite y) \<Longrightarrow> desc (sort_desc xs)"
proof (induction xs)
  case (Cons x xs)
  have "set (sort_desc xs) = set xs" by (metis sort_desc_mset set_mset_mset)
  with Cons show ?case using insert_desc_sorted [of "sort_desc xs" x] by (simp add: sort_desc_def)
qed (simp add: sort_desc_def)

lemma res_map_Inr: "res_map f xs = Inr ys \<longleftrightarrow> list_all2 (\<lambda>x y. f x = Inr y) xs ys"
proof (induction xs arbitrary: ys)
  case (Cons x xs)
  then show ?case by (cases ys) (auto simp: res_bind_Inr_iff)
qed auto

text \<open>What a scored pair looks like.\<close>

definition scored_ok :: "pair_score \<Rightarrow> bool" where
  "scored_ok s \<longleftrightarrow> in01 (momentum s) \<and> in01 (bluechip s) \<and> in01 (spread s) \<and> in01 (sc_size_fit s) \<and>
     in01 (composite s) \<and> sc_signal s = classify_signal (composite s) \<and>
     composite_score (momentum s) (bluechip s) (spread s) (sc_size_fit s) = composite s"

lemma scored_ok_composite: "scored_ok s \<Longrightarrow> in01 (composite s)"
  by (simp add: scored_ok_def)

lemma PAIRS_in01: "p \<in> set PAIRS \<Longrightarrow> in01 (bluechip_score p) \<and> in01 (spread_score p)"
  by (auto simp: PAIRS_def in01_def lit_values)

lemma score_pair_ok:
  assumes "score_pair prices amt p = Inr s" and "p \<in> set PAIRS"
  shows "sc_pair s = p \<and> bluechip s = bluechip_score p \<and> spread s = spread_score p \<and> scored_ok s"
proof -
  from assms(1) obtain mc z where z: "size_fit amt (in_sym p) = Inr z"
    and s: "momentum s = normalise_momentum mc \<and> sc_size_fit s = z \<and> sc_pair s = p \<and>
      bluechip s = bluechip_score p \<and> spread s = spread_score p \<and>
      composite s = composite_score (momentum s) (bluechip_score p) (spread_score p) z \<and>
      sc_signal s = classify_signal (composite s)"
    by (fastforce simp: score_pair_def res_bind_Inr_iff Let_def)
  with size_fit_in01 [OF z] PAIRS_in01 [OF assms(2)] show ?thesis
    by (simp add: scored_ok_def composite_in01 normalise_momentum_in01)
qed

lemma list_all2_scored:
  "list_all2 (\<lambda>p s. sc_pair s = p \<and> scored_ok s) ps ss \<Longrightarrow> map sc_pair ss = ps \<and> (\<forall>s \<in> set ss. scored_ok s)"
  by (induction ps ss rule: list_all2_induct) auto

text \<open>A scan that returns: the scores of the four pairs, ranked.\<close>

lemma scan_pairs_returns:
  assumes "scan_pairs env amt st = (Inr r, st')"
  obtains prices scored where
    "prices = fst (fetch_prices env (map coingecko_id PAIRS) st)"
    "list_all2 (\<lambda>p s. score_pair prices amt p = Inr s) PAIRS scored"
    "ranked r = sort_desc scored" "best r = Some (hd (ranked r))" "\<forall>s \<in> set scored. scored_ok s"
    "map sc_pair scored = PAIRS"
proof -
  obtain prices c w where f: "fetch_prices env (map coingecko_id PAIRS) st = (prices, c, w)" by (rule prod_cases3)
  with assms obtain scored where sc: "res_map (score_pair prices amt) PAIRS = Inr scored"
    and r: "ranked r = sort_desc scored" "best r = (if sort_desc scored = [] then None else Some (hd (sort_desc scored)))"
    by (auto simp: scan_pairs_def Let_def split: sum.splits prod.splits)
  have l: "list_all2 (\<lambda>p s. score_pair prices amt p = Inr s) PAIRS scored" using sc by (simp add: res_map_Inr)
  then have "length scored = length PAIRS" by (simp add: list_all2_lengthD)
  then have "scored \<noteq> []" by (auto simp: PAIRS_def)
  then have ne: "sort_desc scored \<noteq> []" by (metis sort_desc_mset mset_zero_iff)
  have "list_all2 (\<lambda>p s. sc_pair s = p \<and> scored_ok s) PAIRS scored"
    using l by (rule list.rel_mono_strong) (use score_pair_ok in blast)
  then have "map sc_pair scored = PAIRS \<and> (\<forall>s \<in> set scored. scored_ok s)"
    by (rule list_all2_scored)
  with l r ne f show ?thesis by (intro that) auto
qed

lemma size_fit_eth: "a \<noteq> ''cbBTC'' \<Longrightarrow> b \<noteq> ''cbBTC'' \<Longrightarrow> size_fit amt a = size_fit amt b"
  by (simp add: size_fit_def)

lemma score_pair_same:
  assumes "score_pair prices amt p = Inr s" and "score_pair prices amt p' = Inr s'"
    and "coingecko_id p = coingecko_id p'" and "in_sym p \<noteq> ''cbBTC''" and "in_sym p' \<noteq> ''cbBTC''"
  shows "momentum s = momentum s' \<and> sc_size_fit s = sc_size_fit s'"
  using assms size_fit_eth [of "in_sym p" "in_sym p'" amt]
  by (auto simp: score_pair_def res_bind_Inr_iff Let_def)

text \<open>A lead in the static scores that outweighs the rounding decides the order.\<close>

lemma composite_dominates:
  assumes "in01 m" and "in01 z" and "0 \<le> b" "b \<le> 1" "0 \<le> s" "s \<le> 1" "0 \<le> b'" "b' \<le> 1" "0 \<le> s'" "s' \<le> 1"
    and "3602879701896397 / 18014398509481984 * (s' - s) + 14 / 9007199254740992 < 1 / 4 * (b - b')"
  shows "\<not> f_le (composite_score m (Fin b) (Fin s) z) (composite_score m (Fin b') (Fin s') z)"
proof -
  obtain q y where q: "m = Fin q" "0 \<le> q" "q \<le> 1" "z = Fin y" "0 \<le> y" "y \<le> 1"
    using assms(1,2) by (auto simp: in01_iff)
  from q assms composite_error [of q b s y] obtain c where c: "composite_score m (Fin b) (Fin s) z = Fin c"
    "\<bar>c - exact_composite q b s y\<bar> \<le> 7 / 9007199254740992" by blast
  from q assms composite_error [of q b' s' y] obtain d where d: "composite_score m (Fin b') (Fin s') z = Fin d"
    "\<bar>d - exact_composite q b' s' y\<bar> \<le> 7 / 9007199254740992" by blast
  have "d < c" using c(2) d(2) assms(11) unfolding abs_le_iff right_diff_distrib by linarith
  with c d show ?thesis by simp
qed

lemma eth_usdc_beats:
  assumes "score_pair prices amt (PAIRS ! 0) = Inr a" and "score_pair prices amt (PAIRS ! i) = Inr b" and "i \<in> {1, 3}"
  shows "\<not> f_le (composite a) (composite b)"
proof -
  have mem: "PAIRS ! 0 \<in> set PAIRS" "PAIRS ! i \<in> set PAIRS" using assms(3) by (auto simp: PAIRS_def)
  have same: "momentum a = momentum b" "sc_size_fit a = sc_size_fit b"
    using score_pair_same [OF assms(1,2)] assms(3) by (auto simp: PAIRS_def)
  have ok: "scored_ok a" "scored_ok b" "bluechip a = bluechip_score (PAIRS ! 0)" "bluechip b = bluechip_score (PAIRS ! i)"
    "spread a = spread_score (PAIRS ! 0)" "spread b = spread_score (PAIRS ! i)"
    using score_pair_ok [OF assms(1) mem(1)] score_pair_ok [OF assms(2) mem(2)] by auto
  have c: "composite a = composite_score (momentum b) (bluechip a) (spread a) (sc_size_fit b)"
    "composite b = composite_score (momentum b) (bluechip b) (spread b) (sc_size_fit b)"
    "in01 (momentum b)" "in01 (sc_size_fit b)" using ok(1,2) same by (auto simp: scored_ok_def)
  show ?thesis unfolding c(1,2) ok(3-6) using assms(3)
    by (elim insertE emptyE) (simp_all add: PAIRS_def lit_values composite_dominates c(3,4))
qed

lemma PAIRS_scored:
  assumes "list_all2 P PAIRS ss"
  shows "\<exists>a b c d. ss = [a, b, c, d] \<and> P (PAIRS ! 0) a \<and> P (PAIRS ! 1) b \<and> P (PAIRS ! 2) c \<and> P (PAIRS ! 3) d"
proof -
  have "length PAIRS = 4" by (simp add: PAIRS_def)
  then have "length ss = 4" using assms by (simp add: list_all2_lengthD)
  then obtain a b c d where "ss = [a, b, c, d]" by (auto simp: numeral_eq_Suc length_Suc_conv)
  moreover have "P (PAIRS ! i) (ss ! i)" if "i < 4" for i
    using assms that \<open>length PAIRS = 4\<close> by (simp add: list_all2_nthD)
  then have "P (PAIRS ! 0) (ss ! 0)" "P (PAIRS ! 1) (ss ! 1)" "P (PAIRS ! 2) (ss ! 2)" "P (PAIRS ! 3) (ss ! 3)" by simp_all
  ultimately show ?thesis by simp
qed

text \<open>When a scan returns: the amount fits a double and every entry holds numbers.\<close>

lemma size_fit_returns:
  assumes "py_float (VInt a) = Inr x"
  shows "\<exists>z. size_fit a sym_in = Inr z"
proof -
  have "\<exists>z. map_sum id (f_max (lit 3 1)) (f_div (Fin 1) e) = Inr z" if "\<not> f_less e (lit 1 4)" for e
    using that by (cases "e = Fin 0") (auto simp: f_div_def f_less_def lit_values)
  moreover have "\<exists>z. map_sum id (f_max (lit 3 1)) (f_div e (lit 1 4)) = Inr z" for e
    by (auto simp: f_div_def lit_values)
  ultimately show ?thesis using assms by (simp add: size_fit_def f_div_def [of x] lit_values Let_def)
qed

lemma py_float_small: "\<bar>i\<bar> < 2 ^ 53 \<Longrightarrow> py_float (VInt i) = Inr (Fin (of_int i))"
  by (simp add: fl_of_int)

lemma scan_pairs_total:
  assumes "fetch_prices env (map coingecko_id PAIRS) st = (prices, c, w)"
    and "\<bar>amt\<bar> < 2 ^ 53"
    and "\<And>p. p \<in> set PAIRS \<Longrightarrow> \<exists>d x y. dget prices (coingecko_id p) (VDict []) = VDict d \<and>
           py_float (dget d ''usd'' (VFloat (Fin 0))) = Inr x \<and>
           py_float (dget d ''usd_24h_change'' (VFloat (Fin 0))) = Inr y"
  shows "\<exists>r st'. scan_pairs env amt st = (Inr r, st')"
proof -
  have "\<exists>s. score_pair prices amt p = Inr s" if "p \<in> set PAIRS" for p
    using assms(3) [OF that] size_fit_returns [OF py_float_small [OF assms(2)], of "in_sym p"]
    by (auto simp: score_pair_def vget_def Let_def)
  then have "\<exists>ss. res_map (score_pair prices amt) ps = Inr ss" if "set ps \<subseteq> set PAIRS" for ps
    using that by (induction ps) (auto simp: res_bind_Inr_iff)
  then obtain ss where "res_map (score_pair prices amt) PAIRS = Inr ss" by blast
  then show ?thesis using assms(1) by (auto simp: scan_pairs_def Let_def split: prod.split)
qed

text \<open>A price service that always answers, and its clock.\<close>

definition sample_prices :: pydict where
  "sample_prices =
    [(''bitcoin'', VDict [(''usd'', VInt 60000), (''usd_24h_change'', VInt 4)]),
     (''ethereum'', VDict [(''usd'', VInt 2000), (''usd_24h_change'', VInt (- 2))])]"

definition sample_price_env :: "unit price_env" where
  "sample_price_env = \<lparr>cg_get = (\<lambda>_ w. (Inr \<lparr>cg_status = 200, cg_json = Inr sample_prices\<rparr>, w)),
     time_now = (\<lambda>w. (Fin 100, w)), iso_now = (\<lambda>w. (''t'', w))\<rparr>"

lemma sample_fetch:
  "fetch_prices sample_price_env (map coingecko_id PAIRS) (initial_cache, ()) =
     ([(''ethereum'', VDict [(''usd'', VInt 2000), (''usd_24h_change'', VInt (- 2))]),
       (''bitcoin'', VDict [(''usd'', VInt 60000), (''usd_24h_change'', VInt 4)])],
      \<lparr>pc_prices = sample_prices, pc_at = Fin 100\<rparr>, ())"
  by (simp add: fetch_prices_def fetch_locked_def cached_prices_def store_reply_def stale_prices_def
      sample_price_env_def initial_cache_def sample_prices_def CACHE_TTL_SECS_def f_sub_def f_less_def PAIRS_def
      dict_of_def dget_def)

lemma sample_scan: "\<exists>r st'. scan_pairs sample_price_env 1000000000000000 (initial_cache, ()) = (Inr r, st')"
  using sample_fetch by (rule scan_pairs_total) (auto simp: PAIRS_def dget_def fl_of_int fl_of_int [of "- 2", simplified])

text \<open>
  C13. A scan that returns ranks each of the four registered pairs exactly once, by descending
  composite, and promotes the first of the ranking as its pick. Every sub-score and the composite
  lie between 0 and 1, whatever the price service answered (infinities and NaN included), and the
  signal strength is the one of the composite.
\<close>

theorem scan_ranked:
  assumes "scan_pairs env amt st = (Inr r, st')"
  shows "mset (map sc_pair (ranked r)) = mset PAIRS \<and>
    sorted_wrt (\<lambda>a b. f_ge (composite a) (composite b)) (ranked r) \<and>
    best r = Some (hd (ranked r)) \<and>
    (\<forall>s \<in> set (ranked r). in01 (momentum s) \<and> in01 (bluechip s) \<and> in01 (spread s) \<and>
       in01 (sc_size_fit s) \<and> in01 (composite s) \<and> sc_signal s = classify_signal (composite s))"
proof -
  from assms obtain scored where r: "ranked r = sort_desc scored" "best r = Some (hd (ranked r))"
    and ok: "\<forall>s \<in> set scored. scored_ok s" and p: "map sc_pair scored = PAIRS"
    by (rule scan_pairs_returns)
  have set: "set (sort_desc scored) = set scored" by (metis sort_desc_mset set_mset_mset)
  have "mset (map sc_pair (sort_desc scored)) = mset PAIRS"
    by (metis mset_map p sort_desc_mset)
  moreover have "desc (sort_desc scored)" using ok by (auto intro: sort_desc_sorted simp: scored_ok_composite)
  ultimately show ?thesis using r ok set by (simp add: scored_ok_def)
qed

theorem scan_ranked_witness:
  "\<exists>r st'. scan_pairs sample_price_env 1000000000000000 (initial_cache, ()) = (Inr r, st') \<and>
     mset (map sc_pair (ranked r)) = mset PAIRS \<and> best r = Some (hd (ranked r))"
  using sample_scan scan_ranked by metis

text \<open>
  Two of the four candidates can never be picked: ETH_USDT and WETH_USDC share their price and
  size with ETH_USDC and have lower static scores, so the pick is ETH_USDC or cbBTC_USDC, for
  every price, momentum and amount.
\<close>

theorem scan_pick_candidates:
  assumes "scan_pairs env amt st = (Inr r, st')"
  shows "\<exists>s. best r = Some s \<and> pair_id (sc_pair s) \<in> {''ETH_USDC'', ''cbBTC_USDC''}"
proof -
  from assms obtain prices scored where l: "list_all2 (\<lambda>p s. score_pair prices amt p = Inr s) PAIRS scored"
    and r: "ranked r = sort_desc scored" "best r = Some (hd (ranked r))"
    and ok: "\<forall>s \<in> set scored. scored_ok s" and p: "map sc_pair scored = PAIRS"
    by (rule scan_pairs_returns)
  obtain a b c d where abcd: "scored = [a, b, c, d]" "score_pair prices amt (PAIRS ! 0) = Inr a"
    "score_pair prices amt (PAIRS ! 1) = Inr b" "score_pair prices amt (PAIRS ! 3) = Inr d"
    using PAIRS_scored [OF l] by blast
  have "desc (sort_desc scored)" using ok by (auto intro: sort_desc_sorted simp: scored_ok_composite)
  moreover have set: "set (sort_desc scored) = {a, b, c, d}" by (metis abcd(1) list.set sort_desc_mset set_mset_mset)
  then obtain h t where ht: "sort_desc scored = h # t" by (cases "sort_desc scored") auto
  moreover have "a \<in> set (h # t)" using set ht by auto
  moreover have "h \<in> {a, b, c, d}" using set ht by auto
  moreover have "in01 (composite a)" using ok abcd by (simp add: scored_ok_composite)
  ultimately have "f_le (composite a) (composite h)" by (auto simp: f_ge_def f_le_refl in01_iff)
  then have "h \<noteq> b" "h \<noteq> d" using eth_usdc_beats [OF abcd(2,3)] eth_usdc_beats [OF abcd(2,4)] by auto
  then have "h = a \<or> h = c" using \<open>h \<in> {a, b, c, d}\<close> by auto
  moreover have "sc_pair a = PAIRS ! 0" "sc_pair c = PAIRS ! 2" using p abcd(1) by (auto simp: PAIRS_def)
  ultimately show ?thesis using r ht by (auto simp: PAIRS_def)
qed

theorem scan_pick_candidates_witness:
  "\<exists>r st' s. scan_pairs sample_price_env 1000000000000000 (initial_cache, ()) = (Inr r, st') \<and>
     best r = Some s \<and> pair_id (sc_pair s) \<in> {''ETH_USDC'', ''cbBTC_USDC''}"
  using sample_scan scan_pick_candidates by metis

subsection \<open>Concurrent callers of the price cache\<close>

text \<open>
  Tasks interleave where \<^verbatim>\<open>_fetch_prices\<close> awaits: at the lock and at the request. A task
  that missed the cache queues at the lock; the one that gets it looks again and either is served
  or sends a request, keeping the lock until the reply is stored. \<open>refreshes\<close> records the
  times stored with the refreshes of the cache, latest first. A reply that refreshes the cache
  contains the requested identifiers, as the service documents for known ones.
\<close>

datatype fetch_phase = Idle | Queued | InFlight rat | Served pydict

record fetch_sys =
  fs_cache :: price_cache
  fs_lock :: "nat option"
  fs_phase :: "nat \<Rightarrow> fetch_phase"
  fs_now :: rat
  refreshes :: "rat list"

definition refreshing :: "cg_resp res \<Rightarrow> bool" where
  "refreshing reply \<longleftrightarrow> (case reply of Inr r \<Rightarrow> cg_status r = 200 \<and> (case cg_json r of Inr d \<Rightarrow> d \<noteq> [] | _ \<Rightarrow> False) | _ \<Rightarrow> False)"

definition covers :: "string list \<Rightarrow> pydict \<Rightarrow> bool" where
  "covers ids d \<longleftrightarrow> list_all (\<lambda>i. map_of d i \<noteq> None) ids"

definition complete_reply :: "string list \<Rightarrow> cg_resp res \<Rightarrow> bool" where
  "complete_reply ids reply \<longleftrightarrow>
     (case reply of Inr r \<Rightarrow> (case cg_json r of Inr d \<Rightarrow> d = [] \<or> covers ids d | _ \<Rightarrow> True) | _ \<Rightarrow> True)"

inductive fetch_step :: "string list \<Rightarrow> fetch_sys \<Rightarrow> fetch_sys \<Rightarrow> bool" for ids where
  tick: "fs_now s \<le> t \<Longrightarrow> fetch_step ids s (s\<lparr>fs_now := t\<rparr>)"
| call_hit: "fs_phase s i \<in> {Idle, Served d'} \<Longrightarrow> cached_prices (Fin (fs_now s)) ids (fs_cache s) = Some d \<Longrightarrow>
    fetch_step ids s (s\<lparr>fs_phase := (fs_phase s)(i := Served d)\<rparr>)"
| call_miss: "fs_phase s i \<in> {Idle, Served d'} \<Longrightarrow> cached_prices (Fin (fs_now s)) ids (fs_cache s) = None \<Longrightarrow>
    fetch_step ids s (s\<lparr>fs_phase := (fs_phase s)(i := Queued)\<rparr>)"
| lock_hit: "fs_phase s i = Queued \<Longrightarrow> fs_lock s = None \<Longrightarrow>
    cached_prices (Fin (fs_now s)) ids (fs_cache s) = Some d \<Longrightarrow>
    fetch_step ids s (s\<lparr>fs_phase := (fs_phase s)(i := Served d)\<rparr>)"
| lock_miss: "fs_phase s i = Queued \<Longrightarrow> fs_lock s = None \<Longrightarrow>
    cached_prices (Fin (fs_now s)) ids (fs_cache s) = None \<Longrightarrow>
    fetch_step ids s (s\<lparr>fs_lock := Some i, fs_phase := (fs_phase s)(i := InFlight (fs_now s))\<rparr>)"
| reply: "fs_phase s i = InFlight t \<Longrightarrow> complete_reply ids r \<Longrightarrow> c = store_reply (Fin t) r (fs_cache s) \<Longrightarrow>
    fetch_step ids s (s\<lparr>fs_cache := c, fs_lock := None,
      fs_phase := (fs_phase s)(i := Served (stale_prices ids c)),
      refreshes := (if refreshing r then [t] else []) @ refreshes s\<rparr>)"

definition fetch_start :: fetch_sys where
  "fetch_start = \<lparr>fs_cache = initial_cache, fs_lock = None, fs_phase = (\<lambda>_. Idle), fs_now = 0, refreshes = []\<rparr>"

abbreviation fetch_reaches :: "string list \<Rightarrow> fetch_sys \<Rightarrow> bool" where
  "fetch_reaches ids \<equiv> (fetch_step ids)\<^sup>*\<^sup>* fetch_start"

text \<open>The time from one refresh to the next, as the code computes it, is at least the TTL.\<close>

definition ttl_apart :: "rat \<Rightarrow> rat \<Rightarrow> bool" where
  "ttl_apart t u \<longleftrightarrow> f_le CACHE_TTL_SECS (f_sub (Fin t) (Fin u))"

definition fetch_inv :: "string list \<Rightarrow> fetch_sys \<Rightarrow> bool" where
  "fetch_inv ids s \<longleftrightarrow>
     (\<forall>i t. fs_phase s i = InFlight t \<longrightarrow> fs_lock s = Some i) \<and>
     (refreshes s \<noteq> [] \<longrightarrow> pc_at (fs_cache s) = Fin (hd (refreshes s)) \<and> covers ids (pc_prices (fs_cache s))) \<and>
     (\<forall>i t. fs_phase s i = InFlight t \<longrightarrow> refreshes s \<noteq> [] \<longrightarrow> ttl_apart t (hd (refreshes s))) \<and>
     successively ttl_apart (refreshes s)"

lemma map_of_updates: "map_of (fold (\<lambda>(i, v) d. AList.update i v d) xs d) i =
    (case map_of (rev xs) i of Some v \<Rightarrow> Some v | None \<Rightarrow> map_of d i)"
  by (induction xs arbitrary: d) (auto simp: map_add_def split: option.splits)

lemma store_reply_refresh:
  assumes "refreshing r" and "complete_reply ids r"
  shows "pc_at (store_reply now r c) = now \<and> covers ids (pc_prices (store_reply now r c))"
proof -
  obtain a d where r: "r = Inr a" "cg_status a = 200" "cg_json a = Inr d" "d \<noteq> []"
    using assms(1) by (auto simp: refreshing_def split: sum.splits)
  then have d: "covers ids d" using assms(2) by (simp add: complete_reply_def)
  have "i \<in> set ids \<Longrightarrow> map_of (rev d) i \<noteq> None" for i
    using d by (auto simp: covers_def list_all_iff map_of_eq_None_iff)
  then show ?thesis using r
    by (fastforce simp: store_reply_def covers_def map_of_updates list_all_iff split: option.split)
qed

lemma store_reply_keep: "\<not> refreshing r \<Longrightarrow> store_reply now r c = c"
  by (auto simp: refreshing_def store_reply_def split: sum.splits)

lemma cached_None_apart:
  assumes "cached_prices (Fin t) ids c = None" and "covers ids (pc_prices c)" and "pc_at c = Fin u"
  shows "ttl_apart t u"
proof -
  have "\<not> f_less (f_sub (Fin t) (Fin u)) CACHE_TTL_SECS"
    using assms by (auto simp: cached_prices_def covers_def split: if_splits)
  then show ?thesis by (subst (asm) f_not_less) (simp_all add: ttl_apart_def CACHE_TTL_SECS_def f_sub_def)
qed

lemma fetch_inv_step:
  assumes "fetch_step ids s s'" and "fetch_inv ids s"
  shows "fetch_inv ids s'"
  using assms
proof cases
  case (lock_miss i)
  have "ttl_apart (fs_now s) (hd (refreshes s))" if "refreshes s \<noteq> []"
    using assms(2) that lock_miss(4) by (auto simp: fetch_inv_def intro: cached_None_apart)
  moreover have "fs_phase s j \<noteq> InFlight t" for j t using assms(2) lock_miss(3) by (auto simp: fetch_inv_def)
  ultimately show ?thesis using assms(2) lock_miss(1) by (simp add: fetch_inv_def)
next
  case (reply i t r c)
  have lock: "fs_lock s = Some i" using assms(2) reply(2) by (simp add: fetch_inv_def)
  have none: "fs_phase s j \<noteq> InFlight u" if "j \<noteq> i" for j u
    using assms(2) lock that by (auto simp: fetch_inv_def)
  show ?thesis
  proof (cases "refreshing r")
    case True
    have "refreshes s \<noteq> [] \<Longrightarrow> ttl_apart t (hd (refreshes s))" and "successively ttl_apart (refreshes s)"
      using assms(2) reply(2) by (auto simp: fetch_inv_def)
    then have "successively ttl_apart (t # refreshes s)" by (cases "refreshes s") simp_all
    then show ?thesis using True none reply(1,4) store_reply_refresh [OF True reply(3)] by (simp add: fetch_inv_def)
  next
    case False
    then show ?thesis using assms(2) none reply(1,4) store_reply_keep [OF False] by (simp add: fetch_inv_def)
  qed
qed (auto simp: fetch_inv_def)

lemma fetch_inv_reaches: "fetch_reaches ids s \<Longrightarrow> fetch_inv ids s"
proof (induction rule: rtranclp_induct)
  case base
  show ?case by (simp add: fetch_inv_def fetch_start_def)
next
  case (step s s')
  from step.hyps(2) step.IH show ?case by (rule fetch_inv_step)
qed

text \<open>A call of \<open>fetch_prices\<close> that is not interleaved is a run of these steps.\<close>

lemma fetch_prices_steps:
  assumes "fetch_prices env ids (fs_cache s, w) = (d, c', w')"
    and "fs_phase s i = Idle" and "fs_lock s = None"
    and "time_now env w = (Fin t1, w1)" and "time_now env w1 = (Fin t2, w2)" and "fs_now s \<le> t1" and "t1 \<le> t2"
    and "\<And>r w3. cg_get env (sorted_ids ids) w2 = (r, w3) \<Longrightarrow> complete_reply ids r"
  shows "\<exists>s'. (fetch_step ids)\<^sup>*\<^sup>* s s' \<and> fs_cache s' = c' \<and> fs_phase s' i = Served d \<and> fs_lock s' = None"
proof -
  let ?s1 = "s\<lparr>fs_now := t1\<rparr>"
  have s1: "fetch_step ids s ?s1" using assms(6) by (rule tick)
  show ?thesis
  proof (cases "cached_prices (Fin t1) ids (fs_cache s)")
    case (Some x)
    then have "fetch_step ids ?s1 (?s1\<lparr>fs_phase := (fs_phase ?s1)(i := Served x)\<rparr>)"
      using call_hit [of ?s1 i] assms(2) by simp
    moreover have "d = x" "c' = fs_cache s" using assms(1,4) Some by (auto simp: fetch_prices_def)
    ultimately have "(fetch_step ids)\<^sup>*\<^sup>* s (?s1\<lparr>fs_phase := (fs_phase ?s1)(i := Served d)\<rparr>)"
      using s1 by (meson r_into_rtranclp rtranclp_trans)
    then show ?thesis using assms(3) \<open>c' = fs_cache s\<close> by (intro exI conjI) (assumption, simp_all)
  next
    case None
    let ?s2 = "?s1\<lparr>fs_phase := (fs_phase ?s1)(i := Queued)\<rparr>"
    let ?s3 = "?s2\<lparr>fs_now := t2\<rparr>"
    have s2: "fetch_step ids ?s1 ?s2" using call_miss [of ?s1 i] assms(2) None by simp
    have s3: "fetch_step ids ?s2 ?s3" using tick [of ?s2 t2] assms(7) by simp
    have r3: "(fetch_step ids)\<^sup>*\<^sup>* s ?s3" using s1 s2 s3 by (meson r_into_rtranclp rtranclp_trans)
    have fl: "fetch_locked env ids (fs_cache s, w1) = (d, c', w')" using assms(1,4) None by (simp add: fetch_prices_def)
    show ?thesis
    proof (cases "cached_prices (Fin t2) ids (fs_cache s)")
      case (Some x)
      then have "fetch_step ids ?s3 (?s3\<lparr>fs_phase := (fs_phase ?s3)(i := Served x)\<rparr>)"
        using lock_hit [of ?s3 i] assms(3) by simp
      moreover have "d = x" "c' = fs_cache s" using fl assms(5) Some by (auto simp: fetch_locked_def)
      ultimately have "(fetch_step ids)\<^sup>*\<^sup>* s (?s3\<lparr>fs_phase := (fs_phase ?s3)(i := Served d)\<rparr>)"
        using r3 by (meson rtranclp.rtrancl_into_rtrancl)
      then show ?thesis using assms(3) \<open>c' = fs_cache s\<close> by (intro exI conjI) (assumption, simp_all)
    next
      case None
      obtain r w3 where r: "cg_get env (sorted_ids ids) w2 = (r, w3)" by (rule prod.exhaust)
      have dc: "c' = store_reply (Fin t2) r (fs_cache s)" "d = stale_prices ids c'"
        using fl assms(5) None r by (auto simp: fetch_locked_def Let_def)
      let ?s4 = "?s3\<lparr>fs_lock := Some i, fs_phase := (fs_phase ?s3)(i := InFlight (fs_now ?s3))\<rparr>"
      have "fetch_step ids ?s3 ?s4" using lock_miss [of ?s3 i] assms(3) None by simp
      moreover have "fetch_step ids ?s4 (?s4\<lparr>fs_cache := c', fs_lock := None,
          fs_phase := (fs_phase ?s4)(i := Served (stale_prices ids c')),
          refreshes := (if refreshing r then [t2] else []) @ refreshes ?s4\<rparr>)"
        using reply [of ?s4 i t2 ids r c'] assms(8) [OF r] dc by simp
      ultimately have "(fetch_step ids)\<^sup>*\<^sup>* s (?s4\<lparr>fs_cache := c', fs_lock := None,
          fs_phase := (fs_phase ?s4)(i := Served (stale_prices ids c')),
          refreshes := (if refreshing r then [t2] else []) @ refreshes ?s4\<rparr>)"
        using r3 by (meson rtranclp.rtrancl_into_rtrancl)
      then show ?thesis using dc by (intro exI conjI) (assumption, simp_all)
    qed
  qed
qed

text \<open>One task missing the cache at time \<open>t\<close> and refreshing it.\<close>

lemma refresh_round:
  assumes "fs_phase s i \<in> {Idle, Served d'}" and "fs_lock s = None" and "fs_now s \<le> t"
    and "cached_prices (Fin t) ids (fs_cache s) = None" and "complete_reply ids r" and "refreshing r"
  shows "\<exists>s' d. (fetch_step ids)\<^sup>*\<^sup>* s s' \<and> fs_cache s' = store_reply (Fin t) r (fs_cache s) \<and> fs_lock s' = None \<and>
    fs_now s' = t \<and> fs_phase s' i = Served d \<and> refreshes s' = t # refreshes s"
proof -
  let ?s1 = "s\<lparr>fs_now := t\<rparr>"
  let ?s2 = "?s1\<lparr>fs_phase := (fs_phase ?s1)(i := Queued)\<rparr>"
  let ?s3 = "?s2\<lparr>fs_lock := Some i, fs_phase := (fs_phase ?s2)(i := InFlight (fs_now ?s2))\<rparr>"
  let ?c = "store_reply (Fin t) r (fs_cache s)"
  let ?s4 = "?s3\<lparr>fs_cache := ?c, fs_lock := None, fs_phase := (fs_phase ?s3)(i := Served (stale_prices ids ?c)),
      refreshes := (if refreshing r then [t] else []) @ refreshes ?s3\<rparr>"
  have "fetch_step ids s ?s1" using assms(3) by (rule tick)
  moreover have "fetch_step ids ?s1 ?s2" using call_miss [of ?s1 i d'] assms(1,4) by simp
  moreover have "fetch_step ids ?s2 ?s3" using lock_miss [of ?s2 i] assms(2,4) by simp
  moreover have "fetch_step ids ?s3 ?s4" using reply [of ?s3 i t ids r ?c] assms(5) by simp
  ultimately have "(fetch_step ids)\<^sup>*\<^sup>* s ?s4" by (meson r_into_rtranclp rtranclp_trans)
  then show ?thesis using assms(6) by (intro exI [of _ ?s4] exI [of _ "stale_prices ids ?c"]) simp
qed

text \<open>
  C17. However many tasks ask for prices concurrently, at most one request is in flight, and two
  refreshes of the cache are at least the TTL of 30 seconds apart: the second check under the lock
  makes the waiting tasks share one request.
\<close>

theorem price_requests_limited:
  assumes "fetch_reaches ids s"
  shows "(\<forall>i j t u. fs_phase s i = InFlight t \<longrightarrow> fs_phase s j = InFlight u \<longrightarrow> i = j) \<and>
    successively ttl_apart (refreshes s)"
  using fetch_inv_reaches [OF assms] unfolding fetch_inv_def by (metis option.inject)

theorem price_requests_limited_witness:
  "\<exists>s. fetch_reaches [''ethereum''] s \<and> refreshes s = [140, 100] \<and> successively ttl_apart (refreshes s)"
proof -
  let ?r = "Inr \<lparr>cg_status = 200, cg_json = Inr sample_prices\<rparr>"
  have r: "complete_reply [''ethereum''] ?r" "refreshing ?r"
    by (simp_all add: complete_reply_def refreshing_def covers_def sample_prices_def)
  have m1: "cached_prices (Fin 100) [''ethereum''] initial_cache = None"
    by (simp add: cached_prices_def initial_cache_def)
  have m2: "cached_prices (Fin 140) [''ethereum''] (store_reply (Fin 100) ?r initial_cache) = None"
    by (simp add: cached_prices_def store_reply_def initial_cache_def sample_prices_def f_sub_def f_less_def CACHE_TTL_SECS_def)
  obtain s1 d1 where s1: "fetch_reaches [''ethereum''] s1" "fs_cache s1 = store_reply (Fin 100) ?r initial_cache"
    "fs_lock s1 = None" "fs_now s1 = 100" "fs_phase s1 0 = Served d1" "refreshes s1 = [100]"
    using refresh_round [of fetch_start 0 "[]" 100 "[''ethereum'']" ?r] m1 r by (auto simp: fetch_start_def)
  obtain s2 where "(fetch_step [''ethereum''])\<^sup>*\<^sup>* s1 s2" "refreshes s2 = [140, 100]"
    using refresh_round [of s1 0 d1 140 "[''ethereum'']" ?r] m2 r s1 by auto
  moreover from this(1) s1(1) have "fetch_reaches [''ethereum''] s2" by (rule rtranclp_trans [rotated])
  ultimately show ?thesis using price_requests_limited by blast
qed

end
