(* ===== verification/PnL.thy ===== *)
theory PnL
  imports Py_Float
begin

text \<open>
  Notional and mark-to-market profit and loss (\<^verbatim>\<open>core/pnl.py\<close>): a fold over the recorded
  cycles in double arithmetic. The theorems relate the loop to the list of positions it visits and
  show that a counted win means that the price moved in the direction of the trade.
\<close>

subsection \<open>The code\<close>

record pnl_summary =
  cycles_total :: int
  cycles_approved :: int
  cycles_won :: int
  win_rate_pct :: pyfloat
  notional_invested_usd :: pyfloat
  notional_value_now_usd :: pyfloat
  net_pnl_usd :: pyfloat
  net_pnl_pct :: pyfloat
  best_cycle :: "pydict option"
  worst_cycle :: "pydict option"

definition opt_dict :: "pydict option \<Rightarrow> pyval" where
  "opt_dict d = (case d of Some x \<Rightarrow> VDict x | None \<Rightarrow> VNone)"

definition pnl_to_dict :: "pnl_summary \<Rightarrow> pydict" where
  "pnl_to_dict s =
    [(''cycles_total'', VInt (cycles_total s)), (''cycles_approved'', VInt (cycles_approved s)),
     (''cycles_won'', VInt (cycles_won s)), (''win_rate_pct'', VFloat (win_rate_pct s)),
     (''notional_invested_usd'', VFloat (notional_invested_usd s)),
     (''notional_value_now_usd'', VFloat (notional_value_now_usd s)),
     (''net_pnl_usd'', VFloat (net_pnl_usd s)), (''net_pnl_pct'', VFloat (net_pnl_pct s)),
     (''best_cycle'', opt_dict (best_cycle s)), (''worst_cycle'', opt_dict (worst_cycle s))]"

definition signed_return :: "string \<Rightarrow> pyfloat \<Rightarrow> pyfloat \<Rightarrow> pyfloat res" where
  "signed_return act entry current =
     (if f_le entry (Fin 0) then Inr (Fin 0)
      else map_sum id (\<lambda>raw. if act = ''sell'' then f_neg raw else raw) (f_div (f_sub current entry) entry))"

text \<open>\<^verbatim>\<open>prices.get(sym) or dflt\<close>, for a symbol that comes from a recorded signal.\<close>

definition price_or :: "(string \<times> pyfloat) list \<Rightarrow> string \<Rightarrow> pyfloat \<Rightarrow> pyfloat" where
  "price_or prices s dflt = (case map_of prices s of Some x \<Rightarrow> if x = Fin 0 then dflt else x | None \<Rightarrow> dflt)"

definition price_of :: "(string \<times> pyfloat) list \<Rightarrow> pyval \<Rightarrow> pyfloat \<Rightarrow> pyfloat res" where
  "price_of prices v dflt =
     (case v of
        VStr s \<Rightarrow> Inr (price_or prices s dflt)
      | VList _ \<Rightarrow> Inl (PyExc TypeError ''unhashable type'')
      | VDict _ \<Rightarrow> Inl (PyExc TypeError ''unhashable type'')
      | _ \<Rightarrow> Inr dflt)"

text \<open>
  One turn of the loop: \<open>None\<close> is \<^verbatim>\<open>continue\<close>. The text of values that are not strings is
  the argument \<open>repr\<close>.
\<close>

record position =
  pos_action :: string
  pos_entry :: pyfloat
  pos_current :: pyfloat
  invested :: pyfloat
  value_now :: pyfloat
  per_cycle :: pyfloat
  pos_info :: pydict

definition position_size :: "pyfloat \<Rightarrow> pyfloat \<Rightarrow> pyval \<Rightarrow> pyfloat \<Rightarrow> pyfloat res" where
  "position_size commitment_eth eth_price_now sym_in entry =
     (if sym_in = VStr ''cbBTC'' \<and> f_less (Fin 0) eth_price_now
      then map_sum id (f_mul commitment_eth) (f_div eth_price_now (f_max entry (lit 1 9)))
      else Inr commitment_eth)"

definition position_value :: "string \<Rightarrow> pyfloat \<Rightarrow> pyfloat \<Rightarrow> pyfloat \<Rightarrow> pyfloat res" where
  "position_value act entry current size_in_units =
     (if act = ''sell''
      then map_sum id (\<lambda>q. f_mul (f_mul entry size_in_units) (f_sub (Fin 2) q)) (f_div current entry)
      else Inr (f_mul current size_in_units))"

definition pnl_cycle ::
  "(pyval \<Rightarrow> string) \<Rightarrow> (string \<times> pyfloat) list \<Rightarrow> pyfloat \<Rightarrow> pyfloat \<Rightarrow> pydict \<Rightarrow> position option res" where
  "pnl_cycle repr prices commitment_eth eth_price_now r =
     res_bind (py_lower (py_or (dget r ''action'' VNone) (VStr []))) (\<lambda>act.
     if act \<notin> {''buy'', ''sell''} then Inr None
     else
       let signal = py_or (dget r ''signal'' VNone) (VDict [])
       in res_bind (vget signal ''token_in_sym'' VNone) (\<lambda>i.
          res_bind (vget signal ''token_out_sym'' VNone) (\<lambda>u.
          res_bind (vget signal ''price_usd'' VNone) (\<lambda>pv.
          res_bind (py_float (py_or pv (VFloat (Fin 0)))) (\<lambda>entry.
          if f_le entry (Fin 0) then Inr None
          else
            let sym_in = py_or i (VStr ''ETH''); sym_out = py_or u (VStr ''USDC'')
            in res_bind (position_size commitment_eth eth_price_now sym_in entry) (\<lambda>size_in_units.
               res_bind (price_of prices sym_in entry) (\<lambda>current.
               res_bind (position_value act entry current size_in_units) (\<lambda>val.
               res_bind (signed_return act entry current) (\<lambda>ret.
                 let paid = f_mul entry size_in_units; pc = f_sub val paid
                 in Inr (Some \<lparr>pos_action = act, pos_entry = entry, pos_current = current,
                      invested = paid, value_now = val, per_cycle = pc,
                      pos_info =
                        [(''cycle'', dget r ''cycle'' VNone),
                         (''pair'', VStr (py_str repr sym_in @ ARROW @ py_str repr sym_out)),
                         (''action'', VStr (map char_upper act)),
                         (''entry'', VFloat entry), (''current'', VFloat current),
                         (''pnl_usd'', VFloat (f_round 4 pc)),
                         (''pnl_pct'', VFloat (f_round 3 (f_mul ret (Fin 100)))),
                         (''tx'', dget r ''tx'' VNone)]\<rparr>))))))))))"

text \<open>The running totals of the loop: \<^verbatim>\<open>won\<close>, \<^verbatim>\<open>notional_in\<close>, \<^verbatim>\<open>notional_now\<close>, \<^verbatim>\<open>per_cycle_pnl\<close>.\<close>

record pnl_totals =
  won :: nat
  notional_in :: pyfloat
  notional_now :: pyfloat
  per_cycle_pnl :: "position list"

definition add_position :: "position \<Rightarrow> pnl_totals \<Rightarrow> pnl_totals" where
  "add_position p t =
     \<lparr>won = (if f_less (Fin 0) (per_cycle p) then Suc (won t) else won t),
      notional_in = f_add (notional_in t) (invested p),
      notional_now = f_add (notional_now t) (value_now p),
      per_cycle_pnl = per_cycle_pnl t @ [p]\<rparr>"

fun pnl_loop ::
  "(pydict \<Rightarrow> position option res) \<Rightarrow> pydict list \<Rightarrow> pnl_totals \<Rightarrow> pnl_totals res" where
  "pnl_loop turn [] t = Inr t"
| "pnl_loop turn (r # rs) t =
     res_bind (turn r) (\<lambda>p. pnl_loop turn rs (case p of None \<Rightarrow> t | Some x \<Rightarrow> add_position x t))"

text \<open>\<^verbatim>\<open>max(xs, key=...)\<close> and \<^verbatim>\<open>min(xs, key=...)\<close> keep the first of equal items.\<close>

fun max_by :: "position \<Rightarrow> position list \<Rightarrow> position" where
  "max_by p [] = p"
| "max_by p (q # qs) = max_by (if f_less (per_cycle p) (per_cycle q) then q else p) qs"

fun min_by :: "position \<Rightarrow> position list \<Rightarrow> position" where
  "min_by p [] = p"
| "min_by p (q # qs) = min_by (if f_less (per_cycle q) (per_cycle p) then q else p) qs"

definition best_of :: "position list \<Rightarrow> pydict option" where
  "best_of ps = (case ps of [] \<Rightarrow> None | p # qs \<Rightarrow> Some (pos_info (max_by p qs)))"

definition worst_of :: "position list \<Rightarrow> pydict option" where
  "worst_of ps = (case ps of [] \<Rightarrow> None | p # qs \<Rightarrow> Some (pos_info (min_by p qs)))"

definition win_rate :: "nat \<Rightarrow> nat \<Rightarrow> pyfloat" where
  "win_rate w n = (if n = 0 then Fin 0 else f_round 1 (f_mul (fl (of_nat w / of_nat n)) (Fin 100)))"

definition net_pct :: "pyfloat \<Rightarrow> pyfloat \<Rightarrow> pyfloat" where
  "net_pct net_usd paid = (if paid = Fin 0 then Fin 0 else f_round 3 (f_mul (f_quot net_usd paid) (Fin 100)))"

definition compute_pnl ::
  "(pyval \<Rightarrow> string) \<Rightarrow> pydict list \<Rightarrow> (string \<times> pyfloat) list \<Rightarrow> pyfloat \<Rightarrow> pnl_summary res" where
  "compute_pnl repr results current_prices_by_sym commitment_eth =
     (let eth_price_now = price_or current_prices_by_sym ''ETH'' (price_or current_prices_by_sym ''WETH'' (Fin 0))
      in res_bind (pnl_loop (pnl_cycle repr current_prices_by_sym commitment_eth eth_price_now) results
             \<lparr>won = 0, notional_in = Fin 0, notional_now = Fin 0, per_cycle_pnl = []\<rparr>) (\<lambda>t.
           let net_usd = f_sub (notional_now t) (notional_in t); n = length (per_cycle_pnl t)
           in Inr \<lparr>cycles_total = int (length results), cycles_approved = int n, cycles_won = int (won t),
                win_rate_pct = win_rate (won t) n,
                notional_invested_usd = f_round 4 (notional_in t),
                notional_value_now_usd = f_round 4 (notional_now t),
                net_pnl_usd = f_round 4 net_usd, net_pnl_pct = net_pct net_usd (notional_in t),
                best_cycle = best_of (per_cycle_pnl t), worst_cycle = worst_of (per_cycle_pnl t)\<rparr>))"

subsection \<open>The loop and its positions\<close>

text \<open>The positions of the recorded cycles, in order.\<close>

fun positions :: "(pydict \<Rightarrow> position option res) \<Rightarrow> pydict list \<Rightarrow> position list res" where
  "positions turn [] = Inr []"
| "positions turn (r # rs) =
     res_bind (turn r) (\<lambda>p. res_bind (positions turn rs) (\<lambda>ps. Inr (case p of None \<Rightarrow> ps | Some x \<Rightarrow> x # ps)))"

lemma pnl_loop_positions:
  "pnl_loop turn rs t = map_sum id (\<lambda>ps. fold add_position ps t) (positions turn rs)"
proof (induction rs arbitrary: t)
  case (Cons r rs)
  show ?case
  proof (cases "turn r")
    case (Inr p)
    show ?thesis
    proof (cases "positions turn rs")
      case ps: (Inr ps)
      then show ?thesis using Inr Cons.IH by (cases p) simp_all
    qed (use Inr Cons.IH in simp)
  qed simp
qed simp

lemma fold_add_position:
  "won (fold add_position ps t) = won t + length (filter (\<lambda>p. f_less (Fin 0) (per_cycle p)) ps) \<and>
   notional_in (fold add_position ps t) = foldl f_add (notional_in t) (map invested ps) \<and>
   notional_now (fold add_position ps t) = foldl f_add (notional_now t) (map value_now ps) \<and>
   per_cycle_pnl (fold add_position ps t) = per_cycle_pnl t @ ps"
  by (induction ps arbitrary: t) (simp_all add: add_position_def)

lemma positions_length: "positions turn rs = Inr ps \<Longrightarrow> length ps \<le> length rs"
  by (induction rs arbitrary: ps) (fastforce simp: res_bind_Inr_iff split: option.splits)+

lemma positions_mem:
  "positions turn rs = Inr ps \<Longrightarrow> p \<in> set ps \<Longrightarrow> \<exists>r \<in> set rs. turn r = Inr (Some p)"
  by (induction rs arbitrary: ps) (fastforce simp: res_bind_Inr_iff split: option.splits)+

text \<open>A summary in terms of the positions.\<close>

lemma compute_pnl_positions:
  assumes "compute_pnl repr results prices commit = Inr s"
  obtains eth ps where "positions (pnl_cycle repr prices commit eth) results = Inr ps"
    "cycles_total s = int (length results)" "cycles_approved s = int (length ps)"
    "cycles_won s = int (length (filter (\<lambda>p. f_less (Fin 0) (per_cycle p)) ps))"
    "win_rate_pct s = win_rate (length (filter (\<lambda>p. f_less (Fin 0) (per_cycle p)) ps)) (length ps)"
    "notional_invested_usd s = f_round 4 (foldl f_add (Fin 0) (map invested ps))"
    "notional_value_now_usd s = f_round 4 (foldl f_add (Fin 0) (map value_now ps))"
    "best_cycle s = best_of ps" "worst_cycle s = worst_of ps"
proof -
  define eth where "eth = price_or prices ''ETH'' (price_or prices ''WETH'' (Fin 0))"
  obtain ps where ps: "positions (pnl_cycle repr prices commit eth) results = Inr ps"
    using assms by (cases "positions (pnl_cycle repr prices commit eth) results")
      (auto simp: compute_pnl_def eth_def pnl_loop_positions)
  show thesis
    by (rule that [OF ps]) (use assms ps in \<open>auto simp: compute_pnl_def pnl_loop_positions fold_add_position Let_def simp flip: eth_def\<close>)
qed

subsection \<open>Wins and the direction of the price\<close>

lemma f_quot_nonneg: "f_le (Fin 0) a \<Longrightarrow> f_le (Fin 0) b \<Longrightarrow> f_quot a b = NaN \<or> f_le (Fin 0) (f_quot a b)"
  using fl_mono [of 0] by (cases a; cases b) (auto simp: f_inf_def fl_def [of 0])

lemma f_mul_nonneg: "f_le (Fin 0) a \<Longrightarrow> f_le (Fin 0) b \<Longrightarrow> f_mul a b = NaN \<or> f_le (Fin 0) (f_mul a b)"
  using fl_mono [of 0] by (cases a; cases b) (auto simp: f_inf_def fl_def [of 0])

lemma f_mul_NaN [simp]: "f_mul NaN a = NaN" "f_mul a NaN = NaN"
  by (cases a; simp)+

lemma f_quot_NaN [simp]: "f_quot a NaN = NaN"
  by (cases a) simp_all

lemma f_sub_NaN [simp]: "f_sub NaN a = NaN" "f_sub a NaN = NaN"
  by (cases a; simp add: f_sub_def)+

lemma f_less_NaN [simp]: "\<not> f_less a NaN" "\<not> f_less NaN a"
  by (cases a; simp add: f_less_def)+

lemma position_size_nonneg:
  assumes "position_size commit eth sym_in entry = Inr z" and "f_le (Fin 0) commit" and "\<not> f_le entry (Fin 0)"
  shows "z = NaN \<or> f_le (Fin 0) z"
proof (cases "sym_in = VStr ''cbBTC'' \<and> f_less (Fin 0) eth")
  case True
  have "f_max entry (lit 1 9) = NaN \<or> f_le (Fin 0) (f_max entry (lit 1 9))"
    using assms(3) f_le_linear [of entry "Fin 0"] fl_mono [of 0 "1 / 10 ^ 9"]
    by (auto simp: f_max_def f_less_def lit_def fl_def [of 0])
  moreover have "f_le (Fin 0) eth" using True by (simp add: f_less_def)
  ultimately have "f_quot eth (f_max entry (lit 1 9)) = NaN \<or> f_le (Fin 0) (f_quot eth (f_max entry (lit 1 9)))"
    using f_quot_nonneg by (metis f_quot_NaN)
  moreover have "z = f_mul commit (f_quot eth (f_max entry (lit 1 9)))"
    using assms(1) True by (auto simp: position_size_def f_div_def split: if_splits)
  ultimately show ?thesis using f_mul_nonneg assms(2) by (metis f_mul_NaN(2))
next
  case False
  then show ?thesis using assms(1,2) by (auto simp: position_size_def)
qed

lemma buy_gain:
  assumes "f_less (Fin 0) (f_sub (f_mul current z) (f_mul entry z))" and "f_le (Fin 0) z" and "current \<noteq> NaN" "entry \<noteq> NaN"
  shows "f_less entry current"
proof (rule ccontr)
  assume "\<not> f_less entry current"
  then have le: "f_le current entry" using assms(3,4) by (simp add: f_not_less)
  have nan: "f_mul current z \<noteq> NaN" "f_mul entry z \<noteq> NaN" using assms(1) by auto
  from f_mul_mono_nonneg [OF le assms(2) nan] have "f_le (f_mul current z) (f_mul entry z)" .
  then show False using f_sub_le_0 assms(1) by blast
qed

lemma sell_gain:
  assumes "f_less (Fin 0) (f_sub (f_mul paid (f_sub (Fin 2) (f_quot current entry))) paid)"
    and "f_le (Fin 0) paid" and "is_double paid" and "\<not> f_le entry (Fin 0)"
  shows "f_less current entry"
proof (rule ccontr)
  assume nl: "\<not> f_less current entry"
  have nan: "f_quot current entry \<noteq> NaN" "f_mul paid (f_sub (Fin 2) (f_quot current entry)) \<noteq> NaN" using assms(1) by auto
  then have ne: "current \<noteq> NaN" "entry \<noteq> NaN" by auto
  have le: "f_le entry current" using nl ne by (simp add: f_not_less)
  have "f_le (Fin 1) (f_quot current entry)"
  proof (cases entry)
    case (Fin e)
    then have e: "0 < e" using assms(4) by simp
    show ?thesis
    proof (cases current)
      case c: (Fin c)
      have "1 \<le> c / e" using le e c Fin by simp
      then show ?thesis using c Fin fl_mono [of 1 "c / e"] fl_of_int [of 1] by simp
    qed (use le Fin e in \<open>simp_all add: f_inf_def\<close>)
  qed (use le nan ne assms(4) in \<open>cases current; simp\<close>)+
  then have "f_le (f_sub (Fin 2) (f_quot current entry)) (Fin 1)"
    using fl_mono [of "2 - _" 1] fl_of_int [of 1] by (cases "f_quot current entry") (auto simp: f_sub_def)
  then have "f_le (f_mul paid (f_sub (Fin 2) (f_quot current entry))) (f_mul paid (Fin 1))"
    using f_mul_mono_nonneg [of _ "Fin 1" paid] assms(2) nan(2) f_mul_1 [OF assms(3)]
    by (metis f_le_not_NaN f_mul_commute)
  then have "f_le (f_mul paid (f_sub (Fin 2) (f_quot current entry))) paid" using f_mul_1 [OF assms(3)] by simp
  then show False using f_sub_le_0 assms(1) by blast
qed

lemma pnl_cycle_gain:
  assumes "pnl_cycle repr prices commit eth r = Inr (Some p)" and "f_le (Fin 0) commit" and "f_less (Fin 0) (per_cycle p)"
  shows "pos_action p = ''buy'' \<and> f_less (pos_entry p) (pos_current p) \<or>
    pos_action p = ''sell'' \<and> f_less (pos_current p) (pos_entry p)"
proof -
  obtain act entry current z val where a: "act \<in> {''buy'', ''sell''}" "\<not> f_le entry (Fin 0)"
    "position_value act entry current z = Inr val"
    and p: "pos_action p = act \<and> pos_entry p = entry \<and> pos_current p = current \<and> per_cycle p = f_sub val (f_mul entry z)"
    and z: "\<exists>i. position_size commit eth i entry = Inr z"
    using assms(1) by (fastforce simp: pnl_cycle_def Let_def res_bind_Inr_iff split: if_splits)
  have gain: "f_less (Fin 0) (f_sub val (f_mul entry z))" using assms(3) p by simp
  have "z \<noteq> NaN" using gain by auto
  then have nz: "f_le (Fin 0) z" using z position_size_nonneg assms(2) a(2) by blast
  have ne: "entry \<noteq> NaN" using gain by auto
  then have pos: "f_le (Fin 0) entry" using a(2) f_le_linear by blast
  show ?thesis
  proof (cases "act = ''sell''")
    case True
    have "f_mul entry z \<noteq> NaN" using gain by auto
    then have paid: "f_le (Fin 0) (f_mul entry z)" using f_mul_nonneg [OF pos nz] by blast
    have v: "val = f_mul (f_mul entry z) (f_sub (Fin 2) (f_quot current entry))"
      using a(3) True by (auto simp: position_value_def f_div_def split: if_splits)
    have "f_less current entry" using sell_gain [OF gain [unfolded v] paid f_mul_double a(2)] .
    then show ?thesis using p True by simp
  next
    case False
    then have v: "val = f_mul current z" using a(3) by (simp add: position_value_def)
    then have "current \<noteq> NaN" using gain by auto
    then have "f_less entry current" using buy_gain gain v nz ne by blast
    then show ?thesis using p a(1) False by simp
  qed
qed

subsection \<open>Extremes and rates\<close>

lemma max_by_mem: "max_by p qs \<in> set (p # qs)"
  by (induction p qs rule: max_by.induct) auto

lemma min_by_mem: "min_by p qs \<in> set (p # qs)"
  by (induction p qs rule: min_by.induct) auto

lemma max_by_ge:
  assumes "\<forall>q \<in> set (p # qs). per_cycle q \<noteq> NaN"
  shows "\<forall>q \<in> set (p # qs). f_le (per_cycle q) (per_cycle (max_by p qs))"
  using assms
proof (induction p qs rule: max_by.induct)
  case (2 p q qs)
  let ?m = "if f_less (per_cycle p) (per_cycle q) then q else p"
  have pq: "f_le (per_cycle p) (per_cycle ?m)" "f_le (per_cycle q) (per_cycle ?m)"
    using 2(2) f_not_less [of "per_cycle p" "per_cycle q"] by (auto simp: f_less_def f_le_refl)
  have "\<forall>r \<in> set (?m # qs). f_le (per_cycle r) (per_cycle (max_by ?m qs))" using 2 by auto
  with pq show ?case by (auto intro: f_le_trans)
qed (simp add: f_le_refl)

lemma min_by_le:
  assumes "\<forall>q \<in> set (p # qs). per_cycle q \<noteq> NaN"
  shows "\<forall>q \<in> set (p # qs). f_le (per_cycle (min_by p qs)) (per_cycle q)"
  using assms
proof (induction p qs rule: min_by.induct)
  case (2 p q qs)
  let ?m = "if f_less (per_cycle q) (per_cycle p) then q else p"
  have pq: "f_le (per_cycle ?m) (per_cycle p)" "f_le (per_cycle ?m) (per_cycle q)"
    using 2(2) f_not_less [of "per_cycle q" "per_cycle p"] by (auto simp: f_less_def f_le_refl)
  have "\<forall>r \<in> set (?m # qs). f_le (per_cycle (min_by ?m qs)) (per_cycle r)" using 2 by auto
  with pq show ?case by (auto intro: f_le_trans)
qed (simp add: f_le_refl)

lemma f_round_between:
  assumes "0 \<le> q" and "q \<le> of_int b" and "0 \<le> b" and "b < 2 ^ 53"
  shows "\<exists>y. f_round n (Fin q) = Fin y \<and> 0 \<le> y \<and> y \<le> of_int b"
proof -
  let ?r = "round_half_even (q * 10 ^ n)"
  have "round_half_even (of_int 0) \<le> ?r" using assms(1) by (intro round_half_even_mono) simp
  then have lo: "0 \<le> (of_int ?r :: rat) / 10 ^ n" by (simp only: round_half_even_int) simp
  have "?r \<le> round_half_even (of_int (b * 10 ^ n))" using assms(2) by (intro round_half_even_mono) (simp add: mult_right_mono)
  then have "(of_int ?r :: rat) \<le> of_int (b * 10 ^ n)" by (simp only: round_half_even_int of_int_le_iff)
  then have hi: "(of_int ?r :: rat) / 10 ^ n \<le> of_int b" by (simp add: pos_divide_le_eq)
  have d: "is_double (Fin (of_int i))" if "\<bar>i\<bar> < 2 ^ 53" for i using fl_of_int [OF that] fl_double by metis
  from fl_between [of 0 "of_int b"] lo hi d [of 0] d [of b] assms(3,4) show ?thesis by (simp add: f_round_def)
qed

lemma win_rate_bounds:
  assumes "w \<le> n"
  shows "\<exists>q. win_rate w n = Fin q \<and> 0 \<le> q \<and> q \<le> 100"
proof (cases "n = 0")
  case False
  have d: "is_double (Fin (of_int i))" if "\<bar>i\<bar> < 2 ^ 53" for i using fl_of_int [OF that] fl_double by metis
  have "0 \<le> (of_nat w / of_nat n :: rat)" "(of_nat w / of_nat n :: rat) \<le> 1" using assms False by simp_all
  then obtain x where x: "fl (of_nat w / of_nat n) = Fin x" "0 \<le> x" "x \<le> 1"
    using fl_between [of 0 1 "of_nat w / of_nat n"] d [of 0] d [of 1] by auto
  then obtain y where y: "fl (x * 100) = Fin y" "0 \<le> y" "y \<le> 100"
    using fl_between [of 0 100 "x * 100"] d [of 0] d [of 100] by auto
  then show ?thesis using False x f_round_between [of y 100 1] by (simp add: win_rate_def del: One_nat_def)
qed (simp add: win_rate_def)

subsection \<open>Properties\<close>

text \<open>Three recorded cycles: a buy that gained, a sell that lost, a hold.\<close>

definition sample_results :: "pydict list" where
  "sample_results =
    [[(''cycle'', VInt 1), (''action'', VStr ''buy''), (''signal'', VDict [(''price_usd'', VInt 2000)])],
     [(''cycle'', VInt 2), (''action'', VStr ''sell''), (''signal'', VDict [(''price_usd'', VInt 1050)])],
     [(''cycle'', VInt 3), (''action'', VStr ''hold'')]]"

lemma sample_pnl:
  "\<exists>s. compute_pnl (\<lambda>_. []) sample_results [(''ETH'', Fin 2100)] (Fin 1) = Inr s \<and> cycles_won s = 1 \<and> cycles_approved s = 2"
  by (simp add: compute_pnl_def sample_results_def pnl_cycle_def position_size_def position_value_def price_of_def
      price_or_def signed_return_def vget_def dget_def py_or_def f_div_def f_sub_def f_less_def add_position_def Let_def
      str_lower_def char_lower_def)

text \<open>
  C18. A cycle counts as won only if the price moved in the direction of the trade: a buy whose
  current price is above its entry, or a sell whose current price is below it, in double
  arithmetic and for every recorded value, whatever the size of the commitment.
\<close>

theorem wins_follow_direction:
  assumes "compute_pnl repr results prices commit = Inr s" and "f_le (Fin 0) commit"
  shows "\<exists>eth ps. positions (pnl_cycle repr prices commit eth) results = Inr ps \<and>
    cycles_won s = int (length (filter (\<lambda>p. f_less (Fin 0) (per_cycle p)) ps)) \<and>
    (\<forall>p \<in> set ps. f_less (Fin 0) (per_cycle p) \<longrightarrow>
       pos_action p = ''buy'' \<and> f_less (pos_entry p) (pos_current p) \<or>
       pos_action p = ''sell'' \<and> f_less (pos_current p) (pos_entry p))"
proof -
  from assms(1) obtain eth ps where ps: "positions (pnl_cycle repr prices commit eth) results = Inr ps"
    "cycles_won s = int (length (filter (\<lambda>p. f_less (Fin 0) (per_cycle p)) ps))"
    by (rule compute_pnl_positions)
  then show ?thesis using positions_mem [OF ps(1)] pnl_cycle_gain [OF _ assms(2)] by blast
qed

theorem wins_follow_direction_witness:
  "\<exists>s eth ps. compute_pnl (\<lambda>_. []) sample_results [(''ETH'', Fin 2100)] (Fin 1) = Inr s \<and> cycles_won s = 1 \<and>
     positions (pnl_cycle (\<lambda>_. []) [(''ETH'', Fin 2100)] (Fin 1) eth) sample_results = Inr ps \<and>
     cycles_won s = int (length (filter (\<lambda>p. f_less (Fin 0) (per_cycle p)) ps))"
proof -
  from sample_pnl obtain s where
    s: "compute_pnl (\<lambda>_. []) sample_results [(''ETH'', Fin 2100)] (Fin 1) = Inr s" "cycles_won s = 1" by blast
  then show ?thesis using wins_follow_direction [OF s(1)] by auto
qed

text \<open>
  C27. The summary of a run: won, approved and total cycles are ordered, the win rate lies between 0
  and 100, the notional sums are the sums over the approved positions in order, and, unless a
  NaN occurred, the best and the worst cycle are approved positions with the greatest and the
  least result; without an approved position both are absent and the win rate is 0.
\<close>

theorem pnl_summary_of_positions:
  assumes "compute_pnl repr results prices commit = Inr s"
  shows "0 \<le> cycles_won s \<and> cycles_won s \<le> cycles_approved s \<and> cycles_approved s \<le> cycles_total s \<and>
    cycles_total s = int (length results) \<and>
    (\<exists>q. win_rate_pct s = Fin q \<and> 0 \<le> q \<and> q \<le> 100) \<and>
    (\<exists>eth ps. positions (pnl_cycle repr prices commit eth) results = Inr ps \<and>
       cycles_approved s = int (length ps) \<and>
       notional_invested_usd s = f_round 4 (foldl f_add (Fin 0) (map invested ps)) \<and>
       notional_value_now_usd s = f_round 4 (foldl f_add (Fin 0) (map value_now ps)) \<and>
       (ps = [] \<and> best_cycle s = None \<and> worst_cycle s = None \<or>
        (\<exists>p \<in> set ps. per_cycle p = NaN) \<or>
        (\<exists>b \<in> set ps. \<exists>w \<in> set ps. best_cycle s = Some (pos_info b) \<and> worst_cycle s = Some (pos_info w) \<and>
           (\<forall>p \<in> set ps. f_le (per_cycle w) (per_cycle p) \<and> f_le (per_cycle p) (per_cycle b)))))"
proof -
  from assms obtain eth ps where ps: "positions (pnl_cycle repr prices commit eth) results = Inr ps"
    and t: "cycles_total s = int (length results)" "cycles_approved s = int (length ps)"
    and w: "cycles_won s = int (length (filter (\<lambda>p. f_less (Fin 0) (per_cycle p)) ps))"
    "win_rate_pct s = win_rate (length (filter (\<lambda>p. f_less (Fin 0) (per_cycle p)) ps)) (length ps)"
    and n: "notional_invested_usd s = f_round 4 (foldl f_add (Fin 0) (map invested ps))"
    "notional_value_now_usd s = f_round 4 (foldl f_add (Fin 0) (map value_now ps))"
    and b: "best_cycle s = best_of ps" "worst_cycle s = worst_of ps"
    by (rule compute_pnl_positions)
  have ext: "ps = [] \<and> best_of ps = None \<and> worst_of ps = None \<or> (\<exists>p \<in> set ps. per_cycle p = NaN) \<or>
        (\<exists>b \<in> set ps. \<exists>w \<in> set ps. best_of ps = Some (pos_info b) \<and> worst_of ps = Some (pos_info w) \<and>
           (\<forall>p \<in> set ps. f_le (per_cycle w) (per_cycle p) \<and> f_le (per_cycle p) (per_cycle b)))"
  proof (cases ps)
    case (Cons p qs)
    show ?thesis
    proof (cases "\<exists>p \<in> set ps. per_cycle p = NaN")
      case False
      then have "\<forall>q \<in> set (p # qs). per_cycle q \<noteq> NaN" using Cons by simp
      from max_by_ge [OF this] min_by_le [OF this] show ?thesis
        using Cons max_by_mem [of p qs] min_by_mem [of p qs] unfolding best_of_def worst_of_def by (simp only: list.case) blast
    qed blast
  qed (simp add: best_of_def worst_of_def)
  have "length (filter (\<lambda>p. f_less (Fin 0) (per_cycle p)) ps) \<le> length ps" by (rule length_filter_le)
  from win_rate_bounds [OF this] show ?thesis
    using ps t w n b ext positions_length [OF ps] by simp blast
qed

theorem pnl_summary_of_positions_witness:
  "\<exists>s. compute_pnl (\<lambda>_. []) sample_results [(''ETH'', Fin 2100)] (Fin 1) = Inr s \<and>
     cycles_won s \<le> cycles_approved s \<and> cycles_total s = 3 \<and> (\<exists>q. win_rate_pct s = Fin q \<and> 0 \<le> q \<and> q \<le> 100)"
proof -
  from sample_pnl obtain s where s: "compute_pnl (\<lambda>_. []) sample_results [(''ETH'', Fin 2100)] (Fin 1) = Inr s" by blast
  then show ?thesis using pnl_summary_of_positions [OF s] by (simp add: sample_results_def)
qed

end
