(* ===== verification/Dashboard.thy ===== *)
theory Dashboard
  imports Trade_Cycle Scanner PnL
begin

text \<open>
  The API of the dashboard (\<^verbatim>\<open>dashboard/server.py\<close>): the request handlers on the state of
  the process, which is that of the trade cycle with the scanner's price cache and the live
  configuration. A handler returns a JSON reply or an HTTP error; the web framework itself is not
  modelled.
\<close>

subsection \<open>State\<close>

record ('n, 'w) dash_sys =
  da_cycle :: "('n, 'w) cycle_sys"
  da_prices :: price_cache
  da_config :: pydict

text \<open>The \<^verbatim>\<open>httpx\<close> GET of a URL is a field of the environment.\<close>

record ('n, 'w) dash_env =
  de_swarm :: "('n, 'w) swarm_env"
  de_ens :: "'w ens_env"
  de_price :: "'w price_env"
  de_get :: "string \<Rightarrow> ('w, http_resp) sx"

datatype http_reply = JSON pyval | HTTPError int string

abbreviation da_show :: "('n, 'w) dash_env \<Rightarrow> pyval \<Rightarrow> string" where
  "da_show env \<equiv> show_val (e_risk (de_swarm env))"

definition da_net :: "('n, 'w) dash_sys \<Rightarrow> 'w" where
  "da_net s = x_net (cy_x (da_cycle s))"

definition set_net :: "'w \<Rightarrow> ('n, 'w) dash_sys \<Rightarrow> ('n, 'w) dash_sys" where
  "set_net w s = s\<lparr>da_cycle := (da_cycle s)\<lparr>cy_x := (cy_x (da_cycle s))\<lparr>x_net := w\<rparr>\<rparr>\<rparr>"

definition on_wire :: "('w, 'a) sx \<Rightarrow> (('n, 'w) dash_sys, 'a) sx" where
  "on_wire m = sx_zoom da_net set_net m"

definition on_cycle :: "(('n, 'w) cycle_sys, 'a) sx \<Rightarrow> (('n, 'w) dash_sys, 'a) sx" where
  "on_cycle m = sx_zoom da_cycle (\<lambda>c s. s\<lparr>da_cycle := c\<rparr>) m"

definition on_scan :: "('w scan_state, 'a) sx \<Rightarrow> (('n, 'w) dash_sys, 'a) sx" where
  "on_scan m = sx_zoom (\<lambda>s. (da_prices s, da_net s)) (\<lambda>(c, w) s. set_net w (s\<lparr>da_prices := c\<rparr>)) m"

abbreviation da_view :: "('n, 'w) dash_sys \<Rightarrow> pyval" where
  "da_view s \<equiv> read_state_file (cy_file (da_cycle s))"

subsection \<open>Names and transfers\<close>

text \<open>\<^verbatim>\<open>_resolve_ens\<close>: an address passes, else the public API, else the \<^verbatim>\<open>ens\<close> package.\<close>

definition api_address :: "('n, 'w) dash_env \<Rightarrow> string \<Rightarrow> (('n, 'w) dash_sys, pyval option) sx" where
  "api_address env name =
     sx_try
       (sx_bind (on_wire (de_get env (''https://api.ensideas.com/ens/resolve/'' @ name))) (\<lambda>resp.
          if status_code resp = 200
          then sx_bind (sx_lift (json_body resp)) (\<lambda>data.
               sx_bind (sx_lift (vget data ''address'' VNone)) (\<lambda>a. sx_return (Some a)))
          else sx_return None))
       (\<lambda>_. sx_return None)"

definition resolve_ens :: "('n, 'w) dash_env \<Rightarrow> string \<Rightarrow> (('n, 'w) dash_sys, pyval) sx" where
  "resolve_ens env name =
     (if startswith ''0x'' name \<and> str_len name = 42 then sx_return (VStr name)
      else sx_bind (api_address env name) (\<lambda>found.
        case found of
          Some a \<Rightarrow> sx_return a
        | None \<Rightarrow> sx_try
            (sx_bind (on_wire (ens_connect (de_ens env))) (\<lambda>_.
             sx_bind (on_wire (ens_address (de_ens env) name)) (\<lambda>a. sx_return (opt_text a))))
            (\<lambda>_. sx_return VNone)))"

definition api_resolve :: "('n, 'w) dash_env \<Rightarrow> string \<Rightarrow> (('n, 'w) dash_sys, http_reply) sx" where
  "api_resolve env name =
     sx_bind (resolve_ens env name) (\<lambda>a.
       sx_return (JSON (VDict (if truthy a
         then [(''name'', VStr name), (''address'', a), (''resolved'', VBool True)]
         else [(''name'', VStr name), (''address'', VNone), (''resolved'', VBool False)]))))"

text \<open>\<^verbatim>\<open>str(body.get(k) or dflt).strip()\<close>\<close>

definition body_of :: "pyval \<Rightarrow> pydict" where
  "body_of raw = (case raw of VDict d \<Rightarrow> d | _ \<Rightarrow> [])"

definition body_text :: "(pyval \<Rightarrow> string) \<Rightarrow> pydict \<Rightarrow> string \<Rightarrow> string \<Rightarrow> string" where
  "body_text repr body k dflt = py_str repr (py_or (dget body k VNone) (VStr dflt))"

definition transfer_request :: "string \<Rightarrow> pyval \<Rightarrow> string \<Rightarrow> kh_transfer_request res" where
  "transfer_request network address amount =
     (case network_of network of
        None \<Rightarrow> Inl (PyExc ValueError (network @ '' is not a valid KHNetwork''))
      | Some n \<Rightarrow> res_bind (str_field address) (\<lambda>a.
          Inr \<lparr>tr_network = n, tr_recipient_address = a, tr_amount = amount, tr_token_address = None\<rparr>))"

text \<open>A client of its own for every transfer; one call of the live client is up to three requests.\<close>

definition fresh_transfer ::
  "('n, 'w) dash_env \<Rightarrow> string \<Rightarrow> kh_transfer_request \<Rightarrow> (('n, 'w) dash_sys, kh_exec_result) sx" where
  "fresh_transfer env uid req =
     sx_zoom (\<lambda>s. (kh_enter (kh_from_env (e_getenv (de_swarm env))), da_net s)) (\<lambda>(b, w) s. set_net w s)
       (kh_execute_transfer (e_uni (de_swarm env)) uid req)"

definition transfer_to_ens :: "('n, 'w) dash_env \<Rightarrow> string \<Rightarrow> pyval \<Rightarrow> (('n, 'w) dash_sys, http_reply) sx" where
  "transfer_to_ens env uid raw =
     (let body = body_of raw;
          recipient = str_strip (body_text (da_show env) body ''recipient'' []);
          amount = str_strip (body_text (da_show env) body ''amount'' []);
          network = str_strip (body_text (da_show env) body ''network'' ''base'')
      in if recipient = [] \<or> amount = [] then sx_return (HTTPError 400 ''recipient and amount required'')
         else sx_bind (resolve_ens env recipient) (\<lambda>address.
           if \<not> truthy address then sx_return (HTTPError 400 (''Could not resolve '' @ recipient))
           else sx_try
             (sx_bind (sx_lift (transfer_request network address amount)) (\<lambda>req.
              sx_bind (fresh_transfer env uid req) (\<lambda>r.
              sx_return (JSON (VDict
                [(''execution_id'', VStr (kr_execution_id r)), (''resolved_address'', address),
                 (''recipient'', VStr recipient), (''amount'', VStr amount)])))))
             (\<lambda>e. sx_return (HTTPError 500 (exc_str e)))))"

subsection \<open>Injected signals\<close>

definition eth_price :: "('n, 'w) dash_env \<Rightarrow> (('n, 'w) dash_sys, pyval) sx" where
  "eth_price env =
     sx_try
       (sx_bind (on_wire (de_get env ''https://api.coingecko.com/api/v3/simple/price?ids=ethereum&vs_currencies=usd'')) (\<lambda>r.
        sx_bind (sx_lift (json_body r)) (\<lambda>d.
        sx_bind (sx_lift (vget d ''ethereum'' (VDict []))) (\<lambda>e.
        sx_lift (vget e ''usd'' (VFloat (Fin 0)))))))
       (\<lambda>_. sx_return (VFloat (Fin 0)))"

definition injected_signal :: "(pyval \<Rightarrow> string) \<Rightarrow> pydict \<Rightarrow> int \<Rightarrow> int \<Rightarrow> pyval \<Rightarrow> pydict" where
  "injected_signal repr body chain amount price =
     [(''token_in'', VStr (body_text repr body ''token_in'' DEFAULT_TOKEN_IN)),
      (''token_out'', VStr (body_text repr body ''token_out'' DEFAULT_TOKEN_OUT)),
      (''chain_id'', VInt chain), (''price_usd'', price),
      (''signal'', VStr (body_text repr body ''signal'' ''strong'')),
      (''reason'', VStr (body_text repr body ''reason'' ''Manual signal from dashboard'')),
      (''amount_in_wei'', VInt amount)]"

text \<open>The reply, and the signal of the background cycle it starts.\<close>

definition inject_signal :: "('n, 'w) dash_env \<Rightarrow> pyval \<Rightarrow> (('n, 'w) dash_sys, http_reply \<times> pydict option) sx" where
  "inject_signal env raw =
     (let body = body_of raw
      in sx_try
        (sx_bind (sx_lift (py_int (py_or (dget body ''chain_id'' VNone) (VInt 8453)))) (\<lambda>chain.
         sx_bind (sx_lift (py_int (py_or (dget body ''amount_wei'' VNone) (VInt 50000000000000000)))) (\<lambda>amount.
         sx_bind (eth_price env) (\<lambda>price.
         let signal = injected_signal (da_show env) body chain amount price
         in sx_return (JSON (VDict [(''status'', VStr ''signal_injected''), (''signal'', VDict signal)]), Some signal)))))
        (\<lambda>e. sx_return (HTTPError 500 (exc_str e), None)))"

definition signal_cycle ::
  "('n, 'w) dash_env \<Rightarrow> host_env \<Rightarrow> cycle_inputs \<Rightarrow> pyval \<Rightarrow>
   (('n, 'w) dash_sys, http_reply) sx" where
  "signal_cycle env host ci raw =
     sx_bind (inject_signal env raw) (\<lambda>(reply, task).
       case task of
         None \<Rightarrow> sx_return reply
       | Some signal \<Rightarrow> sx_bind (on_cycle (run_trade_cycle (de_swarm env) host ci signal)) (\<lambda>_. sx_return reply))"


subsection \<open>Agent profiles\<close>

definition profile_dict :: "ens_profile \<Rightarrow> pydict" where
  "profile_dict p =
     [(''name'', VStr (prof_name p)), (''role'', VStr (prof_role p)), (''address'', opt_text (prof_address p)),
      (''axl_pubkey'', opt_text (prof_axl_pubkey p)), (''status'', opt_text (prof_status p)),
      (''last'', opt_text (prof_last p)), (''tx'', opt_text (prof_tx p)), (''snapshot'', opt_text (prof_snapshot p))]"

definition ROLES :: "string list" where
  "ROLES = [''researcher'', ''risk'', ''executor'']"

text \<open>Reading a profile never raises: \<^verbatim>\<open>get_profile\<close> has handlers around every read.\<close>

definition dash_profile :: "('n, 'w) dash_env \<Rightarrow> string \<Rightarrow> (('n, 'w) dash_sys, pydict) sx" where
  "dash_profile env rl s =
     (case get_profile (de_ens env) rl ((cy_identity (da_cycle s))\<lparr>id_world := da_net s\<rparr>) of
        (p, i) \<Rightarrow> (Inr (profile_dict p), set_net (id_world i) (s\<lparr>da_cycle := (da_cycle s)\<lparr>cy_identity := i\<rparr>\<rparr>)))"

definition get_agents :: "('n, 'w) dash_env \<Rightarrow> (('n, 'w) dash_sys, http_reply) sx" where
  "get_agents env =
     sx_bind (sx_map (dash_profile env) ROLES) (\<lambda>ps.
       sx_return (JSON (VDict [(''agents'', VList (map VDict ps))])))"

text \<open>\<^verbatim>\<open>{p.get("role"): p for p in sidecar}\<close> looked up at a role: the last entry with it.\<close>

fun role_entries :: "pyval list \<Rightarrow> (pyval \<times> pydict) list res" where
  "role_entries [] = Inr []"
| "role_entries (v # vs) =
     (case v of
        VDict d \<Rightarrow>
          (case dget d ''role'' VNone of
             VList _ \<Rightarrow> Inl (PyExc TypeError ''unhashable type'')
           | VDict _ \<Rightarrow> Inl (PyExc TypeError ''unhashable type'')
           | r \<Rightarrow> map_sum id (\<lambda>es. es @ [(r, d)]) (role_entries vs))
      | _ \<Rightarrow> Inl (PyExc AttributeError ''object has no attribute get''))"

definition FILL_KEYS :: "string list" where
  "FILL_KEYS = [''status'', ''last'', ''tx'', ''snapshot'', ''axl_pubkey'']"

definition fill_profile :: "pydict \<Rightarrow> pydict \<Rightarrow> pydict" where
  "fill_profile fb p =
     fold (\<lambda>k p. if \<not> truthy (dget p k VNone) \<and> truthy (dget fb k VNone) then AList.update k (dget fb k VNone) p else p)
       FILL_KEYS p"

definition merge_profiles :: "pyval \<Rightarrow> pydict list \<Rightarrow> pydict list res" where
  "merge_profiles view profiles =
     res_bind (vget view ''agent_profiles'' VNone) (\<lambda>v.
       if \<not> truthy v then Inr profiles
       else res_bind (iter_items v) (\<lambda>items.
            res_bind (role_entries items) (\<lambda>by_role.
            Inr (map (\<lambda>p. case map_of by_role (dget p ''role'' VNone) of
                            Some fb \<Rightarrow> fill_profile fb p | None \<Rightarrow> p) profiles))))"

subsection \<open>The combined view\<close>

definition axl_view :: "('n, 'w) dash_sys \<Rightarrow> pyval res" where
  "axl_view s =
     (let events = recent_events 20 (cy_bus (da_cycle s))
      in if events \<noteq> [] then Inr (VList (map VDict events))
         else map_sum id (\<lambda>v. py_or v (VList [])) (vget (da_view s) ''axl_events'' VNone))"

text \<open>Prices by symbol from the scanner's cache, in its order.\<close>

fun symbol_prices :: "pydict \<Rightarrow> (string \<times> pyfloat) list \<Rightarrow> (string \<times> pyfloat) list res" where
  "symbol_prices [] ps = Inr ps"
| "symbol_prices ((cg_id, info) # c) ps =
     (case (map_of [(''ethereum'', ''ETH''), (''bitcoin'', ''cbBTC'')] cg_id, info) of
        (Some symb, VDict d) \<Rightarrow>
          if truthy (dget d ''usd'' VNone)
          then res_bind (py_float (dget d ''usd'' VNone)) (\<lambda>x. symbol_prices c (AList.update symb x ps))
          else symbol_prices c ps
      | _ \<Rightarrow> symbol_prices c ps)"

definition with_weth :: "(string \<times> pyfloat) list \<Rightarrow> (string \<times> pyfloat) list" where
  "with_weth ps =
     (case (map_of ps ''ETH'', map_of ps ''WETH'') of
        (Some x, None) \<Rightarrow> AList.update ''WETH'' x ps | _ \<Rightarrow> ps)"

text \<open>A recorded result that is not a dictionary raises when the loop reaches it.\<close>

definition dict_prefix :: "pyval list \<Rightarrow> pydict list" where
  "dict_prefix vs = map (\<lambda>v. case v of VDict d \<Rightarrow> d | _ \<Rightarrow> []) (takeWhile (\<lambda>v. case v of VDict _ \<Rightarrow> True | _ \<Rightarrow> False) vs)"

definition pnl_of_values ::
  "(pyval \<Rightarrow> string) \<Rightarrow> pyval list \<Rightarrow> (string \<times> pyfloat) list \<Rightarrow> pyfloat \<Rightarrow> pnl_summary res" where
  "pnl_of_values repr vs prices commit =
     res_bind (compute_pnl repr (dict_prefix vs) prices commit) (\<lambda>p.
       if length (dict_prefix vs) = length vs then Inr p
       else Inl (PyExc AttributeError ''object has no attribute get''))"

definition pnl_view :: "('n, 'w) dash_env \<Rightarrow> ('n, 'w) dash_sys \<Rightarrow> pydict" where
  "pnl_view env s =
     (case
        res_bind (vget (da_view s) ''results'' VNone) (\<lambda>rs.
        res_bind (iter_items (py_or rs (VList []))) (\<lambda>results.
        res_bind (symbol_prices (pc_prices (da_prices s)) []) (\<lambda>prices.
        res_bind (py_float (py_or (opt_text (e_getenv (de_swarm env) ''SWARMFI_COMMITMENT_ETH'')) (VStr ''0.0001''))) (\<lambda>commit.
        pnl_of_values (da_show env) results (with_weth prices) commit))))
      of Inr p \<Rightarrow> pnl_to_dict p | Inl e \<Rightarrow> [(''error'', VStr (exc_str e))])"

definition agents_dict :: "agents_view \<Rightarrow> (string \<times> pydict) list" where
  "agents_dict a =
     [(''researcher'', [(''status'', VStr (rs_status a)), (''last_signal'', rs_last_signal a)]),
      (''risk'', [(''status'', VStr (rk_status a)), (''last_risk_score'', rk_last_risk_score a),
                 (''last_action'', rk_last_action a), (''last_confidence'', rk_last_confidence a)]),
      (''executor'', [(''status'', VStr (ex_status a)), (''last_tx_hash'', ex_last_tx_hash a),
                     (''last_routing'', ex_last_routing a)])]"

definition state_dict :: "zg_state option \<Rightarrow> pydict" where
  "state_dict z =
     (case z of
        None \<Rightarrow> []
      | Some x \<Rightarrow>
          [(''version'', zs_version x), (''updated_at'', zs_updated_at x), (''snapshot_root'', zs_snapshot_root x),
           (''snapshot_tx'', zs_snapshot_tx x), (''in_progress'', zs_in_progress x),
           (''agents'', VDict (map (\<lambda>(r, d). (r, VDict d)) (agents_dict (zs_agents x))))])"

definition api_state :: "(('n, 'w) dash_sys, http_reply) sx" where
  "api_state =
     sx_bind sx_get (\<lambda>s.
     sx_bind (sx_lift (get_zg_state (cy_file (da_cycle s)))) (\<lambda>z.
       sx_return (JSON (VDict (case z of
         None \<Rightarrow> [(''version'', VInt 0), (''updated_at'', VNone), (''agents'', VDict []), (''config'', VDict (da_config s))]
       | Some _ \<Rightarrow> state_dict z @ [(''config'', VDict (da_config s))])))))"

definition api_log :: "(('n, 'w) dash_sys, http_reply) sx" where
  "api_log =
     sx_bind sx_get (\<lambda>s.
     sx_bind (sx_lift (get_zg_log 50 (cy_file (da_cycle s)))) (\<lambda>es. sx_return (JSON (VList es))))"

definition set_config :: "pydict \<Rightarrow> (('n, 'w) dash_sys, http_reply) sx" where
  "set_config updates =
     sx_bind (sx_modify (\<lambda>s. s\<lparr>da_config := update_config updates (da_config s)\<rparr>)) (\<lambda>_.
     sx_bind sx_get (\<lambda>s. sx_return (JSON (VDict (da_config s)))))"

definition scan_view :: "('n, 'w) dash_env \<Rightarrow> (('n, 'w) dash_sys, pydict) sx" where
  "scan_view env =
     sx_try (sx_bind (on_scan (scan_pairs (de_price env) 1000000000000000)) (\<lambda>r. sx_return (scan_to_dict r)))
       (\<lambda>e. sx_return [(''error'', VStr (exc_str e)), (''ranked'', VList [])])"

text \<open>\<open>profiles\<close> are what the profile reads gave within their time limit.\<close>

definition get_dashboard :: "('n, 'w) dash_env \<Rightarrow> pydict list \<Rightarrow> (('n, 'w) dash_sys, http_reply) sx" where
  "get_dashboard env profiles =
     sx_bind (scan_view env) (\<lambda>scan.
     sx_bind sx_get (\<lambda>s.
     sx_bind (sx_lift (get_zg_state (cy_file (da_cycle s)))) (\<lambda>z.
     sx_bind (sx_lift (get_zg_log 30 (cy_file (da_cycle s)))) (\<lambda>log.
     sx_bind (sx_lift (merge_profiles (da_view s) profiles)) (\<lambda>agents.
     sx_bind (sx_lift (axl_view s)) (\<lambda>events.
     sx_return (JSON (VDict
       [(''state'', VDict (state_dict z)), (''log'', VList log), (''scan'', VDict scan),
        (''agents'', VList (map VDict agents)), (''axl'', VDict [(''events'', events)]),
        (''pnl'', VDict (pnl_view env s))]))))))))"


subsection \<open>The chat assistant\<close>

definition scan_row :: "bool \<Rightarrow> pair_score \<Rightarrow> string" where
  "scan_row is_best s =
     ''  - '' @ ljust 14 (ps_label (sc_pair s)) @ ''price=$'' @ rjust 10 (fmt_2f_comma (sc_price_usd s)) @ ''  24h='' @
     fmt_2f_plus (momentum_24h s) @ ''%  edge='' @ fmt_2f (composite s) @ ''  signal='' @ sc_signal s @
     (if is_best then '' '' @ STAR @ '' best'' else [])"

definition scan_block :: "scan_result \<Rightarrow> string list" where
  "scan_block r =
     (if ranked r = [] then []
      else ''LIVE MARKET SCAN (regenerated this request, all Base bluechips):'' #
        map (\<lambda>(i, s). scan_row (i = 0 \<and> best r \<noteq> None) s) (enumerate 0 (ranked r)))"

definition config_line :: "(pyval \<Rightarrow> string) \<Rightarrow> pydict \<Rightarrow> string res" where
  "config_line repr cfg =
     res_bind (vget (dget cfg ''default_pair'' (VDict [])) ''token_in_sym'' (VStr ''?'')) (\<lambda>i.
     res_bind (vget (dget cfg ''default_pair'' (VDict [])) ''token_out_sym'' (VStr ''?'')) (\<lambda>out.
     res_bind (vget (dget cfg ''default_pair'' (VDict [])) ''chain_id'' (VStr ''?'')) (\<lambda>c.
     Inr (''  config: pair='' @ py_str repr i @ ARROW @ py_str repr out @ '' chain='' @ py_str repr c @
          '' risk_threshold='' @ py_str repr (dget cfg ''risk_threshold'' (VStr ''?'')) @
          '' amount_in_wei='' @ py_str repr (dget cfg ''amount_in_wei'' (VStr ''?'')) @
          '' auto_trade='' @ py_str repr (dget cfg ''auto_trade'' (VBool False))))))"

definition NOTE_LINE :: string where
  "NOTE_LINE = ''  note: '' @ [CHR 0x27] @ ''auto_trade=False'' @ [CHR 0x27] @ '' means the swarm runs cycles ONLY on demand '' @
     ''(via /api/signal or the '' @ [CHR 0x27] @ ''Run a cycle'' @ [CHR 0x27] @ '' button). Each manual cycle still '' @
     ''executes a real trade decision via the executor agent.''"

definition agent_line :: "(pyval \<Rightarrow> string) \<Rightarrow> string \<times> pydict \<Rightarrow> string" where
  "agent_line repr = (\<lambda>(rl, a).
     ''    - '' @ ljust 10 rl @ '' status='' @ ljust 10 (py_str repr (dget a ''status'' (VStr ''?''))) @
     '' risk='' @ py_str repr (dget a ''last_risk_score'' (VStr DASH)) @
     '' tx='' @ short_hash repr (dget a ''last_tx_hash'' VNone))"

definition agent_lines :: "(pyval \<Rightarrow> string) \<Rightarrow> zg_state option \<Rightarrow> string list" where
  "agent_lines repr z =
     (case z of
        None \<Rightarrow> [''  agents_seen: 0  (no on-chain snapshot loaded yet)'']
      | Some x \<Rightarrow> (''  agents_seen: 3  state_version: '' @ py_str repr (zs_version x)) #
          map (agent_line repr) (agents_dict (zs_agents x)))"

text \<open>One event of \<^verbatim>\<open>_get_zg_log\<close>: its data is a dictionary.\<close>

definition event_line :: "(pyval \<Rightarrow> string) \<Rightarrow> pyval \<Rightarrow> string" where
  "event_line repr ev =
     (let e = (case ev of VDict d \<Rightarrow> d | _ \<Rightarrow> []);
          data = (case dget e ''data'' VNone of VDict d \<Rightarrow> d | _ \<Rightarrow> []);
          extras = concat (map (\<lambda>(k, txt). case map_of data k of Some v \<Rightarrow> [txt v] | None \<Rightarrow> [])
            [(''risk_score'', \<lambda>v. ''risk='' @ py_str repr v), (''action'', \<lambda>v. ''action='' @ py_str repr v),
             (''price_usd'', \<lambda>v. ''price=$'' @ py_str repr v), (''tx_hash'', \<lambda>v. ''tx='' @ short_hash repr v)])
      in ''    - ['' @ py_str repr (dget e ''agent_role'' (VStr ''?'')) @ ''] '' @ py_str repr (dget e ''event_type'' (VStr ''?'')) @
         (if extras = [] then [] else '' '' @ join '' '' extras))"

definition context_state :: "state_file \<Rightarrow> zg_state option \<times> pyval list" where
  "context_state f =
     (case res_bind (get_zg_state f) (\<lambda>z. res_bind (get_zg_log 8 f) (\<lambda>es. Inr (z, es))) of
        Inr x \<Rightarrow> x | Inl _ \<Rightarrow> (None, []))"

definition context_lines ::
  "(string \<Rightarrow> string option) \<Rightarrow> (pyval \<Rightarrow> string) \<Rightarrow> zg_state option \<Rightarrow> pyval list \<Rightarrow> string list \<Rightarrow> string \<Rightarrow> string list" where
  "context_lines getenv repr z evs scan cfg =
     (let snap = py_or (case z of Some x \<Rightarrow> zs_snapshot_root x | None \<Rightarrow> VNone)
                   (VStr (str_strip (getenv_or getenv ''SWARMFI_SNAPSHOT_ROOT'' [])))
      in [''SWARM CONTEXT (live, regenerated each request):'', cfg, NOTE_LINE] @
         (if truthy snap then [''  latest_0g_snapshot: '' @ short_hash repr snap] else []) @
         agent_lines repr z @
         (if scan = [] then [] else [[]] @ scan @ [[]]) @
         (if evs = [] then [''  recent_events: 0  (run a cycle to populate)'']
          else (''  recent_events ('' @ str_nat (length evs) @ ''):'') # map (event_line repr) (py_from (- 8) evs)))"

definition build_swarm_context :: "('n, 'w) dash_env \<Rightarrow> (('n, 'w) dash_sys, string) sx" where
  "build_swarm_context env =
     sx_bind sx_get (\<lambda>s0. case context_state (cy_file (da_cycle s0)) of (z, evs) \<Rightarrow>
     sx_bind (sx_try (sx_bind (on_scan (scan_pairs (de_price env) 1000000000000000)) (\<lambda>r. sx_return (scan_block r)))
                (\<lambda>_. sx_return [])) (\<lambda>scan.
     sx_bind sx_get (\<lambda>s.
     sx_bind (sx_lift (config_line (da_show env) (da_config s))) (\<lambda>cfg.
     sx_return (join [CHR 0x0A] (context_lines (e_getenv (de_swarm env)) (da_show env) z evs scan cfg))))))"

definition CHAT_SYSTEM :: string where
  "CHAT_SYSTEM = text_lines
     [''You are SwarmFi AI '' @ [CHR 0xE2, CHR 0x80, CHR 0x94] @ '' the in-app assistant for the SwarmFi'',
      ''autonomous DeFi swarm running on 0G Compute. You speak with first-person'',
      ''authority about THIS specific swarm. You are NOT a generic crypto advisor and'',
      ''you NEVER invent generic trading-book content (no RSI tutorials, no MACD'',
      ''explainers, no '' @ QT @ ''buy low sell high'' @ QT @ '' filler).'',
      [],
      ''The swarm is exactly three agents on 0G + Base:'',
      [],
      ''  researcher.swarmfi.eth   '' @ [CHR 0xE2, CHR 0x80, CHR 0x94] @ '' pulls ETH/USDC (and other Base) price signals'',
      ''                             and writes them to 0G Storage as the shared'',
      ''                             market-signal record.'',
      ''  risk.swarmfi.eth         '' @ [CHR 0xE2, CHR 0x80, CHR 0x94] @ '' uses 0G Compute (sealed inference, models like'',
      ''                             qwen3-plus / GLM-FP8) to score every signal'',
      ''                             0'' @ [CHR 0xE2, CHR 0x80, CHR 0x93] @ ''10. Anything above the risk threshold is'',
      ''                             auto-rejected '' @ [CHR 0xE2, CHR 0x80, CHR 0x94] @ '' the agent returns HOLD with a'',
      ''                             one-line reason.'',
      ''  executor.swarmfi.eth     '' @ [CHR 0xE2, CHR 0x80, CHR 0x94] @ '' fetches a swap quote from the Uniswap Trading'',
      ''                             API and submits the calldata to KeeperHub,'',
      ''                             which guarantees broadcast (retry, gas mgmt,'',
      ''                             private routing). Returns the tx hash.'',
      [],
      ''The three agents communicate peer-to-peer over Gensyn AXL (encrypted, no'',
      ''central broker). All status, signals, decisions, and tx hashes are'',
      ''persisted on 0G Storage as one snapshot per cycle '' @ [CHR 0xE2, CHR 0x80, CHR 0x94] @ '' the snapshot root is'',
      ''visible in the dashboard summary.'',
      [],
      ''How to answer:'',
      ''  - Always ground responses in the SWARM CONTEXT and LIVE MARKET SCAN'',
      ''    blocks below. Reference real numbers from them '' @ [CHR 0xE2, CHR 0x80, CHR 0x94] @ '' current prices,'',
      ''    24h momentum, composite edge scores, risk scores, root hashes,'',
      ''    tx hashes.'',
      ''  - If the user asks '' @ QT @ ''what is X price'' @ QT @ '' or '' @ QT @ ''what'' @ [CHR 0x27] @ ''s the best opportunity'' @ QT @ '','',
      ''    answer from the LIVE MARKET SCAN block '' @ [CHR 0xE2, CHR 0x80, CHR 0x94] @ '' that'' @ [CHR 0x27] @ ''s regenerated on every'',
      ''    request, so it IS real-time. Never claim '' @ [CHR 0x27] @ ''I can'' @ [CHR 0x27] @ ''t see live prices'' @ [CHR 0x27] @ ''.'',
      ''  - The scan covers ETH, WETH, USDC, USDT, and cbBTC (BTC-pegged) on'',
      ''    Base. Yes, that means you DO have live BTC pricing via cbBTC.'',
      ''  - If a user asks for a token NOT in the scan (e.g. SOL, AVAX), say so'',
      ''    plainly '' @ [CHR 0xE2, CHR 0x80, CHR 0x94] @ '' the swarm only scans Base bluechips by design.'',
      ''  - When explaining a sponsor (0G / Uniswap / KeeperHub / Gensyn / ENS),'',
      ''    describe the role it plays in THIS swarm, not the product in general.'',
      ''  - Be terse. 4'' @ [CHR 0xE2, CHR 0x80, CHR 0x93] @ ''8 sentences usually. No bullet-list essays unless asked.'',
      ''  - Never use phrases like '' @ QT @ ''as an AI'' @ QT @ '' or '' @ QT @ ''I cannot provide financial'',
      ''    advice'' @ QT @ ''. You are an embedded operator, not a chatbot.'']"

definition ai_chat :: "('n, 'w) dash_env \<Rightarrow> pydict list \<Rightarrow> (('n, 'w) dash_sys, pyval) sx" where
  "ai_chat env messages =
     sx_try
       (sx_bind (build_swarm_context env) (\<lambda>context.
        sx_zoom (\<lambda>s. (compute_enter (compute_from_env (e_getenv (de_swarm env))), da_net s)) (\<lambda>(c, w) s. set_net w s)
          (compute_chat (e_risk (de_swarm env))
             (VList (VDict (chat_msg ''system'' (CHAT_SYSTEM @ [CHR 0x0A, CHR 0x0A] @ context)) # map VDict messages)) 800)))
       (\<lambda>e. sx_return (VStr (''AI unavailable: '' @ exc_str e)))"

definition NO_MESSAGE :: string where
  "NO_MESSAGE = ''I didn'' @ [CHR 0x27] @ ''t receive any message. Try typing something into the chat box.''"

definition chat :: "('n, 'w) dash_env \<Rightarrow> pyval \<Rightarrow> (('n, 'w) dash_sys, http_reply) sx" where
  "chat env raw =
     (case normalise_chat_payload (da_show env) raw of
        None \<Rightarrow> sx_return (JSON (VDict [(''reply'', VStr NO_MESSAGE)]))
      | Some msgs \<Rightarrow> sx_bind (ai_chat env msgs) (\<lambda>reply. sx_return (JSON (VDict [(''reply'', reply)]))))"

subsection \<open>What the handlers leave alone\<close>

lemma da_net_set [simp]: "da_net (set_net w s) = w" "cy_file (da_cycle (set_net w s)) = cy_file (da_cycle s)"
  "da_config (set_net w s) = da_config s" "da_prices (set_net w s) = da_prices s"
  by (simp_all add: da_net_def set_net_def)

definition da_kept :: "('n, 'w) dash_sys \<Rightarrow> state_file \<times> pydict" where
  "da_kept s = (cy_file (da_cycle s), da_config s)"

lemma da_kept_wire [intro, simp]: "keeps da_kept (on_wire m)" "keeps da_kept (on_scan m')"
  "keeps da_kept (sx_zoom g (\<lambda>(b, w) s. set_net w s) m'')"
  by (auto simp: keeps_def da_kept_def on_wire_def on_scan_def sx_zoom_def split: prod.splits)

lemma da_kept_context [intro, simp]: "keeps da_kept (build_swarm_context env)"
  unfolding build_swarm_context_def by (auto intro!: keeps_bind keeps_try split: prod.splits)

lemma da_kept_ai_chat [intro, simp]: "keeps da_kept (ai_chat env ms)"
  unfolding ai_chat_def by (auto intro!: keeps_bind keeps_try)

lemma da_kept_resolve [intro, simp]: "keeps da_kept (resolve_ens env name)" "keeps da_kept (eth_price env)"
  unfolding resolve_ens_def api_address_def eth_price_def by (auto intro!: keeps_bind keeps_try split: option.splits)

lemma eth_price_returns: "\<exists>price s'. eth_price env s = (Inr price, s')"
  unfolding eth_price_def by (rule sx_try_returns)

lemma resolve_ens_returns: "\<exists>a s'. resolve_ens env name s = (Inr a, s')"
proof -
  obtain x s1 where x: "api_address env name s = (Inr x, s1)"
    using sx_try_returns [where h = "\<lambda>_. None"] unfolding api_address_def by fast
  show ?thesis
  proof (cases x)
    case None
    show ?thesis using x None sx_try_returns [where h = "\<lambda>_. VNone" and s = s1] by (simp add: resolve_ens_def sx_return_def)
  qed (use x in \<open>simp add: resolve_ens_def sx_return_def\<close>)
qed

lemma inject_signal_returns:
  assumes "py_int (py_or (dget (body_of raw) ''chain_id'' VNone) (VInt 8453)) = Inr chain"
    and "py_int (py_or (dget (body_of raw) ''amount_wei'' VNone) (VInt 50000000000000000)) = Inr amount"
  obtains price s' where "inject_signal env raw s =
      (Inr (JSON (VDict [(''status'', VStr ''signal_injected''),
              (''signal'', VDict (injected_signal (da_show env) (body_of raw) chain amount price))]),
            Some (injected_signal (da_show env) (body_of raw) chain amount price)), s')"
    and "da_kept s' = da_kept s"
proof -
  obtain price s' where e: "eth_price env s = (Inr price, s')"
    using eth_price_returns by blast
  then have "da_kept s' = da_kept s" using keepsD [OF da_kept_resolve(2)] by blast
  with e show thesis using assms that by (simp add: inject_signal_def Let_def sx_return_def)
qed


lemma bad_amount_undecided:
  assumes "py_int (dget signal ''amount_in_wei'' (VInt 100000000000000000)) = Inr a" and "a \<le> 0"
  shows "decision_of nan_ok signal reply \<noteq> Inr d"
proof
  assume d: "decision_of nan_ok signal reply = Inr d"
  then obtain result where r: "reply = VDict result" using decision_of_dict by blast
  have "td_amount_in_wei d = a" using d assms(1) unfolding r
    by (auto simp: decision_of_def Let_def case_prod_unfold res_bind_Inr_iff validate_trade_decision_iff)
  moreover have "0 < td_amount_in_wei d" using decision_of_Inr(1) [OF d [unfolded r]] by (simp add: decision_ok_def)
  ultimately show False using assms(2) by simp
qed

lemma bad_amount_cycle:
  assumes "py_int (dget signal ''amount_in_wei'' (VInt 100000000000000000)) = Inr a" and "a \<le> 0"
  shows "\<exists>s'. run_trade_cycle env host ci signal s = (Inr (), s') \<and> cy_record s' = cy_record s"
proof -
  obtain x s1 where d: "cycle_decision env host ci signal s = (x, s1)" by (rule prod.exhaust)
  have k: "cy_record s1 = cy_record s" using keepsD [OF cy_record_decision d] .
  have "x \<noteq> Inr (ms, pl, rv)" for ms pl rv
  proof
    assume "x = Inr (ms, pl, rv)"
    with cycle_decision_payload d obtain m cs cs' where
      "score (e_risk env) (ci_mid ci 1) (ci_now ci 4) signal zero_key cs = (Inr m, cs')" by blast
    then obtain p reply d' where "decision_of (nan_valid (e_risk env)) signal reply = Inr d'" by (rule score_Inr)
    with bad_amount_undecided [OF assms] show False by blast
  qed
  then obtain e where "x = Inl e" by (metis sum.exhaust prod_cases3)
  then show ?thesis using d k by (simp add: cycle_split sx_return_def)
qed

lemma resolve_ignores_trading:
  "resolve_ens (env\<lparr>de_swarm := (de_swarm env)\<lparr>e_uni := u\<rparr>\<rparr>) = resolve_ens env"
  "da_show (env\<lparr>de_swarm := (de_swarm env)\<lparr>e_uni := u\<rparr>\<rparr>) = da_show env"
  by (simp_all add: fun_eq_iff resolve_ens_def api_address_def)

lemma transfer_run:
  assumes "da_show env' = da_show env"
    and "rc = str_strip (body_text (da_show env) (body_of raw) ''recipient'' [])"
    and "am = str_strip (body_text (da_show env) (body_of raw) ''amount'' [])"
    and "nw = str_strip (body_text (da_show env) (body_of raw) ''network'' ''base'')"
    and "\<not> (rc = [] \<or> am = [])" and "resolve_ens env' = resolve_ens env" and "resolve_ens env rc s = (Inr a, s1)"
  shows "transfer_to_ens env' uid raw s =
    (if \<not> truthy a then (Inr (HTTPError 400 (''Could not resolve '' @ rc)), s1)
     else sx_try (sx_bind (sx_lift (transfer_request nw a am)) (\<lambda>req. sx_bind (fresh_transfer env' uid req) (\<lambda>k.
        sx_return (JSON (VDict [(''execution_id'', VStr (kr_execution_id k)), (''resolved_address'', a),
          (''recipient'', VStr rc), (''amount'', VStr am)])))))
        (\<lambda>e. sx_return (HTTPError 500 (exc_str e))) s1)"
  using assms unfolding transfer_to_ens_def Let_def by (simp add: sx_return_def)

text \<open>
  What a transfer puts on the network: one kind of request, with a fixed body, at most three times.
\<close>

definition transfer_posts ::
  "('w, 'x) http_env_scheme \<Rightarrow> kh_transfer_request \<Rightarrow> string \<Rightarrow> ('w, http_resp) sx" where
  "transfer_posts u req key =
     http_request u ''POST'' (KH_BASE_URL @ ''/execute/transfer'') key (VDict (transfer_api req))"

abbreviation with_uni :: "('n, 'w) dash_env \<Rightarrow> 'w uni_env \<Rightarrow> ('n, 'w) dash_env" where
  "with_uni env u \<equiv> env\<lparr>de_swarm := (de_swarm env)\<lparr>e_uni := u\<rparr>\<rparr>"

lemma fresh_transfer_requests:
  assumes "transfer_posts (u\<lparr>http_request := h\<rparr>) req = transfer_posts u req" and "u = e_uni (de_swarm env)"
  shows "fresh_transfer (with_uni env (u\<lparr>http_request := h\<rparr>)) uid req = fresh_transfer env uid req"
proof -
  have "attempt (u\<lparr>http_request := h\<rparr>) ''POST'' (KH_BASE_URL @ ''/execute/transfer'') key (VDict (transfer_api req)) =
      attempt u ''POST'' (KH_BASE_URL @ ''/execute/transfer'') key (VDict (transfer_api req))" for key
    using fun_cong [OF assms(1), of key] by (simp add: attempt_def transfer_posts_def)
  then have "live_execute_transfer (u\<lparr>http_request := h\<rparr>) key b req = live_execute_transfer u key b req" for key b
    by (simp add: live_execute_transfer_def kh_request_def request_json_def retrying_def)
  then show ?thesis by (simp add: fresh_transfer_def kh_execute_transfer_def assms(2))
qed

lemma fresh_transfer_count:
  fixes cnt :: "'w \<Rightarrow> nat" and env :: "('n, 'w) dash_env"
  assumes "tenacity (e_uni (de_swarm env)) = retry_spec"
    and cnt: "\<And>key w. cnt (snd (transfer_posts (e_uni (de_swarm env)) req key w)) = Suc (cnt w)"
    and run: "fresh_transfer env uid req s = (k, s')"
  shows "cnt (da_net s') \<le> cnt (da_net s) + 3"
proof (cases "kh_enter (kh_from_env (e_getenv (de_swarm env)))")
  case (MockKH m)
  with run show ?thesis
    by (auto simp: fresh_transfer_def kh_execute_transfer_def on_kh_def sx_zoom_def split: prod.splits)
next
  case (LiveKH key b)
  let ?m = "attempt (e_uni (de_swarm env)) ''POST'' (KH_BASE_URL @ ''/execute/transfer'') key (VDict (transfer_api req))"
  have one: "cnt w' = Suc (cnt w)" if "?m w = (y, w')" for w y w'
    using that cnt [of key w]
    by (auto simp: attempt_def transfer_posts_def sx_bind_def sx_lift_def sx_return_def split: sum.splits prod.splits)
  obtain y w where y: "retry_spec 3 retryable ?m (da_net s) = (y, w)" by (rule prod.exhaust)
  from retry_spec_count [where cnt = cnt, OF one this] have "cnt w \<le> cnt (da_net s) + 3" by simp
  moreover have "da_net s' \<in> {w, da_net s}"
    using run LiveKH y assms(1)
    by (auto simp: fresh_transfer_def kh_execute_transfer_def on_kh_def sx_zoom_def sx_bind_def sx_lift_def sx_raise_def
        live_execute_transfer_def kh_request_def request_json_def retrying_def split: prod.splits sum.splits if_splits)
  ultimately show ?thesis by auto
qed

subsection \<open>Properties\<close>

text \<open>
  C10. A transfer is requested only as asked for, by one call of the KeeperHub client. Either the
  request is accepted: recipient and amount were given, the recipient resolved to an address, the
  network is one KeeperHub knows, exactly that transfer was asked for, and the reply is its
  execution id, or status 500 with the text of the exception when the call fails. Nothing but this
  transfer is sent: no other request has any influence, and a call sends it at most three times,
  as the client retries connection failures. Or it is refused: the reply is an error, because one of these
  conditions fails, nothing but the name was looked up, and no KeeperHub service has any influence.
\<close>

theorem transfer_as_requested:
  fixes env :: "('n, 'w) dash_env"
  assumes "transfer_to_ens env uid raw s = (r, s')"
    and "rc = str_strip (body_text (da_show env) (body_of raw) ''recipient'' [])"
    and "am = str_strip (body_text (da_show env) (body_of raw) ''amount'' [])"
    and "nw = str_strip (body_text (da_show env) (body_of raw) ''network'' ''base'')"
    and "u = e_uni (de_swarm env)"
  shows "(\<exists>req k s1. rc \<noteq> [] \<and> am \<noteq> [] \<and> tr_amount req = am \<and> network_value (tr_network req) = nw \<and>
      tr_token_address req = None \<and> tr_recipient_address req \<noteq> [] \<and>
      resolve_ens env rc s = (Inr (VStr (tr_recipient_address req)), s1) \<and> fresh_transfer env uid req s1 = (k, s') \<and>
      r = Inr (case k of
            Inl e \<Rightarrow> HTTPError 500 (exc_str e)
          | Inr kr \<Rightarrow> JSON (VDict [(''execution_id'', VStr (kr_execution_id kr)),
              (''resolved_address'', VStr (tr_recipient_address req)), (''recipient'', VStr rc), (''amount'', VStr am)])) \<and>
      (\<forall>h. transfer_posts (u\<lparr>http_request := h\<rparr>) req = transfer_posts u req \<longrightarrow>
         transfer_to_ens (with_uni env (u\<lparr>http_request := h\<rparr>)) uid raw s = (r, s')) \<and>
      (\<forall>cnt :: 'w \<Rightarrow> nat. tenacity u = retry_spec \<and> (\<forall>key w. cnt (snd (transfer_posts u req key w)) = Suc (cnt w)) \<longrightarrow>
         cnt (da_net s') \<le> cnt (da_net s1) + 3)) \<or>
    (\<exists>code msg. r = Inr (HTTPError code msg) \<and> code \<in> {400, 500} \<and>
      s' = (if rc = [] \<or> am = [] then s else snd (resolve_ens env rc s)) \<and>
      (rc = [] \<or> am = [] \<or> network_of nw = None \<or>
        \<not> (\<exists>a. a \<noteq> [] \<and> fst (resolve_ens env rc s) = Inr (VStr a))) \<and>
      (\<forall>v. transfer_to_ens (with_uni env v) uid raw s = (r, s')))"
proof (cases "rc = [] \<or> am = []")
  case True
  then show ?thesis using assms(1-4) by (intro disjI2) (auto simp: transfer_to_ens_def Let_def sx_return_def)
next
  case False
  obtain a s1 where a: "resolve_ens env rc s = (Inr a, s1)" using resolve_ens_returns by blast
  note run = transfer_run [OF _ assms(2-4) False _ a]
  note run0 = run [OF refl refl] and runu = run [OF resolve_ignores_trading(2,1)]
  show ?thesis
  proof (cases "truthy a \<and> (\<exists>req. transfer_request nw a am = Inr req)")
    case refused: False
    then obtain code msg where r: "r = Inr (HTTPError code msg)" "code \<in> {400, 500}" "s' = s1"
      "transfer_to_ens (with_uni env v) uid raw s = (r, s')" for v
      using assms(1) run0 runu by (cases "transfer_request nw a am") (auto simp: sx_return_def split: if_splits)
    have "network_of nw = None \<or> \<not> (\<exists>t. t \<noteq> [] \<and> a = VStr t)"
      using refused by (auto simp: transfer_request_def str_field_def split: option.splits)
    with r a False show ?thesis by (intro disjI2) simp
  next
    case True
    then obtain req where t: "truthy a" and req: "transfer_request nw a am = Inr req" by blast
    obtain k s2 where k: "fresh_transfer env uid req s1 = (k, s2)" by (rule prod.exhaust)
    have f: "a = VStr (tr_recipient_address req)" "tr_amount req = am" "network_value (tr_network req) = nw"
        "tr_token_address req = None"
      using req network_enum.parse_sound by (auto simp: transfer_request_def str_field_def res_bind_Inr_iff split: option.splits pyval.splits)
    have ne: "tr_recipient_address req \<noteq> []" using f(1) t by simp
    have r: "r = Inr (case k of
            Inl e \<Rightarrow> HTTPError 500 (exc_str e)
          | Inr kr \<Rightarrow> JSON (VDict [(''execution_id'', VStr (kr_execution_id kr)),
              (''resolved_address'', a), (''recipient'', VStr rc), (''amount'', VStr am)]))" "s2 = s'"
      using assms(1) run0 t req k by (cases k; simp add: sx_return_def)+
    have other: "transfer_to_ens (with_uni env (u\<lparr>http_request := h\<rparr>)) uid raw s = (r, s')"
      if "transfer_posts (u\<lparr>http_request := h\<rparr>) req = transfer_posts u req" for h
    proof -
      have step: "sx_bind (sx_lift (Inr req)) f = f req" for f :: "_ \<Rightarrow> (('n, 'w) dash_sys, http_reply) sx"
        by (simp add: fun_eq_iff)
      show ?thesis unfolding assms(1) [symmetric] run0 runu req step fresh_transfer_requests [OF that assms(5)] ..
    qed
    show ?thesis
      using False f(2-4) ne a [unfolded f(1)] k r [unfolded f(1)] other fresh_transfer_count [of env _ req uid s1 k s', unfolded assms(5) [symmetric]]
      by (intro disjI1 exI [of _ req] exI [of _ k] exI [of _ s1]) auto
  qed
qed

text \<open>A dashboard on in-memory services, without network.\<close>

definition dash_sample_env :: "(unit, unit) dash_env" where
  "dash_sample_env = \<lparr>de_swarm = cycle_env, de_ens = sample_ens_env, de_price = sample_price_env,
     de_get = (\<lambda>_. sx_raise (PyExc ConnectError ''offline''))\<rparr>"

definition dash_sample :: "(unit, unit) dash_sys" where
  "dash_sample = \<lparr>da_cycle = cycle_start, da_prices = initial_cache, da_config = []\<rparr>"

definition sample_address :: string where
  "sample_address = ''0x'' @ replicate 40 CHR ''1''"

theorem transfer_as_requested_witness:
  "\<exists>eid s'. transfer_to_ens dash_sample_env ''u'' (VDict [(''recipient'', VStr sample_address), (''amount'', VStr ''1'')]) dash_sample =
     (Inr (JSON (VDict [(''execution_id'', VStr eid), (''resolved_address'', VStr sample_address),
        (''recipient'', VStr sample_address), (''amount'', VStr ''1'')])), s')"
proof -
  let ?raw = "VDict [(''recipient'', VStr sample_address), (''amount'', VStr ''1'')]"
  obtain r s' where r: "transfer_to_ens dash_sample_env ''u'' ?raw dash_sample = (r, s')" by (rule prod.exhaust)
  have t: "str_strip (body_text repr (body_of ?raw) ''recipient'' []) = sample_address"
    "str_strip (body_text repr (body_of ?raw) ''amount'' []) = ''1''"
    "str_strip (body_text repr (body_of ?raw) ''network'' ''base'') = ''base''" for repr
    by (simp_all add: sample_address_def body_text_def body_of_def dget_def py_or_def py_str_def str_strip_def is_space_def numeral_eq_Suc)
  have "startswith ''0x'' sample_address \<and> str_len sample_address = 42"
    by (simp add: sample_address_def startswith_def str_len_def numeral_eq_Suc)
  then have a: "resolve_ens dash_sample_env sample_address dash_sample = (Inr (VStr sample_address), dash_sample)"
    by (simp add: resolve_ens_def sx_return_def)
  have q: "transfer_request ''base'' (VStr sample_address) ''1'' =
      Inr \<lparr>tr_network = BASE, tr_recipient_address = sample_address, tr_amount = ''1'', tr_token_address = None\<rparr>"
    by (simp add: transfer_request_def str_field_def network_of_def enum_of_def)
  obtain k s1 where k: "fresh_transfer dash_sample_env ''u''
      \<lparr>tr_network = BASE, tr_recipient_address = sample_address, tr_amount = ''1'', tr_token_address = None\<rparr> dash_sample = (Inr k, s1)"
    by (simp add: fresh_transfer_def dash_sample_env_def kh_from_env_def kh_enter_def kh_execute_transfer_def on_kh_def
        mock_execute_transfer_def make_execution_def sx_simps str_strip_def new_mock_kh_def Let_def)
  moreover have "sample_address \<noteq> []" by (simp add: sample_address_def)
  ultimately obtain b where b: "r = Inr (JSON b)" using r a q unfolding transfer_to_ens_def Let_def t by (auto simp: sx_return_def)
  from transfer_as_requested [OF r t(1) [symmetric] t(2) [symmetric] t(3) [symmetric] refl] show ?thesis
  proof (rule disjE, goal_cases)
    case 1
    then obtain s1 and req :: kh_transfer_request and kr :: "kh_exec_result res" where "resolve_ens dash_sample_env sample_address dash_sample = (Inr (VStr (tr_recipient_address req)), s1)"
      "r = Inr (case kr of Inl e \<Rightarrow> HTTPError 500 (exc_str e)
         | Inr kr \<Rightarrow> JSON (VDict [(''execution_id'', VStr (kr_execution_id kr)),
             (''resolved_address'', VStr (tr_recipient_address req)), (''recipient'', VStr sample_address), (''amount'', VStr ''1'')]))"
      by (elim exE conjE) (rule that; assumption)
    with a b r show ?thesis by (cases kr) auto
  qed (use b in auto)
qed


text \<open>
  An accepted signal may be lost: a request with a negative amount is answered with
  \<^verbatim>\<open>signal_injected\<close>, but its cycle never reaches a decision and records nothing, since the
  decision model refuses amounts that are not positive.
\<close>

theorem negative_amount_lost:
  assumes "dget (body_of raw) ''amount_wei'' VNone = VInt a" and "a < 0"
    and "py_int (py_or (dget (body_of raw) ''chain_id'' VNone) (VInt 8453)) = Inr chain"
  shows "\<exists>signal s'. signal_cycle env host ci raw s =
      (Inr (JSON (VDict [(''status'', VStr ''signal_injected''), (''signal'', VDict signal)])), s') \<and>
    dget signal ''amount_in_wei'' VNone = VInt a \<and>
    file_results (cy_file (da_cycle s')) = file_results (cy_file (da_cycle s))"
proof -
  have "py_int (py_or (dget (body_of raw) ''amount_wei'' VNone) (VInt 50000000000000000)) = Inr a"
    using assms(1,2) by (simp add: py_or_def)
  from inject_signal_returns [OF assms(3) this] obtain price s1 where
    i: "inject_signal env raw s = (Inr (JSON (VDict [(''status'', VStr ''signal_injected''),
              (''signal'', VDict (injected_signal (da_show env) (body_of raw) chain a price))]),
            Some (injected_signal (da_show env) (body_of raw) chain a price)), s1)" and k: "da_kept s1 = da_kept s"
    by blast
  let ?signal = "injected_signal (da_show env) (body_of raw) chain a price"
  have "py_int (dget ?signal ''amount_in_wei'' (VInt 100000000000000000)) = Inr a"
    by (simp add: injected_signal_def dget_def)
  from bad_amount_cycle [OF this] assms(2) obtain c where
    "run_trade_cycle (de_swarm env) host ci ?signal (da_cycle s1) = (Inr (), c)" "cy_record c = cy_record (da_cycle s1)"
    by fastforce
  then show ?thesis using i k
    by (auto simp: signal_cycle_def on_cycle_def sx_zoom_def sx_return_def cy_record_def da_kept_def injected_signal_def dget_def)
qed

theorem negative_amount_lost_witness:
  "\<exists>signal s'. signal_cycle dash_sample_env no_sidecar cycle_ins (VDict [(''amount_wei'', VInt (- 5))]) dash_sample =
      (Inr (JSON (VDict [(''status'', VStr ''signal_injected''), (''signal'', VDict signal)])), s') \<and>
    file_results (cy_file (da_cycle s')) = file_results empty_file"
proof -
  have "dget (body_of (VDict [(''amount_wei'', VInt (- 5))])) ''amount_wei'' VNone = VInt (- 5)"
    "py_int (py_or (dget (body_of (VDict [(''amount_wei'', VInt (- 5))])) ''chain_id'' VNone) (VInt 8453)) = Inr 8453"
    by (simp_all add: body_of_def dget_def py_or_def)
  from negative_amount_lost [OF this(1) _ this(2), of dash_sample_env no_sidecar cycle_ins dash_sample]
  show ?thesis by (auto simp: dash_sample_def cycle_start_def)
qed

text \<open>
  C33. The chat always answers: whatever the request body, the state file, the market data service and
  the model do, the handler replies with a text and changes neither the state file nor the
  configuration.
\<close>

theorem chat_always_replies:
  "\<exists>reply s'. chat env raw s = (Inr (JSON (VDict [(''reply'', reply)])), s') \<and>
     cy_file (da_cycle s') = cy_file (da_cycle s) \<and> da_config s' = da_config s"
proof (cases "normalise_chat_payload (da_show env) raw")
  case None
  then show ?thesis by (simp add: chat_def sx_return_def)
next
  case (Some ms)
  obtain x s' where x: "ai_chat env ms s = (Inr x, s')"
    unfolding ai_chat_def using sx_try_returns [where h = "\<lambda>e. VStr (''AI unavailable: '' @ exc_str e)"] by fast
  moreover have "da_kept s' = da_kept s" using keepsD [OF da_kept_ai_chat x] .
  ultimately show ?thesis using Some by (simp add: chat_def sx_return_def da_kept_def)
qed

lemma fill_keys_get:
  "dget (fold (\<lambda>k p. if \<not> truthy (dget p k VNone) \<and> truthy (dget fb k VNone) then AList.update k (dget fb k VNone) p else p) ks p) k VNone =
     (if k \<in> set ks \<and> \<not> truthy (dget p k VNone) \<and> truthy (dget fb k VNone) then dget fb k VNone else dget p k VNone)"
  (is "dget (fold ?f ks p) k VNone = _")
proof (induction ks arbitrary: p)
  case (Cons k' ks)
  have "dget (?f k' p) k VNone =
      (if k = k' \<and> \<not> truthy (dget p k VNone) \<and> truthy (dget fb k VNone) then dget fb k VNone else dget p k VNone)"
    by (auto simp: dget_def)
  then show ?case using Cons.IH [of "?f k' p"] by auto
qed simp

lemma role_entries_mem:
  "role_entries vs = Inr es \<Longrightarrow> (r, d) \<in> set es \<Longrightarrow> VDict d \<in> set vs \<and> dget d ''role'' VNone = r"
proof (induction vs arbitrary: es)
  case (Cons v vs)
  then show ?case by (cases "role_entries vs") (auto split: pyval.splits)
qed simp

lemma fill_profile_get:
  "dget (fill_profile fb p) k VNone =
     (if k \<in> set FILL_KEYS \<and> \<not> truthy (dget p k VNone) \<and> truthy (dget fb k VNone) then dget fb k VNone else dget p k VNone)"
  unfolding fill_profile_def by (rule fill_keys_get)


text \<open>
  The state file only fills gaps in the profiles that ENS resolution gave: a value that was resolved
  stays, a missing one of the five listed fields is taken from the last entry of the same role, and
  name, role and address never change.
\<close>

theorem merged_profiles:
  assumes "merge_profiles view profiles = Inr merged" and "i < length profiles"
  shows "length merged = length profiles \<and>
    (truthy (dget (profiles ! i) k VNone) \<or> k \<in> {''name'', ''role'', ''address''} \<longrightarrow>
       dget (merged ! i) k VNone = dget (profiles ! i) k VNone) \<and>
    (dget (merged ! i) k VNone = dget (profiles ! i) k VNone \<or>
       (\<exists>v items fb. vget view ''agent_profiles'' VNone = Inr v \<and> iter_items v = Inr items \<and> VDict fb \<in> set items \<and>
          dget fb ''role'' VNone = dget (profiles ! i) ''role'' VNone \<and> dget (merged ! i) k VNone = dget fb k VNone))"
proof -
  from assms(1) obtain v where v: "vget view ''agent_profiles'' VNone = Inr v" by (auto simp: merge_profiles_def res_bind_Inr_iff)
  show ?thesis
  proof (cases "truthy v")
    case False
    then show ?thesis using assms v by (simp add: merge_profiles_def)
  next
    case True
    then obtain items es where items: "iter_items v = Inr items" and es: "role_entries items = Inr es"
      and m: "merged = map (\<lambda>p. case map_of es (dget p ''role'' VNone) of Some fb \<Rightarrow> fill_profile fb p | None \<Rightarrow> p) profiles"
      using assms(1) v by (auto simp: merge_profiles_def res_bind_Inr_iff)
    show ?thesis
    proof (cases "map_of es (dget (profiles ! i) ''role'' VNone)")
      case None
      then show ?thesis using m assms(2) by simp
    next
      case (Some fb)
      then have "VDict fb \<in> set items" "dget fb ''role'' VNone = dget (profiles ! i) ''role'' VNone"
        using role_entries_mem [OF es] map_of_SomeD by fastforce+
      then show ?thesis using v items m assms(2) Some by (auto simp: fill_profile_get FILL_KEYS_def)
    qed
  qed
qed

theorem merged_profiles_witness:
  "\<exists>merged. merge_profiles (VDict [(''agent_profiles'', VList [VDict [(''role'', VStr ''risk''), (''tx'', VStr ''0x1'')]])])
       [[(''role'', VStr ''risk''), (''status'', VStr ''idle'')]] = Inr merged \<and>
     dget (merged ! 0) ''status'' VNone = VStr ''idle'' \<and> dget (merged ! 0) ''tx'' VNone = VStr ''0x1''"
proof -
  let ?view = "VDict [(''agent_profiles'', VList [VDict [(''role'', VStr ''risk''), (''tx'', VStr ''0x1'')]])]"
  let ?ps = "[[(''role'', VStr ''risk''), (''status'', VStr ''idle'')]]"
  obtain merged where m: "merge_profiles ?view ?ps = Inr merged" and t: "dget (merged ! 0) ''tx'' VNone = VStr ''0x1''"
    by (auto simp: merge_profiles_def vget_def dget_def iter_items_def fill_profile_def FILL_KEYS_def)
  have "(0 :: nat) < length ?ps" by simp
  from merged_profiles [OF m this, of "''status''"] m t show ?thesis by (auto simp: dget_def)
qed

text \<open>
  C32. A dashboard signal whose amount is positive and whose price is a number always gets a decision: if
  asking the model fails, whatever the body of the request was, the signal is held with risk 10.
\<close>

theorem injected_signal_holds:
  assumes "inject_signal env raw s = (Inr (reply, Some signal), s')"
    and "dget signal ''amount_in_wei'' VNone = VInt a" and "0 < a"
    and "py_float (dget signal ''price_usd'' VNone) = Inr x"
    and "\<And>p. ask_model renv p cs = (Inl e, cs1)"
  shows "\<exists>m. score renv mid now signal zero_key cs = (Inr m, cs1) \<and>
    dget (payload m) ''action'' VNone = VStr ''hold'' \<and> dget (payload m) ''risk_score'' VNone = VFloat (Fin 10) \<and>
    dget (payload m) ''rejection_reason'' VNone = VStr (''Inference error: '' @ exc_str e)"
proof -
  from assms(1) obtain body chain price where sig: "signal = injected_signal (da_show env) body chain a price"
    using assms(2)
    by (auto simp: inject_signal_def Let_def sx_return_def sx_try_def sx_bind_Inr_iff injected_signal_def dget_def
        split: prod.splits sum.splits)
  have sym: "\<exists>t. resolve_symbol (VStr u) c = Inr t" for u c
    by (auto simp: resolve_symbol_def split: option.splits)
  obtain t1 t2 where "resolve_symbol (dget signal ''token_in'' VNone) chain = Inr t1"
    "resolve_symbol (dget signal ''token_out'' VNone) chain = Inr t2"
    using sym unfolding sig injected_signal_def by (simp add: dget_def) blast
  moreover have "py_float (dget signal ''price_usd'' (VInt 0)) = Inr x" "py_int (dget signal ''chain_id'' (VInt 8453)) = Inr chain"
    using assms(4) unfolding sig by (simp_all add: injected_signal_def dget_def)
  ultimately obtain p where p: "build_user_prompt renv signal = Inr p" by (simp add: build_user_prompt_def Let_def)
  obtain n where n: "str_to_int 16 zero_key = Some n" using zero_key_hex by blast
  have l: "length zero_key = 64" by (simp add: zero_key_def)
  have d: "py_int (dget signal ''chain_id'' (VInt 8453)) = Inr chain"
    "py_int (dget signal ''amount_in_wei'' (VInt 100000000000000000)) = Inr a"
    "dget signal ''token_in'' (VStr DEFAULT_TOKEN_IN) = VStr (body_text (da_show env) body ''token_in'' DEFAULT_TOKEN_IN)"
    "dget signal ''token_out'' (VStr DEFAULT_TOKEN_OUT) = VStr (body_text (da_show env) body ''token_out'' DEFAULT_TOKEN_OUT)"
    unfolding sig by (simp_all add: injected_signal_def dget_def)
  from failed_inference_score [OF p assms(5) d(1,2) assms(3) d(3,4) l n, of mid now]
  show ?thesis by (auto simp: trade_decision_dump_def dget_def opt_str_def)
qed


theorem injected_signal_holds_witness:
  "\<exists>signal s' reply m. inject_signal dash_sample_env VNone dash_sample = (Inr (reply, Some signal), s') \<and>
     score (sample_risk_env (Inl (PyExc ValueError ''bad''))) ''m'' ''t'' signal zero_key (MockCompute, ()) = (Inr m, (MockCompute, ())) \<and>
     dget (payload m) ''action'' VNone = VStr ''hold''"
proof -
  have e: "eth_price dash_sample_env dash_sample = (Inr (VFloat (Fin 0)), dash_sample)"
    by (simp add: eth_price_def dash_sample_env_def on_wire_def sx_zoom_def sx_raise_def sx_try_def sx_bind_def sx_return_def
        set_net_def da_net_def)
  have i: "inject_signal dash_sample_env VNone dash_sample =
      (Inr (JSON (VDict [(''status'', VStr ''signal_injected''),
          (''signal'', VDict (injected_signal (da_show dash_sample_env) [] 8453 50000000000000000 (VFloat (Fin 0))))]),
        Some (injected_signal (da_show dash_sample_env) [] 8453 50000000000000000 (VFloat (Fin 0)))), dash_sample)"
    by (simp add: inject_signal_def body_of_def dget_def py_or_def e Let_def sx_return_def)
  show ?thesis
    using i injected_signal_holds [OF i, of 50000000000000000 "Fin 0" "sample_risk_env (Inl (PyExc ValueError ''bad''))"
        "(MockCompute, ())" "PyExc ValueError ''bad''" "(MockCompute, ())" "''m''" "''t''"]
    by (auto simp: injected_signal_def dget_def sample_ask)
qed

end
