(* ===== verification/Demo.thy ===== *)
theory Demo
  imports Dashboard
begin

text \<open>
  The command line demo (\<^verbatim>\<open>demo.py\<close>): a run of several cycles on the scanner's picks, the
  snapshot at its end and the state file it leaves for the dashboard. What is printed during the
  cycles is not modelled, except that computing it may raise; the time limits of \<^verbatim>\<open>wait_for\<close> are not
  modelled.
\<close>

subsection \<open>State\<close>

record demo_pair =
  dp_token_in :: string
  dp_token_out :: string
  dp_in_sym :: string
  dp_out_sym :: string
  dp_chain_id :: int
  dp_amount_wei :: int

definition DEMO_PAIRS :: "(string \<times> demo_pair) list" where
  "DEMO_PAIRS =
     [(''ETH_USDC'', \<lparr>dp_token_in = ''0x0000000000000000000000000000000000000000'',
         dp_token_out = ''0x833589fCD6eDb6E08f4c7C32D4f71b54bdA02913'', dp_in_sym = ''ETH'', dp_out_sym = ''USDC'',
         dp_chain_id = 8453, dp_amount_wei = 1000000000000000\<rparr>),
      (''ETH_USDT'', \<lparr>dp_token_in = ''0x0000000000000000000000000000000000000000'',
         dp_token_out = ''0xfde4C96c8593536E31F229EA8f37b2ADa2699bb2'', dp_in_sym = ''ETH'', dp_out_sym = ''USDT'',
         dp_chain_id = 8453, dp_amount_wei = 1000000000000000\<rparr>),
      (''USDC_ETH'', \<lparr>dp_token_in = ''0x833589fCD6eDb6E08f4c7C32D4f71b54bdA02913'',
         dp_token_out = ''0x0000000000000000000000000000000000000000'', dp_in_sym = ''USDC'', dp_out_sym = ''ETH'',
         dp_chain_id = 8453, dp_amount_wei = 100000000\<rparr>)]"

definition pair_for :: "string \<Rightarrow> demo_pair" where
  "pair_for key = (case map_of DEMO_PAIRS key of Some p \<Rightarrow> p | None \<Rightarrow> the (map_of DEMO_PAIRS ''ETH_USDC''))"

definition pair_json :: "demo_pair \<Rightarrow> pydict" where
  "pair_json p =
     [(''token_in'', VStr (dp_token_in p)), (''token_out'', VStr (dp_token_out p)), (''in_sym'', VStr (dp_in_sym p)),
      (''out_sym'', VStr (dp_out_sym p)), (''chain_id'', VInt (dp_chain_id p)), (''amount_wei'', VInt (dp_amount_wei p))]"

record ('n, 'w) demo_sys =
  dm_cycle :: "('n, 'w) cycle_sys"
  dm_prices :: price_cache
  dm_results :: "pydict list"
  dm_root :: "string option"
  dm_tx :: "string option"

definition in_cycle :: "(('n, 'w) cycle_sys, 'a) sx \<Rightarrow> (('n, 'w) demo_sys, 'a) sx" where
  "in_cycle m = sx_zoom dm_cycle (\<lambda>c s. s\<lparr>dm_cycle := c\<rparr>) m"

definition demo_wire :: "('w, 'a) sx \<Rightarrow> (('n, 'w) cycle_sys, 'a) sx" where
  "demo_wire m = sx_zoom (\<lambda>c. x_net (cy_x c)) (\<lambda>w c. c\<lparr>cy_x := (cy_x c)\<lparr>x_net := w\<rparr>\<rparr>) m"

definition demo_scan :: "'w price_env \<Rightarrow> int \<Rightarrow> (('n, 'w) demo_sys, scan_result) sx" where
  "demo_scan pe amount =
     sx_zoom (\<lambda>s. (dm_prices s, x_net (cy_x (dm_cycle s))))
       (\<lambda>(c, w) s. s\<lparr>dm_prices := c, dm_cycle := (dm_cycle s)\<lparr>cy_x := (cy_x (dm_cycle s))\<lparr>x_net := w\<rparr>\<rparr>\<rparr>)
       (scan_pairs pe amount)"

definition add_result :: "pydict \<Rightarrow> (('n, 'w) demo_sys, unit) sx" where
  "add_result r = sx_modify (\<lambda>s. s\<lparr>dm_results := dm_results s @ [r]\<rparr>)"

text \<open>\<^verbatim>\<open>_safe\<close>: whatever the storage call raises is swallowed.\<close>

definition safe :: "('s, 'a) sx \<Rightarrow> ('s, unit) sx" where
  "safe m = sx_try (sx_bind m (\<lambda>_. sx_return ())) (\<lambda>_. sx_return ())"

definition safe_status ::
  "('n, 'w) swarm_env \<Rightarrow> cycle_inputs \<Rightarrow> nat \<Rightarrow> memories \<Rightarrow> string \<Rightarrow> status_args \<Rightarrow> (('n, 'w) demo_sys, unit) sx" where
  "safe_status env ci i ms rl a = safe (in_cycle (cy_status env ci i ms rl a))"

definition safe_event ::
  "('n, 'w) swarm_env \<Rightarrow> cycle_inputs \<Rightarrow> nat \<Rightarrow> memories \<Rightarrow> string \<Rightarrow> log_event_type \<Rightarrow> pydict \<Rightarrow> (('n, 'w) demo_sys, unit) sx" where
  "safe_event env ci i ms rl ev data = safe (in_cycle (cy_event env ci i ms rl ev data))"

subsection \<open>Prices\<close>

text \<open>\<^verbatim>\<open>float(r.json()["ethereum"]["usd"])\<close>, 0.0 when anything raises.\<close>

definition fetch_eth_price :: "(string \<Rightarrow> ('w, http_resp) sx) \<Rightarrow> (('n, 'w) demo_sys, pyfloat) sx" where
  "fetch_eth_price get =
     sx_try
       (sx_bind (in_cycle (demo_wire (get ''https://api.coingecko.com/api/v3/simple/price?ids=ethereum&vs_currencies=usd''))) (\<lambda>r.
        sx_bind (sx_lift (json_body r)) (\<lambda>d.
        sx_bind (sx_lift (key_item d ''ethereum'')) (\<lambda>e.
        sx_bind (sx_lift (key_item e ''usd'')) (\<lambda>v.
        sx_lift (py_float v))))))
       (\<lambda>_. sx_return (Fin 0))"

definition start_price :: "pyfloat \<Rightarrow> pyfloat" where
  "start_price p = (if p = Fin 0 then Fin 3200 else p)"

definition cycle_price :: "pyfloat \<Rightarrow> nat \<Rightarrow> pyfloat" where
  "cycle_price p i = f_add p (Fin (of_nat (i * 20)))"

subsection \<open>The agents' parts of a cycle\<close>

definition fallback_signal :: "demo_pair \<Rightarrow> pyfloat \<Rightarrow> pydict" where
  "fallback_signal p price =
     [(''token_in'', VStr (dp_token_in p)), (''token_out'', VStr (dp_token_out p)),
      (''token_in_sym'', VStr (dp_in_sym p)), (''token_out_sym'', VStr (dp_out_sym p)),
      (''chain_id'', VInt (dp_chain_id p)), (''price_usd'', VFloat price), (''signal'', VStr ''weak''),
      (''reason'', VStr (''Fallback '' @ DASH @ '' scanner offline '' @ DOT @ '' '' @ dp_in_sym p @ ''/'' @ dp_out_sym p)),
      (''amount_in_wei'', VInt (dp_amount_wei p))]"

definition demo_signal :: "demo_pair \<Rightarrow> pyfloat \<Rightarrow> scan_result \<Rightarrow> pydict" where
  "demo_signal p price scan =
     (case best scan of None \<Rightarrow> fallback_signal p price | Some b \<Rightarrow> to_signal_payload b (dp_amount_wei p))"

definition report_signal ::
  "('n, 'w) swarm_env \<Rightarrow> cycle_inputs \<Rightarrow> memories \<Rightarrow> pydict \<Rightarrow> (('n, 'w) demo_sys, pydict) sx" where
  "report_signal env ci ms sig =
     sx_bind (safe_status env ci 0 ms ''researcher'' ((status_only AS_SCANNING)\<lparr>sa_last_signal := sig\<rparr>)) (\<lambda>_.
     sx_bind (safe_event env ci 1 ms ''researcher'' LE_MARKET_SIGNAL sig) (\<lambda>_.
     sx_bind (in_cycle (ens_text ''researcher'' ''swarmfi.role'' ''market_scanner'')) (\<lambda>_.
     sx_bind (in_cycle (ens_text ''researcher'' ''swarmfi.status'' ''scanning'')) (\<lambda>_.
     sx_bind (sx_lift (scan_text (show_val (e_risk env)) sig)) (\<lambda>t.
     sx_bind (in_cycle (ens_text ''researcher'' ''swarmfi.last'' t)) (\<lambda>_.
     sx_bind (in_cycle (on_bus (announce_market_signal (e_axl env) (show_val (e_risk env)) (ci_mid ci 0) (ci_now ci 1) (ci_now ci 2) sig))) (\<lambda>_.
     sx_return sig)))))))"

definition demo_researcher ::
  "('n, 'w) swarm_env \<Rightarrow> 'w price_env \<Rightarrow> cycle_inputs \<Rightarrow> memories \<Rightarrow> demo_pair \<Rightarrow> pyfloat \<Rightarrow> (('n, 'w) demo_sys, pydict) sx" where
  "demo_researcher env pe ci ms p price =
     sx_bind (demo_scan pe (dp_amount_wei p)) (\<lambda>scan. report_signal env ci ms (demo_signal p price scan))"

text \<open>
  \<^verbatim>\<open>int(risk * 3)\<close>, the filled part of the printed bar, and the text of the decision. The
  numbers of a decision are floats, on which \<open>py_float\<close> is the identity.
\<close>

definition bar_length :: "pydict \<Rightarrow> int res" where
  "bar_length dec =
     res_bind (py_float (dget dec ''risk_score'' (VFloat (Fin 5)))) (\<lambda>risk. py_int (VFloat (f_mul risk (Fin 3))))"

definition demo_risk_text :: "(pyval \<Rightarrow> string) \<Rightarrow> pydict \<Rightarrow> string res" where
  "demo_risk_text show dec =
     res_bind (py_float (dget dec ''risk_score'' (VFloat (Fin 5)))) (\<lambda>risk.
     res_bind (py_float (dget dec ''confidence'' (VFloat (Fin (1 / 2))))) (\<lambda>conf.
     res_bind (f_round_int (f_times_100 conf)) (\<lambda>pct.
     Inr (map char_upper (action_text show (dget dec ''action'' (VStr ''hold''))) @ '' '' @ DOT @ '' risk '' @ fmt_1f risk @ ''/10 '' @ DOT @
          '' conf '' @ str_int pct @ ''%''))))"

definition demo_risk ::
  "('n, 'w) swarm_env \<Rightarrow> cycle_inputs \<Rightarrow> memories \<Rightarrow> pydict \<Rightarrow> (('n, 'w) demo_sys, pydict) sx" where
  "demo_risk env ci ms sig =
     sx_bind (safe_status env ci 2 ms ''risk'' (status_only AS_DECIDING)) (\<lambda>_.
     sx_bind (in_cycle (on_scorer (score (e_risk env) (ci_mid ci 1) (ci_now ci 4) sig zero_key))) (\<lambda>dec_msg.
     let dec = payload dec_msg in
     sx_bind (sx_lift (bar_length dec)) (\<lambda>_.
     sx_bind (safe_status env ci 3 ms ''risk'' ((status_only AS_IDLE)\<lparr>sa_last_risk_score := payload_risk dec\<rparr>)) (\<lambda>_.
     sx_bind (safe_event env ci 4 ms ''risk'' LE_RISK_DECISION dec) (\<lambda>_.
     sx_bind (in_cycle (ens_text ''risk'' ''swarmfi.role'' ''ai_risk_scoring'')) (\<lambda>_.
     sx_bind (in_cycle (ens_text ''risk'' ''swarmfi.status'' ''idle'')) (\<lambda>_.
     sx_bind (sx_lift (demo_risk_text (show_val (e_risk env)) dec)) (\<lambda>t.
     sx_bind (in_cycle (ens_text ''risk'' ''swarmfi.last'' t)) (\<lambda>_.
     sx_bind (in_cycle (on_bus (announce_trade_decision (e_axl env) (show_val (e_risk env)) (ci_mid ci 2) (ci_now ci 6) (ci_now ci 7) dec))) (\<lambda>_.
     sx_return dec))))))))))"

text \<open>The recorded signal carries the symbols of the configured pair.\<close>

definition sig_view :: "demo_pair \<Rightarrow> pydict \<Rightarrow> pydict" where
  "sig_view p sig =
     AList.update ''token_out_sym'' (VStr (dp_out_sym p)) (AList.update ''token_in_sym'' (VStr (dp_in_sym p)) sig)"

definition held_result :: "demo_pair \<Rightarrow> nat \<Rightarrow> pydict \<Rightarrow> pydict \<Rightarrow> pydict" where
  "held_result p n sig dec =
     [(''cycle'', VInt (int n)), (''action'', VStr ''hold''), (''risk'', dget dec ''risk_score'' (VFloat (Fin 5))),
      (''confidence'', dget dec ''confidence'' (VFloat (Fin (1 / 2)))), (''reasoning'', dget dec ''reasoning'' (VStr [])),
      (''signal'', VDict (sig_view p sig))]"

text \<open>\<^verbatim>\<open>result.tx_hash or (result.error and "queued") or "dry-run"\<close>\<close>

definition shown_tx :: "swap_result \<Rightarrow> string" where
  "shown_tx r =
     (if str_truthy (sw_tx_hash r) then the (sw_tx_hash r)
      else if str_truthy (sw_error r) then ''queued'' else ''dry-run'')"

definition executed_result :: "demo_pair \<Rightarrow> nat \<Rightarrow> pydict \<Rightarrow> pydict \<Rightarrow> swap_result \<Rightarrow> pydict" where
  "executed_result p n sig dec r =
     [(''cycle'', VInt (int n)), (''action'', dget dec ''action'' (VStr ''hold'')), (''risk'', dget dec ''risk_score'' (VFloat (Fin 5))),
      (''tx'', VStr (shown_tx r)), (''confidence'', dget dec ''confidence'' (VFloat (Fin (1 / 2)))),
      (''reasoning'', dget dec ''reasoning'' (VStr [])), (''routing'', VStr (routing_text r)), (''signal'', VDict (sig_view p sig))]"

definition failed_result :: "demo_pair \<Rightarrow> nat \<Rightarrow> pydict \<Rightarrow> pydict \<Rightarrow> swap_result \<Rightarrow> pydict" where
  "failed_result p n sig dec r =
     [(''cycle'', VInt (int n)), (''action'', dget dec ''action'' (VStr ''hold'')), (''risk'', dget dec ''risk_score'' (VFloat (Fin 5))),
      (''error'', opt_text (sw_error r)), (''confidence'', dget dec ''confidence'' (VFloat (Fin (1 / 2)))),
      (''reasoning'', dget dec ''reasoning'' (VStr [])), (''signal'', VDict (sig_view p sig))]"

definition demo_hold ::
  "('n, 'w) swarm_env \<Rightarrow> cycle_inputs \<Rightarrow> memories \<Rightarrow> demo_pair \<Rightarrow> nat \<Rightarrow> pydict \<Rightarrow> pydict \<Rightarrow> (('n, 'w) demo_sys, unit) sx" where
  "demo_hold env ci ms p n sig dec =
     sx_bind (safe_event env ci 5 ms ''executor'' LE_TRADE_FAILED
        [(''action'', VStr ''HOLD''), (''reason'', dget dec ''rejection_reason'' (VStr ''risk gate''))]) (\<lambda>_.
     add_result (held_result p n sig dec))"

definition demo_swap ::
  "('n, 'w) swarm_env \<Rightarrow> cycle_inputs \<Rightarrow> demo_pair \<Rightarrow> pydict \<Rightarrow> (('n, 'w) demo_sys, swap_result) sx" where
  "demo_swap env ci p dec =
     (let wallet = getenv_or (e_getenv env) ''WALLET_ADDRESS'' []
      in in_cycle (on_executor (kh_execute_swap (e_uni env) (e_st env) (e_getenv env) \<lparr>kx_wallet = wallet, kx_has_zg = False\<rparr>
             (ci_ri ci) (str_of (dget dec ''token_in'' (VStr (dp_token_in p)))) (str_of (dget dec ''token_out'' (VStr (dp_token_out p))))
             (py_str (show_val (e_risk env)) (dget dec ''amount_in_wei'' (VInt (dp_amount_wei p))))
             (int_of_val (dget dec ''chain_id'' (VInt (dp_chain_id p)))) (Fin (1 / 2)) (Some wallet))))"

definition demo_executor ::
  "('n, 'w) swarm_env \<Rightarrow> cycle_inputs \<Rightarrow> memories \<Rightarrow> demo_pair \<Rightarrow> nat \<Rightarrow> pydict \<Rightarrow> pydict \<Rightarrow> (('n, 'w) demo_sys, unit) sx" where
  "demo_executor env ci ms p n sig dec =
     sx_bind (safe_status env ci 5 ms ''executor'' (status_only AS_EXECUTING)) (\<lambda>_.
     sx_bind (demo_swap env ci p dec) (\<lambda>r.
       if sw_succeeded r \<or> sw_status r = SW_SUBMITTED
       then sx_bind (safe_status env ci 6 ms ''executor'' ((status_only AS_IDLE)\<lparr>sa_last_tx_hash := Some (shown_tx r)\<rparr>)) (\<lambda>_.
            sx_bind (safe_event env ci 7 ms ''executor'' LE_TRADE_EXECUTED (swap_log_data r)) (\<lambda>_.
            sx_bind (in_cycle (executor_texts r)) (\<lambda>_.
            sx_bind (in_cycle (on_bus (announce_execution_result (e_axl env) (show_val (e_risk env)) (ci_mid ci 3) (ci_now ci 9) (ci_now ci 10)
              [(''tx_hash'', opt_text (sw_tx_hash r)), (''status'', VStr (swap_status_value (sw_status r))),
               (''routing'', opt_text (map_option routing_value (sw_routing r)))]))) (\<lambda>_.
            add_result (executed_result p n sig dec r)))))
       else sx_bind (safe_status env ci 6 ms ''executor'' (status_only AS_ERROR)) (\<lambda>_.
            sx_bind (safe_event env ci 7 ms ''executor'' LE_TRADE_FAILED (swap_log_data r)) (\<lambda>_.
            add_result (failed_result p n sig dec r)))))"

definition demo_readback :: "('n, 'w) swarm_env \<Rightarrow> cycle_inputs \<Rightarrow> memories \<Rightarrow> (('n, 'w) demo_sys, unit) sx" where
  "demo_readback env ci ms =
     safe (in_cycle (on_memory
       (sx_bind (mem_read_swarm_state (e_st env) (ci_now ci 11) (mem_of ms ''researcher'')) (\<lambda>_.
        on_mem (mem_of ms ''researcher'') (read_recent_log (e_st env) (ci_now ci 12) 3)))))"

definition demo_cycle ::
  "('n, 'w) swarm_env \<Rightarrow> 'w price_env \<Rightarrow> cycle_inputs \<Rightarrow> memories \<Rightarrow> demo_pair \<Rightarrow> pyfloat \<Rightarrow> nat \<Rightarrow> (('n, 'w) demo_sys, unit) sx" where
  "demo_cycle env pe ci ms p price n =
     sx_bind (demo_researcher env pe ci ms p price) (\<lambda>sig.
     sx_bind (demo_risk env ci ms sig) (\<lambda>dec.
       if dget dec ''action'' (VStr ''hold'') = VStr ''hold'' then demo_hold env ci ms p n sig dec
       else sx_bind (demo_executor env ci ms p n sig dec) (\<lambda>_. demo_readback env ci ms)))"

subsection \<open>The whole run\<close>

definition announce_start :: "('n, 'w) swarm_env \<Rightarrow> cycle_inputs \<Rightarrow> memories \<Rightarrow> (('n, 'w) demo_sys, unit) sx" where
  "announce_start env ci ms =
     sx_bind (sx_map (\<lambda>(i, rl, m).
         sx_bind (safe_status env ci (2 * i) ms rl (status_only AS_IDLE)) (\<lambda>_.
         safe_event env ci (2 * i + 1) ms rl LE_AGENT_STARTED [(''demo'', VBool True)])) (enumerate 0 ms)) (\<lambda>_. sx_return ())"

fun demo_cycles ::
  "('n, 'w) swarm_env \<Rightarrow> 'w price_env \<Rightarrow> (nat \<Rightarrow> cycle_inputs) \<Rightarrow> memories \<Rightarrow> demo_pair \<Rightarrow> pyfloat \<Rightarrow> nat list \<Rightarrow>
   (('n, 'w) demo_sys, unit) sx" where
  "demo_cycles env pe inp ms p price [] = sx_return ()"
| "demo_cycles env pe inp ms p price (i # is) =
     sx_bind (demo_cycle env pe (inp (Suc i)) ms p (cycle_price price i) (i + 1)) (\<lambda>_. demo_cycles env pe inp ms p price is)"

definition demo_view :: "string \<Rightarrow> demo_pair \<Rightarrow> ('n, 'w) demo_sys \<Rightarrow> pydict" where
  "demo_view now p s =
     [(''updated_at'', VStr now), (''snapshot_root'', opt_text (dm_root s)), (''snapshot_tx'', opt_text (dm_tx s)),
      (''cycles'', VInt (int (length (dm_results s)))),
      (''results'', VList (map VDict (py_from (- 20) (dm_results s)))), (''pair'', VDict (pair_json p))]"

definition publish_state_to_dashboard :: "string \<Rightarrow> demo_pair \<Rightarrow> (('n, 'w) demo_sys, unit) sx" where
  "publish_state_to_dashboard now p =
     sx_modify (\<lambda>s. s\<lparr>dm_cycle := (dm_cycle s)\<lparr>cy_file := write_state_file (VDict (demo_view now p s)) (cy_file (dm_cycle s))\<rparr>\<rparr>)"

text \<open>The snapshot of \<^verbatim>\<open>_flush_storage\<close>: nothing without buffering, \<^verbatim>\<open>None\<close> when it raises.\<close>

definition commit_snapshot ::
  "('n, 'w) swarm_env \<Rightarrow> string \<Rightarrow> (('n, 'w) demo_sys, string option \<times> string option) sx" where
  "commit_snapshot env now =
     sx_bind sx_get (\<lambda>s.
       if \<not> is_buffered (x_zg (cy_x (dm_cycle s))) then sx_return (None, None)
       else sx_try (sx_bind (in_cycle (on_storage (zg_flush (e_st env) now))) (\<lambda>rt.
                    sx_bind sx_get (\<lambda>s'. sx_return (rt, snapshot_tx (x_zg (cy_x (dm_cycle s')))))))
              (\<lambda>_. sx_return (None, None)))"

definition flush_storage :: "('n, 'w) swarm_env \<Rightarrow> cycle_inputs \<Rightarrow> demo_pair \<Rightarrow> (('n, 'w) demo_sys, unit) sx" where
  "flush_storage env ci p =
     sx_bind (commit_snapshot env (ci_now ci 0)) (\<lambda>(rt, tx).
     sx_bind (sx_modify (\<lambda>s. s\<lparr>dm_root := rt, dm_tx := tx\<rparr>)) (\<lambda>_.
     publish_state_to_dashboard (ci_now ci 1) p))"

definition demo_run ::
  "('n, 'w) swarm_env \<Rightarrow> 'w price_env \<Rightarrow> (string \<Rightarrow> ('w, http_resp) sx) \<Rightarrow> host_env \<Rightarrow>
   (nat \<Rightarrow> cycle_inputs) \<Rightarrow> string \<Rightarrow> int \<Rightarrow> (('n, 'w) demo_sys, unit) sx" where
  "demo_run env pe get host inp key cycles =
     sx_bind (fetch_eth_price get) (\<lambda>price.
     sx_bind (in_cycle (open_clients env host)) (\<lambda>ms.
     sx_bind (announce_start env (inp 0) ms) (\<lambda>_.
     sx_bind (demo_cycles env pe inp ms (pair_for key) (start_price price) [0..<nat cycles]) (\<lambda>_.
     flush_storage env (inp (Suc (nat cycles))) (pair_for key)))))"

record demo_summary =
  su_cycles :: nat
  su_executed :: nat
  su_held :: nat
  su_failed :: nat

definition summary :: "pydict list \<Rightarrow> demo_summary" where
  "summary rs =
     \<lparr>su_cycles = length rs,
      su_executed = length (filter (\<lambda>r. truthy (dget r ''tx'' VNone)) rs),
      su_held = length (filter (\<lambda>r. dget r ''action'' VNone = VStr ''hold'') rs),
      su_failed = length (filter (\<lambda>r. \<not> truthy (dget r ''tx'' VNone) \<and> dget r ''action'' VNone \<noteq> VStr ''hold'') rs)\<rparr>"

subsection \<open>The scanner always picks\<close>

lemma demo_scan_best:
  assumes "demo_scan pe amount s = (Inr scan, s')"
  shows "\<exists>b. best scan = Some b \<and> sc_pair b \<in> set PAIRS"
proof -
  obtain st st' where "scan_pairs pe amount st = (Inr scan, st')"
    using assms by (auto simp: demo_scan_def sx_zoom_def split: prod.splits)
  then obtain scored where r: "ranked scan = sort_desc scored" "best scan = Some (hd (ranked scan))" "map sc_pair scored = PAIRS"
    by (rule scan_pairs_returns)
  have "scored \<noteq> []" using r(3) by (auto simp: PAIRS_def)
  then have "sort_desc scored \<noteq> []" by (metis sort_desc_mset mset_zero_iff)
  then have "hd (ranked scan) \<in> set scored" using r(1) by (metis hd_in_set sort_desc_mset set_mset_mset)
  then show ?thesis using r(2,3) by (metis image_eqI list.set_map)
qed

lemma demo_signal_best: "best scan = Some b \<Longrightarrow> demo_signal p price scan = to_signal_payload b (dp_amount_wei p)"
  by (simp add: demo_signal_def)

lemma researcher_price: "demo_researcher env pe ci ms p price = demo_researcher env pe ci ms p price'"
  unfolding demo_researcher_def
  by (rule sx_bind_agree) (use demo_scan_best demo_signal_best in fastforce)

subsection \<open>Storage has no influence\<close>

definition x_beside :: "('n, 'w) xstate \<Rightarrow> uni_backend \<times> kh_backend \<times> 'w" where
  "x_beside x = (x_uni x, x_kh x, x_net x)"

definition cy_beside ::
  "('n, 'w) cycle_sys \<Rightarrow> (uni_backend \<times> kh_backend \<times> 'w) \<times> compute_backend \<times> 'w axl_bus \<times> 'w identity_state \<times> state_file" where
  "cy_beside c = (x_beside (cy_x c), cy_compute c, cy_bus c, cy_identity c, cy_file c)"

text \<open>Everything of the demo's state but the storage client and the stores on it.\<close>

definition beside_storage ::
  "('n, 'w) demo_sys \<Rightarrow>
   ((uni_backend \<times> kh_backend \<times> 'w) \<times> compute_backend \<times> 'w axl_bus \<times> 'w identity_state \<times> state_file) \<times>
   price_cache \<times> pydict list \<times> string option \<times> string option" where
  "beside_storage s = (cy_beside (dm_cycle s), dm_prices s, dm_results s, dm_root s, dm_tx s)"

lemma safe_keeps: "keeps g m \<Longrightarrow> keeps g (safe m)"
  unfolding safe_def by (intro keeps_try keeps_bind keeps_basic)

lemma safe_returns: "\<exists>s'. safe m s = (Inr (), s')"
proof -
  obtain r s1 where "m s = (r, s1)" by (rule prod.exhaust)
  then show ?thesis by (cases r) (simp_all add: safe_def sx_bind_def sx_try_def sx_return_def)
qed

lemma alike_safe:
  assumes "keeps g m" and "keeps g n"
  shows "alike g (safe m) (safe n)"
proof (rule alikeI)
  fix s t r s' r' t'
  assume "g s = g t" and s': "safe m s = (r, s')" and t': "safe n t = (r', t')"
  moreover have "r = Inr ()" "r' = Inr ()" using s' t' safe_returns [of m s] safe_returns [of n t] by auto
  ultimately show "r = r' \<and> g s' = g t'"
    using keepsD [OF safe_keeps [OF assms(1)] s'] keepsD [OF safe_keeps [OF assms(2)] t'] by simp
qed

lemma keeps_memory: "keeps beside_storage (in_cycle (on_memory m))"
  by (auto simp: keeps_def beside_storage_def cy_beside_def x_beside_def in_cycle_def on_memory_def sx_zoom_def split: prod.splits)

lemma keeps_zoomed:
  "keeps beside_storage (in_cycle m) \<Longrightarrow> keeps beside_storage (in_cycle (sx_bind m (\<lambda>_. sx_return x)))"
proof -
  assume "keeps beside_storage (in_cycle m)"
  moreover have "in_cycle (sx_bind m (\<lambda>_. sx_return x)) = sx_bind (in_cycle m) (\<lambda>_. sx_return x)"
    by (rule ext) (simp add: in_cycle_def sx_zoom_def sx_bind_def sx_return_def split: prod.split sum.split)
  ultimately show ?thesis by (simp add: keeps_bind)
qed

lemma alike_memory:
  "alike beside_storage (safe_status env ci i ms rl a) (safe_status env' ci i ms' rl a)"
  "alike beside_storage (safe_event env ci i ms rl ev data) (safe_event env' ci i ms' rl ev data)"
  "alike beside_storage (demo_readback env ci ms) (demo_readback env' ci ms')"
  unfolding safe_status_def safe_event_def demo_readback_def cy_status_def cy_event_def
  by (intro alike_safe keeps_zoomed keeps_memory)+

lemma alike_cycle: "alike cy_beside m n \<Longrightarrow> alike beside_storage (in_cycle m) (in_cycle n)"
  unfolding in_cycle_def by (rule alike_zoom) (auto simp: beside_storage_def)

lemma alike_steps:
  "alike cy_beside (ens_text rl k v) (ens_text rl k v)" "alike cy_beside (on_bus b) (on_bus b)" "alike cy_beside (on_scorer sc) (on_scorer sc)"
proof -
  show "alike cy_beside (ens_text rl k v) (ens_text rl k v)"
    unfolding ens_text_def by (rule alike_modify) (auto simp: cy_beside_def)
  show "alike cy_beside (on_bus b) (on_bus b)" "alike cy_beside (on_scorer sc) (on_scorer sc)"
    unfolding on_bus_def on_scorer_def
    by (rule alike_zoom_same; fastforce simp: cy_beside_def x_beside_def split: prod.splits)+
qed

lemma alike_scan: "alike beside_storage (demo_scan pe a) (demo_scan pe a)"
  unfolding demo_scan_def
  by (rule alike_zoom_same; fastforce simp: beside_storage_def cy_beside_def x_beside_def split: prod.splits)

lemma alike_result: "alike beside_storage (add_result r) (add_result r)"
  unfolding add_result_def by (rule alike_modify) (auto simp: beside_storage_def)

lemma alike_clients: "alike x_beside (on_uniswap m) (on_uniswap m)" "alike x_beside (on_keeperhub k) (on_keeperhub k)"
  unfolding on_uniswap_def on_keeperhub_def
  by (rule alike_zoom_same; fastforce simp: x_beside_def split: prod.splits)+

lemma alike_poll: "alike x_beside (poll_tx_hash env eid n l) (poll_tx_hash env eid n l)"
  by (induction n arbitrary: l) (auto intro!: alike_bind alike_try alike_clients split: option.splits)

lemma alike_outcome: "alike x_beside (commitment_outcome env eid) (commitment_outcome env eid)"
  unfolding commitment_outcome_def tx_hash_from_logs_def
  by (auto intro!: alike_bind alike_try alike_clients alike_poll split: option.splits sum.splits)

lemma alike_commitment:
  "alike x_beside (submit_treasury_commitment env getenv ex uid) (submit_treasury_commitment env getenv ex uid)"
  unfolding submit_treasury_commitment_def
  by (auto intro!: alike_bind alike_try alike_clients alike_outcome split: sum.splits)

text \<open>An executor without a storage client writes no audit.\<close>

lemma no_audit: "\<not> kx_has_zg ex \<Longrightarrow> write_audit senv ex ri au = sx_return ()"
  by (simp add: fun_eq_iff write_audit_def sx_return_def)

lemma alike_swap:
  "\<not> kx_has_zg ex \<Longrightarrow>
   alike x_beside (kh_execute_swap env senv getenv ex ri a b c d e w) (kh_execute_swap env senv' getenv ex ri a b c d e w)"
  unfolding kh_execute_swap_def kh_get_quote_def
  by (auto simp: no_audit intro!: alike_bind alike_try alike_clients alike_commitment)

lemma alike_demo_swap: "alike beside_storage (demo_swap env ci p dec) (demo_swap (env\<lparr>e_st := st\<rparr>) ci p dec)"
  unfolding demo_swap_def Let_def on_executor_def
  by (intro alike_cycle alike_zoom) (auto intro!: alike_swap simp: cy_beside_def)

lemmas alike_demo = alike_bind alike_memory alike_cycle alike_steps alike_scan alike_result alike_demo_swap alike_basic

lemma alike_researcher:
  "alike beside_storage (demo_researcher env pe ci ms p price) (demo_researcher (env\<lparr>e_st := st\<rparr>) pe ci ms' p price)"
  unfolding demo_researcher_def report_signal_def by (simp; intro alike_demo)

lemma alike_risk: "alike beside_storage (demo_risk env ci ms sig) (demo_risk (env\<lparr>e_st := st\<rparr>) ci ms' sig)"
  unfolding demo_risk_def Let_def by (simp; intro alike_demo)

lemma alike_executor_texts: "alike cy_beside (executor_texts r) (executor_texts r)"
  unfolding executor_texts_def by (auto intro!: alike_bind alike_steps)

lemma alike_executor:
  "alike beside_storage (demo_executor env ci ms p n sig dec) (demo_executor (env\<lparr>e_st := st\<rparr>) ci ms' p n sig dec)"
  unfolding demo_executor_def by (auto intro!: alike_demo alike_executor_texts)

lemma alike_demo_cycle:
  "alike beside_storage (demo_cycle env pe ci ms p price n) (demo_cycle (env\<lparr>e_st := st\<rparr>) pe ci ms' p price n)"
  unfolding demo_cycle_def demo_hold_def
  by (auto intro!: alike_demo alike_researcher alike_risk alike_executor)

lemma alike_demo_cycles:
  "alike beside_storage (demo_cycles env pe inp ms p price is) (demo_cycles (env\<lparr>e_st := st\<rparr>) pe inp ms' p price is)"
  by (induction "is") (auto intro!: alike_bind alike_demo_cycle)

subsection \<open>Recorded results\<close>

definition HELD_FIELDS :: "string list" where
  "HELD_FIELDS = [''cycle'', ''action'', ''risk'', ''confidence'', ''reasoning'', ''signal'']"

definition EXECUTED_FIELDS :: "string list" where
  "EXECUTED_FIELDS = [''cycle'', ''action'', ''risk'', ''tx'', ''confidence'', ''reasoning'', ''routing'', ''signal'']"

definition FAILED_FIELDS :: "string list" where
  "FAILED_FIELDS = [''cycle'', ''action'', ''risk'', ''error'', ''confidence'', ''reasoning'', ''signal'']"

text \<open>The fields of a signal that a demo result shows: the tokens and chain of a scanned pair.\<close>

definition picked_signal :: "pydict \<Rightarrow> bool" where
  "picked_signal sg \<longleftrightarrow>
     list_ex (\<lambda>q. dget sg ''token_in'' VNone = VStr (ps_token_in q) \<and> dget sg ''token_out'' VNone = VStr (ps_token_out q) \<and>
        dget sg ''chain_id'' VNone = VInt (ps_chain_id q)) PAIRS"

definition finite_val :: "pyval \<Rightarrow> rat option" where
  "finite_val v = (case v of VFloat (Fin q) \<Rightarrow> Some q | _ \<Rightarrow> None)"

lemma finite_val_Fin [simp]: "finite_val (VFloat (Fin q)) = Some q"
  by (simp add: finite_val_def)

definition demo_result_ok :: "demo_pair \<Rightarrow> nat \<Rightarrow> pydict \<Rightarrow> bool" where
  "demo_result_ok p n r \<longleftrightarrow>
     dget r ''cycle'' VNone = VInt (int n) \<and>
     (case (finite_val (dget r ''risk'' VNone), finite_val (dget r ''confidence'' VNone)) of
        (Some q, Some c) \<Rightarrow> 0 \<le> q \<and> q \<le> 10 \<and> 0 \<le> c \<and> c \<le> 1 \<and>
          (if dget r ''action'' VNone = VStr ''hold'' then map fst r = HELD_FIELDS
           else q < 7 \<and> dget r ''action'' VNone \<in> {VStr ''buy'', VStr ''sell''} \<and>
             (map fst r = FAILED_FIELDS \<or> map fst r = EXECUTED_FIELDS \<and> truthy (dget r ''tx'' VNone)))
      | _ \<Rightarrow> False) \<and>
     (case dget r ''signal'' VNone of
        VDict sg \<Rightarrow> picked_signal sg \<and> dget sg ''token_in_sym'' VNone = VStr (dp_in_sym p) \<and>
          dget sg ''token_out_sym'' VNone = VStr (dp_out_sym p)
      | _ \<Rightarrow> False)"

definition demo_record :: "('n, 'w) demo_sys \<Rightarrow> pydict list \<times> state_file" where
  "demo_record s = (dm_results s, cy_file (dm_cycle s))"

lemma keeps_in_cycle: "keeps cy_file m \<Longrightarrow> keeps demo_record (in_cycle m)"
  by (auto simp: keeps_def demo_record_def in_cycle_def sx_zoom_def case_prod_unfold)

lemma cy_file_kept [intro, simp]:
  "keeps cy_file (on_memory m)" "keeps cy_file (on_storage m')" "keeps cy_file (on_scorer c)" "keeps cy_file (on_bus b)"
  "keeps cy_file (on_executor x)" "keeps cy_file (ens_text rl k v)" "keeps cy_file (demo_wire g)" "keeps cy_file (open_clients env host)"
  by (auto simp: keeps_def on_memory_def on_storage_def on_scorer_def on_bus_def on_executor_def ens_text_def demo_wire_def
      open_clients_def sx_zoom_def sx_modify_def split: prod.splits sum.splits)

lemma demo_record_safe [intro, simp]:
  "keeps demo_record (safe_status env ci i ms rl a)" "keeps demo_record (safe_event env ci i ms rl ev data)"
  "keeps demo_record (demo_readback env ci ms)"
  unfolding safe_status_def safe_event_def demo_readback_def cy_status_def cy_event_def
  by (intro safe_keeps keeps_in_cycle keeps_bind cy_file_kept keeps_basic)+

lemma demo_record_scan [intro, simp]: "keeps demo_record (demo_scan pe a)"
  by (auto simp: keeps_def demo_record_def demo_scan_def sx_zoom_def split: prod.splits)

lemma demo_record_price [intro, simp]: "keeps demo_record (fetch_eth_price get)"
  unfolding fetch_eth_price_def by (intro keeps_try keeps_bind keeps_in_cycle cy_file_kept keeps_basic)

lemma demo_record_parts [intro, simp]:
  "keeps demo_record (demo_researcher env pe ci ms p price)" "keeps demo_record (demo_risk env ci ms sig)"
  "keeps demo_record (demo_swap env ci p dec)"
  unfolding demo_researcher_def report_signal_def demo_risk_def demo_swap_def Let_def by (auto intro!: keeps_bind keeps_in_cycle)

lemma demo_record_start [intro, simp]: "keeps demo_record (announce_start env ci ms)"
  unfolding announce_start_def by (auto intro!: keeps_bind keeps_map)

lemma cy_file_texts [intro, simp]: "keeps cy_file (executor_texts r)"
  unfolding executor_texts_def by (auto intro!: keeps_bind)

lemma demo_researcher_signal:
  assumes "demo_researcher env pe ci ms p price s = (Inr sig, s')"
  shows "\<exists>b. sig = to_signal_payload b (dp_amount_wei p) \<and> sc_pair b \<in> set PAIRS"
proof -
  from assms obtain scan s1 where "demo_scan pe (dp_amount_wei p) s = (Inr scan, s1)" and sig: "sig = demo_signal p price scan"
    by (auto simp: demo_researcher_def report_signal_def sx_bind_Inr_iff sx_return_def)
  then show ?thesis using demo_scan_best demo_signal_best by metis
qed

text \<open>The decision of a demo cycle; its numbers are finite, as the bar and the text are computed from them.\<close>

lemma score_payload:
  assumes "score renv mid now signal pk cs = (Inr m, cs')"
  shows "\<exists>d. payload m = trade_decision_dump d \<and> decision_ok (nan_valid renv) d"
proof -
  from assms obtain p reply d where d: "decision_of (nan_valid renv) signal reply = Inr d"
    and m: "make_message mid now MT_TRADE_DECISION RISK pk (trade_decision_dump d) = Inr m"
    by (rule score_Inr)
  obtain result where "reply = VDict result" using decision_of_dict [OF d] ..
  then show ?thesis using d decision_of_Inr(1) make_message_SomeD [OF m] by auto
qed

lemma demo_risk_decision:
  fixes s :: "('n, 'w) demo_sys"
  assumes "demo_risk env ci ms sig s = (Inr dec, s')"
  shows "\<exists>d q c. dec = trade_decision_dump d \<and> td_risk_score d = Fin q \<and> td_confidence d = Fin c \<and>
    0 \<le> q \<and> q \<le> 10 \<and> 0 \<le> c \<and> c \<le> 1 \<and> (td_action d \<noteq> HOLD \<longrightarrow> q < 7)"
proof -
  obtain m and s1 s2 :: "('n, 'w) demo_sys" where
    m: "in_cycle (on_scorer (score (e_risk env) (ci_mid ci 1) (ci_now ci 4) sig zero_key)) s1 = (Inr m, s2)"
    and dec: "dec = payload m" and bar: "\<exists>i. bar_length dec = Inr i" and tx: "\<exists>t. demo_risk_text (show_val (e_risk env)) dec = Inr t"
    using assms by (auto simp: demo_risk_def sx_bind_Inr_iff Let_def sx_return_def simp del: One_nat_def)
  obtain cs cs' where "score (e_risk env) (ci_mid ci 1) (ci_now ci 4) sig zero_key cs = (Inr m, cs')"
    using m by (auto simp: in_cycle_def on_scorer_def sx_zoom_def case_prod_unfold prod_eq_iff simp del: One_nat_def)
  then obtain d where d: "dec = trade_decision_dump d" "decision_ok (nan_valid (e_risk env)) d"
    using score_payload dec by blast
  have "td_risk_score d \<noteq> NaN" using bar d(1) by (auto simp: bar_length_def trade_decision_dump_def dget_def)
  moreover have "td_confidence d \<noteq> NaN"
    using tx d(1) by (auto simp: demo_risk_text_def trade_decision_dump_def dget_def res_bind_Inr_iff f_round_int_def f_times_100_def)
  ultimately show ?thesis using d
    by (cases "td_risk_score d"; cases "td_confidence d")
      (auto simp: decision_ok_def in_range_def f_ge_def RISK_THRESHOLD_def split: if_splits)
qed

lemma picked_to_signal:
  assumes "sc_pair b \<in> set PAIRS"
  shows "picked_signal (sig_view p (to_signal_payload b a))"
    and "dget (sig_view p (to_signal_payload b a)) ''token_in_sym'' VNone = VStr (dp_in_sym p)"
    and "dget (sig_view p (to_signal_payload b a)) ''token_out_sym'' VNone = VStr (dp_out_sym p)"
  using assms by (auto simp: picked_signal_def list_ex_iff sig_view_def dget_def to_signal_payload_def intro!: bexI [of _ "sc_pair b"])

lemma dget_Cons: "dget ((k, v) # d) k' dflt = (if k' = k then v else dget d k' dflt)"
  by (simp add: dget_def)

lemma shown_tx_not_Nil: "shown_tx r \<noteq> []"
  by (cases "sw_tx_hash r") (auto simp: shown_tx_def str_truthy_def)

lemma result_kinds_ok:
  assumes "sig = to_signal_payload b a" "sc_pair b \<in> set PAIRS" "dec = trade_decision_dump d"
    and "td_risk_score d = Fin q" "td_confidence d = Fin c" "0 \<le> q" "q \<le> 10" "0 \<le> c" "c \<le> 1"
    and "td_action d \<noteq> HOLD \<longrightarrow> q < 7"
  shows "demo_result_ok p n (held_result p n sig dec)"
    and "td_action d \<noteq> HOLD \<Longrightarrow> demo_result_ok p n (executed_result p n sig dec r)"
    and "td_action d \<noteq> HOLD \<Longrightarrow> demo_result_ok p n (failed_result p n sig dec r)"
proof -
  note fields_ok = demo_result_ok_def HELD_FIELDS_def EXECUTED_FIELDS_def FAILED_FIELDS_def
    picked_to_signal [OF assms(2)] trade_decision_dump_def shown_tx_not_Nil dget_Cons
  show "demo_result_ok p n (held_result p n sig dec)"
    unfolding assms(1,3) held_result_def using assms by (simp add: fields_ok)
  assume a: "td_action d \<noteq> HOLD"
  show "demo_result_ok p n (executed_result p n sig dec r)" "demo_result_ok p n (failed_result p n sig dec r)"
    unfolding assms(1,3) executed_result_def failed_result_def using assms a
    by (cases "td_action d"; simp add: fields_ok)+
qed

text \<open>\<open>records R m\<close>: a run of \<open>m\<close> that returns adds one result, in \<open>R\<close>, and leaves the state file alone.\<close>

definition records :: "(pydict \<Rightarrow> bool) \<Rightarrow> (('n, 'w) demo_sys, 'a) sx \<Rightarrow> bool" where
  "records R m \<longleftrightarrow> (\<forall>s y s'. m s = (Inr y, s') \<longrightarrow> (\<exists>r. R r \<and> demo_record s' = (dm_results s @ [r], cy_file (dm_cycle s))))"

lemma records_after:
  assumes "keeps demo_record m" and "\<And>x s s'. m s = (Inr x, s') \<Longrightarrow> records R (f x)"
  shows "records R (sx_bind m f)"
  unfolding records_def sx_bind_Inr_iff
proof (intro allI impI, elim exE conjE)
  fix s y s' x s1
  assume m: "m s = (Inr x, s1)" and f: "f x s1 = (Inr y, s')"
  have "demo_record s1 = demo_record s" using keepsD [OF assms(1) m] .
  then show "\<exists>r. R r \<and> demo_record s' = (dm_results s @ [r], cy_file (dm_cycle s))"
    using assms(2) [OF m] f unfolding records_def demo_record_def by (metis prod.inject)
qed

lemma records_before:
  assumes "records R m" and "\<And>x. keeps demo_record (f x)"
  shows "records R (sx_bind m f)"
  unfolding records_def sx_bind_Inr_iff
proof (intro allI impI, elim exE conjE)
  fix s y s' x s1
  assume m: "m s = (Inr x, s1)" and f: "f x s1 = (Inr y, s')"
  have "demo_record s' = demo_record s1" using keepsD [OF assms(2) f] .
  then show "\<exists>r. R r \<and> demo_record s' = (dm_results s @ [r], cy_file (dm_cycle s))"
    using assms(1) m by (auto simp: records_def)
qed

lemma records_add: "R r \<Longrightarrow> records R (add_result r)"
  by (auto simp: records_def add_result_def sx_modify_def demo_record_def)

lemma records_hold: "R (held_result p n sig dec) \<Longrightarrow> records R (demo_hold env ci ms p n sig dec)"
  unfolding demo_hold_def by (auto intro!: records_after records_add)

lemma records_executor:
  assumes "\<And>r. R (executed_result p n sig dec r)" and "\<And>r. R (failed_result p n sig dec r)"
  shows "records R (demo_executor env ci ms p n sig dec)"
  unfolding demo_executor_def by (auto intro!: records_after records_add keeps_in_cycle assms)

lemma records_cycle:
  fixes env :: "('n, 'w) swarm_env"
  shows "records (demo_result_ok p n) (demo_cycle env pe ci ms p price n)"
  unfolding demo_cycle_def
proof (intro records_after demo_record_parts)
  fix sig and s s1 :: "('n, 'w) demo_sys" and dec and s2 s3 :: "('n, 'w) demo_sys"
  assume sig: "demo_researcher env pe ci ms p price s = (Inr sig, s1)" and dec: "demo_risk env ci ms sig s2 = (Inr dec, s3)"
  obtain b where b: "sig = to_signal_payload b (dp_amount_wei p)" "sc_pair b \<in> set PAIRS" using demo_researcher_signal [OF sig] by blast
  obtain d q c where d: "dec = trade_decision_dump d" "td_risk_score d = Fin q" "td_confidence d = Fin c" "0 \<le> q" "q \<le> 10"
    "0 \<le> c" "c \<le> 1" "td_action d \<noteq> HOLD \<longrightarrow> q < 7" using demo_risk_decision [OF dec] by blast
  note ok = result_kinds_ok [OF b d]
  have "dget dec ''action'' (VStr ''hold'') = VStr ''hold'' \<longleftrightarrow> td_action d = HOLD"
    unfolding d(1) by (cases "td_action d") (simp_all add: trade_decision_dump_def dget_Cons)
  then show "records (demo_result_ok p n)
      (if dget dec ''action'' (VStr ''hold'') = VStr ''hold'' then demo_hold env ci ms p n sig dec
       else sx_bind (demo_executor env ci ms p n sig dec) (\<lambda>_. demo_readback env ci ms))"
    using ok by (auto intro!: records_hold records_before records_executor)
qed

lemma demo_cycles_results:
  assumes "demo_cycles env pe inp ms p price is s = (Inr (), s')"
  shows "\<exists>rs. demo_record s' = (dm_results s @ rs, cy_file (dm_cycle s)) \<and> list_all2 (\<lambda>i r. demo_result_ok p (i + 1) r) is rs"
  using assms
proof (induction "is" arbitrary: s)
  case Nil
  then show ?case by (simp add: sx_return_def demo_record_def)
next
  case (Cons i "is")
  then obtain s1 where c: "demo_cycle env pe (inp (Suc i)) ms p (cycle_price price i) (i + 1) s = (Inr (), s1)"
    and rest: "demo_cycles env pe inp ms p price is s1 = (Inr (), s')" by (auto simp: sx_bind_Inr_iff)
  obtain r where r: "demo_result_ok p (i + 1) r" "demo_record s1 = (dm_results s @ [r], cy_file (dm_cycle s))"
    using records_cycle c unfolding records_def by blast
  obtain rs where "demo_record s' = (dm_results s1 @ rs, cy_file (dm_cycle s1))" "list_all2 (\<lambda>i r. demo_result_ok p (i + 1) r) is rs"
    using Cons.IH [OF rest] by blast
  with r show ?case by (intro exI [of _ "r # rs"]) (auto simp: demo_record_def)
qed

subsection \<open>The end of a run\<close>

lemma demo_record_commit [intro, simp]: "keeps demo_record (commit_snapshot env now)"
  unfolding commit_snapshot_def by (auto intro!: keeps_try keeps_bind keeps_in_cycle)

lemma flush_storage_publishes:
  assumes "flush_storage env ci p s = (Inr (), s')"
  shows "dm_results s' = dm_results s \<and> cy_file (dm_cycle s') = write_state_file (VDict (demo_view (ci_now ci 1) p s')) (cy_file (dm_cycle s))"
proof -
  obtain rt tx s1 where c: "commit_snapshot env (ci_now ci 0) s = (Inr (rt, tx), s1)"
    and s': "sx_bind (sx_modify (\<lambda>s. s\<lparr>dm_root := rt, dm_tx := tx\<rparr>)) (\<lambda>_. publish_state_to_dashboard (ci_now ci 1) p) s1 = (Inr (), s')"
    using assms unfolding flush_storage_def sx_bind_Inr_iff [of "commit_snapshot env (ci_now ci 0)"] by auto
  have "demo_record s1 = demo_record s" using keepsD [OF demo_record_commit c] .
  then show ?thesis using s'
    by (auto simp: sx_bind_def sx_modify_def publish_state_to_dashboard_def demo_record_def demo_view_def)
qed

lemma demo_run_end:
  assumes "demo_run env pe get host inp key cycles s = (Inr (), s')"
  shows "\<exists>rs. dm_results s' = dm_results s @ rs \<and>
    list_all2 (\<lambda>i r. demo_result_ok (pair_for key) (i + 1) r) [0..<nat cycles] rs \<and>
    cy_file (dm_cycle s') = write_state_file
      (VDict (demo_view (ci_now (inp (Suc (nat cycles))) 1) (pair_for key) s')) (cy_file (dm_cycle s))"
proof -
  from assms obtain price ms s1 s2 s3 s4 where
    f: "fetch_eth_price get s = (Inr price, s1)" "in_cycle (open_clients env host) s1 = (Inr ms, s2)"
      "announce_start env (inp 0) ms s2 = (Inr (), s3)"
    and c: "demo_cycles env pe inp ms (pair_for key) (start_price price) [0..<nat cycles] s3 = (Inr (), s4)"
    and e: "flush_storage env (inp (Suc (nat cycles))) (pair_for key) s4 = (Inr (), s')"
    by (auto simp: demo_run_def sx_bind_Inr_iff)
  have "demo_record s3 = demo_record s"
    using keepsD [OF demo_record_price f(1)] keepsD [OF keeps_in_cycle [OF cy_file_kept(8)] f(2)] keepsD [OF demo_record_start f(3)] by simp
  then show ?thesis using demo_cycles_results [OF c] flush_storage_publishes [OF e] by (auto simp: demo_record_def)
qed

lemma dget_absent: "k \<notin> set (map fst d) \<Longrightarrow> dget d k dflt = dflt"
  using map_of_eq_None_iff [of d k] by (simp add: dget_def)

lemma demo_result_tx:
  assumes "demo_result_ok p n r" and "truthy (dget r ''tx'' VNone)"
  shows "dget r ''action'' VNone \<noteq> VStr ''hold''"
proof
  assume "dget r ''action'' VNone = VStr ''hold''"
  then have "map fst r = HELD_FIELDS" using assms(1) by (auto simp: demo_result_ok_def split: option.splits)
  then have "dget r ''tx'' VNone = VNone" by (intro dget_absent) (simp add: HELD_FIELDS_def)
  then show False using assms(2) by simp
qed

lemma summary_partition:
  assumes "\<forall>r \<in> set rs. truthy (dget r ''tx'' VNone) \<longrightarrow> dget r ''action'' VNone \<noteq> VStr ''hold''"
  shows "su_executed (summary rs) + su_held (summary rs) + su_failed (summary rs) = su_cycles (summary rs)"
  using assms by (induction rs) (auto simp: summary_def)

subsection \<open>A worked run\<close>

text \<open>One cycle with in-memory services, no price of ether, the sample prices of the scanner and a model that asks for a risky buy.\<close>

definition demo_start :: "(unit, unit) demo_sys" where
  "demo_start = \<lparr>dm_cycle = cycle_start, dm_prices = initial_cache, dm_results = [], dm_root = None, dm_tx = None\<rparr>"

definition no_price :: "string \<Rightarrow> (unit, http_resp) sx" where
  "no_price url = sx_raise (PyExc ConnectError ''offline'')"

definition demo_ready :: "(unit, unit) demo_sys \<Rightarrow> bool" where
  "demo_ready s \<longleftrightarrow> cy_compute (dm_cycle s) = MockCompute \<and> bus_registry (cy_bus (dm_cycle s)) = None"

definition scan_ready :: "(unit, unit) demo_sys \<Rightarrow> bool" where
  "scan_ready s \<longleftrightarrow> demo_ready s \<and> dm_prices s = initial_cache"

lemma delivers_safe:
  assumes "keeps beside_storage m"
  shows "delivers demo_ready (safe m) (\<lambda>_. True)" "delivers scan_ready (safe m) (\<lambda>_. True)"
proof -
  have "P s' = P s" if "safe m s = (r, s')" "P = demo_ready \<or> P = scan_ready" for s s' r P
    using keepsD [OF safe_keeps [OF assms] that(1)] that(2)
    by (auto simp: beside_storage_def cy_beside_def scan_ready_def demo_ready_def)
  then show "delivers demo_ready (safe m) (\<lambda>_. True)" "delivers scan_ready (safe m) (\<lambda>_. True)"
    unfolding delivers_def using safe_returns [of m] by metis+
qed

lemma ready_memory:
  "delivers demo_ready (safe_status env ci i ms rl a) (\<lambda>_. True)" "delivers demo_ready (safe_event env ci i ms rl ev data) (\<lambda>_. True)"
  "delivers scan_ready (safe_status env ci i ms rl a) (\<lambda>_. True)" "delivers scan_ready (safe_event env ci i ms rl ev data) (\<lambda>_. True)"
  unfolding safe_status_def safe_event_def cy_status_def cy_event_def
  by (intro delivers_safe keeps_zoomed keeps_memory)+

lemma delivers_map: "(\<And>x. delivers P (f x) (\<lambda>_. True)) \<Longrightarrow> delivers P (sx_map f xs) (\<lambda>_. True)"
  by (induction xs) (auto intro!: delivers_seq delivers_return)

lemma ready_start: "delivers scan_ready (announce_start env ci ms) (\<lambda>_. True)"
  unfolding announce_start_def
  by (auto intro!: delivers_seq delivers_map delivers_return ready_memory split: prod.split)

lemma ready_text: "delivers demo_ready (in_cycle (ens_text rl k v)) (\<lambda>_. True)"
  by (simp add: delivers_def in_cycle_def ens_text_def sx_zoom_def sx_modify_def demo_ready_def)

lemma ready_bus: "delivers demo_ready (in_cycle (on_bus (bus_send sample_axl_env sh mid now now2 a b mt pl))) (\<lambda>_. True)"
proof -
  have "\<exists>c'. bus_send sample_axl_env sh mid now now2 a b mt pl (cy_bus (dm_cycle s)\<lparr>bus_net := w\<rparr>) = (Inr None, c') \<and> bus_registry c' = None"
    if "demo_ready s" for s w
    using that by (intro no_node) (simp add: demo_ready_def)
  then show ?thesis by (fastforce simp: delivers_def demo_ready_def in_cycle_def on_bus_def sx_zoom_def)
qed

lemma risky_score_signal:
  fixes b :: pair_score and a :: int
  defines "sig \<equiv> to_signal_payload b a"
  assumes "sc_pair b \<in> set PAIRS" and "0 < a"
  shows "\<exists>m. score (sample_risk_env (Inr risky_reply)) mid now sig zero_key (MockCompute, ()) = (Inr m, (MockCompute, ())) \<and>
     (\<exists>d. payload m = trade_decision_dump d \<and> td_risk_score d = Fin 9 \<and> td_confidence d = Fin 1)"
proof -
  let ?env = "sample_risk_env (Inr risky_reply) :: unit risk_env"
  have p: "\<exists>p. build_user_prompt ?env sig = Inr p"
    using assms(2) by (auto simp: build_user_prompt_def sig_def to_signal_payload_def dget_Cons Let_def PAIRS_def resolve_symbol_def res_bind_def split: option.splits)
  have i: "infer ?env p (MockCompute, ()) = (Inr risky_reply, (MockCompute, ()))" for p
    by (simp add: infer_def sample_ask)
  have b: "str_lower ''buy'' = ''buy''" by (simp add: str_lower_def char_lower_def)
  have "\<exists>d. decision_of (nan_valid ?env) sig risky_reply = Inr d \<and> td_risk_score d = Fin 9 \<and> td_confidence d = Fin 1"
    using assms(3) by (simp add: decision_of_def sig_def to_signal_payload_def risky_reply_def dget_def b risk_gate_def RISK_THRESHOLD_def Let_def str_field_def py_or_def
        validate_trade_decision_def hold_needs_reason_def str_truthy_def sample_risk_env_def)
  then obtain d where d: "decision_of (nan_valid ?env) sig risky_reply = Inr d" "td_risk_score d = Fin 9" "td_confidence d = Fin 1" by blast
  obtain n where "str_to_int 16 zero_key = Some n" using zero_key_hex by blast
  then obtain m where m: "make_message mid now MT_TRADE_DECISION RISK zero_key (trade_decision_dump d) = Inr m"
    and pl: "payload m = trade_decision_dump d"
    using make_message_total [of zero_key n] by (fastforce simp: zero_key_def)
  with p i d show ?thesis by (auto simp: score_def)
qed

abbreviation demo_pick :: "demo_pair \<Rightarrow> pydict \<Rightarrow> bool" where
  "demo_pick p sig \<equiv> \<exists>b. sig = to_signal_payload b (dp_amount_wei p) \<and> sc_pair b \<in> set PAIRS"

definition risky_decision :: "pydict \<Rightarrow> bool" where
  "risky_decision dec \<longleftrightarrow> (\<exists>d. dec = trade_decision_dump d \<and> td_risk_score d = Fin 9 \<and> td_confidence d = Fin 1)"

lemma ready_score:
  assumes "demo_pick p sig" and "0 < dp_amount_wei p"
  shows "delivers demo_ready (in_cycle (on_scorer (score (sample_risk_env (Inr risky_reply)) mid now sig zero_key)))
    (\<lambda>m. risky_decision (payload m))"
proof -
  obtain b where "sc_pair b \<in> set PAIRS" and sig: "sig = to_signal_payload b (dp_amount_wei p)" using assms(1) by blast
  from risky_score_signal [OF this(1) assms(2), of mid now] obtain m where
    "score (sample_risk_env (Inr risky_reply)) mid now sig zero_key (MockCompute, ()) = (Inr m, (MockCompute, ()))" "risky_decision (payload m)"
    unfolding sig risky_decision_def by blast
  then show ?thesis by (auto simp: delivers_def demo_ready_def in_cycle_def on_scorer_def sx_zoom_def)
qed

lemma ready_decision:
  assumes "risky_decision dec"
  shows "\<exists>i. bar_length dec = Inr i" and "\<exists>t. demo_risk_text sh dec = Inr t"
proof -
  have "fl 27 = Fin 27" "fl 100 = Fin 100" using fl_of_int [of 27] fl_of_int [of 100] by simp_all
  with assms show "\<exists>i. bar_length dec = Inr i" "\<exists>t. demo_risk_text sh dec = Inr t"
    by (auto simp: risky_decision_def bar_length_def demo_risk_text_def trade_decision_dump_def dget_Cons f_round_int_def f_times_100_def)
qed

lemma deliversD: "delivers P m Q \<Longrightarrow> P s \<Longrightarrow> \<exists>x s'. m s = (Inr x, s') \<and> P s' \<and> Q x"
  by (simp add: delivers_def)

lemma delivers_ex_lift: "\<exists>x. r = Inr x \<Longrightarrow> delivers P (sx_lift r) (\<lambda>_. True)"
  by (auto simp: delivers_def sx_lift_def)

lemma ready_report:
  assumes "demo_pick p sig"
  shows "delivers demo_ready (report_signal cycle_env ci ms sig) (\<lambda>sig'. sig' = sig)"
proof -
  have "\<exists>t. scan_text (show_val (e_risk cycle_env)) sig = Inr t"
    using assms by (auto simp: scan_text_def to_signal_payload_def dget_Cons)
  then show ?thesis unfolding report_signal_def announce_market_signal_def cycle_env_simps(3)
    by (auto intro!: delivers_seq delivers_return ready_memory ready_text ready_bus delivers_ex_lift)
qed

lemma ready_researcher:
  assumes "demo_ready s" and "dm_prices s = initial_cache" and "dp_amount_wei p = 1000000000000000"
  shows "\<exists>sig s'. demo_researcher cycle_env sample_price_env ci ms p price s = (Inr sig, s') \<and> demo_ready s'"
proof -
  obtain scan st' where "scan_pairs sample_price_env 1000000000000000 (initial_cache, ()) = (Inr scan, st')"
    using sample_scan by blast
  then obtain s1 where s1: "demo_scan sample_price_env (dp_amount_wei p) s = (Inr scan, s1)" "demo_ready s1"
    using assms by (cases st') (auto simp: demo_scan_def sx_zoom_def demo_ready_def)
  have "demo_pick p (demo_signal p price scan)" using demo_scan_best [OF s1(1)] demo_signal_best by metis
  from ready_report [OF this] show ?thesis using s1 unfolding demo_researcher_def delivers_def by fastforce
qed

lemma ready_risk:
  assumes "demo_pick p sig" and "0 < dp_amount_wei p"
  shows "delivers demo_ready (demo_risk cycle_env ci ms sig) risky_decision"
  unfolding demo_risk_def Let_def cycle_env_simps announce_trade_decision_def
  by (rule delivers_seq [OF ready_memory(1)], rule delivers_bind [OF ready_score [OF assms]])
    (auto intro!: delivers_seq delivers_return ready_memory ready_text ready_bus delivers_ex_lift ready_decision)

text \<open>A decision with a risk of 9 is a hold.\<close>

lemma ready_cycle:
  assumes "demo_ready s" and "dm_prices s = initial_cache" and "dp_amount_wei p = 1000000000000000"
  shows "\<exists>s'. demo_cycle cycle_env sample_price_env ci ms p price n s = (Inr (), s')"
proof -
  obtain sig s1 where r: "demo_researcher cycle_env sample_price_env ci ms p price s = (Inr sig, s1)" "demo_ready s1"
    using ready_researcher [OF assms] by blast
  obtain dec s2 where k: "demo_risk cycle_env ci ms sig s1 = (Inr dec, s2)" "risky_decision dec"
    using deliversD [OF ready_risk [OF demo_researcher_signal [OF r(1)], of ci ms], of s1] r(2) assms(3) by auto
  obtain d q where "dec = trade_decision_dump d" "td_risk_score d = Fin q" "td_action d \<noteq> HOLD \<longrightarrow> q < 7"
    using demo_risk_decision [OF k(1)] by blast
  moreover have "q = 9" using calculation(1,2) k(2) by (auto simp: risky_decision_def trade_decision_dump_def)
  ultimately have h: "dget dec ''action'' (VStr ''hold'') = VStr ''hold''" by (auto simp: trade_decision_dump_def dget_Cons)
  obtain s3 where "safe_event cycle_env ci 5 ms ''executor'' LE_TRADE_FAILED
     [(''action'', VStr ''HOLD''), (''reason'', dget dec ''rejection_reason'' (VStr ''risk gate''))] s2 = (Inr (), s3)"
    unfolding safe_event_def using safe_returns by metis
  then show ?thesis using r(1) k(1) h by (simp add: demo_cycle_def demo_hold_def add_result_def sx_modify_def)
qed

lemma commit_returns: "\<exists>x s'. commit_snapshot env now s = (Inr x, s')"
proof (cases "is_buffered (x_zg (cy_x (dm_cycle s)))")
  case True
  let ?guarded = "\<lambda>s'. sx_try (sx_bind (in_cycle (on_storage (zg_flush (e_st env) now))) (\<lambda>rt.
      sx_bind sx_get (\<lambda>s'. sx_return (rt, snapshot_tx (x_zg (cy_x (dm_cycle s')))))))
    (\<lambda>_. sx_return (None, None)) s'"
  have "commit_snapshot env now s = ?guarded s"
    using True unfolding commit_snapshot_def by (simp add: sx_get_def [THEN fun_cong])
  then show ?thesis by (simp only: sx_try_returns)
qed (simp add: commit_snapshot_def sx_get_def sx_return_def)

lemma demo_runs:
  "\<exists>s'. demo_run cycle_env sample_price_env no_price no_sidecar (\<lambda>_. cycle_ins) ''ETH_USDC'' 1 demo_start = (Inr (), s')"
proof -
  have f: "fetch_eth_price no_price demo_start = (Inr (Fin 0), demo_start)"
    by (simp add: fetch_eth_price_def no_price_def in_cycle_def demo_wire_def sx_zoom_def sx_bind_def sx_try_def sx_raise_def sx_return_def
        demo_start_def cycle_start_def sample_xstate_def)
  obtain c where o: "open_clients cycle_env no_sidecar cycle_start = (Inr cycle_mems, c)" "cycle_ready c" using cycle_opens by blast
  let ?s1 = "demo_start\<lparr>dm_cycle := c\<rparr>"
  have s1: "in_cycle (open_clients cycle_env no_sidecar) demo_start = (Inr cycle_mems, ?s1)" "scan_ready ?s1"
    using o by (simp_all add: in_cycle_def sx_zoom_def demo_start_def scan_ready_def demo_ready_def cycle_ready_def)
  obtain s2 where s2: "announce_start cycle_env cycle_ins cycle_mems ?s1 = (Inr (), s2)" "scan_ready s2"
    using deliversD [OF ready_start [of cycle_env cycle_ins cycle_mems] s1(2)] by auto
  have "dp_amount_wei (pair_for ''ETH_USDC'') = 1000000000000000" by (simp add: pair_for_def DEMO_PAIRS_def)
  from ready_cycle [OF _ _ this] s2(2) obtain s3 where
    "demo_cycle cycle_env sample_price_env cycle_ins cycle_mems (pair_for ''ETH_USDC'') (cycle_price (start_price (Fin 0)) 0) (Suc 0) s2 = (Inr (), s3)"
    unfolding scan_ready_def by blast
  moreover obtain x s4 where "commit_snapshot cycle_env (ci_now cycle_ins 0) s3 = (Inr x, s4)" using commit_returns by blast
  ultimately show ?thesis using f s1(1) s2(1)
    by (cases x) (simp add: demo_run_def flush_storage_def publish_state_to_dashboard_def sx_modify_def sx_return_def)
qed

subsection \<open>Properties\<close>

text \<open>
  C15. Storage failures never reach the demo: whatever the storage network does, whatever the stores
  hold and whatever memories the agents were given, a series of cycles has the same outcome, the
  same recorded results, the same prices, trading clients, identity, bus and state file.
\<close>

theorem demo_ignores_storage:
  assumes "beside_storage s = beside_storage t"
    and "demo_cycles env pe inp ms p price is s = (r, s')"
    and "demo_cycles (env\<lparr>e_st := st\<rparr>) pe inp ms' p price is t = (r', t')"
  shows "r = r' \<and> beside_storage s' = beside_storage t'"
  using alikeD [OF alike_demo_cycles assms(1,2,3)] .

theorem demo_ignores_storage_witness:
  "\<exists>r s' t'. beside_storage s' = beside_storage t' \<and>
     demo_cycles cycle_env sample_price_env (\<lambda>_. cycle_ins) cycle_mems (pair_for ''ETH_USDC'') (Fin 3200) [0, 1] demo_start = (r, s') \<and>
     demo_cycles (cycle_env\<lparr>e_st := audit_env\<rparr>) sample_price_env (\<lambda>_. cycle_ins) cycle_mems (pair_for ''ETH_USDC'') (Fin 3200) [0, 1]
       (demo_start\<lparr>dm_cycle := cycle_start\<lparr>cy_kvs := [new_kv, new_kv]\<rparr>\<rparr>) = (r, t')"
proof -
  have b: "beside_storage demo_start = beside_storage (demo_start\<lparr>dm_cycle := cycle_start\<lparr>cy_kvs := [new_kv, new_kv]\<rparr>\<rparr>)"
    by (simp add: beside_storage_def cy_beside_def demo_start_def)
  obtain r s' where r: "demo_cycles cycle_env sample_price_env (\<lambda>_. cycle_ins) cycle_mems (pair_for ''ETH_USDC'') (Fin 3200) [0, 1]
      demo_start = (r, s')" by (rule prod.exhaust)
  obtain r' t' where r': "demo_cycles (cycle_env\<lparr>e_st := audit_env\<rparr>) sample_price_env (\<lambda>_. cycle_ins) cycle_mems
      (pair_for ''ETH_USDC'') (Fin 3200) [0, 1] (demo_start\<lparr>dm_cycle := cycle_start\<lparr>cy_kvs := [new_kv, new_kv]\<rparr>\<rparr>) = (r', t')"
    by (rule prod.exhaust)
  show ?thesis using demo_ignores_storage [OF b r r'] r r' by blast
qed

text \<open>
  The price of ether that the demo fetches at its start, or takes to be 3200 dollars when it cannot,
  is for display: the cycles run the same with any other price, since the scanner always promotes a
  pair and its signal carries the scanner's own price.
\<close>

theorem demo_price_unused:
  "demo_cycles env pe inp ms p price is = demo_cycles env pe inp ms p price' is"
proof (induction "is")
  case (Cons i "is")
  have "demo_cycle env pe (inp (Suc i)) ms p (cycle_price price i) (i + 1) = demo_cycle env pe (inp (Suc i)) ms p (cycle_price price' i) (i + 1)"
    unfolding demo_cycle_def researcher_price [where price = "cycle_price price i" and price' = "cycle_price price' i"] ..
  with Cons show ?case by simp
qed simp

text \<open>
  C14. The results of a run that returns are well-typed: there is one per cycle, numbered in order, each
  with a risk between 0 and 10 and a confidence between 0 and 1; it is either a hold, or a buy or
  sell whose risk is below 7 and that either failed, with an error, or shows a transaction and
  no error; its signal has the tokens of a scanned pair, but the symbols of the pair the
  demo was configured with. The summary counts every result in exactly one of its three groups.
\<close>

theorem demo_results_typed:
  assumes "demo_run env pe get host inp key cycles s = (Inr (), s')" and "dm_results s = []"
  shows "length (dm_results s') = nat cycles \<and>
    (\<forall>i < nat cycles. demo_result_ok (pair_for key) (i + 1) (dm_results s' ! i)) \<and>
    su_executed (summary (dm_results s')) + su_held (summary (dm_results s')) + su_failed (summary (dm_results s')) = nat cycles"
proof -
  obtain rs where rs: "dm_results s' = rs" "list_all2 (\<lambda>i r. demo_result_ok (pair_for key) (i + 1) r) [0..<nat cycles] rs"
    using demo_run_end [OF assms(1)] assms(2) by auto
  then have len: "length rs = nat cycles" using list_all2_lengthD by fastforce
  have ok: "demo_result_ok (pair_for key) (i + 1) (rs ! i)" if "i < nat cycles" for i
    using list_all2_nthD [OF rs(2), of i] that by simp
  then have "\<forall>r \<in> set rs. truthy (dget r ''tx'' VNone) \<longrightarrow> dget r ''action'' VNone \<noteq> VStr ''hold''"
    using demo_result_tx len by (metis in_set_conv_nth)
  from summary_partition [OF this] show ?thesis using rs(1) len ok by (simp add: summary_def)
qed

theorem demo_results_typed_witness:
  "\<exists>s'. demo_run cycle_env sample_price_env no_price no_sidecar (\<lambda>_. cycle_ins) ''ETH_USDC'' 1 demo_start = (Inr (), s') \<and>
     length (dm_results s') = 1 \<and> demo_result_ok (pair_for ''ETH_USDC'') 1 (dm_results s' ! 0)"
proof -
  obtain s' where r: "demo_run cycle_env sample_price_env no_price no_sidecar (\<lambda>_. cycle_ins) ''ETH_USDC'' 1 demo_start = (Inr (), s')"
    using demo_runs by blast
  have "dm_results demo_start = []" by (simp add: demo_start_def)
  from demo_results_typed [OF r this] r show ?thesis by simp
qed

text \<open>
  C29. What the dashboard sees of a demo run that returns, when the state file can be written: the time,
  the root and transaction of the run's snapshot, the number of cycles, the last 20 of the run's results
  in order, and the configured pair; and these six fields only, so nothing of an earlier view is kept.
\<close>

theorem demo_publishes:
  assumes "demo_run env pe get host inp key cycles s = (Inr (), s')" and "dm_results s = []" and "sf_writable (cy_file (dm_cycle s))"
  shows "\<exists>view. read_state_file (cy_file (dm_cycle s')) = VDict view \<and>
    dget view ''cycles'' VNone = VInt (int (nat cycles)) \<and>
    dget view ''results'' VNone = VList (map VDict (drop (nat cycles - 20) (dm_results s'))) \<and>
    dget view ''snapshot_root'' VNone = opt_text (dm_root s') \<and> dget view ''snapshot_tx'' VNone = opt_text (dm_tx s') \<and>
    dget view ''pair'' VNone = VDict (pair_json (pair_for key)) \<and>
    dget view ''updated_at'' VNone = VStr (ci_now (inp (Suc (nat cycles))) 1) \<and>
    map fst view = [''updated_at'', ''snapshot_root'', ''snapshot_tx'', ''cycles'', ''results'', ''pair'']"
proof -
  obtain rs where rs: "dm_results s' = rs" "list_all2 (\<lambda>i r. demo_result_ok (pair_for key) (i + 1) r) [0..<nat cycles] rs"
    and f: "cy_file (dm_cycle s') = write_state_file
      (VDict (demo_view (ci_now (inp (Suc (nat cycles))) 1) (pair_for key) s')) (cy_file (dm_cycle s))"
    using demo_run_end [OF assms(1)] assms(2) by auto
  have "length rs = nat cycles" using list_all2_lengthD [OF rs(2)] by simp
  then show ?thesis using rs(1) f assms(3) py_from_neg [of 20 rs]
    by (simp add: write_state_file_def read_state_file_def demo_view_def dget_Cons)
qed

theorem demo_publishes_witness:
  "\<exists>s' view. demo_run cycle_env sample_price_env no_price no_sidecar (\<lambda>_. cycle_ins) ''ETH_USDC'' 1 demo_start = (Inr (), s') \<and>
     read_state_file (cy_file (dm_cycle s')) = VDict view \<and> dget view ''cycles'' VNone = VInt 1 \<and>
     dget view ''results'' VNone = VList (map VDict (dm_results s'))"
proof -
  obtain s' where r: "demo_run cycle_env sample_price_env no_price no_sidecar (\<lambda>_. cycle_ins) ''ETH_USDC'' 1 demo_start = (Inr (), s')"
    using demo_runs by blast
  have "dm_results demo_start = []" "sf_writable (cy_file (dm_cycle demo_start))"
    by (simp_all add: demo_start_def cycle_start_def empty_file_def)
  from demo_publishes [OF r this] r show ?thesis by auto
qed

end
