(* ===== verification/Demo_Report.thy ===== *)
theory Demo_Report
  imports Demo
begin

text \<open>
  What the demo prints before and after its cycles (\<^verbatim>\<open>_print_config\<close> and \<^verbatim>\<open>_summary\<close> of
  \<^verbatim>\<open>demo.py\<close>), one text for each \<^verbatim>\<open>print\<close>, and the arithmetic of the average it reports. The
  demo needs Python 3.12, whose \<^verbatim>\<open>sum\<close> adds floats with a running compensation.
\<close>

subsection \<open>Printing\<close>

definition ESC :: string where
  "ESC = [CHR 0x1B, CHR ''['']"

definition RESET :: string where "RESET = ESC @ ''0m''"
definition GREEN :: string where "GREEN = ESC @ ''92m''"
definition YELLOW :: string where "YELLOW = ESC @ ''93m''"
definition RED :: string where "RED = ESC @ ''91m''"
definition CYAN :: string where "CYAN = ESC @ ''96m''"
definition GREY :: string where "GREY = ESC @ ''90m''"

definition hilite :: "string \<Rightarrow> string \<Rightarrow> string" where
  "hilite t c = c @ ESC @ ''1m'' @ t @ RESET"

definition newline :: string where
  "newline = [CHR 0x0A]"

definition SERVICE_KEYS :: "(string \<times> string) list" where
  "SERVICE_KEYS =
     [(''0G Storage'', ''ZG_PRIVATE_KEY''), (''0G Compute'', ''ZG_COMPUTE_API_KEY''),
      (''Uniswap API'', ''UNISWAP_API_KEY''), (''KeeperHub'', ''KEEPERHUB_API_KEY'')]"

definition service_line :: "(string \<Rightarrow> string option) \<Rightarrow> string \<times> string \<Rightarrow> string" where
  "service_line getenv nk =
     (let live = str_strip (case getenv (snd nk) of Some v \<Rightarrow> v | None \<Rightarrow> []) \<noteq> []
      in ''  '' @ ljust 16 (fst nk) @ '' '' @ (if live then GREEN @ ''live'' else GREY @ ''mock'') @ RESET)"

definition print_config :: "(string \<Rightarrow> string option) \<Rightarrow> demo_pair \<Rightarrow> string list" where
  "print_config getenv p =
     [[]] @ map (service_line getenv) SERVICE_KEYS @
     [newline @ ''  Pair:  '' @ hilite (dp_in_sym p @ '' '' @ ARROW @ '' '' @ dp_out_sym p) CYAN @
      ''   Chain: Base ('' @ str_int (dp_chain_id p) @ '')   Amount: '' @ str_int (dp_amount_wei p) @ '' wei'' @ newline]"

subsection \<open>The sum of floats\<close>

text \<open>One item of CPython's compensated \<^verbatim>\<open>sum\<close>: the running sum and the part its roundings lost.\<close>

fun sum_step :: "pyfloat \<Rightarrow> pyfloat \<times> pyfloat \<Rightarrow> pyfloat \<times> pyfloat" where
  "sum_step x (s, c) =
     (let t = f_add s x
      in (t, f_add c (if f_ge (f_abs s) (f_abs x) then f_add (f_sub s t) x else f_add (f_sub x t) s)))"

text \<open>The first float is added to the integer 0 that \<^verbatim>\<open>sum\<close> starts from.\<close>

definition py_sum :: "pyfloat list \<Rightarrow> pyfloat" where
  "py_sum xs =
     (case xs of
        [] \<Rightarrow> Fin 0
      | x # rest \<Rightarrow>
          (case fold sum_step rest (f_add (Fin 0) x, Fin 0) of
             (s, Fin b) \<Rightarrow> if b = 0 then s else f_add s (Fin b)
           | (s, _) \<Rightarrow> s))"

subsection \<open>The summary\<close>

definition executed :: "pydict list \<Rightarrow> pydict list" where
  "executed rs = filter (\<lambda>r. truthy (dget r ''tx'' VNone)) rs"

fun risk_items :: "pydict list \<Rightarrow> pyfloat list res" where
  "risk_items [] = Inr []"
| "risk_items (r # rs) =
     res_bind (key_item (VDict r) ''risk'') (\<lambda>v. res_bind (py_float v) (\<lambda>x. res_bind (risk_items rs) (\<lambda>xs. Inr (x # xs))))"

definition average_risk :: "pydict list \<Rightarrow> pyfloat res" where
  "average_risk rs = res_bind (risk_items rs) (\<lambda>xs. f_div (py_sum xs) (Fin (of_nat (length rs))))"

definition counts_line :: "demo_summary \<Rightarrow> string" where
  "counts_line su =
     ''  Cycles: '' @ str_nat (su_cycles su) @ ''  Executed: '' @ hilite (str_nat (su_executed su)) GREEN @
     ''  Held: '' @ hilite (str_nat (su_held su)) YELLOW @
     (if su_failed su = 0 then [] else ''  Failed: '' @ hilite (str_nat (su_failed su)) RED)"

definition snapshot_line :: "string \<Rightarrow> string" where
  "snapshot_line snap =
     ''  0G snapshot:  '' @ hilite (if length snap \<le> 26 then snap else py_upto 22 snap @ ELLIPSIS) CYAN"

definition summary_report :: "pydict list \<Rightarrow> string option \<Rightarrow> string list res" where
  "summary_report rs snap =
     res_bind (if executed rs = [] then Inr []
               else res_bind (average_risk (executed rs)) (\<lambda>avg.
                    Inr [''  Avg risk on executed trades: '' @ fmt_1f avg @ ''/10''])) (\<lambda>avg_lines.
     Inr ([counts_line (summary rs)] @ avg_lines @ (if str_truthy snap then [snapshot_line (the snap)] else []) @
       [newline @ ''  Dashboard: '' @ hilite ''http://127.0.0.1:8080'' CYAN @ newline]))"

text \<open>\<^verbatim>\<open>run\<close> with what it prints at its beginning and its end.\<close>

definition demo_printed ::
  "('n, 'w) swarm_env \<Rightarrow> 'w price_env \<Rightarrow> (string \<Rightarrow> ('w, http_resp) sx) \<Rightarrow> host_env \<Rightarrow>
   (nat \<Rightarrow> cycle_inputs) \<Rightarrow> string \<Rightarrow> int \<Rightarrow> (('n, 'w) demo_sys, string list \<times> string list) sx" where
  "demo_printed env pe get host inp key cycles =
     sx_bind (demo_run env pe get host inp key cycles) (\<lambda>_.
     sx_bind sx_get (\<lambda>s.
     sx_bind (sx_lift (summary_report (dm_results s) (dm_root s))) (\<lambda>report.
     sx_return (print_config (e_getenv env) (pair_for key), report))))"

subsection \<open>The error of the sum\<close>

lemma fl_near:
  assumes "\<bar>x\<bar> < 16777216"
  shows "\<exists>v. fl x = Fin v \<and> \<bar>v - x\<bar> \<le> 1 / 1073741824"
proof -
  have "pow2 24 = 16777216" "pow2 (24 - 54) = 1 / 1073741824" by (simp_all add: pow2_def)
  then have e: "\<bar>rnd x - x\<bar> \<le> 1 / 1073741824" using rnd_error [of x 24] assms by simp
  have "(33554432 :: rat) < 2 ^ 1024" by simp
  then have "\<not> 2 ^ 1024 \<le> rnd x" "\<not> rnd x \<le> - (2 ^ 1024)" using e assms by linarith+
  then show ?thesis using e by (simp add: fl_rnd del: power_numeral)
qed

lemma sum_step_error:
  assumes "\<bar>a\<bar> < 8388609" and "\<bar>b\<bar> < 8388608" and "\<bar>q\<bar> \<le> 8"
  shows "\<exists>a' b'. sum_step (Fin q) (Fin a, Fin b) = (Fin a', Fin b') \<and> \<bar>a' - (a + q)\<bar> \<le> 1 / 1073741824 \<and>
    \<bar>b' - b\<bar> \<le> 4 / 1073741824"
proof -
  have "\<bar>a + q\<bar> < 16777216" using assms(1,3) by linarith
  from fl_near [OF this] obtain t where t: "fl (a + q) = Fin t" "\<bar>t - (a + q)\<bar> \<le> 1 / 1073741824" by blast
  have part: "\<exists>e. f_add (f_sub (Fin x) (Fin t)) (Fin y) = Fin e \<and> \<bar>e\<bar> \<le> 3 / 1073741824"
    if "x + y = a + q" "\<bar>y\<bar> < 8388609" for x y
  proof -
    have "\<bar>x - t\<bar> < 16777216" using that t(2) by linarith
    from fl_near [OF this] obtain d where d: "fl (x - t) = Fin d" "\<bar>d - (x - t)\<bar> \<le> 1 / 1073741824" by blast
    have "\<bar>d + y\<bar> < 16777216" using d(2) t(2) that(1) by linarith
    from fl_near [OF this] obtain e where e: "fl (d + y) = Fin e" "\<bar>e - (d + y)\<bar> \<le> 1 / 1073741824" by blast
    have "\<bar>e\<bar> \<le> 3 / 1073741824" using e(2) d(2) t(2) that(1) by linarith
    then show ?thesis using d(1) e(1) by (simp add: f_sub_def)
  qed
  have "\<bar>q\<bar> < 8388609" using assms(3) by linarith
  then obtain e where e: "(if f_ge (f_abs (Fin a)) (f_abs (Fin q)) then f_add (f_sub (Fin a) (Fin t)) (Fin q)
      else f_add (f_sub (Fin q) (Fin t)) (Fin a)) = Fin e" "\<bar>e\<bar> \<le> 3 / 1073741824"
    using part [of a q, OF refl] part [of q a, OF add.commute] assms(1) by (smt (verit))
  have "\<bar>b + e\<bar> < 16777216" using e(2) assms(2) by linarith
  from fl_near [OF this] obtain b' where b': "fl (b + e) = Fin b'" "\<bar>b' - (b + e)\<bar> \<le> 1 / 1073741824" by blast
  have "\<bar>b' - b\<bar> \<le> 4 / 1073741824" using b'(2) e(2) by linarith
  moreover have "sum_step (Fin q) (Fin a, Fin b) = (Fin t, Fin b')"
    using t(1) b'(1) by (simp only: sum_step.simps f_add.simps(1) Let_def e(1))
  ultimately show ?thesis using t(2) by (intro exI [of _ t] exI [of _ b']) simp
qed

text \<open>After \<open>k\<close> items: the running sum, its compensation and the exact sum.\<close>

definition sum_near :: "nat \<Rightarrow> rat \<Rightarrow> rat \<Rightarrow> rat \<Rightarrow> bool" where
  "sum_near k a b E \<longleftrightarrow> \<bar>a - E\<bar> \<le> of_nat k / 1073741824 \<and> \<bar>b\<bar> \<le> 4 * of_nat k / 1073741824 \<and> \<bar>E\<bar> \<le> 8 * of_nat k"

lemma sum_near_step:
  assumes "sum_near k a b E" and "\<bar>q\<bar> \<le> 8" and "k < 1048576"
  shows "\<exists>a' b'. sum_step (Fin q) (Fin a, Fin b) = (Fin a', Fin b') \<and> sum_near (Suc k) a' b' (E + q)"
proof -
  have k: "(of_nat k :: rat) < 1048576" using assms(3) by (metis of_nat_less_iff of_nat_numeral)
  have "\<bar>a\<bar> < 8388609" "\<bar>b\<bar> < 8388608" using assms(1) k unfolding sum_near_def by linarith+
  from sum_step_error [OF this assms(2)] obtain a' b' where s: "sum_step (Fin q) (Fin a, Fin b) = (Fin a', Fin b')"
    "\<bar>a' - (a + q)\<bar> \<le> 1 / 1073741824" "\<bar>b' - b\<bar> \<le> 4 / 1073741824" by blast
  note near = assms(1) [unfolded sum_near_def]
  have tri: "\<bar>x + y\<bar> \<le> c + d" if "\<bar>x\<bar> \<le> c" and "\<bar>y\<bar> \<le> d" for x y c d :: rat
    using that by linarith
  have "\<bar>a' - (E + q)\<bar> \<le> (1 + of_nat k) / 1073741824" "\<bar>b'\<bar> \<le> 4 * (1 + of_nat k) / 1073741824" "\<bar>E + q\<bar> \<le> 8 * (1 + of_nat k)"
    using tri [OF s(2) near [THEN conjunct1]] tri [OF s(3) near [THEN conjunct2, THEN conjunct1]]
      tri [OF near [THEN conjunct2, THEN conjunct2] assms(2)]
    by (simp_all add: add_divide_distrib distrib_left algebra_simps)
  then have "sum_near (Suc k) a' b' (E + q)" unfolding sum_near_def of_nat_Suc by blast
  with s(1) show ?thesis by blast
qed

lemma sum_near_fold:
  assumes "\<forall>q\<in>set qs. \<bar>q\<bar> \<le> 8" and "sum_near k a b E" and "k + length qs \<le> 1048576"
  shows "\<exists>a' b'. fold sum_step (map Fin qs) (Fin a, Fin b) = (Fin a', Fin b') \<and> sum_near (k + length qs) a' b' (E + sum_list qs)"
  using assms
proof (induction qs arbitrary: a b E k)
  case (Cons q qs)
  then have "\<bar>q\<bar> \<le> 8" "k < 1048576" by simp_all
  from sum_near_step [OF Cons.prems(2) this] obtain a1 b1 where
    s: "sum_step (Fin q) (Fin a, Fin b) = (Fin a1, Fin b1)" "sum_near (Suc k) a1 b1 (E + q)" by blast
  from Cons.IH [OF _ s(2)] Cons.prems(1,3) s(1) show ?case by (simp add: add.assoc del: sum_step.simps)
qed simp

lemma py_sum_error:
  assumes "\<forall>q\<in>set qs. \<bar>q\<bar> \<le> 8" and "qs \<noteq> []" and "length qs \<le> 1048576"
  shows "\<exists>v. py_sum (map Fin qs) = Fin v \<and> \<bar>v - sum_list qs\<bar> \<le> 6 * of_nat (length qs) / 1073741824"
proof -
  obtain q rest where qs: "qs = q # rest" using assms(2) by (cases qs) simp_all
  have q: "\<bar>q\<bar> \<le> 8" using assms(1) qs by simp
  then have "\<bar>q\<bar> < 16777216" by linarith
  from fl_near [OF this] obtain a where a: "fl q = Fin a" "\<bar>a - q\<bar> \<le> 1 / 1073741824" by blast
  have "sum_near 1 a 0 q" using a(2) q by (simp add: sum_near_def)
  from sum_near_fold [OF _ this, of rest] obtain s b where
    f: "fold sum_step (map Fin rest) (Fin a, Fin 0) = (Fin s, Fin b)" and near: "sum_near (length qs) s b (sum_list qs)"
    using assms(1,3) qs by auto
  have n: "1 \<le> (of_nat (length qs) :: rat)" "(of_nat (length qs) :: rat) \<le> 1048576"
    using assms(3) qs by (simp, metis of_nat_le_iff of_nat_numeral)
  have "\<bar>s + b\<bar> < 16777216" using near n unfolding sum_near_def by linarith
  from fl_near [OF this] obtain v where v: "fl (s + b) = Fin v" "\<bar>v - (s + b)\<bar> \<le> 1 / 1073741824" by blast
  have "py_sum (map Fin qs) = (if b = 0 then Fin s else Fin v)" using a(1) f v(1) by (simp add: py_sum_def qs del: sum_step.simps)
  moreover have "\<bar>s - sum_list qs\<bar> \<le> 6 * of_nat (length qs) / 1073741824" "\<bar>v - sum_list qs\<bar> \<le> 6 * of_nat (length qs) / 1073741824"
    using near v(2) n(1) unfolding sum_near_def by linarith+
  ultimately show ?thesis by (cases "b = 0") auto
qed

text \<open>The mean of at most \<open>2 ^ 20\<close> such numbers is computed to within \<open>2 ^ -27\<close>.\<close>

lemma py_mean_error:
  assumes "\<forall>q\<in>set qs. \<bar>q\<bar> \<le> 8" and "qs \<noteq> []" and "length qs \<le> 1048576"
  shows "\<exists>v. f_quot (py_sum (map Fin qs)) (Fin (of_nat (length qs))) = Fin v \<and>
    \<bar>v - sum_list qs / of_nat (length qs)\<bar> \<le> 7 / 1073741824"
proof -
  obtain v where v: "py_sum (map Fin qs) = Fin v" "\<bar>v - sum_list qs\<bar> \<le> 6 * of_nat (length qs) / 1073741824"
    using py_sum_error [OF assms] by blast
  define n where "n = (of_nat (length qs) :: rat)"
  have n: "0 < n" using assms(2) by (simp add: n_def)
  have "\<bar>sum_list qs\<bar> \<le> sum_list (map abs qs)" by (rule sum_list_abs)
  also have "\<dots> \<le> 8 * n" unfolding n_def using assms(1) by (induction qs) auto
  finally have m: "\<bar>sum_list qs / n\<bar> \<le> 8" using n by (simp add: abs_divide pos_divide_le_eq)
  have "\<bar>v / n - sum_list qs / n\<bar> = \<bar>v - sum_list qs\<bar> / n" using n by (simp add: diff_divide_distrib [symmetric] abs_divide)
  also have "\<dots> \<le> 6 / 1073741824" using v(2) n by (simp add: n_def pos_divide_le_eq)
  finally have e: "\<bar>v / n - sum_list qs / n\<bar> \<le> 6 / 1073741824" .
  have "\<bar>v / n\<bar> < 16777216" using e m by linarith
  from fl_near [OF this] obtain w where "fl (v / n) = Fin w" "\<bar>w - v / n\<bar> \<le> 1 / 1073741824" by blast
  moreover from this(2) e have "\<bar>w - sum_list qs / n\<bar> \<le> 7 / 1073741824" by linarith
  ultimately show ?thesis using v(1) unfolding n_def by (intro exI [of _ w]) simp
qed


subsection \<open>The average\<close>

text \<open>The recorded risk of a result as an exact number.\<close>

definition risk_value :: "pydict \<Rightarrow> rat" where
  "risk_value r = (case finite_val (dget r ''risk'' VNone) of Some q \<Rightarrow> q | None \<Rightarrow> 0)"

definition mean_risk :: "pydict list \<Rightarrow> rat" where
  "mean_risk rs = sum_list (map risk_value rs) / of_nat (length rs)"

lemma executed_risk:
  assumes "demo_result_ok p n r" and "truthy (dget r ''tx'' VNone)"
  shows "map_of r ''risk'' = Some (VFloat (Fin (risk_value r)))" and "0 \<le> risk_value r" and "risk_value r < 7"
proof -
  note ok = assms(1) [unfolded demo_result_ok_def] and trade = demo_result_tx [OF assms]
  from ok obtain q where q: "finite_val (dget r ''risk'' VNone) = Some q" "0 \<le> q" "q < 7"
    using trade by (auto split: option.splits)
  then have v: "dget r ''risk'' VNone = VFloat (Fin q)" by (auto simp: finite_val_def split: pyval.splits pyfloat.splits)
  then have "map_of r ''risk'' = Some (VFloat (Fin q))" by (auto simp: dget_def split: option.splits)
  then show "map_of r ''risk'' = Some (VFloat (Fin (risk_value r)))" "0 \<le> risk_value r" "risk_value r < 7"
    using q by (simp_all add: risk_value_def)
qed

lemma risk_items_exact:
  "\<forall>r\<in>set rs. map_of r ''risk'' = Some (VFloat (Fin (risk_value r))) \<Longrightarrow> risk_items rs = Inr (map (\<lambda>r. Fin (risk_value r)) rs)"
  by (induction rs) (simp_all add: key_item_def)

lemma mean_risk_bounds:
  assumes "\<forall>r\<in>set rs. 0 \<le> risk_value r \<and> risk_value r < 7" and "rs \<noteq> []"
  shows "0 \<le> mean_risk rs" and "mean_risk rs < 7"
proof -
  have "0 \<le> sum_list (map risk_value rs)" using assms(1) by (intro sum_list_nonneg) auto
  then show "0 \<le> mean_risk rs" by (simp add: mean_risk_def)
  have "sum_list (map risk_value rs) < 7 * of_nat (length rs)"
    using assms(2,1)
  proof (induction rs rule: list_nonempty_induct)
    case (cons r rs)
    then show ?case by (simp add: distrib_left add_strict_mono)
  qed simp
  then show "mean_risk rs < 7" using assms(2) by (simp add: mean_risk_def pos_divide_less_eq)
qed

subsection \<open>Property\<close>

text \<open>
  C31. The average risk that a run reports: after a run of at most \<open>2 ^ 20\<close> cycles that returns, the
  summary is printed without raising, and when there is an executed trade the computed average is
  within \<open>7 / 2 ^ 30\<close> of the exact mean of the recorded risks of the executed results, a mean that
  is at least 0 and below the risk threshold 7.
\<close>

theorem reported_average:
  assumes "demo_run env pe get host inp key cycles s = (Inr (), s')" and "dm_results s = []" and "cycles \<le> 2 ^ 20"
  shows "(\<exists>lines. demo_printed env pe get host inp key cycles s = (Inr (print_config (e_getenv env) (pair_for key), lines), s') \<and>
       hd lines = counts_line (summary (dm_results s'))) \<and>
    (let ex = executed (dm_results s')
     in ex = [] \<or> (\<exists>avg. average_risk ex = Inr (Fin avg) \<and> \<bar>avg - mean_risk ex\<bar> \<le> 7 / 2 ^ 30 \<and> 0 \<le> mean_risk ex \<and> mean_risk ex < 7))"
proof -
  let ?ex = "executed (dm_results s')"
  obtain rs where rs: "dm_results s' = rs" "list_all2 (\<lambda>i r. demo_result_ok (pair_for key) (i + 1) r) [0..<nat cycles] rs"
    using demo_run_end [OF assms(1)] assms(2) by auto
  have len: "length ?ex \<le> 1048576"
  proof -
    have "length rs \<le> 1048576" using list_all2_lengthD [OF rs(2)] assms(3) by simp
    then show ?thesis unfolding executed_def rs(1) by (rule le_trans [OF length_filter_le])
  qed
  have risk: "map_of r ''risk'' = Some (VFloat (Fin (risk_value r))) \<and> 0 \<le> risk_value r \<and> risk_value r < 7" if "r \<in> set ?ex" for r
  proof -
    from that have r: "r \<in> set rs" "truthy (dget r ''tx'' VNone)" using rs(1) by (auto simp: executed_def)
    then obtain n where "demo_result_ok (pair_for key) n r" using rs(2) by (metis in_set_conv_nth list_all2_conv_all_nth)
    from executed_risk [OF this r(2)] show ?thesis by blast
  qed
  have avg: "\<exists>avg. average_risk ?ex = Inr (Fin avg) \<and> \<bar>avg - mean_risk ?ex\<bar> \<le> 7 / 2 ^ 30 \<and> 0 \<le> mean_risk ?ex \<and> mean_risk ?ex < 7"
    if "?ex \<noteq> []"
  proof -
    have "\<forall>q\<in>set (map risk_value ?ex). \<bar>q\<bar> \<le> 8" using risk by fastforce
    from py_mean_error [OF this] that len obtain v where
      v: "f_quot (py_sum (map Fin (map risk_value ?ex))) (Fin (of_nat (length ?ex))) = Fin v" "\<bar>v - mean_risk ?ex\<bar> \<le> 7 / 1073741824"
      by (auto simp: mean_risk_def)
    have "average_risk ?ex = Inr (Fin v)"
      using v(1) risk risk_items_exact [of ?ex] that by (simp add: average_risk_def f_div_def comp_def)
    then show ?thesis using v(2) mean_risk_bounds [OF _ that] risk by simp
  qed
  then obtain lines where "summary_report (dm_results s') (dm_root s') = Inr (counts_line (summary (dm_results s')) # lines)"
    by (cases "?ex = []") (auto simp: summary_report_def)
  then have "demo_printed env pe get host inp key cycles s =
      (Inr (print_config (e_getenv env) (pair_for key), counts_line (summary (dm_results s')) # lines), s')"
    using assms(1) by (simp add: demo_printed_def sx_bind_def sx_get_def sx_lift_def sx_return_def)
  then show ?thesis using avg by (auto simp: Let_def)
qed

theorem reported_average_witness:
  "\<exists>s' lines. demo_printed cycle_env sample_price_env no_price no_sidecar (\<lambda>_. cycle_ins) ''ETH_USDC'' 1 demo_start =
       (Inr (print_config (e_getenv cycle_env) (pair_for ''ETH_USDC''), lines), s') \<and>
     hd lines = counts_line (summary (dm_results s')) \<and>
     (executed (dm_results s') = [] \<or> (\<exists>avg. average_risk (executed (dm_results s')) = Inr (Fin avg)))"
proof -
  obtain s' where r: "demo_run cycle_env sample_price_env no_price no_sidecar (\<lambda>_. cycle_ins) ''ETH_USDC'' 1 demo_start = (Inr (), s')"
    using demo_runs by blast
  have "dm_results demo_start = []" "(1 :: int) \<le> 2 ^ 20" by (simp_all add: demo_start_def)
  from reported_average [OF r this] show ?thesis unfolding Let_def by blast
qed

end
