(* ===== verification/Dash_Server.thy ===== *)
theory Dash_Server
  imports Dashboard "HOL-Library.Multiset"
begin

text \<open>
  The dashboard process as a whole (\<^verbatim>\<open>main\<close> of \<^verbatim>\<open>dashboard/server.py\<close>): the configuration it
  starts with, the remaining routes, and requests and background trade cycles in any order. A
  request is its route with the parameters the framework hands over; a handler and a cycle run from
  start to end. The cycles of the process itself interleave where they await; the recorded results are
  rewritten in one function that does not await (\<^verbatim>\<open>_publish_state_view\<close>), so the order of the
  cycles is the order of these writes.
\<close>

subsection \<open>Configuration and pairs\<close>

definition env_or :: "(string \<Rightarrow> string option) \<Rightarrow> string \<Rightarrow> string \<Rightarrow> pyval" where
  "env_or getenv k dflt = VStr (case getenv k of Some v \<Rightarrow> v | None \<Rightarrow> dflt)"

definition initial_config :: "(string \<Rightarrow> string option) \<Rightarrow> pydict res" where
  "initial_config getenv =
     res_bind (py_float (env_or getenv ''RISK_THRESHOLD'' ''7.0'')) (\<lambda>threshold.
     res_bind (py_int (env_or getenv ''SCAN_INTERVAL'' ''60'')) (\<lambda>interval.
     Inr [(''risk_threshold'', VFloat threshold), (''scan_interval_s'', VInt interval),
       (''default_pair'', VDict
          [(''token_in'', VStr ''0x0000000000000000000000000000000000000000''),
           (''token_out'', VStr ''0x833589fCD6eDb6E08f4c7C32D4f71b54bdA02913''),
           (''token_in_sym'', VStr ''ETH''), (''token_out_sym'', VStr ''USDC''), (''chain_id'', VInt 8453)]),
       (''amount_in_wei'', VInt 50000000000000000), (''auto_trade'', VBool False)]))"

definition known_pair :: "string \<Rightarrow> string \<Rightarrow> string \<Rightarrow> string \<Rightarrow> pyval" where
  "known_pair from_sym from_addr to_sym to_addr = VDict
     [(''label'', VStr (from_sym @ '' '' @ ARROW @ '' '' @ to_sym)), (''token_in'', VStr from_addr),
      (''token_out'', VStr to_addr), (''in_sym'', VStr from_sym), (''out_sym'', VStr to_sym), (''chain_id'', VInt 8453)]"

definition KNOWN_PAIRS :: "pyval list" where
  "KNOWN_PAIRS =
     [known_pair ''ETH'' ''0x0000000000000000000000000000000000000000'' ''USDC'' ''0x833589fCD6eDb6E08f4c7C32D4f71b54bdA02913'',
      known_pair ''ETH'' ''0x0000000000000000000000000000000000000000'' ''USDT'' ''0xfde4C96c8593536E31F229EA8f37b2ADa2699bb2'',
      known_pair ''USDC'' ''0x833589fCD6eDb6E08f4c7C32D4f71b54bdA02913'' ''ETH'' ''0x0000000000000000000000000000000000000000'',
      known_pair ''WETH'' ''0x4200000000000000000000000000000000000006'' ''USDC'' ''0x833589fCD6eDb6E08f4c7C32D4f71b54bdA02913'']"

subsection \<open>The remaining routes\<close>

definition get_config :: "(('n, 'w) dash_sys, http_reply) sx" where
  "get_config = sx_bind sx_get (\<lambda>s. sx_return (JSON (VDict (da_config s))))"

definition get_pairs :: "(('n, 'w) dash_sys, http_reply) sx" where
  "get_pairs = sx_return (JSON (VList KNOWN_PAIRS))"

definition get_axl_events :: "(('n, 'w) dash_sys, http_reply) sx" where
  "get_axl_events =
     sx_bind sx_get (\<lambda>s. sx_return (JSON (VDict [(''events'', VList (map VDict (recent_events 20 (cy_bus (da_cycle s)))))])))"

definition get_scan :: "('n, 'w) dash_env \<Rightarrow> (('n, 'w) dash_sys, http_reply) sx" where
  "get_scan env = sx_bind (scan_view env) (\<lambda>d. sx_return (JSON (VDict d)))"

text \<open>A profile read that misses its time limit is replaced; what it did before is not followed.\<close>

definition timed_profile :: "('n, 'w) dash_env \<Rightarrow> (string \<Rightarrow> bool) \<Rightarrow> string \<Rightarrow> (('n, 'w) dash_sys, pydict) sx" where
  "timed_profile env timely rl =
     (if timely rl then dash_profile env rl
      else sx_return [(''name'', VStr (rl @ ''.swarmfi.eth'')), (''role'', VStr rl)])"

definition full_dashboard :: "('n, 'w) dash_env \<Rightarrow> (string \<Rightarrow> bool) \<Rightarrow> (('n, 'w) dash_sys, http_reply) sx" where
  "full_dashboard env timely = sx_bind (sx_map (timed_profile env timely) ROLES) (get_dashboard env)"

subsection \<open>Routes\<close>

datatype dash_request =
    GetState | GetLog | PostChat pyval | PostSignal pyval | GetResolve string | PostTransfer string pyval
  | GetConfig | PostConfig pydict | GetPairs | GetAxl | GetAgents | GetScan | GetDashboard "string \<Rightarrow> bool"

text \<open>The reply, and the signal of the background cycle that an accepted \<^verbatim>\<open>POST /api/signal\<close> starts.\<close>

definition serve :: "('n, 'w) dash_env \<Rightarrow> dash_request \<Rightarrow> (('n, 'w) dash_sys, http_reply \<times> pydict option) sx" where
  "serve env req =
     (let plain = (\<lambda>m. sx_bind m (\<lambda>r. sx_return (r, None)))
      in case req of
           GetState \<Rightarrow> plain api_state
         | GetLog \<Rightarrow> plain api_log
         | PostChat raw \<Rightarrow> plain (chat env raw)
         | PostSignal raw \<Rightarrow> inject_signal env raw
         | GetResolve name \<Rightarrow> plain (api_resolve env name)
         | PostTransfer uid raw \<Rightarrow> plain (transfer_to_ens env uid raw)
         | GetConfig \<Rightarrow> plain get_config
         | PostConfig updates \<Rightarrow> plain (set_config updates)
         | GetPairs \<Rightarrow> plain get_pairs
         | GetAxl \<Rightarrow> plain get_axl_events
         | GetAgents \<Rightarrow> plain (get_agents env)
         | GetScan \<Rightarrow> plain (get_scan env)
         | GetDashboard timely \<Rightarrow> plain (full_dashboard env timely))"

subsection \<open>The process\<close>

record ('n, 'w) server =
  ds_sys :: "('n, 'w) dash_sys"
  ds_tasks :: "pydict list"

definition handle_request :: "('n, 'w) dash_env \<Rightarrow> dash_request \<Rightarrow> ('n, 'w) server \<Rightarrow> pydict list \<times> ('n, 'w) server" where
  "handle_request env req s =
     (case serve env req (ds_sys s) of
        (Inr (_, Some signal), d) \<Rightarrow> ([signal], s\<lparr>ds_sys := d, ds_tasks := ds_tasks s @ [signal]\<rparr>)
      | (_, d) \<Rightarrow> ([], s\<lparr>ds_sys := d\<rparr>))"

definition run_task :: "('n, 'w) dash_env \<Rightarrow> host_env \<Rightarrow> cycle_inputs \<Rightarrow> nat \<Rightarrow> ('n, 'w) server \<Rightarrow> ('n, 'w) server" where
  "run_task env host ci i s =
     s\<lparr>ds_sys := snd (on_cycle (run_trade_cycle (de_swarm env) host ci (ds_tasks s ! i)) (ds_sys s)),
       ds_tasks := take i (ds_tasks s) @ drop (Suc i) (ds_tasks s)\<rparr>"

text \<open>\<open>server_run env s sigs s'\<close>: a run from \<open>s\<close> to \<open>s'\<close> in which the signals \<open>sigs\<close> were accepted.\<close>

inductive server_run :: "('n, 'w) dash_env \<Rightarrow> ('n, 'w) server \<Rightarrow> pydict list \<Rightarrow> ('n, 'w) server \<Rightarrow> bool" for env s where
  begin_run: "server_run env s [] s"
| request: "server_run env s sigs t \<Longrightarrow> handle_request env req t = (new, t') \<Longrightarrow> server_run env s (sigs @ new) t'"
| cycle: "server_run env s sigs t \<Longrightarrow> i < length (ds_tasks t) \<Longrightarrow> server_run env s sigs (run_task env host ci i t)"

subsection \<open>What requests leave alone\<close>

definition da_record :: "('n, 'w) dash_sys \<Rightarrow> pyval option \<times> bool" where
  "da_record s = cy_record (da_cycle s)"

lemma kept_record: "keeps da_kept m \<Longrightarrow> keeps da_record m"
  by (auto simp: keeps_def da_kept_def da_record_def cy_record_def)

lemma da_kept_profile [intro, simp]: "keeps da_kept (dash_profile env rl)" "keeps da_kept (timed_profile env timely rl)"
proof -
  show "keeps da_kept (dash_profile env rl)"
    by (auto simp: keeps_def da_kept_def dash_profile_def split: prod.split)
  then show "keeps da_kept (timed_profile env timely rl)" by (simp add: timed_profile_def)
qed

lemma da_kept_routes [intro, simp]:
  "keeps da_kept api_state" "keeps da_kept api_log" "keeps da_kept (chat env raw)" "keeps da_kept (inject_signal env raw)"
  "keeps da_kept (api_resolve env name)" "keeps da_kept (transfer_to_ens env uid raw)" "keeps da_kept get_config"
  "keeps da_kept get_pairs" "keeps da_kept get_axl_events" "keeps da_kept (get_agents env)" "keeps da_kept (get_scan env)"
  "keeps da_kept (full_dashboard env timely)"
  unfolding api_state_def api_log_def chat_def inject_signal_def api_resolve_def transfer_to_ens_def fresh_transfer_def
    get_config_def get_pairs_def get_axl_events_def get_agents_def get_scan_def scan_view_def full_dashboard_def get_dashboard_def Let_def
  by (auto intro!: keeps_bind keeps_try keeps_map split: option.split)

lemma served_kept:
  assumes "\<And>updates. req \<noteq> PostConfig updates"
  shows "keeps da_kept (serve env req)"
proof (cases req)
  case (PostConfig updates)
  then show ?thesis using assms by blast
qed (auto simp: serve_def intro!: keeps_bind)

lemma serve_config:
  "serve env (PostConfig updates) s =
     (Inr (JSON (VDict (update_config updates (da_config s))), None), s\<lparr>da_config := update_config updates (da_config s)\<rparr>)"
  by (simp add: serve_def set_config_def sx_modify_def sx_get_def sx_bind_def sx_return_def)

lemma served:
  assumes "serve env req s = (r, s')"
  shows "da_record s' = da_record s" and "dom (map_of (da_config s')) = dom (map_of (da_config s))"
proof -
  have "da_record s' = da_record s \<and> dom (map_of (da_config s')) = dom (map_of (da_config s))"
  proof (cases "\<exists>updates. req = PostConfig updates")
    case True
    then obtain updates where "req = PostConfig updates" ..
    with assms have "s' = s\<lparr>da_config := update_config updates (da_config s)\<rparr>" by (simp add: serve_config)
    then show ?thesis by (simp add: da_record_def update_config_keys)
  next
    case False
    then have "da_kept s' = da_kept s" using keepsD [OF served_kept assms] by blast
    then show ?thesis by (simp add: da_kept_def da_record_def cy_record_def)
  qed
  then show "da_record s' = da_record s" and "dom (map_of (da_config s')) = dom (map_of (da_config s))" by simp_all
qed

lemma handled:
  assumes "handle_request env req s = (new, t)"
  shows "da_record (ds_sys t) = da_record (ds_sys s)" and "dom (map_of (da_config (ds_sys t))) = dom (map_of (da_config (ds_sys s)))"
    and "ds_tasks t = ds_tasks s @ new"
proof -
  obtain r d where r: "serve env req (ds_sys s) = (r, d)" by (rule prod.exhaust)
  have "ds_sys t = d \<and> ds_tasks t = ds_tasks s @ new"
    using assms r by (auto simp: handle_request_def split: sum.splits option.splits)
  with served [OF r] show "da_record (ds_sys t) = da_record (ds_sys s)"
    and "dom (map_of (da_config (ds_sys t))) = dom (map_of (da_config (ds_sys s)))" and "ds_tasks t = ds_tasks s @ new"
    by simp_all
qed

lemma mset_without_nth: "i < length xs \<Longrightarrow> mset xs = add_mset (xs ! i) (mset (take i xs @ drop (Suc i) xs))"
  by (subst (1) id_take_nth_drop [of i xs]) simp_all

lemma task_run:
  assumes "sf_writable (cy_file (da_cycle (ds_sys s)))" and "file_results (cy_file (da_cycle (ds_sys s))) = Some (VList old)"
  shows "da_config (ds_sys (run_task env host ci i s)) = da_config (ds_sys s)"
    and "sf_writable (cy_file (da_cycle (ds_sys (run_task env host ci i s))))"
    and "file_results (cy_file (da_cycle (ds_sys (run_task env host ci i s)))) = Some (VList old) \<or>
      (\<exists>rv. dget rv ''signal'' VNone = VDict (ds_tasks s ! i) \<and>
        file_results (cy_file (da_cycle (ds_sys (run_task env host ci i s)))) = Some (VList (py_from (- 20) (old @ [VDict rv]))))"
proof -
  obtain r c where c: "run_trade_cycle (de_swarm env) host ci (ds_tasks s ! i) (da_cycle (ds_sys s)) = (r, c)"
    by (rule prod.exhaust)
  then have t: "ds_sys (run_task env host ci i s) = (ds_sys s)\<lparr>da_cycle := c\<rparr>"
    by (simp add: run_task_def on_cycle_def sx_zoom_def)
  from t show "da_config (ds_sys (run_task env host ci i s)) = da_config (ds_sys s)" by simp
  show "sf_writable (cy_file (da_cycle (ds_sys (run_task env host ci i s))))"
    using cycle_keeps_results [OF c assms(1)] t by simp
  show "file_results (cy_file (da_cycle (ds_sys (run_task env host ci i s)))) = Some (VList old) \<or>
      (\<exists>rv. dget rv ''signal'' VNone = VDict (ds_tasks s ! i) \<and>
        file_results (cy_file (da_cycle (ds_sys (run_task env host ci i s)))) = Some (VList (py_from (- 20) (old @ [VDict rv]))))"
    using cycle_keeps_results [OF c assms(1)] t assms(2) by (auto simp: iter_items_def)
qed

text \<open>What is recorded when the signals \<open>offered\<close> have been pending or accepted.\<close>

definition recorded :: "pyval list \<Rightarrow> pydict multiset \<Rightarrow> ('n, 'w) server \<Rightarrow> bool" where
  "recorded old offered t \<longleftrightarrow>
     (\<exists>rvs ss. file_results (cy_file (da_cycle (ds_sys t))) = Some (VList (py_from (- 20) (old @ map VDict rvs))) \<and>
        map (\<lambda>rv. dget rv ''signal'' VNone) rvs = map VDict ss \<and> mset ss + mset (ds_tasks t) \<subseteq># offered)"

lemma recordedE:
  assumes "recorded old offered t"
  obtains rvs ss where "file_results (cy_file (da_cycle (ds_sys t))) = Some (VList (py_from (- 20) (old @ map VDict rvs)))"
    and "map (\<lambda>rv. dget rv ''signal'' VNone) rvs = map VDict ss" and "mset ss + mset (ds_tasks t) \<subseteq># offered"
  using assms unfolding recorded_def by blast

lemma recorded_request:
  assumes "recorded old offered t" and "handle_request env req t = (new, t')"
  shows "recorded old (offered + mset new) t'"
proof -
  from assms(1) obtain rvs ss where "file_results (cy_file (da_cycle (ds_sys t))) = Some (VList (py_from (- 20) (old @ map VDict rvs)))"
    "map (\<lambda>rv. dget rv ''signal'' VNone) rvs = map VDict ss" "mset ss + mset (ds_tasks t) \<subseteq># offered" by (rule recordedE)
  then show ?thesis using handled [OF assms(2)] unfolding recorded_def da_record_def cy_record_def
    by (intro exI [of _ rvs] exI [of _ ss]) (simp add: add.assoc [symmetric])
qed

lemma recorded_cycle:
  assumes "recorded old offered t" and "i < length (ds_tasks t)" and "sf_writable (cy_file (da_cycle (ds_sys t)))"
  shows "recorded old offered (run_task env host ci i t)"
proof -
  let ?t = "run_task env host ci i t" and ?signal = "ds_tasks t ! i"
  from assms(1) obtain rvs ss where old: "file_results (cy_file (da_cycle (ds_sys t))) = Some (VList (py_from (- 20) (old @ map VDict rvs)))"
    and sig: "map (\<lambda>rv. dget rv ''signal'' VNone) rvs = map VDict ss" and sub: "mset ss + mset (ds_tasks t) \<subseteq># offered"
    by (rule recordedE)
  have tasks: "mset (ds_tasks t) = add_mset ?signal (mset (ds_tasks ?t))"
    using mset_without_nth [OF assms(2)] by (simp add: run_task_def)
  from task_run(3) [OF assms(3) old, of env host ci i] consider
      (same) "file_results (cy_file (da_cycle (ds_sys ?t))) = Some (VList (py_from (- 20) (old @ map VDict rvs)))"
    | (new) rv where "dget rv ''signal'' VNone = VDict ?signal" and "file_results (cy_file (da_cycle (ds_sys ?t))) =
          Some (VList (py_from (- 20) (py_from (- 20) (old @ map VDict rvs) @ [VDict rv])))" by blast
  then show ?thesis
  proof cases
    case same
    have "mset ss + mset (ds_tasks ?t) \<subseteq># mset ss + mset (ds_tasks t)" unfolding tasks by simp
    then have "mset ss + mset (ds_tasks ?t) \<subseteq># offered" using sub by (rule subset_mset.order_trans)
    then show ?thesis using same sig unfolding recorded_def by blast
  next
    case (new rv)
    then have "file_results (cy_file (da_cycle (ds_sys ?t))) = Some (VList (py_from (- 20) (old @ map VDict (rvs @ [rv]))))"
      using py_from_snoc [of 20 "old @ map VDict rvs" "VDict rv"] by simp
    moreover have "map (\<lambda>rv. dget rv ''signal'' VNone) (rvs @ [rv]) = map VDict (ss @ [?signal])" using sig new(1) by simp
    moreover have "mset (ss @ [?signal]) + mset (ds_tasks ?t) \<subseteq># offered" using sub tasks by simp
    ultimately show ?thesis unfolding recorded_def by blast
  qed
qed

subsection \<open>Properties\<close>

text \<open>
  C9. The record of the dashboard is exact: through any sequence of requests and background cycles, the
  results in the state file are those from before followed by new ones, the last 20 of them; every
  new result is that of a signal that was pending or accepted in between, each signal has at most
  one result and none while it is still pending. The keys of the configuration never change.
\<close>

theorem server_results:
  assumes "server_run env s sigs t"
    and "file_results (cy_file (da_cycle (ds_sys s))) = Some (VList old)" and "length old \<le> 20"
    and "sf_writable (cy_file (da_cycle (ds_sys s)))"
  shows "(\<exists>rvs ss. file_results (cy_file (da_cycle (ds_sys t))) = Some (VList (py_from (- 20) (old @ map VDict rvs))) \<and>
      map (\<lambda>rv. dget rv ''signal'' VNone) rvs = map VDict ss \<and> mset ss + mset (ds_tasks t) \<subseteq># mset (ds_tasks s) + mset sigs) \<and>
    sf_writable (cy_file (da_cycle (ds_sys t))) \<and>
    dom (map_of (da_config (ds_sys t))) = dom (map_of (da_config (ds_sys s)))"
proof -
  have start: "recorded old (mset (ds_tasks s)) s"
    using assms(2,3) py_from_neg_all [of old 20] unfolding recorded_def by (intro exI [of _ "[]"]) simp
  from assms(1) have "recorded old (mset (ds_tasks s) + mset sigs) t \<and> sf_writable (cy_file (da_cycle (ds_sys t))) \<and>
      dom (map_of (da_config (ds_sys t))) = dom (map_of (da_config (ds_sys s)))"
  proof induction
    case (request sigs t req new t')
    then have "recorded old (mset (ds_tasks s) + mset (sigs @ new)) t'"
      using request.IH recorded_request [OF _ request.hyps(2), of old "mset (ds_tasks s) + mset sigs"] by (simp add: add.assoc)
    then show ?case using request.IH handled [OF request.hyps(2)] by (simp add: da_record_def cy_record_def)
  next
    case (cycle sigs t i host ci)
    then have w: "sf_writable (cy_file (da_cycle (ds_sys t)))" by blast
    from cycle obtain rvs where "file_results (cy_file (da_cycle (ds_sys t))) = Some (VList (py_from (- 20) (old @ map VDict rvs)))"
      by (blast elim: recordedE)
    from task_run(1,2) [OF w this] show ?case using cycle recorded_cycle [OF _ cycle.hyps(2) w] by simp
  qed (use start assms(4) in simp)
  then show ?thesis unfolding recorded_def .
qed

theorem server_results_witness:
  "\<exists>signal t rvs. server_run dash_sample_env \<lparr>ds_sys = dash_sample, ds_tasks = []\<rparr> [signal] t \<and> ds_tasks t = [] \<and>
     file_results (cy_file (da_cycle (ds_sys t))) = Some (VList (py_from (- 20) (map VDict rvs))) \<and> length rvs \<le> 1"
proof -
  let ?s = "\<lparr>ds_sys = dash_sample, ds_tasks = []\<rparr> :: (unit, unit) server"
  have start: "file_results (cy_file (da_cycle (ds_sys ?s))) = Some (VList [])" "sf_writable (cy_file (da_cycle (ds_sys ?s)))"
    by (simp_all add: dash_sample_def cycle_start_def file_results_def read_state_file_def py_or_def dget_def empty_file_def)
  have "py_int (py_or (dget (body_of VNone) ''chain_id'' VNone) (VInt 8453)) = Inr 8453"
    "py_int (py_or (dget (body_of VNone) ''amount_wei'' VNone) (VInt 50000000000000000)) = Inr 50000000000000000"
    by (simp_all add: body_of_def dget_def py_or_def)
  from inject_signal_returns [OF this, of dash_sample_env dash_sample]
  obtain reply signal d where i: "inject_signal dash_sample_env VNone dash_sample = (Inr (reply, Some signal), d)"
    by metis
  let ?t = "\<lparr>ds_sys = d, ds_tasks = [signal]\<rparr> :: (unit, unit) server"
  have "handle_request dash_sample_env (PostSignal VNone) ?s = ([signal], ?t)"
    using i by (simp add: handle_request_def serve_def)
  from server_run.request [OF server_run.begin_run this] have "server_run dash_sample_env ?s [signal] ?t" by simp
  from server_run.cycle [OF this, of 0 no_sidecar cycle_ins]
  have run: "server_run dash_sample_env ?s [signal] (run_task dash_sample_env no_sidecar cycle_ins 0 ?t)" by simp
  have idle: "ds_tasks (run_task dash_sample_env no_sidecar cycle_ins 0 ?t) = []" by (simp add: run_task_def)
  from server_results [OF run start(1) _ start(2)] obtain rvs ss where
    "file_results (cy_file (da_cycle (ds_sys (run_task dash_sample_env no_sidecar cycle_ins 0 ?t)))) =
       Some (VList (py_from (- 20) (map VDict rvs)))"
    and "map (\<lambda>rv. dget rv ''signal'' VNone) rvs = map VDict ss" and sub: "mset ss \<subseteq># {#signal#}"
    using idle by auto
  moreover from this(2) have "length rvs = length ss" by (metis length_map)
  moreover have "length ss \<le> 1" using size_mset_mono [OF sub] by simp
  ultimately show ?thesis using run idle
    by (intro exI [of _ signal] exI [of _ "run_task dash_sample_env no_sidecar cycle_ins 0 ?t"] exI [of _ rvs] conjI) simp_all
qed

end
