(* ===== verification/Swarm_Net.thy ===== *)
theory Swarm_Net
  imports Agents "HOL-Library.Countable"
begin

text \<open>
  The three agents on one network. Each agent is the system state of \<open>Agents\<close>; they share the
  state of the network, and run in any order: starting, stopping, pinging, rounds of the dispatch
  loop. Other peers of the network may post messages too, as long as these are no trade decisions.
  A turn of an agent is one step; the invariant below is kept by every single request of a turn.

  What the swarm relies on: the node delivers only bodies that were posted to some node of the
  network, requests to the other services post nothing there, the retry helpers only run their
  block, and pydantic restores from its JSON the type of a message and the decision it carries, or
  refuses them. On every such network each trade decision that was ever posted has passed the risk
  gate, by induction over the steps, and so the executor trades on no decision at or above the threshold.
\<close>

subsection \<open>The swarm\<close>

text \<open>The \<^verbatim>\<open>on_message\<close> method of each agent.\<close>

definition agent_handler ::
  "agent_role \<Rightarrow> ('n, 'w) swarm_env \<Rightarrow> agent_conf \<Rightarrow> agent_inputs \<Rightarrow> received_message \<Rightarrow> (('n, 'w) asys, unit) sx" where
  "agent_handler role env ac ai =
     (case role of
        RESEARCHER \<Rightarrow> researcher_on_message
      | RISK \<Rightarrow> risk_on_message env ac ai
      | EXECUTOR \<Rightarrow> executor_on_message env ac ai)"

record ('n, 'w) swarm =
  sn_agent :: "agent_role \<Rightarrow> ('n, 'w) asys"
  sn_net :: 'w

text \<open>A turn: the agent runs on the network as it is now.\<close>

definition agent_turn :: "agent_role \<Rightarrow> (('n, 'w) asys, unit) sx \<Rightarrow> ('n, 'w) swarm \<Rightarrow> ('n, 'w) swarm" where
  "agent_turn role m s =
     (let a = sn_agent s role; (r, a') = m (a\<lparr>sy_x := (sy_x a)\<lparr>x_net := sn_net s\<rparr>\<rparr>)
      in \<lparr>sn_agent = (sn_agent s)(role := a'), sn_net = x_net (sy_x a')\<rparr>)"

definition no_decision :: "('n, 'w) swarm_env \<Rightarrow> bytes \<Rightarrow> bool" where
  "no_decision env b \<longleftrightarrow>
     (\<forall>m. decode_message (load_message (e_axl env)) b = Inr m \<longrightarrow> message_type m \<noteq> MT_TRADE_DECISION)"

inductive swarm_step ::
  "('n, 'w) swarm_env \<Rightarrow> (agent_role \<Rightarrow> agent_conf) \<Rightarrow> ('w \<Rightarrow> bytes set) \<Rightarrow> ('n, 'w) swarm \<Rightarrow> ('n, 'w) swarm \<Rightarrow> bool"
  for env confs posted where
  start: "swarm_step env confs posted s (agent_turn role (agent_start env (confs role) ai) s)"
| stop: "swarm_step env confs posted s (agent_turn role (agent_stop env ai) s)"
| ping: "swarm_step env confs posted s (agent_turn RESEARCHER (ping_swarm env (confs RESEARCHER) fresh) s)"
| dispatch: "swarm_step env confs posted s
    (agent_turn role (dispatch_loop env (confs role) ins (agent_handler role env (confs role)) n) s)"
| peer: "no_decision env b \<Longrightarrow> posted w \<subseteq> insert b (posted (sn_net s)) \<Longrightarrow> swarm_step env confs posted s (s\<lparr>sn_net := w\<rparr>)"

subsection \<open>What the swarm relies on\<close>

text \<open>\<open>posted w\<close> are the bodies posted so far that the network still knows of. A retry helper only runs its block.\<close>

definition reruns :: "(nat \<Rightarrow> (pyexc \<Rightarrow> bool) \<Rightarrow> ('w, 'a) sx \<Rightarrow> ('w, 'a) sx) \<Rightarrow> bool" where
  "reruns retry \<longleftrightarrow> (\<forall>n again m I. maintains I m \<longrightarrow> maintains I (retry n again m))"

definition apart_from_node :: "('w, 'x) http_env_scheme \<Rightarrow> ('w \<Rightarrow> bytes set) \<Rightarrow> bool" where
  "apart_from_node env posted \<longleftrightarrow>
     (\<forall>meth url key body w. posted (snd (http_request env meth url key body w)) \<subseteq> posted w) \<and>
     reruns (tenacity env)"

definition relays :: "'w axl_env \<Rightarrow> ('w \<Rightarrow> bytes set) \<Rightarrow> bool" where
  "relays env posted \<longleftrightarrow>
     (\<forall>url path dest body w. posted (snd (axl_request env url path dest body w)) \<subseteq>
        posted w \<union> (if path = ''POST /send'' then {body} else {})) \<and>
     (\<forall>url w resp w'. axl_request env url ''GET /recv'' None [] w = (Inr resp, w') \<and> ar_content resp \<noteq> [] \<longrightarrow>
        ar_content resp \<in> posted w) \<and>
     reruns (axl_tenacity env)"

definition swarm_network :: "('n, 'w) swarm_env \<Rightarrow> ('w \<Rightarrow> bytes set) \<Rightarrow> bool" where
  "swarm_network env posted \<longleftrightarrow>
     relays (e_axl env) posted \<and> apart_from_node (e_uni env) posted \<and> apart_from_node (e_risk env) posted"

text \<open>A decision read from a message that went through JSON is the one that was sent, if it can be read at all.\<close>

definition decisions_restored :: "('n, 'w) swarm_env \<Rightarrow> bool" where
  "decisions_restored env \<longleftrightarrow>
     (\<forall>m m'. load_message (e_axl env) (dump_message (e_axl env) m) = Inr m' \<longrightarrow>
        message_type m' = message_type m \<and>
        (\<forall>d d'. payload m = trade_decision_dump d \<and> e_parse_decision env (payload m') = Inr d' \<longrightarrow> d' = d))"

text \<open>A posted body that carries a readable trade decision carries one that passed the gate.\<close>

definition gated :: "('n, 'w) swarm_env \<Rightarrow> bytes \<Rightarrow> bool" where
  "gated env b \<longleftrightarrow>
     (\<forall>m d. decode_message (load_message (e_axl env)) b = Inr m \<and> message_type m = MT_TRADE_DECISION \<and>
        read_decision env (payload m) = Inr d \<longrightarrow> decision_ok (e_nan env) d)"

subsection \<open>Operations that respect a property of the network\<close>

definition net_inv :: "('w \<Rightarrow> bool) \<Rightarrow> ('n, 'w) asys \<Rightarrow> bool" where
  "net_inv P s \<longleftrightarrow> P (x_net (sy_x s))"

text \<open>
  The network parameters respect a predicate \<open>P\<close> of the network state, as long as only bodies
  in \<open>Ok\<close> are posted.
\<close>

definition http_respects :: "('w, 'x) http_env_scheme \<Rightarrow> ('w \<Rightarrow> bool) \<Rightarrow> bool" where
  "http_respects env P \<longleftrightarrow>
     (\<forall>meth url key body. maintains P (http_request env meth url key body)) \<and>
     (\<forall>n again m. maintains P m \<longrightarrow> maintains P (tenacity env n again m))"

definition net_respects :: "('n, 'w) swarm_env \<Rightarrow> ('w \<Rightarrow> bool) \<Rightarrow> (bytes \<Rightarrow> bool) \<Rightarrow> bool" where
  "net_respects env P Ok \<longleftrightarrow>
     http_respects (e_uni env) P \<and> http_respects (e_risk env) P \<and>
     (\<forall>url path dest body. (path = ''POST /send'' \<longrightarrow> Ok body) \<longrightarrow> maintains P (axl_request (e_axl env) url path dest body)) \<and>
     (\<forall>n again m. maintains P m \<longrightarrow> maintains P (axl_tenacity (e_axl env) n again m))"

lemma respects_json:
  assumes "http_respects env P"
  shows "maintains P (request_json env meth url key body)"
proof -
  have "maintains P (attempt env meth url key body)"
    using assms by (auto simp: attempt_def http_respects_def intro!: maintains_bind)
  then have "maintains P (retrying env (attempt env meth url key body))"
    using assms by (simp add: retrying_def http_respects_def)
  then show ?thesis unfolding request_json_def by (intro maintains_bind maintains_basic)
qed

text \<open>A mock backend does not reach the network; a live one only through its requests.\<close>

lemma maintains_on_uni:
  assumes "\<And>key opened. maintains P (live key opened)"
  shows "maintains (\<lambda>s. P (snd s)) (on_uni mock live)"
proof (rule maintainsI)
  fix s r s'
  assume "P (snd s)" and "on_uni mock live s = (r, s')"
  then show "P (snd s')"
    using maintainsD [OF assms] by (auto simp: on_uni_def split: prod.splits uni_backend.splits)
qed

lemma maintains_on_kh:
  assumes "\<And>key opened. maintains P (live key opened)"
  shows "maintains (\<lambda>s. P (snd s)) (on_kh mock live)"
proof (rule maintainsI)
  fix s r s'
  assume "P (snd s)" and "on_kh mock live s = (r, s')"
  then show "P (snd s')"
    using maintainsD [OF assms] by (auto simp: on_kh_def split: prod.splits kh_backend.splits)
qed

lemma respects_quote:
  assumes "http_respects env P"
  shows "maintains (\<lambda>s. P (snd s)) (uni_quote env req)"
proof -
  have "maintains P (retrying env (sx_raise e))" for e
    using assms by (simp add: retrying_def http_respects_def)
  then have "maintains P (live_quote env key opened req)" for key opened
    unfolding live_quote_def uni_post_def
    by (intro maintains_bind maintains_basic) (auto intro!: maintains_bind respects_json assms)
  then show ?thesis unfolding uni_quote_def by (rule maintains_on_uni)
qed

lemma respects_kh:
  assumes "http_respects env P"
  shows "maintains (\<lambda>s. P (snd s)) (kh_execute_transfer env uid treq)"
    and "maintains (\<lambda>s. P (snd s)) (kh_get_execution_status env eid)"
    and "maintains (\<lambda>s. P (snd s)) (kh_get_execution_logs env eid)"
proof -
  have r: "maintains P (kh_request env key opened meth path body)" for key opened meth path body
    using assms by (simp add: kh_request_def respects_json)
  show "maintains (\<lambda>s. P (snd s)) (kh_execute_transfer env uid treq)"
    unfolding kh_execute_transfer_def live_execute_transfer_def
    by (intro maintains_on_kh maintains_bind r maintains_basic)
  show "maintains (\<lambda>s. P (snd s)) (kh_get_execution_status env eid)"
    unfolding kh_get_execution_status_def live_get_execution_status_def
    by (intro maintains_on_kh maintains_bind r maintains_basic)
  show "maintains (\<lambda>s. P (snd s)) (kh_get_execution_logs env eid)"
    unfolding kh_get_execution_logs_def live_get_execution_logs_def
    by (intro maintains_on_kh maintains_bind r maintains_basic)
qed

lemma respects_score:
  assumes "http_respects env P"
  shows "maintains (\<lambda>s. P (snd s)) (score env mid now signal pk)"
proof -
  have chat: "maintains P (live_chat env url key model opened msgs n)" for url key model opened msgs n
    unfolding live_chat_def using assms by (auto intro!: maintains_bind respects_json)
  have "maintains (\<lambda>s. P (snd s)) (compute_chat env msgs n)" for msgs n
    by (rule maintainsI)
      (auto simp: compute_chat_def split: prod.splits compute_backend.splits intro: maintainsD [OF chat])
  then show ?thesis
    unfolding score_def infer_def ask_model_def by (intro maintains_bind maintains_try maintains_basic)
qed

text \<open>A swap of the KeeperHub executor: the quote, the transfer and its polls.\<close>

lemma maintains_on_uniswap:
  "maintains (\<lambda>s. P (snd s)) m \<Longrightarrow> maintains (\<lambda>x. P (x_net x)) (on_uniswap m)"
  unfolding on_uniswap_def by (erule maintains_zoom) auto

lemma maintains_on_keeperhub:
  "maintains (\<lambda>s. P (snd s)) m \<Longrightarrow> maintains (\<lambda>x. P (x_net x)) (on_keeperhub m)"
  unfolding on_keeperhub_def by (erule maintains_zoom) auto

lemma respects_poll:
  assumes "http_respects env P"
  shows "maintains (\<lambda>x. P (x_net x)) (poll_tx_hash env eid n l)"
proof (induction n arbitrary: l)
  case (Suc n)
  then show ?case
    by (auto intro!: maintains_bind maintains_try maintains_on_keeperhub respects_kh assms split: option.split)
qed simp

lemma respects_commitment:
  assumes "http_respects env P"
  shows "maintains (\<lambda>x. P (x_net x)) (submit_treasury_commitment env getenv ex uid)"
  unfolding submit_treasury_commitment_def commitment_outcome_def tx_hash_from_logs_def
  by (auto intro!: maintains_bind maintains_try maintains_on_keeperhub respects_kh respects_poll assms
      split: sum.split option.split)

lemma respects_swap:
  fixes env :: "('w, 'x) uni_env_scheme"
  assumes "http_respects env P"
  shows "maintains (\<lambda>x. P (x_net x)) (kh_execute_swap env senv getenv ex ri ti to amount chain slip wallet)"
proof -
  let ?I = "\<lambda>x :: ('n, 'w) xstate. P (x_net x)"
  have "maintains ?I (kh_get_quote env ti to amount chain slip w)" for w
    unfolding kh_get_quote_def by (intro maintains_bind maintains_basic maintains_on_uniswap respects_quote assms)
  moreover have "maintains ?I (write_audit senv ex ri a)" for a
    by (rule maintainsI) (auto simp: write_audit_def split: prod.splits if_splits)
  ultimately show ?thesis
    unfolding kh_execute_swap_def by (intro maintains_try maintains_bind maintains_basic respects_commitment assms)
qed

subsection \<open>The node and the agents\<close>

lemma sent_axl:
  assumes "net_respects env P Ok" and "Ok (encode_message (dump_message (e_axl env)) msg)"
  shows "maintains P (axl_send (e_axl env) url dest msg)"
proof -
  have "maintains P (axl_attempt (e_axl env) url ''POST /send'' (Some dest) (encode_message (dump_message (e_axl env)) msg))"
    unfolding axl_attempt_def using assms by (intro maintains_bind maintains_basic) (simp add: net_respects_def)
  then show ?thesis
    unfolding axl_send_def axl_retrying_def using assms(1)
    by (intro maintains_bind maintains_basic) (simp add: net_respects_def)
qed

lemma topology_axl:
  assumes "net_respects env P Ok"
  shows "maintains P (axl_topology (e_axl env) url)"
proof -
  have "maintains P (axl_attempt (e_axl env) url ''GET /topology'' None [])"
    unfolding axl_attempt_def using assms by (intro maintains_bind maintains_basic) (simp add: net_respects_def)
  then have "maintains P (axl_retrying (e_axl env) (axl_attempt (e_axl env) url ''GET /topology'' None []))"
    unfolding axl_retrying_def using assms by (simp add: net_respects_def)
  then show ?thesis unfolding axl_topology_def by (intro maintains_bind maintains_basic)
qed

lemma recv_axl:
  assumes "net_respects env P Ok"
  shows "maintains P (axl_recv (e_axl env) url)"
proof -
  have "maintains P (axl_request (e_axl env) url ''GET /recv'' None [])"
    using assms by (simp add: net_respects_def)
  then show ?thesis
    unfolding axl_recv_def by (auto intro!: maintains_bind maintains_try split: option.split sum.split)
qed


lemma net_zooms:
  "maintains P a \<Longrightarrow> maintains (net_inv P) (on_axl a)"
  "maintains (\<lambda>x. P (x_net x)) x \<Longrightarrow> maintains (net_inv P) (on_x x)"
  "maintains (\<lambda>s. P (snd s)) c \<Longrightarrow> maintains (net_inv P) (on_compute c)"
  unfolding on_axl_def on_x_def on_compute_def by (erule maintains_zoom; auto simp: net_inv_def)+

lemma net_memory: "maintains (net_inv P) (with_memory f)"
  by (auto simp: maintains_def with_memory_def on_heap_def sx_zoom_def net_inv_def split: option.split prod.split)

lemma net_local [intro, simp]:
  "maintains (net_inv P) own_pubkey"
  "maintains (net_inv P) (save_status env ai i a)" "maintains (net_inv P) (save_event env ai i ev d)"
  by (simp_all add: maintains_def own_pubkey_def save_status_def save_event_def net_memory [unfolded maintains_def, rule_format])

subsection \<open>What is posted passed the gate\<close>

lemma validate_message_keeps:
  "validate_message m = Inr m' \<Longrightarrow> message_type m' = message_type m \<and> payload m' = payload m"
  by (auto simp: validate_message_def split: if_splits sum.splits)

lemma decode_own:
  assumes "decisions_restored env"
    and "decode_message (load_message (e_axl env)) (encode_message (dump_message (e_axl env)) m) = Inr m'"
  shows "message_type m' = message_type m"
    and "payload m = trade_decision_dump d \<Longrightarrow> e_parse_decision env (payload m') = Inr d' \<Longrightarrow> d' = d"
proof -
  obtain m1 where "load_message (e_axl env) (dump_message (e_axl env) m) = Inr m1" "validate_message m1 = Inr m'"
    using assms(2) by (auto simp: decode_message_def encode_message_def res_bind_Inr_iff)
  with assms(1) validate_message_keeps [of m1 m'] show "message_type m' = message_type m"
    and "payload m = trade_decision_dump d \<Longrightarrow> e_parse_decision env (payload m') = Inr d' \<Longrightarrow> d' = d"
    unfolding decisions_restored_def by metis+
qed

lemma gated_other:
  assumes "decisions_restored env" and "message_type m \<noteq> MT_TRADE_DECISION"
  shows "gated env (encode_message (dump_message (e_axl env)) m)"
  using assms decode_own(1) unfolding gated_def by metis

lemma gated_decision:
  assumes "decisions_restored env" and "payload m = trade_decision_dump d" and "decision_ok (e_nan env) d"
  shows "gated env (encode_message (dump_message (e_axl env)) m)"
  unfolding gated_def
proof (intro allI impI, elim conjE)
  fix m' d'
  assume m': "decode_message (load_message (e_axl env)) (encode_message (dump_message (e_axl env)) m) = Inr m'"
    and "read_decision env (payload m') = Inr d'"
  then obtain d1 where "e_parse_decision env (payload m') = Inr d1" and "validate_trade_decision (e_nan env) d1 = Inr d'"
    by (auto simp: read_decision_def res_bind_Inr_iff)
  with decode_own(2) [OF assms(1) m' assms(2)] have "d' = d" by (simp add: validate_trade_decision_iff)
  with assms(3) show "decision_ok (e_nan env) d'" by simp
qed

definition gate_kept :: "('n, 'w) swarm_env \<Rightarrow> ('w \<Rightarrow> bool) \<Rightarrow> bool" where
  "gate_kept env P \<longleftrightarrow>
     net_respects env P (gated env) \<and> decisions_restored env \<and> nan_valid (e_risk env) = e_nan env"

lemma gate_keptD:
  assumes "gate_kept env P"
  shows "net_respects env P (gated env)" "decisions_restored env" "nan_valid (e_risk env) = e_nan env"
    "http_respects (e_uni env) P" "http_respects (e_risk env) P"
  using assms by (simp_all add: gate_kept_def net_respects_def)

lemma send_gated:
  assumes "gate_kept env P" and "gated env (encode_message (dump_message (e_axl env)) msg)"
  shows "maintains (net_inv P) (agent_send env ac dest msg)"
    and "maintains (net_inv P) (on_axl (axl_send (e_axl env) url pk msg))"
  using assms gate_keptD(1) [OF assms(1)]
  by (auto simp: agent_send_def intro!: maintains_bind net_zooms sent_axl)

lemma send_other:
  assumes "gate_kept env P" and "make_message mid now mt role pk pl = Inr msg" and "mt \<noteq> MT_TRADE_DECISION"
  shows "maintains (net_inv P) (agent_send env ac dest msg)"
    and "maintains (net_inv P) (on_axl (axl_send (e_axl env) url pk' msg))"
proof -
  have "gated env (encode_message (dump_message (e_axl env)) msg)"
    using gated_other gate_keptD(2) [OF assms(1)] make_message_SomeD(2) [OF assms(2)] assms(3) by metis
  with send_gated [OF assms(1)] show "maintains (net_inv P) (agent_send env ac dest msg)"
    and "maintains (net_inv P) (on_axl (axl_send (e_axl env) url pk' msg))" by blast+
qed

lemma result_gated:
  assumes "gate_kept env P"
  shows "maintains (net_inv P) (send_result env ac ai ok h e)"
  unfolding send_result_def
  by (intro maintains_bind maintains_try maintains_basic net_local send_other [OF assms]) auto

lemma signal_gated:
  assumes "gate_kept env P"
  shows "maintains (net_inv P) (handle_signal env ac ai signal)"
proof -
  have scored: "maintains (net_inv P) (on_compute (score (e_risk env) mid now signal pk))" for mid now pk
    by (intro net_zooms respects_score gate_keptD [OF assms])
  have sent: "maintains (net_inv P) (agent_send env ac EXECUTOR msg)"
    if run: "on_compute (score (e_risk env) mid now signal pk) s = (Inr msg, s')" for mid now pk s s' msg
  proof -
    obtain c c' where "score (e_risk env) mid now signal pk c = (Inr msg, c')"
      using run by (auto simp: on_compute_def sx_zoom_def split: prod.splits)
    then obtain reply d where d: "decision_of (nan_valid (e_risk env)) signal reply = Inr d"
      and m: "make_message mid now MT_TRADE_DECISION RISK pk (trade_decision_dump d) = Inr msg"
      by (rule score_Inr)
    obtain result where reply: "reply = VDict result" using decision_of_dict [OF d] ..
    have "decision_ok (e_nan env) d"
      using decision_of_Inr(1) [OF d [unfolded reply]] gate_keptD(3) [OF assms] by simp
    then have "gated env (encode_message (dump_message (e_axl env)) msg)"
      by (rule gated_decision [OF gate_keptD(2) [OF assms] make_message_SomeD(4) [OF m]])
    then show ?thesis by (rule send_gated(1) [OF assms])
  qed
  show ?thesis
    unfolding handle_signal_def by (intro maintains_bind net_local scored) (rule sent)
qed

lemma decision_gated:
  assumes "gate_kept env P"
  shows "maintains (net_inv P) (handle_trade_decision env ac ai msg)"
proof -
  have "maintains (net_inv P) (record_result env ai r)" for r
    by (simp add: record_result_def maintains_bind)
  then have "maintains (net_inv P) (if td_action d = HOLD then handle_hold env ac ai d
      else sx_bind (save_status env ai 0 (status_only AS_EXECUTING)) (\<lambda>_.
        sx_bind (on_x (kh_execute_swap (e_uni env) (e_st env) (e_getenv env) (agent_kx ac) (ai_ri ai)
            (td_token_in d) (td_token_out d) (str_int (td_amount_in_wei d)) (td_chain_id d) (Fin (1 / 2))
            (Some (ac_wallet ac)))) (\<lambda>r.
        sx_bind (record_result env ai r) (\<lambda>_.
        send_result env ac ai (sw_status r \<in> {SW_CONFIRMED, SW_SUBMITTED}) (sw_tx_hash r) (sw_error r)))))" for d
    unfolding handle_hold_def
    by (auto intro!: maintains_bind result_gated assms net_zooms respects_swap gate_keptD)
  then show ?thesis by (simp add: handle_trade_decision_def split: sum.split)
qed


lemma ping_gated:
  assumes "gate_kept env P"
  shows "maintains (net_inv P) (handle_ping env ac ai r)"
proof -
  have "maintains (net_inv P) (on_axl (axl_send (e_axl env) url pk' pong))"
    if "make_pong mid now ping role pk lat = Inr pong" for mid now ping role pk lat pong url pk'
    using that by (auto simp: make_pong_def intro: send_other(2) [OF assms] split: pyval.splits)
  then show ?thesis unfolding handle_ping_def by (auto intro!: maintains_bind)
qed

lemma ping_roles_gated:
  assumes "gate_kept env P"
  shows "maintains (net_inv P) (ping_roles env ac fresh rs)"
proof (induction rs)
  case (Cons r rs)
  have "maintains (net_inv P) (agent_send env ac r msg)"
    if "make_ping nonce mid now role pk = Inr msg" for nonce mid now role pk msg
    using that by (auto simp: make_ping_def intro: send_other(1) [OF assms])
  with Cons show ?case by (auto intro!: maintains_bind split: prod.split)
qed simp

lemma start_gated:
  assumes "gate_kept env P"
  shows "maintains (net_inv P) (agent_start env ac ai)"
  unfolding agent_start_def
  by (auto intro!: maintains_bind maintains_modify net_zooms topology_axl gate_keptD [OF assms]
      simp: net_inv_def [where s = "_ :: ('a, 'b) asys"] split: prod.split)

lemma stop_gated: "maintains (net_inv P) (agent_stop env ai)"
  unfolding agent_stop_def
  by (intro maintains_bind maintains_try maintains_modify net_local maintains_basic) (simp add: net_inv_def)

lemma handler_gated:
  assumes "gate_kept env P"
  shows "maintains (net_inv P) (agent_handler role env ac ai r)"
  using signal_gated [OF assms] decision_gated [OF assms]
  by (auto simp: agent_handler_def researcher_on_message_def risk_on_message_def executor_on_message_def
      split: agent_role.split pyval.split)

lemma loop_gated:
  assumes "gate_kept env P"
  shows "maintains (net_inv P) (dispatch_loop env ac ins (agent_handler role env ac) n)"
proof (induction n)
  case (Suc n)
  have "maintains (net_inv P) (route env ac ai (agent_handler role env ac ai) r)" for ai r
    unfolding route_def using ping_gated [OF assms] handler_gated [OF assms] by (simp add: maintains_try)
  with Suc show ?case
    by (auto intro!: maintains_bind net_zooms recv_axl gate_keptD [OF assms] split: option.split)
qed simp

lemma apart_respects:
  assumes "apart_from_node env posted"
  shows "http_respects env (\<lambda>w. \<forall>b\<in>posted w. Q b)"
  unfolding http_respects_def
proof (intro conjI allI impI)
  fix meth url key body
  have "posted (snd (http_request env meth url key body w)) \<subseteq> posted w" for w
    using assms by (simp add: apart_from_node_def)
  then show "maintains (\<lambda>w. \<forall>b\<in>posted w. Q b) (http_request env meth url key body)"
    unfolding maintains_def by blast
qed (use assms in \<open>simp add: apart_from_node_def reruns_def\<close>)

lemma relays_respects:
  assumes "relays env posted" and "path = ''POST /send'' \<longrightarrow> Q body"
  shows "maintains (\<lambda>w. \<forall>b\<in>posted w. Q b) (axl_request env url path dest body)"
proof -
  have "posted (snd (axl_request env url path dest body w)) \<subseteq> posted w \<union> (if path = ''POST /send'' then {body} else {})" for w
    using assms(1) by (simp add: relays_def)
  with assms(2) show ?thesis unfolding maintains_def by (fastforce split: if_splits)
qed

definition all_gated :: "('n, 'w) swarm_env \<Rightarrow> ('w \<Rightarrow> bytes set) \<Rightarrow> 'w \<Rightarrow> bool" where
  "all_gated env posted w \<longleftrightarrow> (\<forall>b\<in>posted w. gated env b)"

lemma all_gated_eq: "all_gated env posted = (\<lambda>w. \<forall>b\<in>posted w. gated env b)"
  by (simp add: all_gated_def fun_eq_iff)

lemma gate_keptI:
  assumes "swarm_network env posted" and "decisions_restored env" and "nan_valid (e_risk env) = e_nan env"
  shows "gate_kept env (all_gated env posted)"
proof -
  have r: "relays (e_axl env) posted" and u: "apart_from_node (e_uni env) posted" and c: "apart_from_node (e_risk env) posted"
    using assms(1) by (simp_all add: swarm_network_def)
  have "maintains (all_gated env posted) (axl_request (e_axl env) url path dest body)"
    if "path = ''POST /send'' \<longrightarrow> gated env body" for url path dest body
    unfolding all_gated_eq using relays_respects [where Q = "gated env", OF r that] .
  moreover have "http_respects (e_uni env) (all_gated env posted)" "http_respects (e_risk env) (all_gated env posted)"
    unfolding all_gated_eq by (rule apart_respects [OF u]) (rule apart_respects [OF c])
  moreover have "reruns (axl_tenacity (e_axl env))" using r by (simp add: relays_def)
  ultimately show ?thesis using assms(2,3) by (simp add: gate_kept_def net_respects_def reruns_def)
qed

lemma agent_turn_net:
  assumes "maintains (net_inv P) m" and "P (sn_net s)"
  shows "P (sn_net (agent_turn role m s))"
proof -
  let ?a = "(sn_agent s role)\<lparr>sy_x := (sy_x (sn_agent s role))\<lparr>x_net := sn_net s\<rparr>\<rparr>"
  obtain r a' where run: "m ?a = (r, a')" by (rule prod.exhaust)
  have "net_inv P ?a" using assms(2) by (simp add: net_inv_def)
  from maintainsD [OF assms(1) run this] show ?thesis by (simp add: agent_turn_def run net_inv_def)
qed

text \<open>The invariant, by induction over the steps.\<close>

lemma swarm_step_gated:
  assumes "swarm_step env confs posted s s'" and "gate_kept env (all_gated env posted)"
    and "all_gated env posted (sn_net s)"
  shows "all_gated env posted (sn_net s')"
  using assms(1)
proof cases
  case (start role ai)
  then show ?thesis using agent_turn_net [OF start_gated [OF assms(2)] assms(3)] by simp
next
  case (stop role ai)
  then show ?thesis using agent_turn_net [where P = "all_gated env posted", OF stop_gated assms(3)] by simp
next
  case (ping fresh)
  then show ?thesis using agent_turn_net [OF ping_roles_gated [OF assms(2)] assms(3)] by (simp add: ping_swarm_def)
next
  case (dispatch role ins n)
  then show ?thesis using agent_turn_net [OF loop_gated [OF assms(2)] assms(3)] by simp
next
  case (peer b w)
  then have "gated env b" by (auto simp: gated_def no_decision_def)
  with peer assms(3) show ?thesis by (auto simp: all_gated_def)
qed

lemma swarm_gated:
  assumes "(swarm_step env confs posted)\<^sup>*\<^sup>* s0 s" and "gate_kept env (all_gated env posted)"
    and "posted (sn_net s0) = {}"
  shows "all_gated env posted (sn_net s)"
  using assms(1)
proof (induction rule: rtranclp_induct)
  case base
  then show ?case using assms(3) by (simp add: all_gated_def)
next
  case (step s s')
  then show ?case using swarm_step_gated assms(2) by blast
qed

lemma axl_recv_posted:
  assumes "relays env posted" and "axl_recv env url w = (Inr (Some r), w')"
  shows "\<exists>b\<in>posted w. decode_message (load_message env) b = Inr (rm_message r)"
proof -
  obtain resp w1 where "axl_request env url ''GET /recv'' None [] w = (Inr resp, w1)" and "ar_content resp \<noteq> []"
    and "decode_message (load_message env) (ar_content resp) = Inr (rm_message r)"
    using assms(2)
    by (auto simp: axl_recv_def sx_bind_Inr_iff sx_try_def sx_return_def sx_raise_def split: prod.splits sum.splits if_splits)
  then show ?thesis using assms(1) unfolding relays_def by blast
qed

text \<open>
  The gate is the risk agent's alone: the executor reads neither the sender of a decision nor the
  key it came from, and the payload model accepts a buy at risk 10.
\<close>

lemma executor_ignores_sender:
  assumes "message_type (rm_message r') = message_type (rm_message r)" and "payload (rm_message r') = payload (rm_message r)"
  shows "executor_on_message env ac ai r' = executor_on_message env ac ai r"
    and "validate_trade_decision nan_ok ((sample_decision BUY)\<lparr>td_risk_score := Fin 10\<rparr>) =
      Inr ((sample_decision BUY)\<lparr>td_risk_score := Fin 10\<rparr>)"
  using assms
  by (simp_all add: executor_on_message_def handle_trade_decision_def validate_trade_decision_iff sample_decision_def)

subsection \<open>A worked run\<close>

text \<open>
  A mailbox as the network, a codec that numbers the messages, and a run: a peer posts a signal, the
  risk agent scores it 9 and posts its decision, the executor receives it.
\<close>

instance agent_role :: countable
  by countable_datatype

instance message_type :: countable
  by countable_datatype

instance pyfloat :: countable
  by countable_datatype

instance pyval :: countable
  by countable_datatype

definition mail_dump :: "swarm_message \<Rightarrow> bytes" where
  "mail_dump m =
     replicate (Suc (to_nat (message_id m, message_type m, sender_role m, sender_pubkey m, timestamp m, payload m))) 0"

definition mail_load :: "bytes \<Rightarrow> swarm_message res" where
  "mail_load b =
     (case from_nat (length b - 1) of (i, mt, role, key, ts, pl) \<Rightarrow>
        Inr \<lparr>message_id = i, message_type = mt, sender_role = role, sender_pubkey = key, timestamp = ts, payload = pl\<rparr>)"

lemma mail_codec [simp]: "mail_load (mail_dump m) = Inr m" "mail_dump m \<noteq> []"
  by (simp_all add: mail_load_def mail_dump_def)

definition mail_reply :: "bytes \<Rightarrow> axl_resp" where
  "mail_reply b = \<lparr>ar_status = 200, ar_content = b, ar_from = sample_pk, ar_json = Inl (PyExc ValueError [])\<rparr>"

definition mail_axl :: "bytes list axl_env" where
  "mail_axl = \<lparr>axl_request = (\<lambda>url path dest body w.
       if path = ''POST /send'' then (Inr (mail_reply []), w @ [body])
       else if path = ''GET /recv'' then
         (case w of [] \<Rightarrow> (Inr (mail_reply []), []) | b # bs \<Rightarrow> (Inr (mail_reply b), bs))
       else (Inl (PyExc ConnectError ''offline''), w)),
     axl_raise_for_status = (\<lambda>_. Inr ()), axl_tenacity = retry_spec, dump_message = mail_dump, load_message = mail_load\<rparr>"

definition mail_env :: "(unit, bytes list) swarm_env" where
  "mail_env = \<lparr>e_axl = mail_axl,
     e_uni = \<lparr>http_request = (\<lambda>_ _ _ _. sx_raise (PyExc ConnectError ''offline'')), raise_for_status = (\<lambda>_. Inr ()),
       tenacity = retry_spec, parse_tx = (\<lambda>_. Inl (PyExc ValueError [])), parse_approval = (\<lambda>_. Inl (PyExc ValueError [])),
       int_field = (\<lambda>_. Inr None), repr_val = (\<lambda>_. []), nan_allowed = False\<rparr>,
     e_risk = sample_risk_env (Inr risky_reply), e_st = log_env, e_getenv = no_env,
     e_parse_decision = decision_of_dump, e_nan = False\<rparr>"

definition mail_conf :: "agent_role \<Rightarrow> agent_conf" where
  "mail_conf role = \<lparr>ac_role = role, ac_api_url = ''u'',
     ac_registry = \<lparr>rg_endpoints = [(EXECUTOR, \<lparr>ep_api_url = ''u'', ep_public_key = sample_pk\<rparr>)], rg_bootstrapped = True\<rparr>,
     ac_has_zg = False, ac_wallet = ''0xw''\<rparr>"

definition mail_agent :: "(unit, bytes list) asys" where
  "mail_agent = \<lparr>sy_x = \<lparr>x_uni = MockUni new_mock_uniswap, x_kh = MockKH new_mock_kh, x_net = [],
       x_zg = \<lparr>zg_backend = InMemory [], zg_net = ()\<rparr>\<rparr>,
     sy_kvs = [], sy_compute = MockCompute, ag_pubkey = sample_pk, ag_running = True, ag_memory = None\<rparr>"

definition mail_swarm :: "(unit, bytes list) swarm" where
  "mail_swarm = \<lparr>sn_agent = (\<lambda>_. mail_agent), sn_net = []\<rparr>"

lemma mail_env_simps [simp]:
  "e_axl mail_env = mail_axl" "e_risk mail_env = sample_risk_env (Inr risky_reply)" "e_nan mail_env = False"
  "e_parse_decision mail_env = decision_of_dump" "dump_message mail_axl = mail_dump" "load_message mail_axl = mail_load"
  by (simp_all add: mail_env_def mail_axl_def)

lemma reruns_spec: "reruns retry_spec"
  by (simp add: reruns_def maintains_retry)

lemma mail_network: "swarm_network mail_env set"
  by (auto simp: swarm_network_def relays_def apart_from_node_def mail_env_def mail_axl_def sample_risk_env_def
      sx_raise_def mail_reply_def reruns_spec split: list.splits)

lemma mail_restored: "decisions_restored mail_env" "nan_valid (e_risk mail_env) = e_nan mail_env"
  by (auto simp: decisions_restored_def decision_of_dump sample_risk_env_def)

lemma mail_send: "axl_send mail_axl url dest m w = (Inr (), w @ [mail_dump m])"
  by (simp add: axl_send_def axl_retrying_def axl_attempt_def encode_message_def mail_axl_def eval_nat_numeral
      sx_bind_def sx_try_def sx_lift_def sx_return_def)

lemma mail_recv: "valid_message m \<Longrightarrow> axl_recv mail_axl url (mail_dump m # w) = (Inr (Some \<lparr>rm_message = m, rm_from_pubkey = sample_pk\<rparr>), w)"
  by (simp add: axl_recv_def mail_axl_def mail_reply_def decode_message_def valid_message_def
      sx_bind_def sx_try_def sx_lift_def sx_return_def)


lemma mail_round:
  assumes "valid_message m" and "message_type m = MT_MARKET_SIGNAL" and "payload m = []"
    and "score (sample_risk_env (Inr risky_reply)) ''m'' ''t'' [] sample_pk (MockCompute, [] :: bytes list) = (Inr dm, (MockCompute, []))"
  shows "sn_net (agent_turn RISK (dispatch_loop mail_env (mail_conf RISK) (\<lambda>_. sample_inputs)
      (agent_handler RISK mail_env (mail_conf RISK)) 1) (mail_swarm\<lparr>sn_net := [mail_dump m]\<rparr>)) = [mail_dump dm]"
proof -
  let ?a = "\<lambda>w. mail_agent\<lparr>sy_x := (sy_x mail_agent)\<lparr>x_net := w\<rparr>\<rparr>"
  have local: "own_pubkey (?a w) = (Inr sample_pk, ?a w)" "save_status mail_env ai i st (?a w) = (Inr (), ?a w)"
    "save_event mail_env ai i ev d (?a w) = (Inr (), ?a w)" for w ai i st ev d
    by (simp_all add: own_pubkey_def save_status_def save_event_def with_memory_def mail_agent_def sample_pk_def)
  have scored: "on_compute (score (sample_risk_env (Inr risky_reply)) ''m'' ''t'' [] sample_pk) (?a []) = (Inr dm, ?a [])"
    using assms(4) by (simp add: on_compute_def sx_zoom_def mail_agent_def)
  have sent: "agent_send mail_env (mail_conf RISK) EXECUTOR dm (?a []) = (Inr (), ?a [mail_dump dm])"
    by (simp add: agent_send_def mail_conf_def pubkey_for_def sample_pk_def on_axl_def sx_zoom_def mail_send sx_bind_def sx_lift_def)
  have signal: "handle_signal mail_env (mail_conf RISK) sample_inputs [] (?a []) = (Inr (), ?a [mail_dump dm])"
    by (simp add: handle_signal_def sx_bind_def local scored sent sample_inputs_def)
  have got: "on_axl (axl_recv mail_axl u) (?a [mail_dump m]) = (Inr (Some \<lparr>rm_message = m, rm_from_pubkey = sample_pk\<rparr>), ?a [])" for u
    using mail_recv [OF assms(1), of u "[]"] by (simp add: on_axl_def sx_zoom_def)
  have "dispatch_loop mail_env (mail_conf RISK) (\<lambda>_. sample_inputs) (agent_handler RISK mail_env (mail_conf RISK)) 1
      (?a [mail_dump m]) = (Inr (), ?a [mail_dump dm])"
    using assms(2,3) signal
    by (simp add: sx_bind_def got sx_get_def route_def agent_handler_def risk_on_message_def sx_try_def sx_return_def)
      (simp add: mail_agent_def)
  then show ?thesis by (simp add: agent_turn_def mail_swarm_def)
qed

lemma mail_run:
  "\<exists>s dm d. (swarm_step mail_env mail_conf set)\<^sup>*\<^sup>* mail_swarm s \<and> sn_net s = [mail_dump dm] \<and> valid_message dm \<and>
     message_type dm = MT_TRADE_DECISION \<and> read_decision mail_env (payload dm) = Inr d \<and> td_risk_score d = Fin 9"
proof -
  obtain k where key: "str_to_int 16 sample_pk = Some k" using sample_pk_hex by blast
  have len: "length sample_pk = 64" by (simp add: sample_pk_def)
  obtain m where m: "make_message ''s'' ''t'' MT_MARKET_SIGNAL RESEARCHER sample_pk [] = Inr m"
    using make_message_total [OF len key] by blast
  note signal = make_message_SomeD(1,2,4) [OF m]
  obtain dm where dm: "score (sample_risk_env (Inr risky_reply)) ''m'' ''t'' [] sample_pk (MockCompute, [] :: bytes list) =
      (Inr dm, (MockCompute, []))" and risk: "dget (payload dm) ''risk_score'' VNone = VFloat (Fin 9)"
    using risky_score [OF len key, where w = "[] :: bytes list" and mid = "''m''" and now = "''t''"] by blast
  from dm obtain p reply d where d: "decision_of (nan_valid (sample_risk_env (Inr risky_reply) :: bytes list risk_env)) [] reply = Inr d"
    and mk: "make_message ''m'' ''t'' MT_TRADE_DECISION RISK sample_pk (trade_decision_dump d) = Inr dm"
    by (rule score_Inr)
  obtain result where reply: "reply = VDict result" using decision_of_dict [OF d] ..
  have "decision_ok False d" using decision_of_Inr(1) [OF d [unfolded reply]] by (simp add: sample_risk_env_def)
  then have read: "read_decision mail_env (payload dm) = Inr d"
    using make_message_SomeD(4) [OF mk]
    by (auto simp: read_decision_def decision_of_dump validate_trade_decision_iff decision_ok_def split: if_splits)
  let ?s1 = "mail_swarm\<lparr>sn_net := [mail_dump m]\<rparr>"
  have "no_decision mail_env (mail_dump m)"
    using signal by (auto simp: no_decision_def decode_message_def dest: validate_message_keeps)
  then have "swarm_step mail_env mail_conf set mail_swarm ?s1"
    by (rule swarm_step.peer) (simp add: mail_swarm_def)
  moreover have "swarm_step mail_env mail_conf set ?s1 (agent_turn RISK (dispatch_loop mail_env (mail_conf RISK)
      (\<lambda>_. sample_inputs) (agent_handler RISK mail_env (mail_conf RISK)) 1) ?s1)"
    by (rule swarm_step.dispatch)
  moreover have "td_risk_score d = Fin 9"
    using risk make_message_SomeD(4) [OF mk] by (simp add: trade_decision_dump_def dget_def)
  ultimately show ?thesis
    using mail_round [OF signal dm] read make_message_SomeD(1,2) [OF mk]
    by (meson converse_rtranclp_into_rtranclp r_into_rtranclp)
qed

subsection \<open>Properties\<close>

text \<open>
  C7. The risk gate holds for the swarm as a whole: after any interleaving of agents starting,
  stopping, pinging and dispatching, with other peers posting anything but trade decisions, a
  message the executor receives whose decision has a risk score of 7 or more makes it do the same
  whatever the trading services would answer, and leaves both API clients as they were.
\<close>

theorem swarm_trades_below_gate:
  assumes "swarm_network env posted" and "decisions_restored env" and "nan_valid (e_risk env) = e_nan env"
    and "(swarm_step env confs posted)\<^sup>*\<^sup>* s0 s" and "posted (sn_net s0) = {}"
    and "axl_recv (e_axl env) url (sn_net s) = (Inr (Some r), w')"
    and "read_decision env (payload (rm_message r)) = Inr d" and "f_ge (td_risk_score d) RISK_THRESHOLD"
  shows "executor_on_message (env\<lparr>e_uni := u\<rparr>) ac ai r x = executor_on_message env ac ai r x \<and>
    api_clients (snd (executor_on_message env ac ai r x)) = api_clients x"
proof (cases "message_type (rm_message r) = MT_TRADE_DECISION")
  case True
  have "all_gated env posted (sn_net s)"
    by (rule swarm_gated [OF assms(4) gate_keptI [OF assms(1-3)] assms(5)])
  moreover obtain b where "b \<in> posted (sn_net s)" and "decode_message (load_message (e_axl env)) b = Inr (rm_message r)"
    using axl_recv_posted [OF _ assms(6), of posted] assms(1) by (auto simp: swarm_network_def)
  ultimately have "decision_ok (e_nan env) d" using True assms(7) unfolding all_gated_def gated_def by blast
  with assms(8) have "td_action d = HOLD" by (auto simp: decision_ok_def split: if_splits)
  from hold_no_trade [OF assms(7) this] True show ?thesis by (simp add: executor_on_message_def)
qed (simp add: executor_on_message_def sx_return_def)

theorem swarm_trades_below_gate_witness:
  "\<exists>s r d. (swarm_step mail_env mail_conf set)\<^sup>*\<^sup>* mail_swarm s \<and>
     axl_recv mail_axl ''u'' (sn_net s) = (Inr (Some r), []) \<and> message_type (rm_message r) = MT_TRADE_DECISION \<and>
     read_decision mail_env (payload (rm_message r)) = Inr d \<and> td_risk_score d = Fin 9 \<and>
     api_clients (snd (executor_on_message mail_env (mail_conf EXECUTOR) sample_inputs r mail_agent)) = api_clients mail_agent"
proof -
  obtain s dm d where run: "(swarm_step mail_env mail_conf set)\<^sup>*\<^sup>* mail_swarm s"
    and net: "sn_net s = [mail_dump dm]" and dm: "valid_message dm" "message_type dm = MT_TRADE_DECISION"
    and d: "read_decision mail_env (payload dm) = Inr d" "td_risk_score d = Fin 9"
    using mail_run by blast
  let ?r = "\<lparr>rm_message = dm, rm_from_pubkey = sample_pk\<rparr>"
  have start: "set (sn_net mail_swarm) = {}" by (simp add: mail_swarm_def)
  have recv: "axl_recv (e_axl mail_env) ''u'' (sn_net s) = (Inr (Some ?r), [])" using mail_recv [OF dm(1)] net by simp
  have read: "read_decision mail_env (payload (rm_message ?r)) = Inr d" using d(1) by simp
  have "f_ge (td_risk_score d) RISK_THRESHOLD" using d(2) by (simp add: RISK_THRESHOLD_def)
  from swarm_trades_below_gate [OF mail_network mail_restored run start recv read this] run recv read dm d
  show ?thesis by (intro exI [of _ s] exI [of _ ?r] exI [of _ d]) simp
qed

end
