(* ===== verification/Agent_Life.thy ===== *)
theory Agent_Life
  imports Swarm_Net
begin

text \<open>
  The life of an agent's process (\<^verbatim>\<open>BaseAgent.__init__\<close>, \<^verbatim>\<open>run\<close>, \<^verbatim>\<open>start\<close> and \<^verbatim>\<open>stop\<close> of
  \<^verbatim>\<open>agents/base.py\<close>, and the session of its \<^verbatim>\<open>AXLClient\<close>). Three kinds of tasks share the
  agent: \<^verbatim>\<open>run\<close>, the dispatch loop, and one \<^verbatim>\<open>stop\<close> for each shutdown signal. A task is the
  program point it waits at; a turn takes it to its next one. A storage operation and a round of
  the dispatch loop are one turn each; a handler that is cancelled half way is not followed.
\<close>

subsection \<open>Construction\<close>

definition new_conf :: "agent_role \<Rightarrow> agent_registry \<Rightarrow> bool \<Rightarrow> string \<Rightarrow> agent_conf res" where
  "new_conf role rg has_zg wallet =
     res_bind (api_url_for rg role) (\<lambda>url.
     Inr \<lparr>ac_role = role, ac_api_url = rstrip_slash url, ac_registry = rg, ac_has_zg = has_zg, ac_wallet = wallet\<rparr>)"

text \<open>The researcher is never given a storage client; only the executor has a wallet.\<close>

definition new_researcher :: "agent_registry \<Rightarrow> agent_conf res" where
  "new_researcher rg = new_conf RESEARCHER rg False []"

definition new_risk :: "agent_registry \<Rightarrow> bool \<Rightarrow> agent_conf res" where
  "new_risk rg has_zg = new_conf RISK rg has_zg []"

definition new_executor :: "agent_registry \<Rightarrow> bool \<Rightarrow> string \<Rightarrow> agent_conf res" where
  "new_executor rg has_zg wallet = new_conf EXECUTOR rg has_zg wallet"

subsection \<open>The HTTP session of the AXL client\<close>

text \<open>Leaving the context closes the session but keeps the object: later requests meet a closed \<^verbatim>\<open>httpx\<close> client.\<close>

datatype session = Unopened | Opened | Closed

definition session_exit :: "session \<Rightarrow> session" where
  "session_exit ss = (if ss = Unopened then Unopened else Closed)"

definition with_session :: "session \<Rightarrow> 'w axl_env \<Rightarrow> 'w axl_env" where
  "with_session ss env = env\<lparr>axl_request := (\<lambda>url path dest body.
     case ss of
       Unopened \<Rightarrow> sx_raise (PyExc RuntimeError ''AXLClient must be used as an async context manager'')
     | Opened \<Rightarrow> axl_request env url path dest body
     | Closed \<Rightarrow> sx_raise (PyExc RuntimeError ''Cannot send a request, as the client has been closed.''))\<rparr>"

definition in_session :: "session \<Rightarrow> ('n, 'w) swarm_env \<Rightarrow> ('n, 'w) swarm_env" where
  "in_session ss env = env\<lparr>e_axl := with_session ss (e_axl env)\<rparr>"

subsection \<open>The process\<close>

datatype run_point = AtTopology | AtStatus | AtEvent | Polling | Returned | Raised pyexc

datatype stop_point = StBegin | StStatus | StEvent | StCancel | StClose | StDone

datatype task = NoTask | Running | Finished "pyexc option"

record ('n, 'w) process =
  pr_sys :: "('n, 'w) asys"
  pr_http :: session
  pr_run :: run_point
  pr_stops :: "stop_point list"
  pr_task :: task

text \<open>A new agent whose \<^verbatim>\<open>run\<close> has installed its signal handlers and entered the client's context.\<close>

definition new_process :: "('n, 'w) asys \<Rightarrow> ('n, 'w) process" where
  "new_process s =
     \<lparr>pr_sys = s\<lparr>ag_pubkey := [], ag_running := False, ag_memory := None\<rparr>, pr_http = Opened, pr_run = AtTopology,
      pr_stops = [], pr_task = NoTask\<rparr>"

definition attach_memory :: "agent_conf \<Rightarrow> ('n, 'w) asys \<Rightarrow> ('n, 'w) asys" where
  "attach_memory ac s =
     (case make_agent_memory (role_value (ac_role ac)) \<lparr>mh_kvs = sy_kvs s, mh_zg = x_zg (sy_x s)\<rparr> of
        (m, h) \<Rightarrow> s\<lparr>ag_memory := Some m, sy_kvs := mh_kvs h\<rparr>)"

definition run_turn ::
  "('n, 'w) swarm_env \<Rightarrow> agent_conf \<Rightarrow> agent_inputs \<Rightarrow> ('n, 'w) process \<Rightarrow> ('n, 'w) process" where
  "run_turn env ac ai p =
     (case pr_run p of
        AtTopology \<Rightarrow>
          (case on_axl (axl_topology (with_session (pr_http p) (e_axl env)) (ac_api_url ac)) (pr_sys p) of
             (Inl e, s) \<Rightarrow> p\<lparr>pr_sys := s, pr_run := Raised e\<rparr>
           | (Inr info, s) \<Rightarrow>
               (let s1 = s\<lparr>ag_pubkey := ni_public_key info, ag_running := True\<rparr>
                in if ac_has_zg ac then p\<lparr>pr_sys := attach_memory ac s1, pr_run := AtStatus\<rparr>
                   else p\<lparr>pr_sys := s1, pr_task := Running, pr_run := Polling\<rparr>))
      | AtStatus \<Rightarrow>
          (case save_status env ai 0 (status_only AS_IDLE) (pr_sys p) of
             (Inl e, s) \<Rightarrow> p\<lparr>pr_sys := s, pr_run := Raised e\<rparr>
           | (Inr _, s) \<Rightarrow> p\<lparr>pr_sys := s, pr_run := AtEvent\<rparr>)
      | AtEvent \<Rightarrow>
          (case save_event env ai 1 LE_AGENT_STARTED
                  [(''pubkey'', VStr (take 16 (ag_pubkey (pr_sys p)) @ ELLIPSIS))] (pr_sys p) of
             (Inl e, s) \<Rightarrow> p\<lparr>pr_sys := s, pr_run := Raised e\<rparr>
           | (Inr _, s) \<Rightarrow> p\<lparr>pr_sys := s, pr_task := Running, pr_run := Polling\<rparr>)
      | Polling \<Rightarrow> if ag_running (pr_sys p) then p else p\<lparr>pr_run := Returned\<rparr>
      | _ \<Rightarrow> p)"

text \<open>\<^verbatim>\<open>stop\<close>: storage errors are logged; the loop is cancelled if it still runs; the session is closed.\<close>

definition stop_turn ::
  "('n, 'w) swarm_env \<Rightarrow> agent_inputs \<Rightarrow> stop_point \<Rightarrow> ('n, 'w) process \<Rightarrow> stop_point \<times> ('n, 'w) process" where
  "stop_turn env ai pt p =
     (case pt of
        StBegin \<Rightarrow>
          (if ag_memory (pr_sys p) = None then StCancel else StStatus, p\<lparr>pr_sys := (pr_sys p)\<lparr>ag_running := False\<rparr>\<rparr>)
      | StStatus \<Rightarrow>
          (case save_status env ai 0 (status_only AS_IDLE) (pr_sys p) of
             (Inl _, s) \<Rightarrow> (StCancel, p\<lparr>pr_sys := s\<rparr>)
           | (Inr _, s) \<Rightarrow> (StEvent, p\<lparr>pr_sys := s\<rparr>))
      | StEvent \<Rightarrow> (case save_event env ai 1 LE_AGENT_STOPPED [] (pr_sys p) of (_, s) \<Rightarrow> (StCancel, p\<lparr>pr_sys := s\<rparr>))
      | StCancel \<Rightarrow> (StClose, if pr_task p = Running then p\<lparr>pr_task := Finished None\<rparr> else p)
      | StClose \<Rightarrow> (StDone, p\<lparr>pr_http := session_exit (pr_http p)\<rparr>)
      | StDone \<Rightarrow> (StDone, p))"

text \<open>A round of the dispatch loop: \<^verbatim>\<open>recv_stream\<close> polls again on an empty queue.\<close>

definition dispatch_turn ::
  "('n, 'w) swarm_env \<Rightarrow> agent_conf \<Rightarrow> agent_role \<Rightarrow> agent_inputs \<Rightarrow> ('n, 'w) process \<Rightarrow> ('n, 'w) process" where
  "dispatch_turn env ac role ai p =
     (let env' = in_session (pr_http p) env
      in case on_axl (axl_recv (e_axl env') (ac_api_url ac)) (pr_sys p) of
           (Inl e, s) \<Rightarrow> p\<lparr>pr_sys := s, pr_task := Finished (Some e)\<rparr>
         | (Inr None, s) \<Rightarrow> p\<lparr>pr_sys := s\<rparr>
         | (Inr (Some r), s) \<Rightarrow>
             if \<not> ag_running s then p\<lparr>pr_sys := s, pr_task := Finished None\<rparr>
             else (case route env' ac ai (agent_handler role env' ac ai) r s of
                     (Inl e, s') \<Rightarrow> p\<lparr>pr_sys := s', pr_task := Finished (Some e)\<rparr>
                   | (Inr _, s') \<Rightarrow> p\<lparr>pr_sys := s'\<rparr>))"

definition run_ended :: "('n, 'w) process \<Rightarrow> bool" where
  "run_ended p = (case pr_run p of Returned \<Rightarrow> True | Raised _ \<Rightarrow> True | _ \<Rightarrow> False)"

inductive life_step ::
  "('n, 'w) swarm_env \<Rightarrow> agent_conf \<Rightarrow> agent_role \<Rightarrow> ('n, 'w) process \<Rightarrow> ('n, 'w) process \<Rightarrow> bool"
  for env ac role where
  run: "\<not> run_ended p \<Longrightarrow> life_step env ac role p (run_turn env ac ai p)"
| signal: "\<not> run_ended p \<Longrightarrow> life_step env ac role p (p\<lparr>pr_stops := pr_stops p @ [StBegin]\<rparr>)"
| stop: "i < length (pr_stops p) \<Longrightarrow> stop_turn env ai (pr_stops p ! i) p = (pt, p') \<Longrightarrow>
    life_step env ac role p (p'\<lparr>pr_stops := (pr_stops p)[i := pt]\<rparr>)"
| dispatch: "pr_task p = Running \<Longrightarrow> life_step env ac role p (dispatch_turn env ac role ai p)"


inductive_simps life_step_iff: "life_step env ac role p q"

subsection \<open>What storage and the handlers leave alone\<close>

text \<open>All of an agent but its storage: what the other agents and the services could notice.\<close>

definition agent_face :: "('n, 'w) asys \<Rightarrow> bool \<times> string \<times> agent_memory option \<times> 'w \<times> uni_backend \<times> kh_backend" where
  "agent_face s = (ag_running s, ag_pubkey s, ag_memory s, x_net (sy_x s), api_clients s)"

lemma face_memory: "keeps agent_face (with_memory f)"
  by (auto simp: keeps_def agent_face_def api_clients_def with_memory_def on_heap_def sx_zoom_def split: option.split prod.split)

lemma face_save: "keeps agent_face (save_status env ai i a)" "keeps agent_face (save_event env ai i ev d)"
  unfolding save_status_def save_event_def by (rule face_memory)+

lemma face_saveD:
  "save_status env ai i a s = (r, s') \<Longrightarrow> agent_face s' = agent_face s"
  "save_event env ai i ev d s = (r, s') \<Longrightarrow> agent_face s' = agent_face s"
  by (rule keepsD [OF face_save(1)], assumption) (rule keepsD [OF face_save(2)], assumption)

lemma running_zooms [intro]:
  "keeps ag_running (on_axl a)" "keeps ag_running (on_x x)" "keeps ag_running (on_compute c)" "keeps ag_running own_pubkey"
  by (auto simp: keeps_def on_axl_def on_x_def on_compute_def sx_zoom_def own_pubkey_def split: prod.split)

lemma running_save [intro]: "keeps ag_running (save_status env ai i a)" "keeps ag_running (save_event env ai i ev d)"
  using face_save [of env ai i] by (simp_all add: keeps_def agent_face_def)

lemma running_send [intro]: "keeps ag_running (agent_send env ac dest msg)" "keeps ag_running (send_result env ac ai ok h e)"
  unfolding send_result_def agent_send_def by (intro keeps_bind keeps_try keeps_basic running_zooms)+

lemma running_signal: "keeps ag_running (handle_signal env ac ai signal)"
  unfolding handle_signal_def by (intro keeps_bind running_zooms running_save running_send)

lemma running_decision: "keeps ag_running (handle_trade_decision env ac ai msg)"
  unfolding handle_trade_decision_def handle_hold_def record_result_def
  by (auto intro!: keeps_bind split: sum.split)

lemma running_handler: "keeps ag_running (agent_handler role env ac ai r)"
  using running_signal running_decision
  by (auto simp: agent_handler_def researcher_on_message_def risk_on_message_def executor_on_message_def
      split: agent_role.split pyval.split)

lemma running_route: "keeps ag_running (route env ac ai (agent_handler role env ac ai) r)"
  unfolding route_def handle_ping_def
  by (auto intro!: keeps_bind keeps_try running_handler)

subsection \<open>Without interruption: starting and stopping\<close>

lemma with_session_Opened [simp]: "with_session Opened env = env"
  by (simp add: with_session_def)

text \<open>\<open>agent_start\<close> in terms of the turns' pieces.\<close>

lemma start_with_memory:
  assumes "ac_has_zg ac"
  shows "agent_start env ac ai =
     sx_bind (on_axl (axl_topology (e_axl env) (ac_api_url ac))) (\<lambda>info.
     sx_bind (sx_modify (\<lambda>s. attach_memory ac (s\<lparr>ag_pubkey := ni_public_key info, ag_running := True\<rparr>))) (\<lambda>_.
     sx_bind (save_status env ai 0 (status_only AS_IDLE)) (\<lambda>_.
     save_event env ai 1 LE_AGENT_STARTED [(''pubkey'', VStr (take 16 (ni_public_key info) @ ELLIPSIS))])))"
  using assms by (simp add: agent_start_def attach_memory_def sx_bind_def sx_modify_def fun_eq_iff)

lemma attach_pubkey [simp]: "ag_pubkey (attach_memory ac s) = ag_pubkey s"
  by (simp add: attach_memory_def split: prod.split)

lemma start_alone:
  assumes "pr_http p = Opened" and "pr_run p = AtTopology"
  shows "case agent_start env ac ai (pr_sys p) of (r, s) \<Rightarrow>
    pr_sys ((run_turn env ac ai ^^ 3) p) = s \<and>
    (case r of Inl e \<Rightarrow> pr_run ((run_turn env ac ai ^^ 3) p) = Raised e
     | Inr _ \<Rightarrow> pr_run ((run_turn env ac ai ^^ 3) p) = Polling \<and> pr_task ((run_turn env ac ai ^^ 3) p) = Running)"
proof -
  obtain r s where top: "on_axl (axl_topology (e_axl env) (ac_api_url ac)) (pr_sys p) = (r, s)" by (rule prod.exhaust)
  show ?thesis
  proof (cases r)
    case (Inl e)
    with top assms show ?thesis by (simp add: agent_start_def run_turn_def eval_nat_numeral)
  next
    case (Inr info)
    let ?s1 = "s\<lparr>ag_pubkey := ni_public_key info, ag_running := True\<rparr>"
    show ?thesis
    proof (cases "ac_has_zg ac")
      case False
      with top Inr assms show ?thesis
        by (simp add: agent_start_def run_turn_def eval_nat_numeral sx_modify_def sx_return_def sx_bind_def)
    next
      case True
      obtain r2 s2 where st: "save_status env ai 0 (status_only AS_IDLE) (attach_memory ac ?s1) = (r2, s2)" by (rule prod.exhaust)
      have pk: "ag_pubkey s2 = ni_public_key info" using face_saveD(1) [OF st] by (simp add: agent_face_def)
      obtain r3 s3 where ev: "save_event env ai 1 LE_AGENT_STARTED [(''pubkey'', VStr (take 16 (ni_public_key info) @ ELLIPSIS))] s2 = (r3, s3)"
        by (rule prod.exhaust)
      show ?thesis
        using top Inr assms True st ev pk
        by (cases r2; cases r3) (simp_all add: start_with_memory run_turn_def eval_nat_numeral sx_modify_def sx_bind_def)
    qed
  qed
qed

lemma stop_alone:
  assumes "((\<lambda>(pt, q). stop_turn env ai pt q) ^^ 5) (StBegin, p) = (pt, q)" and "agent_stop env ai (pr_sys p) = (r, s)"
  shows "pt = StDone \<and> r = Inr () \<and> pr_sys q = s \<and> pr_task q \<noteq> Running \<and> pr_http q = session_exit (pr_http p) \<and> pr_run q = pr_run p"
proof -
  let ?s1 = "(pr_sys p)\<lparr>ag_running := False\<rparr>"
  obtain r2 s2 where st: "save_status env ai 0 (status_only AS_IDLE) ?s1 = (r2, s2)" by (rule prod.exhaust)
  obtain r3 s3 where ev: "save_event env ai 1 LE_AGENT_STOPPED [] s2 = (r3, s3)" by (rule prod.exhaust)
  have idle: "save_status env ai i a ?s1 = (Inr (), ?s1)" "save_event env ai i e d ?s1 = (Inr (), ?s1)"
    if "ag_memory (pr_sys p) = None" for i a e d
    using that by (simp_all add: save_status_def save_event_def with_memory_def)
  show ?thesis
    using assms st ev idle
    by (cases "ag_memory (pr_sys p)"; cases r2; cases r3)
      (auto simp: stop_turn_def agent_stop_def eval_nat_numeral sx_modify_def sx_bind_def sx_try_def sx_return_def
        session_exit_def split: if_splits)
qed

subsection \<open>What a start and a stop write\<close>

text \<open>The store of an agent's memory, and one operation of the memory on the agent.\<close>

definition agent_store :: "('n, 'w) asys \<Rightarrow> 'n kvs" where
  "agent_store s = (sy_kvs s ! am_kv (the (ag_memory s)), x_zg (sy_x s))"

definition put_store :: "'n kvs \<Rightarrow> ('n, 'w) asys \<Rightarrow> ('n, 'w) asys" where
  "put_store kz s =
     s\<lparr>sy_kvs := (sy_kvs s)[am_kv (the (ag_memory s)) := fst kz], sy_x := (sy_x s)\<lparr>x_zg := snd kz\<rparr>\<rparr>"

definition has_store :: "('n, 'w) asys \<Rightarrow> bool" where
  "has_store s \<longleftrightarrow> (\<exists>m. ag_memory s = Some m \<and> am_kv m < length (sy_kvs s))"

lemma put_store_parts [simp]:
  "ag_running (put_store kz s) = ag_running s" "ag_pubkey (put_store kz s) = ag_pubkey s"
  "ag_memory (put_store kz s) = ag_memory s" "has_store (put_store kz s) = has_store s"
  by (simp_all add: put_store_def has_store_def)

lemma agent_store_put [simp]: "has_store s \<Longrightarrow> agent_store (put_store kz s) = kz"
  by (auto simp: put_store_def has_store_def agent_store_def)

lemma put_store_other:
  assumes "i \<noteq> am_kv (the (ag_memory s))"
  shows "sy_kvs (put_store kz s) ! i = sy_kvs s ! i"
  using assms by (simp add: put_store_def)

lemma save_as_op:
  assumes "has_store s" and "am_role (the (ag_memory s)) = role"
    and "run_op (e_st env) op (agent_store s) = (Inr (), kz)"
  shows "op = OpStatus (ai_ts ai i) role a \<Longrightarrow> save_status env ai i a s = (Inr (), put_store kz s)"
    and "op = OpLog (ai_ts ai i) (ai_eid ai i) role ev d \<Longrightarrow> save_event env ai i ev d s = (Inr (), put_store kz s)"
proof -
  obtain k z where kz: "kz = (k, z)" by (rule prod.exhaust)
  obtain m where m: "ag_memory s = Some m" using assms(1) by (auto simp: has_store_def)
  note run = assms(3) [unfolded agent_store_def m option.sel kz]
  let ?h = "\<lparr>mh_kvs = sy_kvs s, mh_zg = x_zg (sy_x s)\<rparr>"
  show "save_status env ai i a s = (Inr (), put_store kz s)" if "op = OpStatus (ai_ts ai i) role a"
  proof -
    have "on_mem m (update_status (e_st env) (ai_ts ai i) (am_role m) a) ?h =
        (Inr (), ?h\<lparr>mh_kvs := (sy_kvs s)[am_kv m := k], mh_zg := z\<rparr>)"
      using run that assms(2) m on_mem_Pair [of "update_status (e_st env) (ai_ts ai i) (am_role m) a" ?h m] by simp
    then show ?thesis using m kz by (simp add: save_status_def with_memory_def on_heap_def sx_zoom_def mem_update_status_def put_store_def)
  qed
  show "save_event env ai i ev d s = (Inr (), put_store kz s)" if op: "op = OpLog (ai_ts ai i) (ai_eid ai i) role ev d"
  proof -
    let ?op = "log_event (e_st env) (ai_ts ai i) (ai_eid ai i) (am_role m) ev d"
    obtain r where "?op (sy_kvs s ! am_kv m, x_zg (sy_x s)) = (Inr r, (k, z))"
      using run op assms(2) m by (auto simp: sx_bind_def sx_return_def split: prod.splits sum.splits)
    then have "on_mem m ?op ?h = (Inr r, ?h\<lparr>mh_kvs := (sy_kvs s)[am_kv m := k], mh_zg := z\<rparr>)"
      using on_mem_Pair [of ?op ?h m] by simp
    then show ?thesis using m kz
      by (simp add: save_event_def with_memory_def on_heap_def sx_zoom_def mem_log_event_def put_store_def sx_bind_def sx_return_def)
  qed
qed

text \<open>The four operations of an uninterrupted life on the store, and what they leave of the rest.\<close>

definition life_ops :: "string \<Rightarrow> agent_inputs \<Rightarrow> agent_inputs \<Rightarrow> string \<Rightarrow> mem_op list" where
  "life_ops role ai ai' pubkey =
     [OpStatus (ai_ts ai 0) role (status_only AS_IDLE),
      OpLog (ai_ts ai 1) (ai_eid ai 1) role LE_AGENT_STARTED [(''pubkey'', VStr (take 16 pubkey @ ELLIPSIS))],
      OpStatus (ai_ts ai' 0) role (status_only AS_IDLE),
      OpLog (ai_ts ai' 1) (ai_eid ai' 1) role LE_AGENT_STOPPED []]"

lemma four_ops_run:
  assumes "log_ok env B s" and "ops_fit (op_fits env B) (run_op env) [a, b, c, d] s"
  obtains s1 s2 s3 s4 where "run_op env a s = (Inr (), s1)" and "run_op env b s1 = (Inr (), s2)"
    and "run_op env c s2 = (Inr (), s3)" and "run_op env d s3 = (Inr (), s4)"
    and "swarm_view_of env s2 = view_step b (view_step a (swarm_view_of env s))"
    and "swarm_view_of env s4 = view_step d (view_step c (swarm_view_of env s2))"
proof -
  have op: "\<exists>s1. run_op env x s = (Inr (), s1) \<and> log_ok env B s1 \<and> swarm_view_of env s1 = view_step x (swarm_view_of env s) \<and>
      ops_fit (op_fits env B) (run_op env) xs s1"
    if "log_ok env B s" "ops_fit (op_fits env B) (run_op env) (x # xs) s" for x xs s
    using amem.run_ok [OF that(1), of x] that(2) by auto
  from op [OF assms] obtain s1 where 1: "run_op env a s = (Inr (), s1)" "log_ok env B s1"
    "swarm_view_of env s1 = view_step a (swarm_view_of env s)" "ops_fit (op_fits env B) (run_op env) [b, c, d] s1" by blast
  from op [OF this(2,4)] obtain s2 where 2: "run_op env b s1 = (Inr (), s2)" "log_ok env B s2"
    "swarm_view_of env s2 = view_step b (swarm_view_of env s1)" "ops_fit (op_fits env B) (run_op env) [c, d] s2" by blast
  from op [OF this(2,4)] obtain s3 where 3: "run_op env c s2 = (Inr (), s3)" "log_ok env B s3"
    "swarm_view_of env s3 = view_step c (swarm_view_of env s2)" "ops_fit (op_fits env B) (run_op env) [d] s3" by blast
  from op [OF this(2,4)] obtain s4 where 4: "run_op env d s3 = (Inr (), s4)"
    "swarm_view_of env s4 = view_step d (swarm_view_of env s3)" by blast
  show thesis using 1 2 3 4 by (intro that [of s1 s2 s3 s4]) simp_all
qed

text \<open>What an agent's own memory shows of the swarm.\<close>

definition own_view :: "('n, 'w) swarm_env \<Rightarrow> ('n, 'w) process \<Rightarrow> swarm_view" where
  "own_view env p = swarm_view_of (e_st env) (agent_store (pr_sys p))"

lemma empty_view: "swarm_view_of env (new_kv, z) = \<lparr>sv_agents = Map.empty, sv_version = 0, sv_history = []\<rparr>"
  by (simp add: swarm_view_of_def cur_swarm_def log_hist_def index_roots_def cur_index_def new_kv_def manifest_map_def
      new_swarm_state_def new_log_index_def)

definition started_entry :: "agent_inputs \<Rightarrow> string \<Rightarrow> string \<Rightarrow> log_entry" where
  "started_entry ai role pubkey = new_entry (ai_ts ai 1 0) (ai_eid ai 1) LE_AGENT_STARTED role
     [(''pubkey'', VStr (take 16 pubkey @ ELLIPSIS))]"

lemma life_ops_run:
  assumes "log_ok env B (new_kv, z)" and "ops_fit (op_fits env B) (run_op env) (life_ops role ai ai' pk) (new_kv, z)"
  obtains s1 s2 s3 s4 where "run_op env (OpStatus (ai_ts ai 0) role (status_only AS_IDLE)) (new_kv, z) = (Inr (), s1)"
    and "run_op env (OpLog (ai_ts ai 1) (ai_eid ai 1) role LE_AGENT_STARTED [(''pubkey'', VStr (take 16 pk @ ELLIPSIS))]) s1 = (Inr (), s2)"
    and "run_op env (OpStatus (ai_ts ai' 0) role (status_only AS_IDLE)) s2 = (Inr (), s3)"
    and "run_op env (OpLog (ai_ts ai' 1) (ai_eid ai' 1) role LE_AGENT_STOPPED []) s3 = (Inr (), s4)"
    and "swarm_view_of env s2 = \<lparr>sv_agents = [role \<mapsto> status_state (ai_ts ai 0 0) role (status_only AS_IDLE)],
      sv_version = 1, sv_history = [started_entry ai role pk]\<rparr>"
    and "swarm_view_of env s4 = \<lparr>sv_agents = [role \<mapsto> status_state (ai_ts ai' 0 0) role (status_only AS_IDLE)],
      sv_version = 2, sv_history = [started_entry ai role pk, new_entry (ai_ts ai' 1 0) (ai_eid ai' 1) LE_AGENT_STOPPED role []]\<rparr>"
  by (rule four_ops_run [OF assms(1) assms(2) [unfolded life_ops_def]], rule that)
    (assumption | simp add: empty_view started_entry_def)+

lemma attach_memory_store:
  "has_store (attach_memory ac s)" "agent_store (attach_memory ac s) = (new_kv, x_zg (sy_x s))"
  "am_role (the (ag_memory (attach_memory ac s))) = role_value (ac_role ac)"
  "am_kv (the (ag_memory (attach_memory ac s))) = length (sy_kvs s)" "sy_kvs (attach_memory ac s) = sy_kvs s @ [new_kv]"
  by (simp_all add: attach_memory_def make_agent_memory_def has_store_def agent_store_def)

lemma run_turns_stored:
  assumes "pr_http p = Opened" and "pr_run p = AtTopology" and "ac_has_zg ac"
    and "on_axl (axl_topology (e_axl env) (ac_api_url ac)) (pr_sys p) = (Inr info, s)"
    and "s0 = attach_memory ac (s\<lparr>ag_pubkey := ni_public_key info, ag_running := True\<rparr>)"
    and "save_status env ai 0 (status_only AS_IDLE) s0 = (Inr (), s1)" and "ag_pubkey s1 = ni_public_key info"
    and "save_event env ai 1 LE_AGENT_STARTED [(''pubkey'', VStr (take 16 (ni_public_key info) @ ELLIPSIS))] s1 = (Inr (), s2)"
  shows "(run_turn env ac ai ^^ 3) p = p\<lparr>pr_sys := s2, pr_task := Running, pr_run := Polling\<rparr>"
  using assms by (simp add: eval_nat_numeral run_turn_def Let_def)

lemma stop_turns_stored:
  assumes "pr_http p = Opened" and "pr_task p = Running" and "ag_memory (pr_sys p) = Some m"
    and "save_status env ai 0 (status_only AS_IDLE) ((pr_sys p)\<lparr>ag_running := False\<rparr>) = (Inr (), s1)"
    and "save_event env ai 1 LE_AGENT_STOPPED [] s1 = (Inr (), s2)"
  shows "((\<lambda>(pt, q). stop_turn env ai pt q) ^^ 5) (StBegin, p) =
    (StDone, p\<lparr>pr_sys := s2, pr_http := Closed, pr_task := Finished None\<rparr>)"
  using assms by (simp add: eval_nat_numeral stop_turn_def session_exit_def)

subsection \<open>Stopping among the other tasks\<close>

text \<open>What holds of a started agent from then on: how far a \<^verbatim>\<open>stop\<close> has come tells what it has settled.\<close>

definition settled :: "('n, 'w) process \<Rightarrow> bool" where
  "settled p \<longleftrightarrow>
     pr_run p \<in> {Polling, Returned} \<and>
     (\<forall>pt\<in>set (pr_stops p). pt \<noteq> StBegin \<longrightarrow> \<not> ag_running (pr_sys p)) \<and>
     (\<forall>pt\<in>set (pr_stops p). pt \<in> {StClose, StDone} \<longrightarrow> pr_task p \<noteq> Running) \<and>
     (StDone \<in> set (pr_stops p) \<longrightarrow> pr_http p \<noteq> Opened)"

lemma run_turn_started:
  "pr_run p \<in> {Polling, Returned} \<Longrightarrow>
     run_turn env ac ai p = p \<or> run_turn env ac ai p = p\<lparr>pr_run := Returned\<rparr> \<and> \<not> ag_running (pr_sys p)"
  by (auto simp: run_turn_def)

lemma dispatch_turn_parts:
  "ag_running (pr_sys (dispatch_turn env ac role ai p)) = ag_running (pr_sys p)"
  "pr_http (dispatch_turn env ac role ai p) = pr_http p" "pr_run (dispatch_turn env ac role ai p) = pr_run p"
  "pr_stops (dispatch_turn env ac role ai p) = pr_stops p"
proof -
  let ?env = "in_session (pr_http p) env"
  obtain x s where x: "on_axl (axl_recv (e_axl ?env) (ac_api_url ac)) (pr_sys p) = (x, s)" by (rule prod.exhaust)
  have s: "ag_running s = ag_running (pr_sys p)" using keepsD [OF running_zooms(1) x] .
  have route: "ag_running s' = ag_running s" if "route ?env ac ai (agent_handler role ?env ac ai) r s = (y, s')" for r y s'
    using keepsD [OF running_route that] .
  show "ag_running (pr_sys (dispatch_turn env ac role ai p)) = ag_running (pr_sys p)"
    "pr_http (dispatch_turn env ac role ai p) = pr_http p" "pr_run (dispatch_turn env ac role ai p) = pr_run p"
    "pr_stops (dispatch_turn env ac role ai p) = pr_stops p"
    using s route by (auto simp: dispatch_turn_def Let_def x split: prod.split sum.split option.split)
qed

lemma stop_turn_result:
  assumes "stop_turn env ai pt p = (pt', p')"
  obtains s where "agent_face s = agent_face (if pt = StBegin then (pr_sys p)\<lparr>ag_running := False\<rparr> else pr_sys p)"
    and "p' = p\<lparr>pr_sys := s, pr_task := (if pt = StCancel \<and> pr_task p = Running then Finished None else pr_task p),
      pr_http := (if pt = StClose then session_exit (pr_http p) else pr_http p)\<rparr>"
    and "pt' \<noteq> StBegin" and "pt' \<in> {StClose, StDone} \<longleftrightarrow> pt \<in> {StCancel, StClose, StDone}"
    and "pt' = StDone \<longleftrightarrow> pt \<in> {StClose, StDone}"
proof -
  obtain r s where st: "save_status env ai 0 (status_only AS_IDLE) (pr_sys p) = (r, s)" by (rule prod.exhaust)
  obtain r2 s2 where ev: "save_event env ai 1 LE_AGENT_STOPPED [] (pr_sys p) = (r2, s2)" by (rule prod.exhaust)
  note face = face_saveD(1) [OF st] face_saveD(2) [OF ev]
  note turn = assms [unfolded stop_turn_def, symmetric]
  show thesis
  proof (cases pt)
    case StBegin
    then show thesis using turn by (intro that [of "(pr_sys p)\<lparr>ag_running := False\<rparr>"]) simp_all
  next
    case StStatus
    then show thesis using turn st face(1) by (intro that [of s]) (cases r; simp)+
  next
    case StEvent
    then show thesis using turn ev face(2) by (intro that [of s2]) simp_all
  next
    case StCancel
    then show thesis using turn by (intro that [of "pr_sys p"]) simp_all
  next
    case StClose
    then show thesis using turn by (intro that [of "pr_sys p"]) simp_all
  next
    case StDone
    then show thesis using turn by (intro that [of "pr_sys p"]) simp_all
  qed
qed

lemma settled_step:
  assumes "life_step env ac role p q" and "settled p"
  shows "settled q"
  using assms(1)
proof cases
  case (run ai)
  have "pr_run p \<in> {Polling, Returned}" using assms(2) by (simp add: settled_def)
  then consider "q = p" | "q = p\<lparr>pr_run := Returned\<rparr>"
    using run_turn_started [of p env ac ai] run(1) by metis
  then show ?thesis using assms(2) by cases (simp_all add: settled_def)
next
  case signal
  then show ?thesis using assms(2) by (simp add: settled_def)
next
  case (stop i ai pt p')
  from stop(3) obtain s where s: "agent_face s =
      agent_face (if pr_stops p ! i = StBegin then (pr_sys p)\<lparr>ag_running := False\<rparr> else pr_sys p)"
    and p': "p' = p\<lparr>pr_sys := s, pr_task := (if pr_stops p ! i = StCancel \<and> pr_task p = Running then Finished None else pr_task p),
      pr_http := (if pr_stops p ! i = StClose then session_exit (pr_http p) else pr_http p)\<rparr>"
    and pt: "pt \<noteq> StBegin" "pt \<in> {StClose, StDone} \<longleftrightarrow> pr_stops p ! i \<in> {StCancel, StClose, StDone}"
      "pt = StDone \<longleftrightarrow> pr_stops p ! i \<in> {StClose, StDone}"
    by (rule stop_turn_result)
  have sub: "set (pr_stops q) \<subseteq> insert pt (set (pr_stops p))" using stop(1) by (simp add: set_update_subset_insert)
  have i: "pr_stops p ! i \<in> set (pr_stops p)" using stop(2) by simp
  have run: "ag_running s = (ag_running (pr_sys p) \<and> pr_stops p ! i \<noteq> StBegin)"
    using s by (simp add: agent_face_def split: if_splits)
  have "\<not> ag_running s" using run i assms(2) by (auto simp: settled_def)
  moreover have "pr_task p' \<noteq> Running" if "x \<in> insert pt (set (pr_stops p))" "x \<in> {StClose, StDone}" for x
    using that pt(2) i assms(2) p' by (auto simp: settled_def)
  moreover have "pr_http p' \<noteq> Opened" if "StDone \<in> insert pt (set (pr_stops p))"
    using that pt(3) i assms(2) p' by (auto simp: settled_def session_exit_def)
  moreover have "pr_run q \<in> {Polling, Returned}" using assms(2) p' stop(1) by (simp add: settled_def)
  moreover have "pr_sys q = s" "pr_task q = pr_task p'" "pr_http q = pr_http p'" using p' stop(1) by simp_all
  ultimately show ?thesis using sub unfolding settled_def by (metis subsetD)
next
  case (dispatch ai)
  then show ?thesis using assms(2) by (simp add: settled_def dispatch_turn_parts) 
qed

lemma done_step:
  assumes "life_step env ac role p q" and "settled p" and "StDone \<in> set (pr_stops p)"
  shows "StDone \<in> set (pr_stops q)" and "agent_face (pr_sys q) = agent_face (pr_sys p)"
proof -
  have started: "pr_run p \<in> {Polling, Returned}" and idle: "\<not> ag_running (pr_sys p)" and task: "pr_task p \<noteq> Running"
    using assms(2,3) unfolding settled_def by blast+
  have "StDone \<in> set (pr_stops q) \<and> agent_face (pr_sys q) = agent_face (pr_sys p)"
    using assms(1)
  proof cases
    case (run ai)
    have "q = p \<or> q = p\<lparr>pr_run := Returned\<rparr>" using run_turn_started [OF started, of env ac ai] run(1) by metis
    then show ?thesis using assms(3) by auto
  next
    case signal
    then show ?thesis using assms(3) by simp
  next
    case (stop i ai pt p')
    from stop(3) obtain s where s: "agent_face s =
        agent_face (if pr_stops p ! i = StBegin then (pr_sys p)\<lparr>ag_running := False\<rparr> else pr_sys p)"
      and p': "pr_sys p' = s" and pt: "pt = StDone \<longleftrightarrow> pr_stops p ! i \<in> {StClose, StDone}"
      by (rule stop_turn_result) simp
    have "agent_face s = agent_face (pr_sys p)" using s idle by (simp add: agent_face_def api_clients_def split: if_splits)
    moreover obtain j where j: "j < length (pr_stops p)" "pr_stops p ! j = StDone" using assms(3) by (metis in_set_conv_nth)
    have "(pr_stops p)[i := pt] ! j = StDone" using j pt by (cases "i = j") simp_all
    then have "StDone \<in> set ((pr_stops p)[i := pt])" using j(1) by (metis length_list_update nth_mem)
    ultimately show ?thesis using stop(1) p' by simp
  next
    case dispatch
    then show ?thesis using task by simp
  qed
  then show "StDone \<in> set (pr_stops q)" and "agent_face (pr_sys q) = agent_face (pr_sys p)" by simp_all
qed

lemma settled_steps:
  assumes "(life_step env ac role)\<^sup>*\<^sup>* p q" and "settled p"
  shows "settled q"
  using assms(1) by induction (use assms(2) settled_step in blast)+

subsection \<open>After a crash, and before the end\<close>

lemma run_turn_stops: "pr_stops (run_turn env ac ai p) = pr_stops p"
  by (simp add: run_turn_def Let_def split: run_point.split prod.split sum.split)

lemma stops_kept:
  assumes "life_step env ac role p q" and "pr_stops p \<noteq> []"
  shows "pr_stops q \<noteq> []"
  using assms(1) by cases (use assms(2) in \<open>simp_all add: run_turn_stops dispatch_turn_parts\<close>)

lemma deaf_step:
  assumes "life_step env ac role p q" and "pr_task p \<noteq> Running" and "pr_run p = Polling" and "ag_running (pr_sys p)"
    and "pr_stops p = []"
  shows "q = p \<or> pr_stops q \<noteq> []"
  using assms(1)
proof cases
  case (run ai)
  then show ?thesis using assms(3,4) by (simp add: run_turn_def)
qed (use assms in simp_all)

text \<open>From the beginning: the flag is set when \<^verbatim>\<open>run\<close> polls it, unless a signal came.\<close>

definition signalled :: "('n, 'w) process \<Rightarrow> bool" where
  "signalled p \<longleftrightarrow>
     (pr_stops p = [] \<and> pr_run p \<in> {AtStatus, AtEvent, Polling} \<longrightarrow> ag_running (pr_sys p)) \<and>
     (pr_run p = Returned \<longrightarrow> pr_stops p \<noteq> [] \<and> \<not> ag_running (pr_sys p))"

lemma attach_running [simp]: "ag_running (attach_memory ac s) = ag_running s"
  by (simp add: attach_memory_def split: prod.split)

lemma signalled_run:
  assumes "signalled p" and "\<not> run_ended p"
  shows "signalled (run_turn env ac ai p)"
proof (cases "pr_run p")
  case AtTopology
  obtain r s where "on_axl (axl_topology (with_session (pr_http p) (e_axl env)) (ac_api_url ac)) (pr_sys p) = (r, s)"
    by (rule prod.exhaust)
  with AtTopology show ?thesis by (cases r) (simp_all add: signalled_def run_turn_def Let_def)
next
  case AtStatus
  obtain r s where st: "save_status env ai 0 (status_only AS_IDLE) (pr_sys p) = (r, s)" by (rule prod.exhaust)
  have "ag_running s = ag_running (pr_sys p)" using face_saveD(1) [OF st] by (simp add: agent_face_def)
  with AtStatus st assms(1) show ?thesis by (cases r) (simp_all add: signalled_def run_turn_def)
next
  case AtEvent
  obtain r s where ev: "save_event env ai 1 LE_AGENT_STARTED
      [(''pubkey'', VStr (take 16 (ag_pubkey (pr_sys p)) @ ELLIPSIS))] (pr_sys p) = (r, s)" by (rule prod.exhaust)
  have "ag_running s = ag_running (pr_sys p)" using face_saveD(2) [OF ev] by (simp add: agent_face_def)
  with AtEvent ev assms(1) show ?thesis by (cases r) (simp_all add: signalled_def run_turn_def)
next
  case Polling
  with assms(1) show ?thesis by (auto simp: signalled_def run_turn_def)
qed (use assms(2) in \<open>simp_all add: run_ended_def\<close>)

lemma signalled_step:
  assumes "life_step env ac role p q" and "signalled p"
  shows "signalled q"
  using assms(1)
proof cases
  case (run ai)
  then show ?thesis using signalled_run [OF assms(2)] by simp
next
  case signal
  then show ?thesis using assms(2) by (auto simp: signalled_def run_ended_def)
next
  case (stop i ai pt p')
  from stop(3) obtain s where s: "agent_face s =
      agent_face (if pr_stops p ! i = StBegin then (pr_sys p)\<lparr>ag_running := False\<rparr> else pr_sys p)"
    and p': "pr_sys p' = s" "pr_run p' = pr_run p"
    by (rule stop_turn_result) simp
  have "ag_running s \<longrightarrow> ag_running (pr_sys p)" using s by (simp add: agent_face_def split: if_splits)
  with stop p' assms(2) show ?thesis by (auto simp: signalled_def)
next
  case (dispatch ai)
  then show ?thesis using assms(2) by (simp add: signalled_def dispatch_turn_parts)
qed

subsection \<open>A worked process\<close>

text \<open>A node that answers the topology query and delivers a body that is no message.\<close>

definition life_axl :: "unit axl_env" where
  "life_axl = sample_axl_env\<lparr>axl_request := (\<lambda>url path dest body w.
     (Inr \<lparr>ar_status = 200, ar_content = [1], ar_from = [],
        ar_json = Inr (VDict [(''our_public_key'', VStr sample_pk), (''our_ipv6'', VStr ''::1'')])\<rparr>, w))\<rparr>"

definition life_env :: "(unit, unit) swarm_env" where
  "life_env = sample_swarm_env\<lparr>e_axl := life_axl\<rparr>"

definition life_started :: "(unit, unit) process" where
  "life_started = (new_process sample_asys)\<lparr>pr_sys := sample_asys, pr_run := Polling, pr_task := Running\<rparr>"

abbreviation life_steps :: "(unit, unit) process \<Rightarrow> (unit, unit) process \<Rightarrow> bool" where
  "life_steps \<equiv> (life_step life_env sample_conf EXECUTOR)\<^sup>*\<^sup>*"

lemma life_starts: "run_turn life_env sample_conf sample_inputs (new_process sample_asys) = life_started"
  by (simp add: run_turn_def new_process_def life_started_def life_env_def life_axl_def sample_axl_env_def sample_conf_def
      axl_topology_def axl_retrying_def axl_attempt_def eval_nat_numeral json_str_item_def on_axl_def sx_zoom_def
      sx_bind_def sx_try_def sx_lift_def sx_return_def sample_asys_def)

lemma life_crashes: "pr_task (dispatch_turn life_env sample_conf EXECUTOR ai life_started) =
    Finished (Some (PyExc ValueError (''Invalid SwarmMessage from : '')))"
  by (simp add: dispatch_turn_def life_started_def new_process_def in_session_def life_env_def life_axl_def sample_axl_env_def
      axl_recv_def decode_message_def on_axl_def sx_zoom_def sx_bind_def sx_try_def sx_lift_def sx_return_def sx_raise_def)

text \<open>A stop that the signal has begun runs to its end; this agent has no storage.\<close>

lemma life_stops:
  fixes p :: "(unit, unit) process"
  assumes "pr_run p = Polling" and "pr_stops p = []" and "ag_memory (pr_sys p) = None"
  shows "life_steps p (p\<lparr>pr_sys := (pr_sys p)\<lparr>ag_running := False\<rparr>, pr_stops := [StCancel]\<rparr>)"
    and "\<exists>q. life_steps p q \<and> StDone \<in> set (pr_stops q)"
proof -
  let ?p1 = "p\<lparr>pr_stops := [StBegin]\<rparr>"
  let ?p2 = "p\<lparr>pr_sys := (pr_sys p)\<lparr>ag_running := False\<rparr>, pr_stops := [StCancel]\<rparr>"
  let ?p3 = "(if pr_task p = Running then ?p2\<lparr>pr_task := Finished None\<rparr> else ?p2)\<lparr>pr_stops := [StClose]\<rparr>"
  let ?p4 = "?p3\<lparr>pr_http := session_exit (pr_http p), pr_stops := [StDone]\<rparr>"
  let ?step = "life_step life_env sample_conf EXECUTOR"
  note stop = life_step.stop [of 0 _ life_env sample_inputs _ _ sample_conf EXECUTOR]
  have 1: "?step p ?p1" using life_step.signal [of p life_env sample_conf EXECUTOR] assms by (simp add: run_ended_def)
  have 2: "?step ?p1 ?p2" using stop [of ?p1 StCancel "?p1\<lparr>pr_sys := (pr_sys p)\<lparr>ag_running := False\<rparr>\<rparr>"] assms by (simp add: stop_turn_def)
  have 3: "?step ?p2 ?p3" using stop [of ?p2 StClose "if pr_task p = Running then ?p2\<lparr>pr_task := Finished None\<rparr> else ?p2"]
    by (simp add: stop_turn_def)
  have 4: "?step ?p3 ?p4" using stop [of ?p3 StDone "?p3\<lparr>pr_http := session_exit (pr_http p)\<rparr>"] by (simp add: stop_turn_def)
  show two: "life_steps p ?p2" using 1 2 by (meson converse_rtranclp_into_rtranclp rtranclp.rtrancl_refl)
  from two 3 4 have "life_steps p ?p4" by (meson rtranclp.rtrancl_into_rtrancl)
  then show "\<exists>q. life_steps p q \<and> StDone \<in> set (pr_stops q)" by (intro exI [of _ ?p4]) simp
qed

text \<open>
  A store whose codecs tell apart what a life of the executor writes: the versions of the state, the two
  entries of the history and the lengths of its index.
\<close>

abbreviation idle_state :: agent_state where
  "idle_state \<equiv> status_state ''t'' ''executor'' (status_only AS_IDLE)"

abbreviation stopped_entry :: log_entry where
  "stopped_entry \<equiv> new_entry ''t'' ''id'' LE_AGENT_STOPPED ''executor'' []"

fun life_swarm :: "nat \<Rightarrow> swarm_state" where
  "life_swarm 0 = new_swarm_state ''t''"
| "life_swarm (Suc n) = update_agent ''t'' ''executor'' idle_state (life_swarm n)"

fun life_index :: "nat \<Rightarrow> log_index" where
  "life_index 0 = new_log_index ''t''"
| "life_index (Suc n) = log_index_append ''t'' (root_of mem_env [of_nat n]) (life_index n)"

definition life_st :: "unit st_env" where
  "life_st = mem_env\<lparr>enc_agent := (\<lambda>_. [3]), dec_agent := (\<lambda>_. Inr idle_state),
     enc_swarm := (\<lambda>sw. [of_int (ss_version sw)]), dec_swarm := (\<lambda>b. Inr (life_swarm (unat (hd b)))),
     enc_entry := (\<lambda>e. [if le_event_type e = LE_AGENT_STARTED then 0 else 1]),
     dec_entry := (\<lambda>b. Inr (if b = [0] then started_entry sample_inputs ''executor'' sample_pk else stopped_entry)),
     enc_index := (\<lambda>i. [of_int (li_entry_count i)]), dec_index := (\<lambda>b. Inr (life_index (unat (hd b))))\<rparr>"

lemma life_swarm_version [simp]: "ss_version (life_swarm n) = int n"
  by (induction n) (simp_all add: new_swarm_state_def update_agent_def)

lemma life_index_count [simp]: "li_entry_count (life_index n) = int n" "length (li_entries (life_index n)) = n"
  by (induction n) (simp_all add: new_log_index_def log_index_append_def)

lemma life_root: "root_of life_st = root_of mem_env" "sha256 life_st = sha256 mem_env"
  "json_dumps_sorted life_st = json_dumps_sorted mem_env"
proof -
  have same: "sha256 life_st = sha256 mem_env" by (simp add: life_st_def)
  then show "root_of life_st = root_of mem_env" by (simp add: fun_eq_iff root_of_def hexdigest_def split: sum.split)
  show "sha256 life_st = sha256 mem_env" by (fact same)
qed (simp add: life_st_def)

lemma life_kv_fits: "kv_set_fits life_st UNIV now key [b] s"
proof -
  have "zg_fits UNIV (manifest_bytes life_st now m)" for now m
    by (rule zg_fits_UNIV) (simp add: manifest_bytes_def bytes_of_def life_root)
  then show ?thesis by (cases s) (simp add: zg_fits_UNIV)
qed

lemma life_status_fits:
  assumes "cur_swarm life_st ''t'' s = life_swarm n" and "n < 2"
  shows "status_fits life_st UNIV (\<lambda>_. ''t'') ''executor'' (status_only AS_IDLE) s"
proof -
  obtain k z where s: "s = (k, z)" by (rule prod.exhaust)
  have "unat (of_int (1 + int n) :: 8 word) = Suc n"
    using assms(2) less_2_cases [of n] by auto
  then have "dec_swarm life_st (enc_swarm life_st (life_swarm (Suc n))) = Inr (life_swarm (Suc n))"
    by (simp add: life_st_def del: life_swarm.simps)
  moreover have "enc_swarm life_st sw = [of_int (ss_version sw)]" "enc_agent life_st st = [3]" "dec_agent life_st b = Inr idle_state"
    for sw st b by (simp_all add: life_st_def)
  ultimately show ?thesis using assms(1) life_kv_fits unfolding s status_fits.simps Let_def
    by (simp del: kv_set_fits.simps)
qed

lemma life_log_fits:
  assumes "cur_index life_st ''t'' s = life_index n" and "n < 2"
    and "(n, ev, d) \<in> {(0, LE_AGENT_STARTED, [(''pubkey'', VStr (take 16 sample_pk @ ELLIPSIS))]), (1, LE_AGENT_STOPPED, [])}"
  shows "log_fits life_st UNIV (\<lambda>_. ''t'', ''id'', ev, ''executor'', d) s"
proof -
  have codec: "enc_entry life_st e = [if le_event_type e = LE_AGENT_STARTED then 0 else 1]"
    "dec_entry life_st b = Inr (if b = [0] then started_entry sample_inputs ''executor'' sample_pk else stopped_entry)"
    "enc_index life_st i = [of_int (li_entry_count i)]" "dec_index life_st b = Inr (life_index (unat (hd b)))" for e b i
    by (simp_all add: life_st_def)
  have next1: "log_index_append ''t'' (root_of life_st [of_nat n]) (life_index n) = life_index (Suc n)" by (simp add: life_root)
  have unat: "unat (of_int (li_entry_count (life_index (Suc n))) :: 8 word) = Suc n"
    using assms(2) less_2_cases [of n] unfolding life_index_count by auto
  have byte: "(if ev = LE_AGENT_STARTED then 0 else 1) = (of_nat n :: 8 word)" using assms(3) by auto
  have e: "dec_entry life_st [of_nat n] = Inr (new_entry ''t'' ''id'' ev ''executor'' d)"
    using assms(3) by (auto simp: codec started_entry_def sample_inputs_def)
  have "zg_fits UNIV [b]" for b by (simp add: zg_fits_UNIV)
  then show ?thesis
    using e unat life_kv_fits
    by (simp add: Let_def codec(1,3,4) new_entry_def byte assms(1) next1 del: life_index.simps kv_set_fits.simps)
qed

text \<open>After each operation the state and the index are those of the next number.\<close>

abbreviation life_at :: "nat \<Rightarrow> nat \<Rightarrow> unit kvs \<Rightarrow> bool" where
  "life_at n i s \<equiv> log_ok life_st UNIV s \<and> cur_swarm life_st ''t'' s = life_swarm n \<and> cur_index life_st ''t'' s = life_index i"

lemma life_status_next:
  assumes "life_at n i s" and "n < 2"
  shows "life_at (Suc n) i (snd (run_op life_st (OpStatus (\<lambda>_. ''t'') ''executor'' (status_only AS_IDLE)) s))"
proof -
  obtain k z where s: "s = (k, z)" by (rule prod.exhaust)
  from assms s have "log_ok life_st UNIV (k, z)" "status_fits life_st UNIV (\<lambda>_. ''t'') ''executor'' (status_only AS_IDLE) (k, z)"
    by (auto intro: life_status_fits simp del: status_fits.simps)
  then obtain k' z' where "update_status life_st (\<lambda>_. ''t'') ''executor'' (status_only AS_IDLE) (k, z) = (Inr (), (k', z'))"
    "log_ok life_st UNIV (k', z')" "\<forall>now. cur_swarm life_st now (k', z') = update_agent ''t'' ''executor'' idle_state (life_swarm n)"
    "kv_map (k', z') KV_LOG_INDEX = kv_map (k, z) KV_LOG_INDEX"
    by (rule update_status_ok) (use assms(1) s in \<open>simp_all del: kv_map.simps\<close>)
  then show ?thesis using s assms(1) by (simp add: cur_index_def del: kv_map.simps)
qed

lemma life_log_next:
  assumes "life_at n 0 s" and "d = [(''pubkey'', VStr (take 16 sample_pk @ ELLIPSIS))]"
  shows "life_at n 1 (snd (run_op life_st (OpLog (\<lambda>_. ''t'') ''id'' ''executor'' LE_AGENT_STARTED d) s))"
proof -
  obtain k z where s: "s = (k, z)" by (rule prod.exhaust)
  from assms s have "log_ok life_st UNIV (k, z)" "log_fits life_st UNIV (\<lambda>_. ''t'', ''id'', LE_AGENT_STARTED, ''executor'', d) (k, z)"
    by (auto intro: life_log_fits [where n = 0] simp del: log_fits.simps)
  then obtain r k' z' where l: "log_append life_st (\<lambda>_. ''t'') ''id'' LE_AGENT_STARTED ''executor'' d (k, z) =
      (Inr ((new_entry ''t'' ''id'' LE_AGENT_STARTED ''executor'' d)\<lparr>le_root_hash := Some r\<rparr>), (k', z'))"
    "log_ok life_st UNIV (k', z')" "index_roots life_st (k', z') = index_roots life_st (k, z) @ [r]"
    "\<forall>key. key \<noteq> KV_LOG_INDEX \<longrightarrow> kv_map (k', z') key = kv_map (k, z) key"
    by (rule log_append_ok)
  from l(4) have sw: "cur_swarm life_st ''t'' (k', z') = life_swarm n"
    using assms(1) s by (simp add: cur_swarm_def del: kv_map.simps)
  have "li_entries (cur_index life_st ''t'' (k, z)) = li_entries (life_index 0)" using assms(1) s by simp
  then have one: "length (li_entries (cur_index life_st ''t'' (k', z'))) = 1"
    using l(3) by (simp add: new_log_index_def)
  have "dec_index life_st b = Inr (life_index (unat (hd b)))" for b by (simp add: life_st_def)
  then obtain j where "cur_index life_st ''t'' (k', z') = life_index j"
    by (cases "kv_map (k', z') KV_LOG_INDEX") (auto simp: cur_index_def simp del: kv_map.simps simp flip: life_index.simps(1))
  with one have "cur_index life_st ''t'' (k', z') = life_index 1" by simp
  with sw l(1,2) s show ?thesis by (simp add: log_event_def sx_bind_def sx_return_def)
qed

lemma life_sample: "life_at 0 0 sample_kvs"
proof -
  have "zg_ok life_st UNIV (\<lparr>zg_backend = InMemory [], zg_net = ()\<rparr>)" by (rule zg_ok_inmemory_empty) (simp add: life_root)
  then show ?thesis by (simp add: sample_kvs_def log_ok_new cur_swarm_def cur_index_def)
qed

lemma life_fits: "ops_fit (op_fits life_st UNIV) (run_op life_st) (life_ops ''executor'' sample_inputs sample_inputs sample_pk) sample_kvs"
proof -
  note log = life_log_fits [OF _ _ insertI1] life_log_fits [OF _ _ insertI2 [OF singletonI]]
  note s1 = life_status_next [OF life_sample]
  note s2 = life_log_next [OF s1 refl]
  note s3 = life_status_next [OF s2]
  show ?thesis
    using life_sample s1 s2 s3
    by (simp add: life_ops_def sample_inputs_def life_status_fits [where n = 0] life_status_fits [where n = 1] log
        del: run_op.simps status_fits.simps log_fits.simps life_swarm.simps life_index.simps)
qed

subsection \<open>Properties\<close>

text \<open>
  C12. A life is recorded. An agent with storage whose node answers and whose writes the store takes
  comes up in three turns of \<^verbatim>\<open>run\<close>: it knows the node's key, its flag is set, the dispatch task
  runs and \<^verbatim>\<open>run\<close> polls; its own memory holds exactly one state, its own and idle, in version 1,
  and a history of one event, that it started, with the beginning of the key. Five turns of a
  shutdown then clear the flag, end the dispatch task, close the session, and add to the memory a second
  idle state and the event that it stopped, as the last things written. The stores of the
  other agents are left alone.
\<close>

theorem life_recorded:
  assumes "pr_http p = Opened" and "pr_run p = AtTopology" and "ac_has_zg ac"
    and top: "on_axl (axl_topology (e_axl env) (ac_api_url ac)) (pr_sys p) = (Inr info, s)"
    and ok: "log_ok (e_st env) B (new_kv, x_zg (sy_x s))" and role: "role = role_value (ac_role ac)"
    and fits: "ops_fit (op_fits (e_st env) B) (run_op (e_st env)) (life_ops role ai ai' (ni_public_key info))
      (new_kv, x_zg (sy_x s))"
  shows "let p1 = (run_turn env ac ai ^^ 3) p; (pt, q) = ((\<lambda>(pt, q). stop_turn env ai' pt q) ^^ 5) (StBegin, p1);
      start = started_entry ai role (ni_public_key info)
    in ag_running (pr_sys p1) \<and> ag_pubkey (pr_sys p1) = ni_public_key info \<and> pr_task p1 = Running \<and> pr_run p1 = Polling \<and>
      own_view env p1 = \<lparr>sv_agents = [role \<mapsto> status_state (ai_ts ai 0 0) role (status_only AS_IDLE)],
        sv_version = 1, sv_history = [start]\<rparr> \<and>
      pt = StDone \<and> \<not> ag_running (pr_sys q) \<and> pr_task q = Finished None \<and> pr_http q = Closed \<and>
      own_view env q = \<lparr>sv_agents = [role \<mapsto> status_state (ai_ts ai' 0 0) role (status_only AS_IDLE)],
        sv_version = 2, sv_history = [start, new_entry (ai_ts ai' 1 0) (ai_eid ai' 1) LE_AGENT_STOPPED role []]\<rparr> \<and>
      (\<forall>i<length (sy_kvs s). sy_kvs (pr_sys q) ! i = sy_kvs s ! i)"
proof -
  let ?s1 = "attach_memory ac (s\<lparr>ag_pubkey := ni_public_key info, ag_running := True\<rparr>)"
  note at = attach_memory_store [where ac = ac and s = "s\<lparr>ag_pubkey := ni_public_key info, ag_running := True\<rparr>", simplified]
  from ok fits obtain k1 k2 k3 k4 where r:
    "run_op (e_st env) (OpStatus (ai_ts ai 0) role (status_only AS_IDLE)) (new_kv, x_zg (sy_x s)) = (Inr (), k1)"
    "run_op (e_st env) (OpLog (ai_ts ai 1) (ai_eid ai 1) role LE_AGENT_STARTED
       [(''pubkey'', VStr (take 16 (ni_public_key info) @ ELLIPSIS))]) k1 = (Inr (), k2)"
    "run_op (e_st env) (OpStatus (ai_ts ai' 0) role (status_only AS_IDLE)) k2 = (Inr (), k3)"
    "run_op (e_st env) (OpLog (ai_ts ai' 1) (ai_eid ai' 1) role LE_AGENT_STOPPED []) k3 = (Inr (), k4)"
    and v: "swarm_view_of (e_st env) k2 = \<lparr>sv_agents = [role \<mapsto> status_state (ai_ts ai 0 0) role (status_only AS_IDLE)],
      sv_version = 1, sv_history = [started_entry ai role (ni_public_key info)]\<rparr>"
    "swarm_view_of (e_st env) k4 = \<lparr>sv_agents = [role \<mapsto> status_state (ai_ts ai' 0 0) role (status_only AS_IDLE)], sv_version = 2,
      sv_history = [started_entry ai role (ni_public_key info), new_entry (ai_ts ai' 1 0) (ai_eid ai' 1) LE_AGENT_STOPPED role []]\<rparr>"
    by (rule life_ops_run)
  let ?t1 = "put_store k1 ?s1" and ?off = "(put_store k2 (put_store k1 ?s1))\<lparr>ag_running := False\<rparr>"
  have off: "has_store ?off" "agent_store ?off = k2" "am_role (the (ag_memory ?off)) = role"
    using at role by (simp_all add: has_store_def agent_store_def put_store_def)
  have w: "save_status env ai 0 (status_only AS_IDLE) ?s1 = (Inr (), ?t1)"
    "save_event env ai 1 LE_AGENT_STARTED [(''pubkey'', VStr (take 16 (ni_public_key info) @ ELLIPSIS))] ?t1 = (Inr (), put_store k2 ?t1)"
    "save_status env ai' 0 (status_only AS_IDLE) ?off = (Inr (), put_store k3 ?off)"
    "save_event env ai' 1 LE_AGENT_STOPPED [] (put_store k3 ?off) = (Inr (), put_store k4 (put_store k3 ?off))"
    using at off role r by (intro save_as_op refl; simp)+
  let ?p1 = "p\<lparr>pr_sys := put_store k2 ?t1, pr_task := Running, pr_run := Polling\<rparr>"
  have p1: "(run_turn env ac ai ^^ 3) p = ?p1"
    using run_turns_stored [OF assms(1-3) top refl w(1) _ w(2)] by simp
  obtain m where "ag_memory ?off = Some m" using off(1) by (auto simp: has_store_def)
  then have q: "((\<lambda>(pt, q). stop_turn env ai' pt q) ^^ 5) (StBegin, ?p1) =
      (StDone, ?p1\<lparr>pr_sys := put_store k4 (put_store k3 ?off), pr_http := Closed, pr_task := Finished None\<rparr>)"
    using w(3,4) assms(1) by (intro stop_turns_stored) simp_all
  have "sy_kvs (put_store k4 (put_store k3 ?off)) ! i = sy_kvs s ! i" if "i < length (sy_kvs s)" for i
    using that at(4,5) by (simp add: put_store_def nth_append)
  then show ?thesis using off(1) v at(1) unfolding p1 q Let_def prod.case by (simp add: own_view_def)
qed

abbreviation stored_env :: "(unit, unit) swarm_env" where
  "stored_env \<equiv> life_env\<lparr>e_st := life_st\<rparr>"

theorem life_recorded_witness:
  "let p1 = (run_turn stored_env (sample_conf\<lparr>ac_has_zg := True\<rparr>) sample_inputs ^^ 3) (new_process sample_asys);
      (pt, q) = ((\<lambda>(pt, q). stop_turn stored_env sample_inputs pt q) ^^ 5) (StBegin, p1);
      start = started_entry sample_inputs ''executor'' sample_pk
    in pr_run p1 = Polling \<and> pr_task p1 = Running \<and>
      own_view stored_env p1 = \<lparr>sv_agents = [''executor'' \<mapsto> idle_state], sv_version = 1, sv_history = [start]\<rparr> \<and>
      pt = StDone \<and> pr_http q = Closed \<and>
      own_view stored_env q = \<lparr>sv_agents = [''executor'' \<mapsto> idle_state], sv_version = 2, sv_history = [start, stopped_entry]\<rparr>"
proof -
  let ?p = "new_process sample_asys" and ?info = "\<lparr>ni_public_key = sample_pk, ni_ipv6 = ''::1'', ni_api_url = ''u''\<rparr>"
  have top: "on_axl (axl_topology (e_axl stored_env) (ac_api_url (sample_conf\<lparr>ac_has_zg := True\<rparr>))) (pr_sys ?p) = (Inr ?info, pr_sys ?p)"
    by (simp add: new_process_def life_env_def life_axl_def sample_axl_env_def sample_conf_def
      axl_topology_def axl_retrying_def axl_attempt_def eval_nat_numeral json_str_item_def on_axl_def sx_zoom_def
      sx_bind_def sx_try_def sx_lift_def sx_return_def sample_asys_def)
  have store: "(new_kv, x_zg (sy_x (pr_sys ?p))) = sample_kvs"
    by (simp add: new_process_def sample_asys_def sample_xstate_def sample_kvs_def)
  have st: "e_st stored_env = life_st" and role: "''executor'' = role_value (ac_role (sample_conf\<lparr>ac_has_zg := True\<rparr>))"
    by (simp_all add: sample_conf_def)
  note life = life_recorded [of ?p "sample_conf\<lparr>ac_has_zg := True\<rparr>" stored_env ?info "pr_sys ?p" UNIV "''executor''" sample_inputs sample_inputs,
      unfolded store st, OF _ _ _ top _ role]
  show ?thesis
    using life life_sample life_fits by (simp add: new_process_def Let_def sample_inputs_def split: prod.splits)
qed

text \<open>
  C11. A stopped agent is silent: once the \<^verbatim>\<open>stop\<close> of a started agent has come to its end, nothing that any
  task does, further signals included, changes its flag, key or API clients or touches the network;
  the dispatch loop does not run and the session is closed.
\<close>

theorem stopped_agent_silent:
  assumes "pr_run p0 = Polling" and "pr_stops p0 = []" and "(life_step env ac role)\<^sup>*\<^sup>* p0 p"
    and "StDone \<in> set (pr_stops p)" and "(life_step env ac role)\<^sup>*\<^sup>* p q"
  shows "agent_face (pr_sys q) = agent_face (pr_sys p) \<and> \<not> ag_running (pr_sys q) \<and> pr_task q \<noteq> Running \<and> pr_http q \<noteq> Opened"
proof -
  have "settled p" using settled_steps [OF assms(3)] assms(1,2) by (simp add: settled_def)
  from assms(5) have "agent_face (pr_sys q) = agent_face (pr_sys p) \<and> StDone \<in> set (pr_stops q) \<and> settled q"
  proof induction
    case base
    then show ?case using assms(4) \<open>settled p\<close> by simp
  next
    case (step q q')
    then show ?case using done_step [OF step.hyps(2)] settled_step [OF step.hyps(2)] by simp
  qed
  then show ?thesis unfolding settled_def by blast
qed

theorem stopped_agent_silent_witness:
  "\<exists>p. life_steps life_started p \<and> StDone \<in> set (pr_stops p) \<and> \<not> ag_running (pr_sys p) \<and> pr_task p \<noteq> Running \<and> pr_http p \<noteq> Opened"
proof -
  have started: "pr_run life_started = Polling" "pr_stops life_started = []" "ag_memory (pr_sys life_started) = None"
    by (simp_all add: life_started_def new_process_def sample_asys_def)
  from life_stops(2) [OF this] obtain p where p: "life_steps life_started p" "StDone \<in> set (pr_stops p)" by blast
  from stopped_agent_silent [OF started(1,2) this rtranclp.rtrancl_refl] p show ?thesis by blast
qed

text \<open>
  C30. A crash goes unnoticed: when a round of the dispatch loop of a started agent ends the loop with an
  exception, the process stays as it is until a signal comes; \<^verbatim>\<open>run\<close> neither returns nor restarts the loop.
\<close>

theorem crash_unnoticed:
  assumes "pr_run p = Polling" and "ag_running (pr_sys p)" and "pr_stops p = []"
    and "pr_task (dispatch_turn env ac role ai p) = Finished (Some e)"
    and "(life_step env ac role)\<^sup>*\<^sup>* (dispatch_turn env ac role ai p) q"
  shows "q = dispatch_turn env ac role ai p \<or> pr_stops q \<noteq> []"
  using assms(5)
proof induction
  case (step q q')
  then show ?case using deaf_step [OF step.hyps(2)] stops_kept [OF step.hyps(2)] assms(1-4)
    by (auto simp: dispatch_turn_parts)
qed simp

theorem crash_unnoticed_witness:
  "\<exists>e q. pr_task (dispatch_turn life_env sample_conf EXECUTOR sample_inputs life_started) = Finished (Some e) \<and>
     life_steps (dispatch_turn life_env sample_conf EXECUTOR sample_inputs life_started) q \<and>
     (q = dispatch_turn life_env sample_conf EXECUTOR sample_inputs life_started \<or> pr_stops q \<noteq> [])"
proof -
  have "pr_run life_started = Polling" "ag_running (pr_sys life_started)" "pr_stops life_started = []"
    by (simp_all add: life_started_def new_process_def sample_asys_def)
  from crash_unnoticed [OF this life_crashes rtranclp.rtrancl_refl] life_crashes show ?thesis by blast
qed

text \<open>
  \<^verbatim>\<open>run\<close> returns only after a shutdown signal, with the running flag cleared.
\<close>

theorem run_returns_by_signal:
  assumes "(life_step env ac role)\<^sup>*\<^sup>* (new_process s) p" and "pr_run p = Returned"
  shows "pr_stops p \<noteq> [] \<and> \<not> ag_running (pr_sys p)"
proof -
  from assms(1) have "signalled p"
  proof induction
    case base
    show ?case by (simp add: signalled_def new_process_def)
  next
    case (step p q)
    then show ?case using signalled_step by blast
  qed
  with assms(2) show ?thesis by (simp add: signalled_def)
qed

theorem run_returns_by_signal_witness:
  "\<exists>p. life_steps (new_process sample_asys) p \<and> pr_run p = Returned \<and> pr_stops p \<noteq> [] \<and> \<not> ag_running (pr_sys p)"
proof -
  have started: "pr_run life_started = Polling" "pr_stops life_started = []" "ag_memory (pr_sys life_started) = None"
    by (simp_all add: life_started_def new_process_def sample_asys_def)
  let ?p = "life_started\<lparr>pr_sys := (pr_sys life_started)\<lparr>ag_running := False\<rparr>, pr_stops := [StCancel]\<rparr>"
  have not_ended: "\<not> run_ended (new_process sample_asys)" by (simp add: run_ended_def new_process_def)
  have "life_step life_env sample_conf EXECUTOR (new_process sample_asys) life_started"
    using life_step.run [OF not_ended, of life_env sample_conf EXECUTOR sample_inputs] unfolding life_starts .
  moreover have "life_step life_env sample_conf EXECUTOR ?p (?p\<lparr>pr_run := Returned\<rparr>)"
    using life_step.run [of ?p life_env sample_conf EXECUTOR sample_inputs] started(1)
    by (simp add: run_turn_def run_ended_def)
  ultimately have run: "life_steps (new_process sample_asys) (?p\<lparr>pr_run := Returned\<rparr>)"
    using life_stops(1) [OF started] by (meson converse_rtranclp_into_rtranclp rtranclp.rtrancl_into_rtrancl)
  then show ?thesis using run_returns_by_signal [OF run] by (intro exI [of _ "?p\<lparr>pr_run := Returned\<rparr>"]) simp
qed

text \<open>It may return when the stop has only cleared the flag, with nothing of the shutdown written to storage.\<close>

theorem run_returns_early:
  assumes "pr_run p = Polling" and "ag_memory (pr_sys p) \<noteq> None"
  shows "\<exists>q. (life_step env ac role)\<^sup>*\<^sup>* p q \<and> pr_run q = Returned \<and> pr_stops q = pr_stops p @ [StStatus] \<and>
    pr_sys q = (pr_sys p)\<lparr>ag_running := False\<rparr>"
proof -
  let ?n = "length (pr_stops p)"
  let ?p1 = "p\<lparr>pr_stops := pr_stops p @ [StBegin]\<rparr>"
  let ?p2 = "?p1\<lparr>pr_sys := (pr_sys p)\<lparr>ag_running := False\<rparr>, pr_stops := pr_stops p @ [StStatus]\<rparr>"
  have "life_step env ac role p ?p1" using assms(1) by (intro life_step.signal) (simp add: run_ended_def)
  moreover have "life_step env ac role ?p1 ?p2"
    using life_step.stop [of ?n ?p1 env undefined StStatus "?p1\<lparr>pr_sys := (pr_sys p)\<lparr>ag_running := False\<rparr>\<rparr>" ac role] assms(2)
    by (simp add: stop_turn_def)
  moreover have "life_step env ac role ?p2 (run_turn env ac undefined ?p2)"
    using assms(1) by (intro life_step.run) (simp add: run_ended_def)
  ultimately have "(life_step env ac role)\<^sup>*\<^sup>* p (run_turn env ac undefined ?p2)" by (meson converse_rtranclp_into_rtranclp rtranclp.rtrancl_refl)
  then show ?thesis using assms(1) by (intro exI [of _ "run_turn env ac undefined ?p2"]) (simp add: run_turn_def)
qed


end
