(* ===== verification/Contract_Call.thy ===== *)
theory Contract_Call
  imports KH_Executor
begin

text \<open>
  The contract-call path of the KeeperHub executor (\<^verbatim>\<open>core/keeperhub/executor.py\<close>), kept
  there for reference: the Uniswap router's calldata is decoded, handed to KeeperHub as a function
  name with JSON arguments, and the execution is awaited. The ABI decoder of \<^verbatim>\<open>eth_abi\<close> is the
  parameter \<open>abi_decode\<close>: it reads a byte string as \<^verbatim>\<open>(bytes, bytes[], uint256)\<close>.
\<close>

subsection \<open>Hexadecimal texts\<close>

text \<open>\<^verbatim>\<open>bytes.fromhex(s)\<close>: pairs of digits; ASCII white space between the pairs is skipped.\<close>

definition is_ascii_space :: "char \<Rightarrow> bool" where
  "is_ascii_space c \<longleftrightarrow> (let k = of_char c :: nat in k = 32 \<or> 9 \<le> k \<and> k \<le> 13)"

definition hex_val :: "char \<Rightarrow> nat option" where
  "hex_val c = (case digit_val c of Some d \<Rightarrow> if d < 16 then Some d else None | None \<Rightarrow> None)"

fun bytes_fromhex :: "string \<Rightarrow> bytes option" where
  "bytes_fromhex [] = Some []"
| "bytes_fromhex (a # s) =
     (if is_ascii_space a then bytes_fromhex s
      else case s of
          [] \<Rightarrow> None
        | b # t \<Rightarrow>
            (case (hex_val a, hex_val b) of
               (Some x, Some y) \<Rightarrow> map_option (\<lambda>bs. word_of_nat (16 * x + y) # bs) (bytes_fromhex t)
             | _ \<Rightarrow> None))"

subsection \<open>Calldata of the Universal Router\<close>

type_synonym execute_args = "bytes \<times> bytes list \<times> int"

definition UR_EXECUTE_SELECTOR :: string where
  "UR_EXECUTE_SELECTOR = ''0x3593564c''"

definition with_0x :: "string \<Rightarrow> string" where
  "with_0x s = (if startswith ''0x'' s then s else ''0x'' @ s)"

text \<open>\<open>None\<close> also when the decoding raises: the handler returns \<^verbatim>\<open>None\<close> then.\<close>

definition decode_universal_router_execute ::
  "(bytes \<Rightarrow> execute_args res) \<Rightarrow> string \<Rightarrow> (string \<times> string list \<times> int) option" where
  "decode_universal_router_execute abi_decode calldata_hex =
     (let cd = with_0x (str_lower calldata_hex)
      in if calldata_hex = [] \<or> \<not> startswith UR_EXECUTE_SELECTOR cd then None
         else case bytes_fromhex (drop 10 cd) of
             None \<Rightarrow> None
           | Some body \<Rightarrow>
               (case abi_decode body of
                  Inl e \<Rightarrow> None
                | Inr (commands, inputs, deadline) \<Rightarrow>
                    Some (''0x'' @ bytes_hex commands, map (\<lambda>b. ''0x'' @ bytes_hex b) inputs, deadline)))"

subsection \<open>The request\<close>

text \<open>The JSON text of a string that needs no escape, and of a list of texts, as \<^verbatim>\<open>json.dumps\<close> writes them here.\<close>

definition json_str :: "string \<Rightarrow> string" where
  "json_str s = QT @ s @ QT"

fun comma_sep :: "string list \<Rightarrow> string" where
  "comma_sep [] = []"
| "comma_sep [s] = s"
| "comma_sep (s # t # ss) = s @ '','' @ comma_sep (t # ss)"

definition json_list :: "string list \<Rightarrow> string" where
  "json_list ss = ''['' @ comma_sep ss @ '']''"

definition json_obj :: "(string \<times> string) list \<Rightarrow> string" where
  "json_obj kvs = ''{'' @ comma_sep (map (\<lambda>(k, v). json_str k @ '':'' @ v) kvs) @ ''}''"

definition UR_EXECUTE_ABI_JSON :: string where
  "UR_EXECUTE_ABI_JSON =
     (let arg = (\<lambda>n t. json_obj [(''internalType'', json_str t), (''name'', json_str n), (''type'', json_str t)])
      in json_list [json_obj
           [(''inputs'', json_list [arg ''commands'' ''bytes'', arg ''inputs'' ''bytes[]'', arg ''deadline'' ''uint256'']),
            (''name'', json_str ''execute''), (''outputs'', json_list []),
            (''stateMutability'', json_str ''payable''), (''type'', json_str ''function'')]])"

definition function_args_json :: "string \<Rightarrow> string list \<Rightarrow> int \<Rightarrow> string" where
  "function_args_json commands inputs deadline =
     json_list [json_str commands, json_list (map json_str inputs), json_str (str_int deadline)]"

text \<open>The value as a decimal text; a value that is no number is passed on as it is.\<close>

definition value_dec :: "string \<Rightarrow> string option" where
  "value_dec v =
     (if v = [] then None
      else case str_to_int (if startswith ''0x'' v then 16 else 10) v of
          Some i \<Rightarrow> Some (str_int i)
        | None \<Rightarrow> Some v)"

definition swap_call_request ::
  "(bytes \<Rightarrow> execute_args res) \<Rightarrow> transaction_request \<Rightarrow> int \<Rightarrow> kh_contract_call_request" where
  "swap_call_request abi_decode tx chain =
     (case decode_universal_router_execute abi_decode (tx_data tx) of
        Some (commands, inputs, deadline) \<Rightarrow>
          \<lparr>cc_contract_address = tx_to tx, cc_network = chain_network chain, cc_function_name = ''execute'',
           cc_function_args = Some (function_args_json commands inputs deadline), cc_abi = Some UR_EXECUTE_ABI_JSON,
           cc_calldata = None, cc_value = value_dec (tx_value tx)\<rparr>
      | None \<Rightarrow>
          \<lparr>cc_contract_address = tx_to tx, cc_network = chain_network chain, cc_function_name = ''execute'',
           cc_function_args = None, cc_abi = None, cc_calldata = None, cc_value = value_dec (tx_value tx)\<rparr>)"

text \<open>
  Submission and waiting, with the interval and time limit of the call; \<open>None\<close> would be a wait that
  never returns.
\<close>

definition submit_via_keeperhub ::
  "('w, 'x) uni_env_scheme \<Rightarrow> (bytes \<Rightarrow> execute_args res) \<Rightarrow> string \<Rightarrow> transaction_request \<Rightarrow> int \<Rightarrow> ('n, 'w) xstate \<Rightarrow>
   (kh_status res \<times> ('n, 'w) xstate) option" where
  "submit_via_keeperhub env abi_decode uid tx chain x =
     (case on_keeperhub (kh_execute_contract_call env uid (swap_call_request abi_decode tx chain)) x of
        (Inl e, x') \<Rightarrow> Some (Inl e, x')
      | (Inr r, x') \<Rightarrow>
          map_option (\<lambda>(st, (k, w)). (st, x'\<lparr>x_kh := k, x_net := w\<rparr>))
            (wait_for_completion env (kr_execution_id r) (Fin 2) (Fin 120) (x_kh x', x_net x')))"

text \<open>Gasless orders, and the guard against empty data.\<close>

definition submit_uniswap_order ::
  "('w, 'x) uni_env_scheme \<Rightarrow> quote_response \<Rightarrow> string \<Rightarrow> string \<Rightarrow> int \<Rightarrow> string \<Rightarrow> (('n, 'w) xstate, swap_result) sx" where
  "submit_uniswap_order env q token_in token_out chain amount_in =
     sx_bind (on_uniswap (uni_order env \<lparr>sr_quote = q_quote q, sr_signature = None, sr_permit_data = None\<rparr>)) (\<lambda>result.
     sx_bind (sx_lift (str_field (dget result ''orderId'' (VStr [])))) (\<lambda>order_id.
     sx_return \<lparr>sw_status = SW_SUBMITTED, sw_tx_hash = Some order_id, sw_error = None, sw_token_in = token_in,
        sw_token_out = token_out, sw_chain_id = chain, sw_amount_in = amount_in, sw_amount_out = q_amount_out q,
        sw_routing = Some (q_routing q), sw_price_impact = None, sw_block_number = None, sw_gas_used = None\<rparr>))"

definition kh_validate_tx :: "transaction_request \<Rightarrow> unit res" where
  "kh_validate_tx tx =
     (if tx_data tx = [] \<or> tx_data tx = ''0x''
      then Inl (PyExc ValueError
        (''Transaction data is empty '' @ [CHR 0xE2, CHR 0x80, CHR 0x94] @
         '' refusing to submit to KeeperHub. This would result in loss of funds.''))
      else Inr ())"

subsection \<open>Reading the texts back\<close>

lemma digit_val_hex_char [simp]: "d < 16 \<Longrightarrow> digit_val (hex_char d) = Some d"
  by (simp add: digit_val_def hex_char_def Let_def)

lemma hex_val_hex_char [simp]: "d < 16 \<Longrightarrow> hex_val (hex_char d) = Some d"
  by (simp add: hex_val_def)

lemma hex_char_facts:
  assumes "d < 16"
  shows "\<not> is_ascii_space (hex_char d)" and "char_lower (hex_char d) = hex_char d" and "hex_char d \<noteq> CHR 0x22"
  using assms by (auto simp: is_ascii_space_def hex_char_def char_lower_def Let_def dest: arg_cong [of _ _ "of_char :: char \<Rightarrow> nat"])

lemma bytes_fromhex_hex [simp]: "bytes_fromhex (bytes_hex bs) = Some bs"
proof (induction bs)
  case (Cons b bs)
  have "unat b div 16 < 16" "unat b mod 16 < 16" using unat_byte_less [of b] by auto
  then show ?case using Cons by (simp add: hex_char_facts(1))
qed simp

lemma str_lower_hex [simp]: "str_lower (bytes_hex bs) = bytes_hex bs"
proof (induction bs)
  case (Cons b bs)
  have "unat b div 16 < 16" "unat b mod 16 < 16" using unat_byte_less [of b] by auto
  then show ?case using Cons by (simp add: str_lower_def hex_char_facts(2))
qed simp

lemma quote_free_hex: "CHR 0x22 \<notin> set (bytes_hex bs)"
proof (induction bs)
  case (Cons b bs)
  have "unat b div 16 < 16" "unat b mod 16 < 16" using unat_byte_less [of b] by auto
  then show ?case using Cons hex_char_facts(3) by (simp add: not_sym)
qed simp

lemma digit_group_all: "s \<noteq> [] \<Longrightarrow> \<forall>c \<in> set s. is_digit b c \<Longrightarrow> digit_group b s"
  by (induction b s rule: digit_group.induct) (auto simp: is_digit_def digit_val_def)

lemma str_nat_is_digit: "\<forall>c \<in> set (str_nat n). is_digit 10 c"
proof (induction n rule: str_nat.induct)
  case (1 n)
  have "is_digit 10 (digit_char d)" if "d < 10" for d
    using that by (simp add: is_digit_def digit_val_def digit_char_def Let_def)
  with 1 show ?case by (subst str_nat.simps) auto
qed

lemma is_digit_plain:
  assumes "is_digit 10 c"
  shows "c \<noteq> CHR ''_''" "c \<noteq> CHR ''-''" "c \<noteq> CHR ''+''" "\<not> is_space c" "c \<noteq> CHR 0x22"
  using assms by (auto simp: is_digit_def digit_val_def is_space_def Let_def split: if_splits)

lemma digits_nat_snoc: "is_digit 10 c \<Longrightarrow> digits_nat 10 (s @ [c]) = 10 * digits_nat 10 s + the (digit_val c)"
  using is_digit_plain(1) [of c] by (auto simp: digits_nat_def is_digit_def split: option.splits)

lemma digits_nat_str_nat [simp]: "digits_nat 10 (str_nat n) = n"
proof (induction n rule: str_nat.induct)
  case (1 n)
  have d: "is_digit 10 (digit_char d)" "digit_val (digit_char d) = Some d" if "d < 10" for d
    using that by (simp_all add: is_digit_def digit_val_def digit_char_def Let_def)
  show ?case
  proof (cases "n < 10")
    case True
    then show ?thesis using digits_nat_snoc [of "digit_char n" "[]"] d [of n]
      by (subst str_nat.simps) (simp add: digits_nat_def)
  next
    case False
    then show ?thesis using 1 digits_nat_snoc [of "digit_char (n mod 10)"] d [of "n mod 10"]
      by (subst str_nat.simps) simp
  qed
qed

lemma dropWhile_plain: "\<forall>c \<in> set s. \<not> P c \<Longrightarrow> dropWhile P s = s"
  by (cases s) simp_all

lemma str_strip_plain: "\<forall>c \<in> set s. \<not> is_space c \<Longrightarrow> str_strip s = s"
  by (simp add: str_strip_def dropWhile_plain)

lemma str_to_int_str_int: "str_to_int 10 (str_int i) = Some i"
proof -
  obtain c t where n: "str_nat (nat \<bar>i\<bar>) = c # t" by (meson neq_Nil_conv str_nat_not_Nil)
  have d: "\<forall>x \<in> set (c # t). is_digit 10 x" using str_nat_is_digit n by metis
  then have "digit_group 10 (c # t)" by (intro digit_group_all) simp_all
  moreover have "digits_nat 10 (c # t) = nat \<bar>i\<bar>" using digits_nat_str_nat n by metis
  moreover have "str_strip (c # t) = c # t" "str_strip (CHR ''-'' # c # t) = CHR ''-'' # c # t"
    using d is_digit_plain(4) by (auto intro!: str_strip_plain simp: is_space_def)
  moreover have "c \<noteq> CHR ''-''" "c \<noteq> CHR ''+''" using d is_digit_plain by auto
  ultimately show ?thesis using n
    by (cases "i < 0") (simp_all add: str_to_int_def str_int_def split_sign_def)
qed

lemma quote_free_int: "CHR 0x22 \<notin> set (str_int i)"
  using str_nat_is_digit is_digit_plain(5) by (auto simp: str_int_def)

text \<open>The quoted parts of a text without escapes, and the arguments they denote.\<close>

fun quoted_parts :: "string option \<Rightarrow> string \<Rightarrow> string list" where
  "quoted_parts _ [] = []"
| "quoted_parts None (c # s) = quoted_parts (if c = CHR 0x22 then Some [] else None) s"
| "quoted_parts (Some acc) (c # s) =
     (if c = CHR 0x22 then acc # quoted_parts None s else quoted_parts (Some (acc @ [c])) s)"

definition read_execute_args :: "string \<Rightarrow> execute_args option" where
  "read_execute_args t =
     (case quoted_parts None t of
        c # d # ds \<Rightarrow>
          (case (bytes_fromhex (drop 2 c), those (map (\<lambda>s. bytes_fromhex (drop 2 s)) (butlast (d # ds))), str_to_int 10 (last (d # ds))) of
             (Some commands, Some inputs, Some deadline) \<Rightarrow> Some (commands, inputs, deadline)
           | _ \<Rightarrow> None)
      | _ \<Rightarrow> None)"

lemma quoted_outside: "CHR 0x22 \<notin> set u \<Longrightarrow> quoted_parts None (u @ s) = quoted_parts None s"
  by (induction u) auto

lemma quoted_inside: "CHR 0x22 \<notin> set u \<Longrightarrow> quoted_parts (Some acc) (u @ QT @ s) = (acc @ u) # quoted_parts None s"
  by (induction u arbitrary: acc) (auto simp: QT_def)

lemma quoted_json_str: "CHR 0x22 \<notin> set u \<Longrightarrow> quoted_parts None (json_str u @ s) = u # quoted_parts None s"
  using quoted_inside [of u "[]" s] by (simp add: json_str_def QT_def)

lemma quoted_comma_sep:
  "\<forall>u \<in> set us. CHR 0x22 \<notin> set u \<Longrightarrow> quoted_parts None (comma_sep (map json_str us) @ s) = us @ quoted_parts None s"
  by (induction us rule: comma_sep.induct) (auto simp: quoted_json_str)

lemma those_Some [simp]: "those (map Some xs) = Some xs"
  by (induction xs) simp_all

lemma read_function_args:
  "read_execute_args (function_args_json (''0x'' @ bytes_hex c) (map (\<lambda>b. ''0x'' @ bytes_hex b) ins) d) = Some (c, ins, d)"
proof -
  have q: "CHR 0x22 \<notin> set (''0x'' @ bytes_hex b)" for b using quote_free_hex by simp
  have "quoted_parts None (function_args_json (''0x'' @ bytes_hex c) (map (\<lambda>b. ''0x'' @ bytes_hex b) ins) d) =
      (''0x'' @ bytes_hex c) # map (\<lambda>b. ''0x'' @ bytes_hex b) ins @ [str_int d]"
    unfolding function_args_json_def json_list_def comma_sep.simps append_assoc
    using q quoted_comma_sep [of "map (\<lambda>b. ''0x'' @ bytes_hex b) ins"]
    by (simp add: quoted_json_str quote_free_int del: append_Cons) (simp add: quoted_json_str quote_free_int)
  then show ?thesis
    by (cases ins) (simp_all add: read_execute_args_def str_to_int_str_int comp_def)
qed

lemma value_dec_number:
  "str_to_int (if startswith ''0x'' v then 16 else 10) v = Some i \<Longrightarrow> value_dec v = Some (str_int i)"
  by (cases "v = []") (auto simp: value_dec_def str_to_int_def startswith_def split_sign_def str_strip_def)

subsection \<open>Properties\<close>

text \<open>
  C16. Nothing of a router call is lost on the way to KeeperHub: the calldata of an \<^verbatim>\<open>execute\<close> call, in
  any letter case, becomes a request whose argument text reads back as exactly the commands, the
  inputs in order and the deadline that the calldata encodes, whose value reads back as the
  transaction's number, and which goes to the transaction's contract.
\<close>

theorem execute_args_roundtrip:
  assumes "str_lower (tx_data tx) = UR_EXECUTE_SELECTOR @ bytes_hex body" and "abi_decode body = Inr (c, ins, d)"
    and "str_to_int (if startswith ''0x'' (tx_value tx) then 16 else 10) (tx_value tx) = Some v"
  shows "\<exists>args val. cc_function_args (swap_call_request abi_decode tx chain) = Some args \<and> read_execute_args args = Some (c, ins, d) \<and>
    cc_value (swap_call_request abi_decode tx chain) = Some val \<and> str_to_int 10 val = Some v \<and>
    cc_contract_address (swap_call_request abi_decode tx chain) = tx_to tx \<and>
    cc_network (swap_call_request abi_decode tx chain) = chain_network chain"
proof -
  have ne: "tx_data tx \<noteq> []" using assms(1) by (auto simp: UR_EXECUTE_SELECTOR_def)
  have "with_0x (UR_EXECUTE_SELECTOR @ bytes_hex body) = UR_EXECUTE_SELECTOR @ bytes_hex body"
    "startswith UR_EXECUTE_SELECTOR (UR_EXECUTE_SELECTOR @ bytes_hex body)" "drop 10 (UR_EXECUTE_SELECTOR @ bytes_hex body) = bytes_hex body"
    by (simp_all add: with_0x_def startswith_def UR_EXECUTE_SELECTOR_def)
  then have "decode_universal_router_execute abi_decode (tx_data tx) =
      Some (''0x'' @ bytes_hex c, map (\<lambda>b. ''0x'' @ bytes_hex b) ins, d)"
    using assms(1,2) ne by (simp add: decode_universal_router_execute_def Let_def)
  then show ?thesis using value_dec_number [OF assms(3)] read_function_args str_to_int_str_int
    by (simp add: swap_call_request_def)
qed

definition sample_decode :: "bytes \<Rightarrow> execute_args res" where
  "sample_decode body = (case body of [a, b, d] \<Rightarrow> Inr ([a], [[b], []], uint d) | _ \<Rightarrow> Inl (PyExc ValueError ''data''))"

definition router_tx :: transaction_request where
  "router_tx = \<lparr>tx_to = ''0xrouter'', tx_from = ''0xw'', tx_data = ''0x3593564C0B00FF'', tx_value = ''0x10'', tx_chain_id = 8453,
     tx_gas_limit = None, tx_max_fee_per_gas = None, tx_max_priority_fee_per_gas = None\<rparr>"

theorem execute_args_roundtrip_witness:
  "\<exists>args. cc_function_args (swap_call_request sample_decode router_tx 8453) = Some args \<and>
     read_execute_args args = Some ([11], [[0], []], 255)"
proof -
  have d: "str_lower (tx_data router_tx) = UR_EXECUTE_SELECTOR @ bytes_hex [11, 0, 255]"
    by code_simp
  have a: "sample_decode [11, 0, 255] = Inr ([11], [[0], []], 255)" by (simp add: sample_decode_def)
  have v: "str_to_int (if startswith ''0x'' (tx_value router_tx) then 16 else 10) (tx_value router_tx) = Some 16"
    by (simp add: router_tx_def startswith_def str_to_int_def split_sign_def str_strip_def is_space_def removeprefix_def
        is_digit_def digit_val_def digits_nat_def)
  show ?thesis using execute_args_roundtrip [of router_tx "[11, 0, 255]" sample_decode, OF d a v] by blast
qed

text \<open>
  The reference path with the in-memory service: the request is recorded there exactly as
  built from the transaction, the wait returns, and its result is the execution's terminal status:
  a success with the service's hash, or the failure the service was told to report.
\<close>

theorem contract_call_submitted:
  assumes "x_kh x = MockKH m"
  shows "submit_via_keeperhub env abi_decode uid tx chain x =
    (let eid = ''direct_'' @ take 12 uid
     in Some (Inr (mock_status eid (fail_next m)),
          x\<lparr>x_kh := MockKH (m\<lparr>contract_call_calls := contract_call_calls m @ [contract_call_api (swap_call_request abi_decode tx chain)],
             fail_next := False, executions := AList.update eid (mock_status eid (fail_next m)) (executions m)\<rparr>)\<rparr>))"
proof -
  let ?eid = "''direct_'' @ take 12 uid"
  let ?m = "m\<lparr>contract_call_calls := contract_call_calls m @ [contract_call_api (swap_call_request abi_decode tx chain)],
    fail_next := False, executions := AList.update ?eid (mock_status ?eid (fail_next m)) (executions m)\<rparr>"
  have c: "on_keeperhub (kh_execute_contract_call env uid (swap_call_request abi_decode tx chain)) x =
      (Inr \<lparr>kr_execution_id = ?eid, kr_status = KH_PENDING\<rparr>, x\<lparr>x_kh := MockKH ?m\<rparr>)"
    using assms by (simp add: kh_execute_contract_call_def on_kh_def mock_execute_contract_call_def make_execution_def Let_def sx_simps)
  have g: "kh_get_execution_status env ?eid (MockKH ?m, w) = (Inr (mock_status ?eid (fail_next m)), (MockKH ?m, w))" for w
    by (simp add: kh_get_execution_status_def on_kh_def mock_get_execution_status_def)
  have "is_terminal (mock_status ?eid f)" for f by (simp add: is_terminal_def mock_status_def)
  then have "poll_n env ?eid (Suc n) (MockKH ?m, w) = (Inr (mock_status ?eid (fail_next m)), (MockKH ?m, w))" for n w
    using g [of w] by (simp add: sx_return_def)
  from this [of 59] have p: "poll_n env ?eid 60 (MockKH ?m, w) = (Inr (mock_status ?eid (fail_next m)), (MockKH ?m, w))" for w
    by simp
  have "wait_for_completion env ?eid (Fin 2) (Fin 120) (MockKH ?m, w) = Some (Inr (mock_status ?eid (fail_next m)), (MockKH ?m, w))" for w
    using wait_loop_poll_n [of 60 env ?eid "(MockKH ?m, w)"] p [of w] by (simp add: wait_for_completion_def)
  then show ?thesis using c by (simp add: submit_via_keeperhub_def Let_def)
qed

theorem contract_call_submitted_witness:
  "\<exists>st x'. submit_via_keeperhub sample_uni_env sample_decode ''0123456789abcdef'' router_tx 8453 sample_xstate = Some (Inr st, x') \<and>
     ks_succeeded st"
  using contract_call_submitted [OF sample_x_simps(2), of sample_uni_env sample_decode "''0123456789abcdef''" router_tx 8453]
  by (auto simp: Let_def new_mock_kh_def mock_status_def ks_succeeded_def)

end
