(* ===== verification/Swap_Executor.thy ===== *)
theory Swap_Executor
  imports Uniswap
begin

text \<open>
  The direct swap pipeline (\<^verbatim>\<open>core/uniswap/executor.py\<close>): approval, quote, permit
  signature, transaction, broadcast, receipt. Parameters (\<open>eth_env\<close>): the \<^verbatim>\<open>eth_account\<close>
  and \<^verbatim>\<open>web3\<close> calls. Sleeping between polls is not part of the model.
\<close>

record 'w eth_env = "'w uni_env" +
  eth_address :: "string \<Rightarrow> string res"
  eth_sign_permit :: "string \<Rightarrow> pyval \<Rightarrow> pyval \<Rightarrow> pyval \<Rightarrow> string res"
  eth_nonce :: "string \<Rightarrow> ('w, int) sx"
  eth_sign :: "string \<Rightarrow> pydict \<Rightarrow> bytes res"
  eth_send :: "bytes \<Rightarrow> ('w, string) sx"
  eth_receipt :: "string \<Rightarrow> ('w, pyval) sx"

record swap_executor =
  se_wallet_address :: string
  se_private_key :: "string option"
  se_dry_run :: bool

definition new_swap_executor :: "string \<Rightarrow> string option \<Rightarrow> bool \<Rightarrow> swap_executor" where
  "new_swap_executor wallet pk dry =
     \<lparr>se_wallet_address = wallet, se_private_key = pk, se_dry_run = (dry \<or> pk = None)\<rparr>"

definition swap_executor_from_env :: "(string \<Rightarrow> string option) \<Rightarrow> swap_executor" where
  "swap_executor_from_env getenv =
     (let wallet = str_strip (case getenv ''WALLET_ADDRESS'' of Some v \<Rightarrow> v | None \<Rightarrow> []);
          pk = str_strip (case getenv ''WALLET_PRIVATE_KEY'' of Some v \<Rightarrow> v | None \<Rightarrow> []);
          pk_opt = (if pk = [] then None else Some pk)
      in if wallet = [] then new_swap_executor ZERO_ADDRESS pk_opt True
         else new_swap_executor wallet pk_opt (pk = []))"

subsection \<open>Steps\<close>

definition on_world :: "('w, 'a) sx \<Rightarrow> ('w uni, 'a) sx" where
  [sx_simps]: "on_world m = sx_zoom snd (\<lambda>w (b, _). (b, w)) m"

definition MAX_POLL_TRIES :: nat where
  "MAX_POLL_TRIES = 30"

text \<open>\<^verbatim>\<open>int(s, 16)\<close> and \<^verbatim>\<open>int(s)\<close>.\<close>

definition parse_int :: "nat \<Rightarrow> string \<Rightarrow> int res" where
  "parse_int base s =
     (case str_to_int base s of
        Some i \<Rightarrow> Inr i | None \<Rightarrow> Inl (PyExc ValueError ''invalid literal for int()''))"

definition validate_tx :: "transaction_request \<Rightarrow> unit res" where
  "validate_tx tx =
     (if tx_data tx = [] \<or> tx_data tx = ''0x''
      then Inl (PyExc ValueError ''Refusing to broadcast: transaction data is empty. This would result in loss of funds.'')
      else Inr ())"

definition tx_fees :: "transaction_request \<Rightarrow> pydict res" where
  "tx_fees tx =
     (if str_truthy (tx_max_fee_per_gas tx)
      then res_bind (parse_int 16 (the (tx_max_fee_per_gas tx))) (\<lambda>mf.
           res_bind (parse_int 16 (if str_truthy (tx_max_priority_fee_per_gas tx)
                                   then the (tx_max_priority_fee_per_gas tx) else ''0x0'')) (\<lambda>mp.
           Inr [(''maxFeePerGas'', VInt mf), (''maxPriorityFeePerGas'', VInt mp)]))
      else if str_truthy (tx_gas_limit tx)
      then res_bind (parse_int 16 (the (tx_gas_limit tx))) (\<lambda>g. Inr [(''gas'', VInt g)])
      else Inr [])"

definition broadcast ::
  "('w, 'x) eth_env_scheme \<Rightarrow> swap_executor \<Rightarrow> transaction_request \<Rightarrow> ('w, string) sx" where
  "broadcast env ex tx =
     (case se_private_key ex of
        None \<Rightarrow> sx_raise (PyExc ValueError ''private key'')
      | Some pk \<Rightarrow>
          sx_bind (sx_lift (eth_address env pk)) (\<lambda>addr.
          sx_bind (eth_nonce env addr) (\<lambda>nonce.
          sx_bind (sx_lift (parse_int (if startswith ''0x'' (tx_value tx) then 16 else 10) (tx_value tx))) (\<lambda>v.
          sx_bind (sx_lift (tx_fees tx)) (\<lambda>fees.
          sx_bind (sx_lift (eth_sign env pk
            ([(''to'', VStr (tx_to tx)), (''from'', VStr addr), (''data'', VStr (tx_data tx)),
              (''value'', VInt v), (''chainId'', VInt (tx_chain_id tx)), (''nonce'', VInt nonce)] @ fees))) (\<lambda>raw.
          eth_send env raw))))))"

text \<open>
  One poll succeeds when the node returns a receipt with a block number and gas used (reading
  them for the log raises otherwise, which counts as no receipt yet).
\<close>

definition poll_receipt :: "('w, 'x) eth_env_scheme \<Rightarrow> string \<Rightarrow> ('w, pydict option) sx" where
  "poll_receipt env h =
     sx_try (sx_bind (eth_receipt env h) (\<lambda>r.
         case r of
           VDict d \<Rightarrow> sx_return (if d \<noteq> [] \<and> map_of d ''blockNumber'' \<noteq> None \<and> map_of d ''gasUsed'' \<noteq> None
                               then Some d else None)
         | _ \<Rightarrow> sx_return None))
       (\<lambda>e. sx_return None)"

fun wait_for_receipt :: "('w, 'x) eth_env_scheme \<Rightarrow> string \<Rightarrow> nat \<Rightarrow> ('w, pydict option) sx" where
  "wait_for_receipt env h 0 = sx_return None"
| "wait_for_receipt env h (Suc n) =
     sx_bind (poll_receipt env h) (\<lambda>r.
       case r of Some d \<Rightarrow> sx_return (Some d) | None \<Rightarrow> wait_for_receipt env h n)"

definition ensure_approval ::
  "('w, 'x) eth_env_scheme \<Rightarrow> swap_executor \<Rightarrow> string \<Rightarrow> string \<Rightarrow> int \<Rightarrow> ('w uni, unit) sx" where
  "ensure_approval env ex token amount chain =
     sx_bind (uni_check_approval env \<lparr>ar_token = token, ar_amount = amount,
         ar_wallet_address = se_wallet_address ex, ar_chain_id = chain\<rparr>) (\<lambda>a.
       case approval_tx a of
         Some tx \<Rightarrow>
           if needs_approval a \<and> \<not> se_dry_run ex
           then sx_bind (on_world (broadcast env ex tx)) (\<lambda>_. sx_return ())
           else sx_return ()
       | None \<Rightarrow> sx_return ())"

definition dict_item :: "pydict \<Rightarrow> string \<Rightarrow> pyval res" where
  "dict_item d k = (case map_of d k of Some v \<Rightarrow> Inr v | None \<Rightarrow> Inl (PyExc KeyError k))"

definition sign_permit ::
  "('w, 'x) eth_env_scheme \<Rightarrow> swap_executor \<Rightarrow> pydict \<Rightarrow> string res" where
  "sign_permit env ex pd =
     (if se_dry_run ex \<or> \<not> str_truthy (se_private_key ex)
      then Inr (''0x'' @ concat (replicate 65 ''ff''))
      else res_bind (dict_item pd ''domain'') (\<lambda>d.
           res_bind (dict_item pd ''types'') (\<lambda>t.
           res_bind (dict_item pd ''values'') (\<lambda>v.
           eth_sign_permit env (the (se_private_key ex)) d t v))))"

definition submit_swap ::
  "('w, 'x) eth_env_scheme \<Rightarrow> swap_executor \<Rightarrow> swap_request \<Rightarrow> quote_response \<Rightarrow> string \<Rightarrow> string \<Rightarrow> int \<Rightarrow>
   string \<Rightarrow> ('w uni, swap_result) sx" where
  "submit_swap env ex req q token_in token_out chain amount_in =
     sx_bind (uni_swap env req) (\<lambda>tx.
     sx_bind (sx_lift (validate_tx tx)) (\<lambda>_.
       if se_dry_run ex
       then sx_return \<lparr>sw_status = SW_SUBMITTED, sw_tx_hash = Some (''0x'' @ concat (replicate 32 ''00'')),
              sw_error = None, sw_token_in = token_in, sw_token_out = token_out, sw_chain_id = chain,
              sw_amount_in = amount_in, sw_amount_out = q_amount_out q, sw_routing = Some (q_routing q),
              sw_price_impact = None, sw_block_number = None, sw_gas_used = None\<rparr>
       else
         sx_bind (on_world (broadcast env ex tx)) (\<lambda>h.
         sx_bind (on_world (wait_for_receipt env h MAX_POLL_TRIES)) (\<lambda>receipt.
         sx_bind (sx_lift (int_field env (case receipt of Some d \<Rightarrow> dget d ''blockNumber'' VNone | None \<Rightarrow> VNone))) (\<lambda>bn.
         sx_bind (sx_lift (int_field env (case receipt of Some d \<Rightarrow> dget d ''gasUsed'' VNone | None \<Rightarrow> VNone))) (\<lambda>gas.
         sx_return \<lparr>sw_status = (if receipt \<noteq> None then SW_CONFIRMED else SW_SUBMITTED), sw_tx_hash = Some h,
              sw_error = None, sw_token_in = token_in, sw_token_out = token_out, sw_chain_id = chain,
              sw_amount_in = amount_in, sw_amount_out = q_amount_out q, sw_routing = Some (q_routing q),
              sw_price_impact = None, sw_block_number = bn, sw_gas_used = gas\<rparr>))))))"

definition submit_order ::
  "('w, 'x) eth_env_scheme \<Rightarrow> swap_request \<Rightarrow> quote_response \<Rightarrow> string \<Rightarrow> string \<Rightarrow> int \<Rightarrow>
   ('w uni, swap_result) sx" where
  "submit_order env req q token_in token_out chain =
     sx_bind (uni_order env req) (\<lambda>result.
     sx_bind (sx_lift (str_field (dget result ''orderId'' (VStr [])))) (\<lambda>oid.
     sx_bind (sx_lift (str_field (dget (sr_quote req) ''amount'' (VStr ''0'')))) (\<lambda>amount.
     sx_return \<lparr>sw_status = SW_SUBMITTED, sw_tx_hash = Some oid, sw_error = None,
        sw_token_in = token_in, sw_token_out = token_out, sw_chain_id = chain, sw_amount_in = amount,
        sw_amount_out = q_amount_out q, sw_routing = Some (q_routing q), sw_price_impact = None,
        sw_block_number = None, sw_gas_used = None\<rparr>)))"

subsection \<open>The pipeline\<close>

definition failed_swap :: "pyexc \<Rightarrow> string \<Rightarrow> string \<Rightarrow> int \<Rightarrow> string \<Rightarrow> swap_result" where
  "failed_swap e token_in token_out chain amount =
     \<lparr>sw_status = SW_FAILED, sw_tx_hash = None, sw_error = Some (exc_str e), sw_token_in = token_in,
      sw_token_out = token_out, sw_chain_id = chain, sw_amount_in = amount, sw_amount_out = None,
      sw_routing = None, sw_price_impact = None, sw_block_number = None, sw_gas_used = None\<rparr>"

definition swap_steps ::
  "('w, 'x) eth_env_scheme \<Rightarrow> swap_executor \<Rightarrow> string \<Rightarrow> string \<Rightarrow> string \<Rightarrow> int \<Rightarrow> pyfloat \<Rightarrow> swap_type \<Rightarrow>
   ('w uni, swap_result) sx" where
  "swap_steps env ex token_in token_out amount chain slippage stype =
     sx_bind (if token_in \<noteq> NATIVE_ETH then ensure_approval env ex token_in amount chain else sx_return ()) (\<lambda>_.
     sx_bind (sx_lift (validate_quote_request (nan_allowed env)
        \<lparr>qr_token_in = token_in, qr_token_out = token_out, qr_token_in_chain_id = chain,
         qr_token_out_chain_id = chain, qr_amount = amount, qr_type = stype,
         qr_swapper = se_wallet_address ex, qr_slippage_tolerance = slippage\<rparr>)) (\<lambda>qreq.
     sx_bind (uni_quote env qreq) (\<lambda>q.
     sx_bind (case q_permit_data q of
                Some pd \<Rightarrow> if se_dry_run ex then sx_return None
                           else sx_bind (sx_lift (sign_permit env ex pd)) (\<lambda>s. sx_return (Some s))
              | None \<Rightarrow> sx_return None) (\<lambda>signature.
       let req = \<lparr>sr_quote = q_quote q, sr_signature = signature, sr_permit_data = q_permit_data q\<rparr>
       in if use_order_endpoint q then submit_order env req q token_in token_out chain
          else submit_swap env ex req q token_in token_out chain amount))))"

definition execute_swap ::
  "('w, 'x) eth_env_scheme \<Rightarrow> swap_executor \<Rightarrow> string \<Rightarrow> string \<Rightarrow> string \<Rightarrow> int \<Rightarrow> pyfloat \<Rightarrow> swap_type \<Rightarrow>
   ('w uni, swap_result) sx" where
  "execute_swap env ex token_in token_out amount chain slippage stype =
     sx_try (swap_steps env ex token_in token_out amount chain slippage stype)
       (\<lambda>e. sx_return (failed_swap e token_in token_out chain amount))"

subsection \<open>Outcomes\<close>

text \<open>What a result record says about the run that produced it.\<close>

definition swap_outcome_ok :: "bool \<Rightarrow> swap_result \<Rightarrow> bool" where
  "swap_outcome_ok dry r \<longleftrightarrow>
     (case sw_status r of
        SW_CONFIRMED \<Rightarrow> \<not> dry \<and> sw_tx_hash r \<noteq> None \<and> sw_error r = None
      | SW_SUBMITTED \<Rightarrow> sw_tx_hash r \<noteq> None \<and> sw_error r = None
      | SW_FAILED \<Rightarrow> sw_tx_hash r = None \<and> sw_error r \<noteq> None
      | _ \<Rightarrow> False)"

definition swap_for :: "string \<Rightarrow> string \<Rightarrow> int \<Rightarrow> swap_result \<Rightarrow> bool" where
  "swap_for token_in token_out chain r \<longleftrightarrow>
     sw_token_in r = token_in \<and> sw_token_out r = token_out \<and> sw_chain_id r = chain"

lemma failed_swap_ok [simp]:
  "swap_outcome_ok dry (failed_swap e a b c d)" "swap_for a b c (failed_swap e a b c d)"
  by (simp_all add: failed_swap_def swap_outcome_ok_def swap_for_def)

lemma submit_order_outcome:
  "submit_order env req q ti to ch s = (Inr r, s') \<Longrightarrow> swap_outcome_ok dry r \<and> swap_for ti to ch r"
  by (auto simp: submit_order_def sx_bind_Inr_iff sx_simps swap_outcome_ok_def swap_for_def)

lemma submit_swap_outcome:
  "submit_swap env ex req q ti to ch am s = (Inr r, s') \<Longrightarrow>
   swap_outcome_ok (se_dry_run ex) r \<and> swap_for ti to ch r"
  by (auto simp: submit_swap_def sx_bind_Inr_iff sx_return_def swap_outcome_ok_def swap_for_def
      split: if_splits)

lemma swap_steps_outcome:
  assumes "swap_steps env ex ti to am ch sl st s = (Inr r, s')"
  shows "swap_outcome_ok (se_dry_run ex) r \<and> swap_for ti to ch r"
proof -
  from assms obtain req q s1 where
    "submit_order env req q ti to ch s1 = (Inr r, s') \<or>
     submit_swap env ex req q ti to ch am s1 = (Inr r, s')"
    by (auto simp: swap_steps_def sx_bind_Inr_iff Let_def split: if_splits)
  then show ?thesis by (elim disjE) (erule submit_order_outcome submit_swap_outcome)+
qed

text \<open>The guard against empty transaction data covers every transaction that is signed.\<close>

definition empty_data :: "pydict \<Rightarrow> bool" where
  "empty_data d \<longleftrightarrow> map_of d ''data'' = Some (VStr []) \<or> map_of d ''data'' = Some (VStr ''0x'')"

definition resign ::
  "(string \<Rightarrow> pydict \<Rightarrow> bytes res) \<Rightarrow> ('w, 'x) eth_env_scheme \<Rightarrow> ('w, 'x) eth_env_scheme" where
  "resign evil env = env\<lparr>eth_sign := \<lambda>pk d. if empty_data d then evil pk d else eth_sign env pk d\<rparr>"

lemma broadcast_resign:
  assumes "tx_data tx \<noteq> []" and "tx_data tx \<noteq> ''0x''"
  shows "broadcast (resign evil env) ex tx = broadcast env ex tx"
proof -
  have "\<not> empty_data ([(''to'', VStr (tx_to tx)), (''from'', VStr addr), (''data'', VStr (tx_data tx)),
              (''value'', VInt v), (''chainId'', VInt (tx_chain_id tx)), (''nonce'', VInt nonce)] @ fees)"
    for addr v nonce fees using assms by (simp add: empty_data_def)
  then show ?thesis by (simp add: broadcast_def resign_def cong: option.case_cong)
qed

lemma check_approval_data:
  assumes "uni_check_approval env req s = (Inr a, s')" and "approval_tx a = Some tx"
  shows "tx_data tx \<noteq> []" and "tx_data tx \<noteq> ''0x''"
proof -
  obtain b w where s: "s = (b, w)" by (cases s)
  have "tx_data tx \<noteq> [] \<and> tx_data tx \<noteq> ''0x''"
  proof (cases b)
    case (MockUni m)
    with assms s show ?thesis
      by (auto simp: uni_check_approval_def on_uni_def mock_check_approval_def sx_simps)
  next
    case (LiveUni key opened)
    with assms s have "\<exists>w'. live_check_approval env key opened req w = (Inr a, w')"
      by (auto simp: uni_check_approval_def on_uni_def split: prod.splits)
    then show ?thesis using assms(2)
      by (auto simp: live_check_approval_def sx_bind_Inr_iff sx_lift_def res_bind_Inr_iff
          data_must_not_be_empty_def split: if_splits option.splits)
  qed
  then show "tx_data tx \<noteq> []" "tx_data tx \<noteq> ''0x''" by simp_all
qed

text \<open>The API client does not look at the wallet functions.\<close>

lemmas uni_defs = uni_check_approval_def uni_quote_def uni_swap_def uni_order_def
  live_check_approval_def live_quote_def live_swap_def live_order_def mock_swap_def checked_tx_def

definition same_api :: "('w, 'x) eth_env_scheme \<Rightarrow> ('w, 'x) eth_env_scheme \<Rightarrow> bool" where
  "same_api env env' \<longleftrightarrow>
     http_request env' = http_request env \<and> raise_for_status env' = raise_for_status env \<and>
     tenacity env' = tenacity env \<and> parse_tx env' = parse_tx env \<and>
     parse_approval env' = parse_approval env \<and> int_field env' = int_field env \<and>
     repr_val env' = repr_val env \<and> nan_allowed env' = nan_allowed env"

lemma uni_same_api:
  assumes "same_api env env'"
  shows "uni_check_approval env' = uni_check_approval env" "uni_quote env' = uni_quote env"
    "uni_swap env' = uni_swap env" "uni_order env' = uni_order env"
proof -
  have "request_json env' = request_json env" "retrying env' = retrying env"
    using assms by (auto simp: request_json_def retrying_def attempt_def same_api_def intro!: ext)
  then have p: "uni_post env' = uni_post env" by (simp add: uni_post_def ext)
  from assms have f: "parse_tx env' = parse_tx env" "parse_approval env' = parse_approval env"
    "repr_val env' = repr_val env" by (simp_all add: same_api_def)
  show "uni_check_approval env' = uni_check_approval env" "uni_quote env' = uni_quote env"
    "uni_swap env' = uni_swap env" "uni_order env' = uni_order env"
    by (intro ext; unfold uni_defs p f; rule refl)+
qed

lemma same_api_resign: "same_api env (resign evil env)"
  by (simp add: same_api_def resign_def)

lemmas uni_resign [simp] = uni_same_api [OF same_api_resign]

lemma wait_for_receipt_resign [simp]: "wait_for_receipt (resign evil env) h n = wait_for_receipt env h n"
  by (induction n) (simp_all add: poll_receipt_def resign_def)

lemma ensure_approval_resign [simp]: "ensure_approval (resign evil env) ex = ensure_approval env ex"
  unfolding ensure_approval_def uni_resign
  by (intro ext fun_cong [OF sx_bind_agree])
    (auto simp: broadcast_resign check_approval_data split: option.splits)

lemma submit_swap_resign [simp]: "submit_swap (resign evil env) ex = submit_swap env ex"
proof (intro ext)
  fix req q ti to ch am s
  have "sx_bind (sx_lift (validate_tx tx)) (\<lambda>_. if se_dry_run ex then A else sx_bind (on_world (broadcast (resign evil env) ex tx)) K) =
      sx_bind (sx_lift (validate_tx tx)) (\<lambda>_. if se_dry_run ex then A else sx_bind (on_world (broadcast env ex tx)) K)"
    for tx A and K :: "string \<Rightarrow> ('a uni, swap_result) sx"
    by (rule sx_bind_agree) (auto simp: validate_tx_def broadcast_resign split: if_splits)
  moreover have "int_field (resign evil env) = int_field env" by (simp add: resign_def)
  ultimately show "submit_swap (resign evil env) ex req q ti to ch am s = submit_swap env ex req q ti to ch am s"
    unfolding submit_swap_def uni_resign wait_for_receipt_resign by presburger
qed

lemma sign_permit_resign [simp]: "sign_permit (resign evil env) ex = sign_permit env ex"
  by (simp add: fun_eq_iff sign_permit_def resign_def)

lemma submit_order_resign [simp]: "submit_order (resign evil env) = submit_order env"
  by (simp add: fun_eq_iff submit_order_def)

lemma nan_allowed_resign [simp]: "nan_allowed (resign evil env) = nan_allowed env"
  by (simp add: resign_def)

subsection \<open>Properties\<close>

text \<open>
  C21. A swap always reports an outcome: \<^verbatim>\<open>execute_swap\<close> never raises, whatever the API, the
  wallet library and the node do; its result names the requested trade, and its status, hash and
  error fit together: confirmed only after a broadcast (never in dry-run) with a hash, submitted
  with a hash or order id, failed with an error text and no hash.
\<close>

theorem execute_swap_outcome:
  "\<exists>r s'. execute_swap env ex token_in token_out amount chain slippage stype s = (Inr r, s') \<and>
     swap_outcome_ok (se_dry_run ex) r \<and> swap_for token_in token_out chain r"
proof -
  obtain x s1 where x: "swap_steps env ex token_in token_out amount chain slippage stype s = (x, s1)"
    by (rule prod.exhaust)
  show ?thesis
  proof (cases x)
    case (Inl e)
    with x show ?thesis by (simp add: execute_swap_def sx_simps)
  next
    case (Inr r)
    with x have "swap_steps env ex token_in token_out amount chain slippage stype s = (Inr r, s1)" by simp
    from this swap_steps_outcome [OF this] show ?thesis by (auto simp: execute_swap_def)
  qed
qed

text \<open>
  C6. No transaction without data is ever signed: \<^verbatim>\<open>execute_swap\<close> behaves the same whatever
  the wallet would do with such a transaction, for the swap and for the approval alike.
\<close>

theorem execute_swap_never_signs_empty_data:
  "execute_swap (resign evil env) ex token_in token_out amount chain slippage stype =
   execute_swap env ex token_in token_out amount chain slippage stype"
  by (simp add: execute_swap_def swap_steps_def cong: if_cong option.case_cong)

text \<open>
  C25. Dry-run touches neither the private key nor the chain: the whole run, its result and its
  effect on API and network state, is independent of the signing, sending and receipt functions.
\<close>

theorem dry_run_never_broadcasts:
  assumes "se_dry_run ex"
  shows "execute_swap (env\<lparr>eth_address := f1, eth_sign_permit := f2, eth_nonce := f3, eth_sign := f4,
      eth_send := f5, eth_receipt := f6\<rparr>) ex token_in token_out amount chain slippage stype =
    execute_swap env ex token_in token_out amount chain slippage stype"
proof -
  let ?env = "env\<lparr>eth_address := f1, eth_sign_permit := f2, eth_nonce := f3, eth_sign := f4,
      eth_send := f5, eth_receipt := f6\<rparr>"
  have "same_api env ?env" by (simp add: same_api_def)
  note api = uni_same_api [OF this]
  show ?thesis
    using assms by (simp add: execute_swap_def swap_steps_def ensure_approval_def submit_swap_def
        submit_order_def api cong: if_cong option.case_cong)
qed

text \<open>An environment for the worked instances: no network, a fixed transaction and a fixed hash.\<close>

definition sample_tx :: transaction_request where
  "sample_tx = \<lparr>tx_to = ''0x1'', tx_from = ''0x2'', tx_data = ''0xab'', tx_value = ''0x0'', tx_chain_id = 8453,
     tx_gas_limit = Some ''300000'', tx_max_fee_per_gas = None, tx_max_priority_fee_per_gas = None\<rparr>"

definition sample_eth_env :: "unit eth_env" where
  "sample_eth_env = \<lparr>http_request = (\<lambda>_ _ _ _. sx_raise (PyExc ConnectError ''offline'')),
     raise_for_status = (\<lambda>_. Inr ()), tenacity = retry_spec, parse_tx = (\<lambda>_. Inr sample_tx),
     parse_approval = (\<lambda>_. Inl (PyExc ValidationError [])), int_field = (\<lambda>_. Inr None), repr_val = (\<lambda>_. []),
     nan_allowed = True, eth_address = (\<lambda>_. Inr ''0x2''),
     eth_sign_permit = (\<lambda>_ _ _ _. Inr ''0xff''), eth_nonce = (\<lambda>_. sx_return 0),
     eth_sign = (\<lambda>_ _. Inr [1]), eth_send = (\<lambda>_. sx_return ''0xaa''), eth_receipt = (\<lambda>_. sx_return VNone)\<rparr>"

definition sample_dry_executor :: swap_executor where
  "sample_dry_executor = new_swap_executor ''0x2'' None False"

theorem dry_run_never_broadcasts_witness:
  "se_dry_run sample_dry_executor \<and>
   execute_swap (sample_eth_env\<lparr>eth_address := \<lambda>_. Inl (PyExc ValueError []),
      eth_sign_permit := \<lambda>_ _ _ _. Inl (PyExc ValueError []), eth_nonce := \<lambda>_. sx_raise (PyExc ValueError []),
      eth_sign := \<lambda>_ _. Inl (PyExc ValueError []), eth_send := \<lambda>_. sx_raise (PyExc ValueError []),
      eth_receipt := \<lambda>_. sx_raise (PyExc ValueError [])\<rparr>) sample_dry_executor NATIVE_ETH ''0x3'' ''5'' 8453 (Fin 1)
      EXACT_INPUT =
   execute_swap sample_eth_env sample_dry_executor NATIVE_ETH ''0x3'' ''5'' 8453 (Fin 1) EXACT_INPUT"
proof -
  have dry: "se_dry_run sample_dry_executor" by (simp add: sample_dry_executor_def new_swap_executor_def)
  show ?thesis using dry dry_run_never_broadcasts [OF dry] by simp
qed

text \<open>The gas limit is read in base 16: the decimal \<^verbatim>\<open>300000\<close> of the mock becomes 3145728.\<close>

lemma gas_limit_read_as_hex: "tx_fees sample_tx = Inr [(''gas'', VInt 3145728)]"
  by (simp add: tx_fees_def sample_tx_def str_truthy_def parse_int_def str_to_int_def split_sign_def
      py_simps is_digit_def digit_val_def digits_nat_def)

end
