(* ===== verification/Spec2Isabelle.thy ===== *)
theory Spec2Isabelle
  imports Demo_Report Dash_Server Agent_Life Contract_Call Swap_Executor
begin

text \<open>
  SwarmFi: three cooperating trading agents.

  \<^bold>\<open>The program.\<close>  A researcher agent publishes market signals, a risk agent scores each signal
  with a language model and answers with a trade decision, and an executor agent turns a buy or sell
  decision into an on-chain commitment and reports the result.  The agents talk over AXL, a
  peer-to-peer message node with an HTTP bridge; they keep their state and a shared history in 0G
  storage, an append-only store of content-addressed blobs; swaps are priced by the Uniswap trading
  API and executed either by signing a transaction directly or by asking KeeperHub for a transfer.
  A market scanner ranks the tradable pairs, a tracker values past decisions, an ENS layer holds the
  agents' public profiles, and a dashboard process serves all of it and can run a whole cycle itself.

  \<^bold>\<open>Theories.\<close>  Each theory models one group of source files, function by function.
  \<^item> \<open>Prelude\<close>: Python exceptions as values, the state-and-exception monad \<open>sx\<close> in which all effectful
    methods are written, the predicates its proofs compose (\<open>keeps\<close>: an observation is left as it is,
    \<open>maintains\<close>: a predicate of the state is kept, \<open>delivers\<close>: a run returns, \<open>alike\<close>: what an observation hides has no influence on it), Python slices,
    strings and hexadecimal, and two interfaces as locales:
    \<open>str_enum\<close> (an enumeration with string values) and \<open>op_refinement\<close> (operations on a concrete state
    that simulate operations on an abstract one, with the lemma that whole series of operations do).
  \<^item> \<open>PyValue\<close>: Python values and doubles.  A finite double is kept as the rational it denotes and
    every operation rounds to 53 bits, ties to even; the formats \<open>:.1f\<close> and \<open>:,.2f\<close>, \<open>str\<close>, \<open>or\<close>, \<open>dict.get\<close>.
  \<^item> \<open>Py_Float\<close>: the arithmetic of doubles (addition, product, quotient, \<open>round\<close>, \<open>min\<close> and \<open>max\<close> as
    Python defines them on NaN) with monotonicity of rounding and exactness lemmas.
  \<^item> \<open>Schema\<close> (\<open>core/schema.py\<close>): messages, payload models and their validators.
  \<^item> \<open>Blob_Store\<close> (\<open>core/storage/client.py\<close>): framing, the in-memory, live and buffered backends and
    the \<open>ZeroGClient\<close> facade; the locale \<open>blob_store\<close> is what the layers above rely on.
  \<^item> \<open>Storage_Models\<close>, \<open>Swarm_KV\<close>, \<open>Swarm_Log\<close>, \<open>Agent_Memory\<close> (\<open>core/storage/{models,kv,log,agent_memory}.py\<close>):
    the key-value manifest, the history log and the agents' view of both.  Each layer states the
    contract its client uses as a locale (\<open>kv_api\<close>, \<open>append_log\<close>), is interpreted on the model of the
    code, and shown to refine an abstract map, an abstract list and an abstract shared memory.
    Objects that share a store by reference are indices into an explicit heap of stores.
  \<^item> \<open>Http\<close>: httpx requests under tenacity's retry policy, shared by all API clients.
  \<^item> \<open>Uniswap\<close>, \<open>Swap_Executor\<close> (\<open>core/uniswap/\<close>): API models and client; the executor that approves,
    signs and broadcasts by itself.
  \<^item> \<open>KeeperHub\<close>, \<open>KH_Executor\<close> (\<open>core/keeperhub/\<close>): API models and client with its polling loop; the
    executor that commits a transfer through KeeperHub, polls for the hash and writes an audit.
  \<^item> \<open>Contract_Call\<close> (the part of \<open>core/keeperhub/executor.py\<close> that its entry point does not call): the
    decoder of the router's calldata, the contract-call request with its JSON arguments and its
    submission, gasless orders.
  \<^item> \<open>Risk_Scorer\<close> (\<open>core/compute/\<close>): the chat client, prompt, reply parser and the risk gate.
  \<^item> \<open>Axl\<close> (\<open>core/axl_client.py\<close>, \<open>core/registry.py\<close>, \<open>core/axl_bus.py\<close>): sending and receiving,
    discovery of the agents' keys, the bus with its bounded event list.
  \<^item> \<open>Agents\<close> (\<open>agents/\<close>): the dispatch loop and the handlers of the three agents on one system state.
  \<^item> \<open>Swarm_Net\<close>: the three agents together on one network, as a step relation (start, stop, ping, rounds
    of the dispatch loop, messages of other peers) with the invariant of what is posted.
  \<^item> \<open>Agent_Life\<close> (\<open>agents/base.py\<close>): construction of the agents and the life of an agent's process as
    a step relation between its three kinds of tasks: \<open>run\<close>, the dispatch loop, and one \<open>stop\<close> for each
    shutdown signal.
  \<^item> \<open>Scanner\<close> (\<open>core/scanner.py\<close>): pairs, scores, ranking and the price cache; the concurrent callers of
    the cache are a step relation whose steps lie between two awaits.
  \<^item> \<open>PnL\<close> (\<open>core/pnl.py\<close>): the profit and loss summary in double arithmetic.
  \<^item> \<open>Ens\<close> (\<open>core/ens/resolver.py\<close>): both resolvers with their caches and the agents' identities; the
    locale \<open>text_records\<close> is what profile reads rely on, interpreted on both caches.
  \<^item> \<open>State_View\<close>, \<open>Trade_Cycle\<close>, \<open>Dashboard\<close> (\<open>dashboard/server.py\<close>): the state file and what is read from
    it; the cycle the dashboard runs, step by step on the models above; the request handlers.
    The state file is the JSON value it holds: reading back what was written gives the same value.
  \<^item> \<open>Dash_Server\<close> (\<open>dashboard/server.py\<close>): the initial configuration, all API routes as one type of
    requests, and the process as a relation of requests and background cycles in any order.
  \<^item> \<open>Demo\<close> (\<open>demo.py\<close>): the command line run on the same models, several cycles on the scanner's picks
    with every storage call guarded, the snapshot at the end and the view it publishes.
  \<^item> \<open>Demo_Report\<close> (\<open>demo.py\<close>): the configuration and the summary it prints, with the compensated sum of
    floats behind the average risk.

  \<^bold>\<open>How the state corresponds.\<close>  A Python object with attributes is a record; a method is a
  function that takes the object (and the objects it shares) and returns the result or the exception
  together with the new state.  An exception leaves the effects made before it, as in Python.
  \<open>async\<close> functions are modelled as run from start to end between two awaits of other agents: the
  interleavings considered are those of whole operations (\<open>memory_interleaving\<close> for the shared store,
  \<open>swarm_trades_below_gate\<close> for the network, \<open>server_results\<close> for the dashboard), but for the price
  cache and the process of an agent, whose tasks are cut at their awaits (\<open>fetch_step\<close>, \<open>life_step\<close>).

  \<^bold>\<open>What is proved.\<close>
  \<^item> Trading safety: the risk gate (no buy or sell at or above the threshold, holds always carry a
    reason, a failed inference holds; a NaN score is the one exception, if the payload model accepts it), that a hold or a high risk score never reaches a trading
    service, also after any interleaving of the agents on their network, that a swap is confirmed only on the replies KeeperHub gave in that run, that no transaction without call data is
    ever signed, that a dry run does not depend on wallet or chain at all.
  \<^item> Storage: uploads are never lost, framing round-trips, the key-value store refines a map, the log
    refines a list, a stored manifest restores its store, interleaved agents on a shared memory lose
    no update, separately made memories and the audit log do not see each other.
  \<^item> Communication: discovery, the bounded event list, what can end the dispatch loop.
  \<^item> Life cycle: what a start and a shutdown leave in an agent's memory, an agent is silent
    once stopped, it returns only after a signal, and a crash of its dispatch loop goes unnoticed.
  \<^item> The demo: storage has no influence on its cycles, its results are well-typed and trade only below
    the threshold, what it leaves for the dashboard, that its price of ether is never used, and how
    exact the average risk of its summary is.
  \<^item> Whole cycles: a risky cycle trades nowhere, no cycle loses recorded results or raises, what a cycle
    publishes is what the dashboard shows, which accepted signals are lost, and that through any series
    of requests and cycles the recorded results are those of accepted signals, each at most once.
  \<^item> Market data: all scores lie between 0 and 1 and rank every pair once, prices are requested by one
    task at a time and at most once per time to live, the profit and loss loop equals the summary of
    its positions, and a win is a move in the direction of the trade.
  \<^item> Requests: router calldata reaches KeeperHub without loss, a transfer goes only where the request says and is sent at most three times, the chat always answers, profiles show the
    last values written.
  \<^item> Errors: every branch of the swap pipelines, the replies that raise where a hold was meant, and
    the results that are never reported.

  \<^bold>\<open>Loops and bounds.\<close>  The commitment is polled at most 60 times and the receipt at most 30 times,
  structural recursions on the number of rounds left that the code writes as \<open>for\<close> loops.
  \<open>wait_for_completion\<close> runs until its clock exceeds a bound; it is a \<open>partial_function\<close> on the
  accumulated double, and \<open>wait_for_completion_bounded\<close> shows that with the code's interval and time
  limit it returns after at most 60 polls.  The dispatch loop never ends by itself; \<open>dispatch_loop n\<close>
  is its first \<open>n\<close> rounds and its theorems hold for every \<open>n\<close>.

  \<^bold>\<open>Parameters.\<close>  Code outside the repository is an argument of the definitions: the JSON text
  functions of pydantic, SHA-256, httpx and tenacity (a function from the world and a request to a
  reply or an exception), \<open>web3\<close> and \<open>eth_account\<close>, the Node.js storage sidecar, clocks and random
  identifiers, the existence of the sidecar's files, \<open>eth_abi\<close>'s decoder.  What a theorem needs of them is a named hypothesis (decoding inverts encoding; no two
  stored blobs collide; the node delivers only what was posted) and a witness shows it on concrete functions.

  \<^bold>\<open>Not modelled.\<close>  Logging and printing, sleeping, the command lines that start the processes,
  the interleaving of two dashboard cycles at their awaits and of the three key requests of discovery,
  handlers that are cancelled half way and the \<open>wait_for\<close> time limits (a call that is cut off is not
  followed half way; a profile read that is too slow is replaced as a whole), the closing of the HTTP
  sessions of the API clients, the characters of text beyond ASCII (their case, digits and blanks), the web framework with its static pages, the dispatch of URLs and JSON
  rendering, the argument parser and the progress the demo prints during its cycles, and the sidecars in JavaScript.
\<close>

end
